(* ===== verification/Lpi_Prelude.thy ===== *)
theory Lpi_Prelude
  imports Main "HOL-Library.Word" "HOL-Library.State_Monad"
begin

text \<open>
  Shared vocabulary of the development: the outcome of a piece of C code, a
  weakest-precondition calculus for the state monad in which the programs are
  written, and the generic facts on lists and machine integers that the component
  theories use. The programs are terms of \<open>('s, 'a res) state\<close>: a value of the
  state monad of the library whose result says how the code ended.
\<close>

unbundle bit_operations_syntax

section \<open>Outcomes of C code\<close>

text \<open>
  \<open>Ok v\<close>: the function returned \<open>v\<close>. \<open>Exit n\<close>: \<open>exit(n)\<close>, or \<open>return n\<close> from
  \<open>main\<close>, which runs the exit handlers. \<open>ExitNow n\<close>: \<open>_exit(n)\<close>, which does not.
  \<open>Abort\<close>: \<open>abort()\<close>, or killed by a signal. \<open>Execed\<close>: an \<open>exec\<close> call succeeded, the process
  now runs another program. \<open>Undef\<close>: the C standard gives the execution no meaning from
  here on (an indeterminate value is used). \<open>Hang\<close>: the bound on the number of loop
  iterations was reached first.
\<close>

datatype 'a res = Ok 'a | Exit int | ExitNow int | Abort | Execed | Undef | Hang

primrec is_ok :: "'a res \<Rightarrow> bool" where
  "is_ok (Ok v) = True"
| "is_ok (Exit n) = False"
| "is_ok (ExitNow n) = False"
| "is_ok Abort = False"
| "is_ok Execed = False"
| "is_ok Undef = False"
| "is_ok Hang = False"

text \<open>Sequencing of code that may end the process: only \<open>Ok\<close> goes on.\<close>

definition bind_res ::
  "('s, 'a res) state \<Rightarrow> ('a \<Rightarrow> ('s, 'b res) state) \<Rightarrow> ('s, 'b res) state" where
  "bind_res m f = do {
     r \<leftarrow> m;
     case r of
       Ok v \<Rightarrow> f v
     | Exit n \<Rightarrow> State_Monad.return (Exit n)
     | ExitNow n \<Rightarrow> State_Monad.return (ExitNow n)
     | Abort \<Rightarrow> State_Monad.return Abort
     | Execed \<Rightarrow> State_Monad.return Execed
     | Undef \<Rightarrow> State_Monad.return Undef
     | Hang \<Rightarrow> State_Monad.return Hang }"

abbreviation ok :: "'a \<Rightarrow> ('s, 'a res) state" where
  "ok v \<equiv> State_Monad.return (Ok v)"

abbreviation halt :: "'a res \<Rightarrow> ('s, 'a res) state" where
  "halt r \<equiv> State_Monad.return r"

text \<open>The body of a \<open>for\<close> loop over the elements of a list, ended early by the first
  body that does not return.\<close>

primrec for_each :: "'x list \<Rightarrow> ('x \<Rightarrow> ('s, unit res) state) \<Rightarrow> ('s, unit res) state" where
  "for_each [] body = ok ()"
| "for_each (x # xs) body = bind_res (body x) (\<lambda>_. for_each xs body)"

text \<open>A loop that threads a local variable through its body.\<close>

primrec fold_each ::
  "'x list \<Rightarrow> ('x \<Rightarrow> 'a \<Rightarrow> ('s, 'a res) state) \<Rightarrow> 'a \<Rightarrow> ('s, 'a res) state" where
  "fold_each [] body a = ok a"
| "fold_each (x # xs) body a = bind_res (body x a) (fold_each xs body)"

text \<open>A loop without an end, which threads a local variable; the first argument bounds the
  number of iterations.\<close>

primrec forever :: "nat \<Rightarrow> ('a \<Rightarrow> ('s, 'a res) state) \<Rightarrow> 'a \<Rightarrow> ('s, 'b res) state" where
  "forever 0 body a = halt Hang"
| "forever (Suc fuel) body a = bind_res (body a) (forever fuel body)"

section \<open>Machine integers\<close>

text \<open>
  The programs run on an LP64 system: \<open>int\<close> has 32 bits, \<open>long\<close>, \<open>size_t\<close> and
  \<open>ssize_t\<close> have 64. A C value is modelled as the integer it denotes; a conversion to
  a narrower type is written out with these functions (a conversion to a signed type
  that cannot represent the value wraps, as gcc documents).
\<close>

definition c_int :: "int \<Rightarrow> int" where "c_int x = signed_take_bit 31 x"
definition c_uint :: "int \<Rightarrow> int" where "c_uint x = take_bit 32 x"
definition c_long :: "int \<Rightarrow> int" where "c_long x = signed_take_bit 63 x"
definition c_ulong :: "int \<Rightarrow> int" where "c_ulong x = take_bit 64 x"
definition c_short :: "int \<Rightarrow> int" where "c_short x = signed_take_bit 15 x"
definition c_ushort :: "int \<Rightarrow> int" where "c_ushort x = take_bit 16 x"
definition c_schar :: "int \<Rightarrow> int" where "c_schar x = signed_take_bit 7 x"

definition INT_MIN :: int where "INT_MIN = - (2 ^ 31)"
definition INT_MAX :: int where "INT_MAX = 2 ^ 31 - 1"
definition LONG_MIN :: int where "LONG_MIN = - (2 ^ 63)"
definition LONG_MAX :: int where "LONG_MAX = 2 ^ 63 - 1"
definition ULONG_MAX :: int where "ULONG_MAX = 2 ^ 64 - 1"

section \<open>Weakest preconditions\<close>

definition wp :: "('s, 'a) state \<Rightarrow> ('a \<Rightarrow> 's \<Rightarrow> bool) \<Rightarrow> 's \<Rightarrow> bool" where
  "wp m Q s = (case run_state m s of (a, s') \<Rightarrow> Q a s')"

named_theorems wp_rules \<open>weakest preconditions of the program constructs\<close>
named_theorems wp_intro \<open>introduction rules for weakest preconditions of calls\<close>

lemma wpI: "(\<And>a s'. run_state m s = (a, s') \<Longrightarrow> Q a s') \<Longrightarrow> wp m Q s"
  by (cases "run_state m s") (simp add: wp_def)

lemma wpD: "wp m Q s \<Longrightarrow> run_state m s = (a, s') \<Longrightarrow> Q a s'"
  by (simp add: wp_def)

lemma wp_run: "wp m Q s \<Longrightarrow> Q (fst (run_state m s)) (snd (run_state m s))"
  by (simp add: wp_def split_beta)

lemma wp_mono: "wp m P s \<Longrightarrow> (\<And>a s'. P a s' \<Longrightarrow> Q a s') \<Longrightarrow> wp m Q s"
  by (auto simp: wp_def)

lemma wp_conj: "wp m P s \<Longrightarrow> wp m Q s \<Longrightarrow> wp m (\<lambda>a s'. P a s' \<and> Q a s') s"
  by (auto simp: wp_def)

lemma wp_return [wp_rules, simp]: "wp (State_Monad.return a) Q = Q a"
  by (simp add: wp_def fun_eq_iff)

lemma wp_bind [wp_rules, simp]: "wp (State_Monad.bind m f) Q = wp m (\<lambda>a. wp (f a) Q)"
  by (simp add: wp_def split_beta fun_eq_iff)

lemma wp_if [wp_rules, simp]: "wp (if b then m else n) Q s = (if b then wp m Q s else wp n Q s)"
  by simp

lemma wp_case_option [wp_rules, simp]:
  "wp (case x of None \<Rightarrow> m | Some y \<Rightarrow> f y) Q s =
   (case x of None \<Rightarrow> wp m Q s | Some y \<Rightarrow> wp (f y) Q s)"
  by (simp split: option.split)

lemma wp_case_prod [wp_rules, simp]:
  "wp (case x of (a, b) \<Rightarrow> f a b) Q s = (case x of (a, b) \<Rightarrow> wp (f a b) Q s)"
  by (simp split: prod.split)

lemma wp_let [wp_rules, simp]: "wp (let x = e in f x) Q s = (let x = e in wp (f x) Q s)"
  by (simp add: Let_def)

text \<open>After \<open>bind_res\<close> the continuation runs on \<open>Ok\<close>; every other outcome is final.\<close>

definition and_then :: "('a \<Rightarrow> 's \<Rightarrow> bool) \<Rightarrow> ('b res \<Rightarrow> 's \<Rightarrow> bool) \<Rightarrow> 'a res \<Rightarrow> 's \<Rightarrow> bool" where
  "and_then P Q r s = (case r of
     Ok v \<Rightarrow> P v s
   | Exit n \<Rightarrow> Q (Exit n) s
   | ExitNow n \<Rightarrow> Q (ExitNow n) s
   | Abort \<Rightarrow> Q Abort s
   | Execed \<Rightarrow> Q Execed s
   | Undef \<Rightarrow> Q Undef s
   | Hang \<Rightarrow> Q Hang s)"

lemma and_then_simps [simp]:
  "and_then P Q (Ok v) s = P v s"
  "and_then P Q (Exit n) s = Q (Exit n) s"
  "and_then P Q (ExitNow n) s = Q (ExitNow n) s"
  "and_then P Q Abort s = Q Abort s"
  "and_then P Q Execed s = Q Execed s"
  "and_then P Q Undef s = Q Undef s"
  "and_then P Q Hang s = Q Hang s"
  by (simp_all add: and_then_def)

lemma wp_bind_res [wp_rules, simp]:
  "wp (bind_res m f) Q = wp m (and_then (\<lambda>v. wp (f v) Q) Q)"
  by (simp add: wp_def bind_res_def and_then_def split_beta fun_eq_iff split: res.split)

lemma run_bind_res [simp]:
  "run_state (bind_res m f) s =
   (case run_state m s of (r, s') \<Rightarrow>
     (case r of Ok v \<Rightarrow> run_state (f v) s'
      | Exit n \<Rightarrow> (Exit n, s') | ExitNow n \<Rightarrow> (ExitNow n, s') | Abort \<Rightarrow> (Abort, s')
      | Execed \<Rightarrow> (Execed, s') | Undef \<Rightarrow> (Undef, s') | Hang \<Rightarrow> (Hang, s')))"
  by (simp add: bind_res_def split_beta split: res.split)

lemma bind_res_ok [simp]: "bind_res (ok v) f = f v"
  by (rule state_ext) simp

text \<open>Loop rules: an invariant indexed by the elements already processed.\<close>

lemma wp_for_each:
  assumes "I [] s"
    and "\<And>done x todo s. xs = done @ x # todo \<Longrightarrow> I done s \<Longrightarrow>
           wp (body x) (and_then (\<lambda>_. I (done @ [x])) Q) s"
    and "\<And>s. I xs s \<Longrightarrow> Q (Ok ()) s"
  shows "wp (for_each xs body) Q s"
proof -
  have "xs = done @ todo \<Longrightarrow> I done s' \<Longrightarrow> wp (for_each todo body) Q s'" for "done" todo s'
  proof (induction todo arbitrary: "done" s')
    case Nil
    then show ?case using assms(3) by simp
  next
    case (Cons x todo)
    have "wp (body x) (and_then (\<lambda>_. I (done @ [x])) Q) s'"
      using Cons.prems assms(2) by blast
    then show ?case
      using Cons.IH [of "done @ [x]"] Cons.prems(1)
      by (auto elim!: wp_mono simp: and_then_def split: res.splits)
  qed
  from this [of "[]" xs s] assms(1) show ?thesis by simp
qed

lemma wp_fold_each:
  assumes "I [] a s"
    and "\<And>done x todo a s. xs = done @ x # todo \<Longrightarrow> I done a s \<Longrightarrow>
           wp (body x a) (and_then (I (done @ [x])) Q) s"
    and "\<And>a s. I xs a s \<Longrightarrow> Q (Ok a) s"
  shows "wp (fold_each xs body a) Q s"
proof -
  have "xs = done @ todo \<Longrightarrow> I done a s' \<Longrightarrow> wp (fold_each todo body a) Q s'" for "done" todo a s'
  proof (induction todo arbitrary: "done" a s')
    case Nil
    then show ?case using assms(3) by simp
  next
    case (Cons x todo)
    have "wp (body x a) (and_then (I (done @ [x])) Q) s'"
      using Cons.prems assms(2) by blast
    then show ?case
      using Cons.IH [of "done @ [x]"] Cons.prems(1)
      by (auto elim!: wp_mono simp: and_then_def split: res.splits)
  qed
  from this [of "[]" xs a s] assms(1) show ?thesis by simp
qed

lemma wp_forever:
  assumes "I a s"
    and "\<And>a s. I a s \<Longrightarrow> wp (body a) (\<lambda>r s'. case r of
           Ok a' \<Rightarrow> I a' s' | Exit n \<Rightarrow> Q (Exit n) s' | ExitNow n \<Rightarrow> Q (ExitNow n) s'
         | Abort \<Rightarrow> Q Abort s' | Execed \<Rightarrow> Q Execed s' | Undef \<Rightarrow> Q Undef s' | Hang \<Rightarrow> Q Hang s') s"
    and "\<And>a s. I a s \<Longrightarrow> Q Hang s"
  shows "wp (forever fuel body a) Q s"
  using assms(1)
proof (induction fuel arbitrary: a s)
  case 0
  then show ?case using assms(3) by simp
next
  case (Suc fuel)
  from assms(2) [OF Suc.prems] show ?case
    using Suc.IH by (auto elim!: wp_mono simp: and_then_def split: res.splits)
qed

section \<open>Facts on the integer conversions\<close>

lemma c_int_id [simp]: "INT_MIN \<le> x \<Longrightarrow> x \<le> INT_MAX \<Longrightarrow> c_int x = x"
  by (simp add: c_int_def INT_MIN_def INT_MAX_def signed_take_bit_int_eq_self)

lemma c_int_range: "INT_MIN \<le> c_int x \<and> c_int x \<le> INT_MAX"
  using signed_take_bit_int_greater_eq_minus_exp [of 31 x] signed_take_bit_int_less_exp [of 31 x]
  by (simp add: c_int_def INT_MIN_def INT_MAX_def)

lemma c_int_idem [simp]: "c_int (c_int x) = c_int x"
  by (simp add: c_int_def)

lemma c_int_eq_iff: "c_int x = c_int y \<longleftrightarrow> x mod 2 ^ 32 = y mod 2 ^ 32"
  by (simp add: c_int_def signed_take_bit_eq_iff_take_bit_eq take_bit_eq_mod)

lemma c_int_mod: "c_int x mod 2 ^ 32 = x mod 2 ^ 32"
  by (rule c_int_eq_iff [THEN iffD1]) simp

lemma c_int_add [simp]: "c_int (c_int x + y) = c_int (x + y)" "c_int (x + c_int y) = c_int (x + y)"
  unfolding c_int_eq_iff by (metis c_int_mod mod_add_left_eq, metis c_int_mod mod_add_right_eq)

lemma c_uint_id [simp]: "0 \<le> x \<Longrightarrow> x < 2 ^ 32 \<Longrightarrow> c_uint x = x"
  by (simp add: c_uint_def take_bit_int_eq_self)

lemma c_ulong_id [simp]: "0 \<le> x \<Longrightarrow> x \<le> ULONG_MAX \<Longrightarrow> c_ulong x = x"
  by (simp add: c_ulong_def ULONG_MAX_def take_bit_int_eq_self)

lemma c_long_id [simp]: "LONG_MIN \<le> x \<Longrightarrow> x \<le> LONG_MAX \<Longrightarrow> c_long x = x"
  by (simp add: c_long_def LONG_MIN_def LONG_MAX_def signed_take_bit_int_eq_self)

end
