(* ===== verification/C_Strings.thy ===== *)
theory C_Strings
  imports Lpi_Prelude
begin

text \<open>
  The part of the C library on strings and numbers that the programs use: character
  classes, the integer conversions of \<open>printf\<close>, \<open>strtol\<close> and \<open>strtoul\<close> with their
  end pointer and \<open>errno\<close>, \<open>strncpy\<close> and \<open>snprintf\<close> with their truncation, and the
  option scanner \<open>getopt\<close>. A C string is the list of its characters before the
  terminating NUL; a buffer is the list of all its characters.
\<close>

section \<open>Characters\<close>

abbreviation chr :: "nat \<Rightarrow> char" where "chr n \<equiv> char_of n"
abbreviation ord :: "char \<Rightarrow> nat" where "ord c \<equiv> of_char c"

abbreviation nl :: string where "nl \<equiv> [CHR 0x0A]"
abbreviation tab :: string where "tab \<equiv> [CHR 0x09]"
abbreviation dq :: string where "dq \<equiv> [CHR 0x22]"
abbreviation NUL :: char where "NUL \<equiv> CHR 0x00"

definition isspace :: "char \<Rightarrow> bool" where
  "isspace c \<longleftrightarrow> ord c = 32 \<or> (9 \<le> ord c \<and> ord c \<le> 13)"

definition isprint :: "char \<Rightarrow> bool" where
  "isprint c \<longleftrightarrow> 32 \<le> ord c \<and> ord c < 127"

definition toupper :: "char \<Rightarrow> char" where
  "toupper c = (if 97 \<le> ord c \<and> ord c \<le> 122 then chr (ord c - 32) else c)"

text \<open>The value of a plain \<open>char\<close>, which is signed, as an \<open>int\<close>.\<close>

definition char_value :: "char \<Rightarrow> int" where
  "char_value c = c_schar (int (ord c))"

section \<open>Printing integers\<close>

definition digit_char :: "nat \<Rightarrow> char" where
  "digit_char d = chr (if d < 10 then 48 + d else 87 + d)"

fun radix_nat :: "nat \<Rightarrow> nat \<Rightarrow> string" where
  "radix_nat b n = (if n < b \<or> b < 2 then [digit_char n]
                    else radix_nat b (n div b) @ [digit_char (n mod b)])"

declare radix_nat.simps [simp del]

text \<open>The conversions \<open>%d\<close>, \<open>%u\<close>, \<open>%x\<close>, \<open>%o\<close>, and padding to a minimal width.\<close>

definition dec :: "int \<Rightarrow> string" where
  "dec n = (if n < 0 then CHR ''-'' # radix_nat 10 (nat (- n)) else radix_nat 10 (nat n))"

definition hex :: "int \<Rightarrow> string" where "hex n = radix_nat 16 (nat n)"

definition oct :: "int \<Rightarrow> string" where "oct n = radix_nat 8 (nat n)"

definition pad_left :: "nat \<Rightarrow> char \<Rightarrow> string \<Rightarrow> string" where
  "pad_left n c s = replicate (n - length s) c @ s"

section \<open>Reading integers\<close>

definition ERANGE :: int where "ERANGE = 34"

definition digit_val :: "char \<Rightarrow> nat" where
  "digit_val c =
     (let k = ord c in
      if 48 \<le> k \<and> k \<le> 57 then k - 48
      else if 97 \<le> k \<and> k \<le> 122 then k - 87
      else if 65 \<le> k \<and> k \<le> 90 then k - 55
      else 36)"

definition is_digit_of :: "nat \<Rightarrow> char \<Rightarrow> bool" where
  "is_digit_of b c \<longleftrightarrow> digit_val c < b"

definition num_of :: "nat \<Rightarrow> string \<Rightarrow> nat" where
  "num_of b ds = foldl (\<lambda>a c. a * b + digit_val c) 0 ds"

definition scan_sign :: "string \<Rightarrow> bool \<times> string" where
  "scan_sign s = (case s of
     [] \<Rightarrow> (False, [])
   | c # cs \<Rightarrow> if c = CHR ''-'' then (True, cs) else if c = CHR ''+'' then (False, cs) else (False, s))"

definition has_hex_prefix :: "string \<Rightarrow> bool" where
  "has_hex_prefix s = (case s of
     c0 # c1 # c2 # _ \<Rightarrow> c0 = CHR ''0'' \<and> (c1 = CHR ''x'' \<or> c1 = CHR ''X'') \<and> is_digit_of 16 c2
   | _ \<Rightarrow> False)"

definition scan_base :: "nat \<Rightarrow> string \<Rightarrow> nat \<times> string" where
  "scan_base base s =
     (if (base = 0 \<or> base = 16) \<and> has_hex_prefix s then (16, drop 2 s)
      else if base = 0 then ((case s of c # _ \<Rightarrow> if c = CHR ''0'' then 8 else 10 | [] \<Rightarrow> 10), s)
      else (base, s))"

text \<open>
  The subject sequence of \<open>strtol\<close> and \<open>strtoul\<close>: optional blanks, an optional sign,
  an optional base prefix, digits. \<open>None\<close>: no digits, nothing is converted and the end
  pointer is the start of the string.
\<close>

definition strto_scan :: "nat \<Rightarrow> string \<Rightarrow> (bool \<times> nat \<times> string) option" where
  "strto_scan base s =
     (let (neg, s2) = scan_sign (dropWhile isspace s);
          (b, s3) = scan_base base s2;
          ds = takeWhile (is_digit_of b) s3
      in if ds = [] then None else Some (neg, num_of b ds, dropWhile (is_digit_of b) s3))"

text \<open>The results: the value, the characters from the end pointer on, and the value
  that \<open>errno\<close> is set to, 0 if it is left alone.\<close>

definition strtol :: "nat \<Rightarrow> string \<Rightarrow> int \<times> string \<times> int" where
  "strtol base s = (case strto_scan base s of
     None \<Rightarrow> (0, s, 0)
   | Some (neg, m, rest) \<Rightarrow>
       let v = (if neg then - int m else int m) in
       if v < LONG_MIN then (LONG_MIN, rest, ERANGE)
       else if LONG_MAX < v then (LONG_MAX, rest, ERANGE)
       else (v, rest, 0))"

definition strtoul :: "nat \<Rightarrow> string \<Rightarrow> int \<times> string \<times> int" where
  "strtoul base s = (case strto_scan base s of
     None \<Rightarrow> (0, s, 0)
   | Some (neg, m, rest) \<Rightarrow>
       if ULONG_MAX < int m then (ULONG_MAX, rest, ERANGE)
       else (if neg then c_ulong (- int m) else int m, rest, 0))"

section \<open>Copying strings\<close>

text \<open>\<open>strncpy(dst, src, n)\<close> into a buffer of at least \<open>n\<close> characters.\<close>

definition strncpy :: "string \<Rightarrow> string \<Rightarrow> nat \<Rightarrow> string" where
  "strncpy dst src n = take n (src @ replicate n NUL) @ drop n dst"

text \<open>The C string stored in a buffer; a buffer without NUL gives all of it.\<close>

definition cstr :: "string \<Rightarrow> string" where
  "cstr buf = takeWhile (\<lambda>c. c \<noteq> NUL) buf"

text \<open>The string that \<open>snprintf\<close> leaves in a buffer of \<open>n > 0\<close> characters.\<close>

definition snprintf :: "nat \<Rightarrow> string \<Rightarrow> string" where
  "snprintf n s = take (n - 1) s"

text \<open>\<open>strchr(s, c)\<close> finds \<open>c\<close>: the terminating NUL counts as part of the string.\<close>

definition strchr_found :: "string \<Rightarrow> char \<Rightarrow> bool" where
  "strchr_found s c \<longleftrightarrow> c \<in> set s \<or> c = NUL"

section \<open>Objects in memory\<close>

text \<open>The four bytes of an \<open>int\<close> (x86-64 is little-endian), and the \<open>int\<close> stored at the start
  of a block of bytes.\<close>

definition int_bytes :: "int \<Rightarrow> string" where
  "int_bytes n = map (\<lambda>i. chr (nat ((n div 256 ^ i) mod 256))) [0, 1, 2, 3]"

definition int_at :: "nat \<Rightarrow> string \<Rightarrow> int" where
  "int_at i bs = c_int (int (ord (bs ! i)) + 256 * int (ord (bs ! (i + 1))) +
     65536 * int (ord (bs ! (i + 2))) + 16777216 * int (ord (bs ! (i + 3))))"

section \<open>Options\<close>

text \<open>
  What the successive calls of glibc's \<open>getopt\<close> report: an option with its argument
  (empty for an option without one), an option character that is not in the option
  string, or an option at the end of the command line that lacks its argument; the
  latter two make \<open>getopt\<close> print a message and return \<open>'?'\<close>. The operands are what
  \<open>argv[optind]\<close>, \<open>argv[optind + 1]\<close>, ... are after the last call: glibc moves them
  behind the options.
\<close>

datatype getopt_ev = Opt char string | BadOpt char | MissingArg char

fun opt_kind :: "string \<Rightarrow> char \<Rightarrow> bool option" where
  "opt_kind [] c = None"
| "opt_kind (d # ds) c =
     (if c = CHR '':'' then None
      else if c = d then Some (ds \<noteq> [] \<and> hd ds = CHR '':'')
      else opt_kind ds c)"

fun getopt_cluster :: "string \<Rightarrow> string \<Rightarrow> string list \<Rightarrow> getopt_ev list \<times> string list" where
  "getopt_cluster opts [] args = ([], args)"
| "getopt_cluster opts (c # cs) args = (case opt_kind opts c of
     None \<Rightarrow> (let (es, r) = getopt_cluster opts cs args in (BadOpt c # es, r))
   | Some False \<Rightarrow> (let (es, r) = getopt_cluster opts cs args in (Opt c [] # es, r))
   | Some True \<Rightarrow>
       if cs \<noteq> [] then ([Opt c cs], args)
       else (case args of [] \<Rightarrow> ([MissingArg c], []) | a # r \<Rightarrow> ([Opt c a], r)))"

lemma getopt_cluster_length: "length (snd (getopt_cluster opts cs args)) \<le> length args"
  by (induction opts cs args rule: getopt_cluster.induct)
     (auto split: option.split bool.split list.split prod.split)

function getopt :: "string \<Rightarrow> string list \<Rightarrow> getopt_ev list \<times> string list" where
  "getopt opts [] = ([], [])"
| "getopt opts (a # args) =
     (if a = ''--'' then ([], args)
      else if 1 < length a \<and> hd a = CHR ''-'' then
        (let es = fst (getopt_cluster opts (tl a) args);
             (es', ops) = getopt opts (snd (getopt_cluster opts (tl a) args))
         in (es @ es', ops))
      else (let (es, ops) = getopt opts args in (es, a # ops)))"
  by pat_completeness auto
termination
  by (relation "measure (\<lambda>(opts, args). length args)")
     (auto intro: le_imp_less_Suc getopt_cluster_length)

text \<open>The message of \<open>getopt\<close> for what it reports as \<open>'?'\<close>.\<close>

definition getopt_message :: "string \<Rightarrow> getopt_ev \<Rightarrow> string" where
  "getopt_message program ev = (case ev of
     Opt c a \<Rightarrow> []
   | BadOpt c \<Rightarrow> program @ '': invalid option -- '' @ [CHR 0x27, c, CHR 0x27] @ nl
   | MissingArg c \<Rightarrow> program @ '': option requires an argument -- '' @ [CHR 0x27, c, CHR 0x27] @ nl)"

section \<open>Facts\<close>

lemma length_int_bytes [simp]: "length (int_bytes n) = 4"
  by (simp add: int_bytes_def)

lemma bytes_sum: "a = 256 * b + x0 \<Longrightarrow> b = 256 * c + x1 \<Longrightarrow> c = 256 * d + x2 \<Longrightarrow>
    a = x0 + 256 * x1 + (256 * 256) * x2 + (256 * (256 * 256)) * (d :: int)"
  by simp

lemma mod_bytes:
  "(n :: int) mod (256 * (256 * (256 * 256))) = n mod 256 + 256 * ((n div 256) mod 256) +
     (256 * 256) * ((n div (256 * 256)) mod 256) + (256 * (256 * 256)) * ((n div (256 * (256 * 256))) mod 256)"
proof -
  have "n div (256 * 256) = n div 256 div 256"
    "n div (256 * (256 * 256)) = n div 256 div 256 div 256"
    by (simp_all only: zdiv_zmult2_eq zero_le_numeral mult_nonneg_nonneg)
  then show ?thesis
    using bytes_sum [OF zmod_zmult2_eq [of "256 * (256 * 256)" n 256]
        zmod_zmult2_eq [of "256 * 256" "n div 256" 256] zmod_zmult2_eq [of "256" "n div 256 div 256" 256]]
    by (simp only: mult_nonneg_nonneg zero_le_numeral)
qed

lemma int_at_list: "int_at (length xs) (xs @ [a, b, c, d] @ ys) =
    c_int (int (ord a) + 256 * int (ord b) + 65536 * int (ord c) + 16777216 * int (ord d))"
  by (simp add: int_at_def nth_append)

lemma int_bytes_list: "int_bytes n = [chr (nat (n mod 256)), chr (nat (n div 256 mod 256)),
    chr (nat (n div 65536 mod 256)), chr (nat (n div 16777216 mod 256))]"
proof -
  have "(256 :: int) ^ 0 = 1" "(256 :: int) ^ 1 = 256" "(256 :: int) ^ 2 = 65536" "(256 :: int) ^ 3 = 16777216"
    by simp_all
  then show ?thesis by (simp only: int_bytes_def list.map div_by_1)
qed

lemma ord_chr_mod: "int (ord (chr (nat (m mod 256)))) = m mod 256"
proof -
  have "nat (m mod 256) < 256" "0 \<le> m mod 256" by simp_all
  then show ?thesis by (simp only: of_char_of mod_less int_nat_eq if_True)
qed

lemma int_at_append: "int_at (length xs) (xs @ int_bytes n @ ys) = c_int n"
proof -
  have "c_int n = c_int (n mod 256 + 256 * ((n div 256) mod 256) + 65536 * ((n div 65536) mod 256) +
      16777216 * ((n div 16777216) mod 256))" (is "_ = c_int ?m")
  proof -
    have p: "(2 :: int) ^ 32 = 256 * (256 * (256 * 256))" "(65536 :: int) = 256 * 256"
      "(16777216 :: int) = 256 * (256 * 256)" by simp_all
    have "n mod 2 ^ 32 = ?m" unfolding p by (rule mod_bytes)
    then have "?m mod 2 ^ 32 = n mod 2 ^ 32" by (metis mod_mod_trivial)
    then show ?thesis by (simp only: c_int_eq_iff)
  qed
  then show ?thesis
    unfolding int_bytes_list int_at_list ord_chr_mod by (rule sym)
qed

lemma int_at_0 [simp]: "int_at 0 (int_bytes n) = c_int n"
  using int_at_append [of "[]" n "[]"] by simp


lemma ord_chr [simp]: "n < 256 \<Longrightarrow> ord (chr n) = (n :: nat)"
  by simp

lemma ord_less [simp]: "ord c < (256 :: nat)"
  by (rule nat_of_char_less_256)

lemma digit_val_digit_char [simp]: "d < 36 \<Longrightarrow> digit_val (digit_char d) = d"
  by (auto simp: digit_val_def digit_char_def Let_def)

lemma num_of_snoc: "num_of b (ds @ [c]) = num_of b ds * b + digit_val c"
  by (simp add: num_of_def)

lemma num_of_radix_nat: "2 \<le> b \<Longrightarrow> b \<le> 36 \<Longrightarrow> num_of b (radix_nat b n) = n"
proof (induction b n rule: radix_nat.induct)
  case (1 b n)
  show ?case
  proof (cases "n < b")
    case True
    with 1 show ?thesis by (simp add: radix_nat.simps [of b n] num_of_def)
  next
    case False
    with 1 have IH: "num_of b (radix_nat b (n div b)) = n div b" by simp
    from 1 have "n mod b < 36" using mod_less_divisor [of b n] by linarith
    with False IH 1 show ?thesis by (simp add: radix_nat.simps [of b n] num_of_snoc)
  qed
qed

lemma radix_nat_digits: "2 \<le> b \<Longrightarrow> b \<le> 36 \<Longrightarrow> c \<in> set (radix_nat b n) \<Longrightarrow> is_digit_of b c"
proof (induction b n rule: radix_nat.induct)
  case (1 b n)
  show ?case
  proof (cases "n < b")
    case True
    with 1 show ?thesis by (simp add: radix_nat.simps [of b n] is_digit_of_def)
  next
    case False
    from 1 have m: "n mod b < b" by simp
    with 1 have "n mod b < 36" by linarith
    with False m 1 show ?thesis
      by (auto simp: radix_nat.simps [of b n] is_digit_of_def)
  qed
qed

lemma radix_nat_nonempty [simp]: "radix_nat b n \<noteq> []"
  by (simp add: radix_nat.simps [of b n])

lemma radix_nat_hd_nonzero: "2 \<le> b \<Longrightarrow> b \<le> 36 \<Longrightarrow> 0 < n \<Longrightarrow> digit_val (hd (radix_nat b n)) \<noteq> 0"
proof (induction b n rule: radix_nat.induct)
  case (1 b n)
  show ?case
  proof (cases "n < b")
    case True
    with 1 show ?thesis by (simp add: radix_nat.simps [of b n])
  next
    case False
    with 1 have "0 < n div b" by (simp add: div_greater_zero_iff)
    with False 1 show ?thesis by (simp add: radix_nat.simps [of b n] hd_append)
  qed
qed

lemma digit_not_space: "is_digit_of 36 c \<Longrightarrow> \<not> isspace c"
  by (auto simp: is_digit_of_def digit_val_def isspace_def Let_def split: if_splits)

lemma is_digit_of_mono: "is_digit_of b c \<Longrightarrow> b \<le> b' \<Longrightarrow> is_digit_of b' c"
  by (simp add: is_digit_of_def)

lemma minus_not_digit [simp]:
  "\<not> is_digit_of 36 (CHR ''-'')" "\<not> is_digit_of 36 (CHR ''+'')"
  "\<not> isspace (CHR ''-'')" "\<not> isspace (CHR ''+'')"
  by (simp_all add: is_digit_of_def digit_val_def isspace_def)

lemma takeWhile_all: "(\<And>x. x \<in> set xs \<Longrightarrow> P x) \<Longrightarrow> takeWhile P xs = xs"
  by (simp add: takeWhile_eq_all_conv)

lemma scan_base_dec:
  assumes "base = 0 \<or> base = 10"
  shows "\<exists>b. scan_base base (radix_nat 10 n) = (b, radix_nat 10 n) \<and>
             takeWhile (is_digit_of b) (radix_nat 10 n) = radix_nat 10 n \<and>
             num_of b (radix_nat 10 n) = n"
proof (cases "n = 0")
  case True
  then have "radix_nat 10 n = ''0''" by (simp add: radix_nat.simps digit_char_def char_of_eq_iff)
  with True assms show ?thesis
    by (auto simp: scan_base_def has_hex_prefix_def is_digit_of_def digit_val_def num_of_def Let_def)
next
  case False
  then have hd: "hd (radix_nat 10 n) \<noteq> CHR ''0''"
    using radix_nat_hd_nonzero [of 10 n] by (auto simp: digit_val_def Let_def)
  then have "\<not> has_hex_prefix (radix_nat 10 n)"
    by (auto simp: has_hex_prefix_def split: list.splits)
  then have "scan_base base (radix_nat 10 n) = (10, radix_nat 10 n)"
    using hd assms by (auto simp: scan_base_def split: list.splits)
  then show ?thesis
    by (auto simp: num_of_radix_nat intro!: takeWhile_all radix_nat_digits)
qed

lemma scan_sign_digits: "is_digit_of 36 c \<Longrightarrow> scan_sign (c # cs) = (False, c # cs)"
  using minus_not_digit by (auto simp: scan_sign_def)

lemma strto_scan_dec:
  assumes "base = 0 \<or> base = 10"
  shows "strto_scan base (dec n) = Some (n < 0, nat \<bar>n\<bar>, [])"
proof -
  let ?ds = "radix_nat 10 (nat \<bar>n\<bar>)"
  obtain c cs where ds: "?ds = c # cs" by (cases ?ds) auto
  then have c: "is_digit_of 36 c"
    using radix_nat_digits [of 10 c "nat \<bar>n\<bar>"] is_digit_of_mono [of 10 c 36] by simp
  obtain b where b: "scan_base base ?ds = (b, ?ds)" "takeWhile (is_digit_of b) ?ds = ?ds"
      "num_of b ?ds = nat \<bar>n\<bar>"
    using scan_base_dec [OF assms] by blast
  then have dw: "dropWhile (is_digit_of b) ?ds = []"
    by (metis append_self_conv takeWhile_dropWhile_id)
  have "scan_sign (dropWhile isspace (dec n)) = (n < 0, ?ds)"
    using c ds digit_not_space [OF c]
    by (auto simp: dec_def scan_sign_digits) (simp_all add: scan_sign_def)
  with b dw show ?thesis
    by (simp add: strto_scan_def Let_def del: takeWhile_eq_all_conv dropWhile_eq_Nil_conv)
qed

text \<open>Printing a number and reading it back gives the number, and reads all of it.\<close>

lemma strtol_dec:
  assumes "base = 0 \<or> base = 10" "LONG_MIN \<le> n" "n \<le> LONG_MAX"
  shows "strtol base (dec n) = (n, [], 0)"
  using assms by (simp add: strtol_def strto_scan_dec Let_def)

lemma strtoul_dec:
  assumes "base = 0 \<or> base = 10" "0 \<le> n" "n \<le> ULONG_MAX"
  shows "strtoul base (dec n) = (n, [], 0)"
  using assms by (simp add: strtoul_def strto_scan_dec)

lemma strtol_range: "strtol base s = (v, rest, e) \<Longrightarrow> LONG_MIN \<le> v \<and> v \<le> LONG_MAX"
  by (auto simp: strtol_def LONG_MIN_def LONG_MAX_def Let_def split: option.splits if_splits)

lemma strtol_errno: "strtol base s = (v, rest, e) \<Longrightarrow> e = 0 \<or> e = ERANGE"
  by (auto simp: strtol_def Let_def split: option.splits if_splits)

lemma strtoul_errno: "strtoul base s = (v, rest, e) \<Longrightarrow> e = 0 \<or> e = ERANGE"
  by (auto simp: strtoul_def split: option.splits if_splits)

lemma c_ulong_range: "0 \<le> c_ulong x \<and> c_ulong x \<le> ULONG_MAX"
  using take_bit_int_less_exp [of 64 x] by (simp add: c_ulong_def ULONG_MAX_def)

lemma strtoul_range: "strtoul base s = (v, rest, e) \<Longrightarrow> 0 \<le> v \<and> v \<le> ULONG_MAX"
  using c_ulong_range
  by (auto simp: strtoul_def ULONG_MAX_def split: option.splits if_splits)

lemma strtol_no_digits: "strto_scan base s = None \<Longrightarrow> strtol base s = (0, s, 0)"
  by (simp add: strtol_def)

lemma strtoul_no_digits: "strto_scan base s = None \<Longrightarrow> strtoul base s = (0, s, 0)"
  by (simp add: strtoul_def)

lemma strto_scan_Nil [simp]: "strto_scan base [] = None"
  by (simp add: strto_scan_def scan_sign_def scan_base_def has_hex_prefix_def Let_def split: prod.split)

lemma length_strncpy [simp]: "n \<le> length dst \<Longrightarrow> length (strncpy dst src n) = length dst"
  by (simp add: strncpy_def)

lemma takeWhile_until: "x \<notin> set xs \<Longrightarrow> takeWhile (\<lambda>c. c \<noteq> x) (xs @ x # ys) = xs"
  by (induction xs) auto

lemma cstr_strncpy:
  assumes "NUL \<notin> set src" "length src < n" "n \<le> length dst"
  shows "cstr (strncpy dst src n) = src"
proof -
  have "strncpy dst src n = src @ NUL # replicate (n - length src - 1) NUL @ drop n dst"
    using assms(2) by (cases "n - length src") (simp_all add: strncpy_def)
  then show ?thesis
    using assms(1) by (simp add: cstr_def takeWhile_until)
qed

end
