(* ===== verification/Unix_Calls.thy ===== *)
theory Unix_Calls
  imports C_Strings
begin

text \<open>
  The boundary between a program and the operating system. Every call that leaves the
  process's own code (system calls, stdio output, allocation, name lookup) is a value of
  the datatype \<open>syscall\<close>; the operating system is a parameter of the model, a record
  \<open>'k os\<close> whose field \<open>step\<close> answers a call in a system state of an arbitrary type
  \<open>'k\<close>. A program runs in a \<open>world\<close>: the system state, \<open>errno\<close>, and the trace of all
  calls made so far with their answers. What the programs rely on of the system is the
  predicate \<open>posix\<close>, the documented range of return values.
\<close>

section \<open>Calls\<close>

datatype sockaddr = NoAddr | AddrUn string | AddrIn6 string int | AddrRaw string

datatype stdio_call =
    Fprintf int string        \<comment> \<open>formatted text to stdout (1) or stderr (2)\<close>
  | Fflush int
  | Fgets nat                 \<comment> \<open>a line of at most \<open>n - 1\<close> characters from stdin\<close>

datatype file_call =
    Open string int "32 word" | Close int | Read int nat | Write int string
  | Lseek int int int | Readv int "nat list" | Unlink string | Remove string
  | Mkfifo string "32 word" | Umask "32 word" | Ftruncate int int
  | Stat string | Lstat string | Fstat int
  | Flock int int | FcntlLock int int int int int int
  | Mmap int int int int | Munmap int int | Msync int int int
  | Load int nat nat | Store int nat string

datatype proc_call =
    Fork | Wait | Waitpid int int | Getpid | Sleep int | Execlp string "string list"
  | Dup2 int int | Pipe | Malloc int | Calloc int int | Free int | Atexit string
  | Getenv string | Signal int int | Sigemptyset | Sigaction int int int
  | Sigprocmask int "64 word option" | Sigpending | Sigsuspend | Kill int int | Time | Ctime int

datatype sock_call =
    Socket int int int | Bind int sockaddr | Listen int int | Accept int
  | Connect int sockaddr | Sendto int string sockaddr | Recvfrom int nat
  | Getaddrinfo "string option" string int int int | Getnameinfo sockaddr | Setsockopt int int int int
  | InetPton string | InetNtop sockaddr | Freeaddrinfo

datatype ipc_call =
    Ftok string int | Msgget int int | Msgsnd int int string int
  | Msgrcv int int int int | MsgctlRmid int
  | Semget int int int | SemctlSetval int int int | SemctlSetall int "int list"
  | SemctlGetall int | SemctlStat int | SemctlRmid int | SemctlGet int int int
  | Semop int int int int
  | Shmget int int int | Shmat int int | Shmdt int | ShmctlRmid int
  | MqOpen string int "32 word" "(int \<times> int) option" | MqGetattr int | MqReceive int int
  | MqSend int string int | MqClose int | MqUnlink string | MqNotify int int
  | SemOpen string int "32 word" int | SemGetvalue int | SemPost int | SemWait int
  | SemUnlink string | ShmOpen string int "32 word" | ShmUnlink string

text \<open>Threads: a thread is named by its start function and the integer value of its argument;
  \<open>GetVar\<close> and \<open>SetVar\<close> read and assign a static variable that other threads share.\<close>

datatype thread_call =
    PthreadCreate string int | PthreadJoin int | PthreadCancel int
  | MutexLock string | MutexUnlock string | CondWait string string | CondSignal string
  | GetVar string | SetVar string int

text \<open>\<open>Delivered\<close> is not a call of a program: its answer is the number of a signal whose handler
  runs at this point, with the further members of \<open>siginfo_t\<close>, or 0 for none.\<close>

datatype sig_call =
    Delivered | Pause | Sigaddset int | Sigfillset | Sigdelset int | Sigqueue int int int
  | Sigaltstack int int | Sbrk int | Crypt string string

datatype dir_call =
    Opendir string | Readdir int | Closedir int | Nftw string int int
  | Mkdir string "32 word" | Rmdir string | Readlink string nat | Realpath string
  | Chown string int int | Mkstemp string | FcntlGetfd int | FcntlSetfd int int
  | System string | Mount string string "string option" int "string option"
  | Listxattr string nat | Getxattr string string nat
  | InotifyInit | InotifyAddWatch int string int

datatype info_call =
    Getpwnam string | Getpwuid int | Getgrnam string | Getgrgid int | Getspnam string
  | Getpass string | Getuid | Getresuid | Getresgid | Setfsuid int | Setfsgid int | Getgroups int
  | Sysconf int | Fpathconf int int | Uname | Clock | Times | Getppid | Gettimeofday
  | Gmtime int | Localtime int | Mktime "int list" | Asctime "int list" | Strftime nat string "int list"
  | Clearenv | Putenv string | Setenv string string int | Unsetenv string | Environ nat
  | Acct "string option"

datatype syscall =
    Stdio stdio_call | File file_call | Proc proc_call | Sock sock_call | Ipc ipc_call
  | Thr thread_call | Sig sig_call | Dir dir_call | Info info_call

section \<open>Answers\<close>

record stat =
  st_mode :: "32 word"
  st_size :: int
  st_ino :: int
  st_nlink :: int
  st_uid :: int
  st_gid :: int
  st_rdev :: int
  st_blksize :: int
  st_blocks :: int
  st_atime :: int
  st_mtime :: int
  st_ctime :: int

text \<open>
  The answer to a call: the return value (0 stands for a null pointer), the value that
  \<open>errno\<close> is set to (0: left alone), the bytes stored through a pointer argument, further
  numbers stored through pointer arguments, a \<open>struct stat\<close>, a socket address, a second
  string (the service name of \<open>getnameinfo\<close>) and the list of \<open>getaddrinfo\<close> (family, type
  and address).
\<close>

record sysret =
  ret :: int
  err :: int
  rdata :: string
  rnums :: "int list"
  rstat :: stat
  raddr :: sockaddr
  rtext :: string
  raddrs :: "(int \<times> int \<times> sockaddr) list"

definition rnum :: "nat \<Rightarrow> sysret \<Rightarrow> int" where
  "rnum i r = (if i < length (rnums r) then rnums r ! i else 0)"

definition stat0 :: stat where
  "stat0 = \<lparr>st_mode = 0, st_size = 0, st_ino = 0, st_nlink = 0, st_uid = 0, st_gid = 0,
             st_rdev = 0, st_blksize = 0, st_blocks = 0, st_atime = 0, st_mtime = 0, st_ctime = 0\<rparr>"

definition reply0 :: sysret where
  "reply0 = \<lparr>ret = 0, err = 0, rdata = [], rnums = [], rstat = stat0, raddr = NoAddr,
             rtext = [], raddrs = []\<rparr>"

section \<open>The operating system and the world of a process\<close>

record 'k os =
  step :: "'k \<Rightarrow> syscall \<Rightarrow> 'k \<times> sysret"
  strerror :: "int \<Rightarrow> string"
  strsignal :: "int \<Rightarrow> string"
  gai_strerror :: "int \<Rightarrow> string"

type_synonym event = "syscall \<times> sysret"

record 'k world =
  kern :: 'k
  errno :: int
  trace :: "event list"

type_synonym ('k, 'a) cmd = "('k world, 'a res) state"

definition sys :: "'k os \<Rightarrow> syscall \<Rightarrow> ('k world, sysret) state" where
  "sys K c = State (\<lambda>w.
     let (k, r) = step K (kern w) c
     in (r, w\<lparr>kern := k, errno := (if err r = 0 then errno w else err r),
              trace := trace w @ [(c, r)]\<rparr>))"

definition call :: "'k os \<Rightarrow> syscall \<Rightarrow> ('k world, int) state" where
  "call K c = do { r \<leftarrow> sys K c; State_Monad.return (ret r) }"

definition get_errno :: "('k world, int) state" where
  "get_errno = State (\<lambda>w. (errno w, w))"

definition set_errno :: "int \<Rightarrow> ('k world, unit) state" where
  "set_errno e = State (\<lambda>w. ((), w\<lparr>errno := e\<rparr>))"

definition eprintf :: "'k os \<Rightarrow> string \<Rightarrow> ('k world, sysret) state" where
  "eprintf K s = sys K (Stdio (Fprintf 2 s))"

definition printf :: "'k os \<Rightarrow> string \<Rightarrow> ('k world, sysret) state" where
  "printf K s = sys K (Stdio (Fprintf 1 s))"

abbreviation (input) EXIT_SUCCESS :: int where "EXIT_SUCCESS \<equiv> 0"
abbreviation (input) EXIT_FAILURE :: int where "EXIT_FAILURE \<equiv> 1"

text \<open>\<open>fprintf(stderr, ...); exit(EXIT_FAILURE)\<close>, with \<open>strerror(errno)\<close> passed to the
  message, and the same with a fixed message.\<close>

definition die :: "'k os \<Rightarrow> (string \<Rightarrow> string) \<Rightarrow> ('k, 'a) cmd" where
  "die K msg = do {
     e \<leftarrow> get_errno;
     eprintf K (msg (strerror K e));
     halt (Exit EXIT_FAILURE) }"

definition usage :: "'k os \<Rightarrow> string \<Rightarrow> ('k, 'a) cmd" where
  "usage K msg = do { eprintf K msg; halt (Exit EXIT_FAILURE) }"

text \<open>\<open>argv[i]\<close>; printing a null pointer with \<open>%s\<close> gives \<open>(null)\<close>.\<close>

definition arg :: "string list \<Rightarrow> nat \<Rightarrow> string" where
  "arg argv i = (if i < length argv then argv ! i else ''(null)'')"

text \<open>\<open>n\<close> bytes of memory that other processes or threads may write, at an offset from an
  address; the answer of the system is cut or padded to \<open>n\<close> bytes. \<open>load_int\<close> reads an \<open>int\<close>.\<close>

definition load_bytes :: "'k os \<Rightarrow> int \<Rightarrow> nat \<Rightarrow> nat \<Rightarrow> ('k world, string) state" where
  "load_bytes K addr off n = do {
     r \<leftarrow> sys K (File (Load addr off n));
     State_Monad.return (take n (rdata r @ replicate n NUL)) }"

definition load_int :: "'k os \<Rightarrow> int \<Rightarrow> nat \<Rightarrow> ('k world, int) state" where
  "load_int K addr off = do {
     bs \<leftarrow> load_bytes K addr off 4;
     State_Monad.return (int_at 0 bs) }"

text \<open>\<open>ctime(&t)\<close> as an argument of \<open>printf\<close>.\<close>

definition ctime_text :: "'k os \<Rightarrow> int \<Rightarrow> ('k world, string) state" where
  "ctime_text K t = do {
     r \<leftarrow> sys K (Proc (Ctime t));
     State_Monad.return (if ret r = 0 then ''(null)'' else rdata r) }"

text \<open>\<open>while ((n = read(fd, buf, sz)) > 0) body\<close>: the result is the last value of \<open>n\<close>,
  at most 0. The first argument bounds the number of reads.\<close>

primrec read_loop ::
  "nat \<Rightarrow> 'k os \<Rightarrow> int \<Rightarrow> nat \<Rightarrow> (string \<Rightarrow> ('k, unit) cmd) \<Rightarrow> ('k, int) cmd" where
  "read_loop 0 K fd sz body = halt Hang"
| "read_loop (Suc fuel) K fd sz body = do {
     r \<leftarrow> sys K (File (Read fd sz));
     if 0 < ret r
     then bind_res (body (take (nat (ret r)) (rdata r))) (\<lambda>_. read_loop fuel K fd sz body)
     else ok (ret r) }"

section \<open>Constants of the system headers (Linux, x86-64)\<close>

definition EINTR :: int where "EINTR = 4"
definition EPERM :: int where "EPERM = 1"
definition ENOENT :: int where "ENOENT = 2"
definition ESRCH :: int where "ESRCH = 3"
definition ECHILD :: int where "ECHILD = 10"
definition EAGAIN :: int where "EAGAIN = 11"
definition EACCES :: int where "EACCES = 13"
definition EEXIST :: int where "EEXIST = 17"
definition EDEADLK :: int where "EDEADLK = 35"
abbreviation (input) EWOULDBLOCK :: int where "EWOULDBLOCK \<equiv> EAGAIN"

definition O_RDONLY :: int where "O_RDONLY = 0"
definition O_WRONLY :: int where "O_WRONLY = 1"
definition O_RDWR :: int where "O_RDWR = 2"
definition O_CREAT :: int where "O_CREAT = 64"
definition O_EXCL :: int where "O_EXCL = 128"
definition O_TRUNC :: int where "O_TRUNC = 512"
definition O_NONBLOCK :: int where "O_NONBLOCK = 2048"

definition S_IRUSR :: "32 word" where "S_IRUSR = 256"
definition S_IWUSR :: "32 word" where "S_IWUSR = 128"
definition S_IXUSR :: "32 word" where "S_IXUSR = 64"
definition S_IRGRP :: "32 word" where "S_IRGRP = 32"
definition S_IWGRP :: "32 word" where "S_IWGRP = 16"
definition S_IXGRP :: "32 word" where "S_IXGRP = 8"
definition S_IROTH :: "32 word" where "S_IROTH = 4"
definition S_IWOTH :: "32 word" where "S_IWOTH = 2"
definition S_IXOTH :: "32 word" where "S_IXOTH = 1"
definition S_ISUID :: "32 word" where "S_ISUID = 2048"
definition S_ISGID :: "32 word" where "S_ISGID = 1024"
definition S_ISVTX :: "32 word" where "S_ISVTX = 512"

definition IPC_CREAT :: int where "IPC_CREAT = 512"
definition IPC_EXCL :: int where "IPC_EXCL = 1024"
definition IPC_NOWAIT :: int where "IPC_NOWAIT = 2048"
definition IPC_PRIVATE :: int where "IPC_PRIVATE = 0"

abbreviation (input) STDIN_FILENO :: int where "STDIN_FILENO \<equiv> 0"
abbreviation (input) STDOUT_FILENO :: int where "STDOUT_FILENO \<equiv> 1"

definition AF_UNSPEC :: int where "AF_UNSPEC = 0"
definition AF_UNIX :: int where "AF_UNIX = 1"
definition AF_INET6 :: int where "AF_INET6 = 10"
definition SOCK_STREAM :: int where "SOCK_STREAM = 1"
definition SOCK_DGRAM :: int where "SOCK_DGRAM = 2"
definition SOL_SOCKET :: int where "SOL_SOCKET = 1"
definition SO_REUSEADDR :: int where "SO_REUSEADDR = 2"
definition AI_PASSIVE :: int where "AI_PASSIVE = 1"
definition AI_NUMERICSERV :: int where "AI_NUMERICSERV = 1024"
definition EAI_SYSTEM :: int where "EAI_SYSTEM = -11"

definition SEEK_SET :: int where "SEEK_SET = 0"
definition SEEK_CUR :: int where "SEEK_CUR = 1"
definition SEEK_END :: int where "SEEK_END = 2"

definition SIGINT :: int where "SIGINT = 2"
definition SIGQUIT :: int where "SIGQUIT = 3"
definition SIGUSR1 :: int where "SIGUSR1 = 10"
definition SIGPIPE :: int where "SIGPIPE = 13"
definition SIGCHLD :: int where "SIGCHLD = 17"
definition NSIG :: int where "NSIG = 65"

text \<open>Dispositions of a signal: ignore it, or the program's own handler.\<close>

definition SIG_IGN :: int where "SIG_IGN = 1"
definition SIG_HANDLER :: int where "SIG_HANDLER = 2"
definition SIG_ERR :: int where "SIG_ERR = -1"

section \<open>What the programs rely on\<close>

definition transfer_ok :: "nat \<Rightarrow> sysret \<Rightarrow> bool" where
  "transfer_ok n r \<longleftrightarrow> ret r = -1 \<or> (ret r = int (length (rdata r)) \<and> length (rdata r) \<le> n)"

definition count_ok :: "nat \<Rightarrow> sysret \<Rightarrow> bool" where
  "count_ok n r \<longleftrightarrow> -1 \<le> ret r \<and> ret r \<le> int n"

text \<open>The return values the manual pages document: a read-like call returns -1 or the
  number of bytes it stored, at most the number asked for; a write-like call returns -1
  or the number of bytes it took.\<close>

fun file_ok :: "file_call \<Rightarrow> sysret \<Rightarrow> bool" where
  "file_ok (Read fd n) r = transfer_ok n r"
| "file_ok (Write fd bs) r = count_ok (length bs) r"
| "file_ok (Open p fl m) r = (-1 \<le> ret r)"
| "file_ok _ r = True"

fun sock_ok :: "sock_call \<Rightarrow> sysret \<Rightarrow> bool" where
  "sock_ok (Recvfrom fd n) r = transfer_ok n r"
| "sock_ok (Sendto fd bs a) r = count_ok (length bs) r"
| "sock_ok _ r = True"

fun ipc_ok :: "ipc_call \<Rightarrow> sysret \<Rightarrow> bool" where
  "ipc_ok (Msgrcv q n t f) r = transfer_ok (nat n) r"
| "ipc_ok (MqReceive q n) r = transfer_ok (nat n) r"
| "ipc_ok _ r = True"

fun stdio_ok :: "stdio_call \<Rightarrow> sysret \<Rightarrow> bool" where
  "stdio_ok (Fgets n) r = (ret r \<le> 0 \<or> rdata r \<noteq> [] \<and> length (rdata r) < n)"
| "stdio_ok _ r = True"

fun dir_ok :: "dir_call \<Rightarrow> sysret \<Rightarrow> bool" where
  "dir_ok (Readlink p n) r = transfer_ok n r"
| "dir_ok (Listxattr p n) r = transfer_ok n r"
| "dir_ok (Getxattr p a n) r = transfer_ok n r"
| "dir_ok _ r = True"

primrec ret_ok :: "syscall \<Rightarrow> sysret \<Rightarrow> bool" where
  "ret_ok (Stdio c) = stdio_ok c"
| "ret_ok (File c) = file_ok c"
| "ret_ok (Proc c) = (\<lambda>r. True)"
| "ret_ok (Sock c) = sock_ok c"
| "ret_ok (Ipc c) = ipc_ok c"
| "ret_ok (Thr c) = (\<lambda>r. True)"
| "ret_ok (Sig c) = (\<lambda>r. True)"
| "ret_ok (Dir c) = dir_ok c"
| "ret_ok (Info c) = (\<lambda>r. True)"

definition posix :: "'k os \<Rightarrow> bool" where
  "posix K \<longleftrightarrow> (\<forall>k c. ret_ok c (snd (step K k c)))"

section \<open>Reading traces\<close>

text \<open>Bytes taken by the writes to a descriptor, bytes stored by the reads from one, and
  the text printed on a stream, each in order.\<close>

fun ev_written :: "int \<Rightarrow> event \<Rightarrow> string" where
  "ev_written fd (File (Write d bs), r) = (if d = fd then take (nat (ret r)) bs else [])"
| "ev_written fd _ = []"

fun ev_read :: "int \<Rightarrow> event \<Rightarrow> string" where
  "ev_read fd (File (Read d n), r) = (if d = fd then take (nat (ret r)) (rdata r) else [])"
| "ev_read fd _ = []"

fun ev_printed :: "int \<Rightarrow> event \<Rightarrow> string" where
  "ev_printed st (Stdio (Fprintf d s), r) = (if d = st then s else [])"
| "ev_printed st _ = []"

definition written :: "int \<Rightarrow> event list \<Rightarrow> string" where
  "written fd tr = concat (map (ev_written fd) tr)"

definition bytes_read :: "int \<Rightarrow> event list \<Rightarrow> string" where
  "bytes_read fd tr = concat (map (ev_read fd) tr)"

definition printed :: "int \<Rightarrow> event list \<Rightarrow> string" where
  "printed st tr = concat (map (ev_printed st) tr)"

section \<open>A system that follows a script\<close>

text \<open>Answers every call from a list of answers; text output is not scripted and always
  succeeds. An answer outside the documented range, or a missing one, is replaced by a
  failure of the call. It is used to run programs on concrete inputs.\<close>

definition script_step :: "sysret list \<Rightarrow> syscall \<Rightarrow> sysret list \<times> sysret" where
  "script_step rs c = (case c of
     Stdio (Fprintf d s) \<Rightarrow> (rs, reply0\<lparr>ret := int (length s)\<rparr>)
   | _ \<Rightarrow> (case rs of
       [] \<Rightarrow> ([], reply0\<lparr>ret := -1\<rparr>)
     | r # rs' \<Rightarrow> (rs', if ret_ok c r then r else reply0\<lparr>ret := -1\<rparr>)))"

definition script_os :: "sysret list os" where
  "script_os = \<lparr>step = script_step, strerror = (\<lambda>e. ''error ''), strsignal = (\<lambda>s. ''signal ''),
                gai_strerror = (\<lambda>s. ''error '')\<rparr>"

definition start :: "'k \<Rightarrow> 'k world" where
  "start k = \<lparr>kern = k, errno = 0, trace = []\<rparr>"

definition returns :: "int \<Rightarrow> sysret" where
  "returns v = reply0\<lparr>ret := v\<rparr>"

definition fails_with :: "int \<Rightarrow> sysret" where
  "fails_with e = reply0\<lparr>ret := -1, err := e\<rparr>"

definition gives :: "string \<Rightarrow> sysret" where
  "gives bs = reply0\<lparr>ret := int (length bs), rdata := bs\<rparr>"

section \<open>Facts\<close>

lemma ret_okI:
  assumes "\<And>n. transfer_ok n r" "\<And>n. count_ok n r" "ret r \<le> 0" "-1 \<le> ret r"
  shows "ret_ok c r"
proof (cases c)
  case (Stdio x)
  with assms show ?thesis by (cases x) auto
next
  case (File x)
  with assms show ?thesis by (cases x) auto
next
  case (Sock x)
  with assms show ?thesis by (cases x) auto
next
  case (Ipc x)
  with assms show ?thesis by (cases x) auto
next
  case (Dir x)
  with assms show ?thesis by (cases x) auto
qed simp_all

lemma ret_ok_zero: "ret r = 0 \<Longrightarrow> rdata r = [] \<Longrightarrow> ret_ok c r"
  by (rule ret_okI) (simp_all add: transfer_ok_def count_ok_def)

lemmas ok_zero =
  ret_ok_zero [of _ "Stdio x" for x, simplified] ret_ok_zero [of _ "File x" for x, simplified]
  ret_ok_zero [of _ "Sock x" for x, simplified] ret_ok_zero [of _ "Ipc x" for x, simplified]
  ret_ok_zero [of _ "Dir x" for x, simplified]

lemma ret_ok_fail: "ret r = -1 \<Longrightarrow> ret_ok c r"
  by (rule ret_okI) (simp_all add: transfer_ok_def count_ok_def)

lemma script_posix [simp]: "posix script_os"
proof -
  have "ret_ok c (snd (script_step rs c))" for rs c
    using ret_ok_fail [of "reply0\<lparr>ret := -1\<rparr>" c]
    by (auto simp: script_step_def split: syscall.splits stdio_call.splits list.splits)
  then show ?thesis by (simp add: posix_def script_os_def)
qed

text \<open>Running one call: the answer is the system's, and the trace grows by one event.\<close>

lemma run_sys:
  "run_state (sys K c) w =
     (snd (step K (kern w) c),
      w\<lparr>kern := fst (step K (kern w) c),
        errno := (if err (snd (step K (kern w) c)) = 0 then errno w else err (snd (step K (kern w) c))),
        trace := trace w @ [(c, snd (step K (kern w) c))]\<rparr>)"
  by (simp add: sys_def split_beta Let_def)

abbreviation after :: "event \<Rightarrow> 'k world \<Rightarrow> 'k world \<Rightarrow> bool" where
  "after ev w w' \<equiv> trace w' = trace w @ [ev] \<and>
     errno w' = (if err (snd ev) = 0 then errno w else err (snd ev))"

lemma wp_sys_any:
  "(\<And>r w'. after (c, r) w w' \<Longrightarrow> Q r w') \<Longrightarrow> wp (sys K c) Q w"
  by (simp add: wp_def run_sys)

lemma wp_sys:
  "posix K \<Longrightarrow> (\<And>r w'. ret_ok c r \<Longrightarrow> after (c, r) w w' \<Longrightarrow> Q r w') \<Longrightarrow> wp (sys K c) Q w"
  by (simp add: wp_def run_sys posix_def)

lemma wp_call:
  "posix K \<Longrightarrow> (\<And>r w'. ret_ok c r \<Longrightarrow> after (c, r) w w' \<Longrightarrow> Q (ret r) w') \<Longrightarrow> wp (call K c) Q w"
  by (simp add: wp_def run_sys call_def posix_def)

lemma wp_call_any: "(\<And>r w'. after (c, r) w w' \<Longrightarrow> Q (ret r) w') \<Longrightarrow> wp (call K c) Q w"
  by (simp add: wp_def run_sys call_def)

text \<open>The same with the system state after the call.\<close>

lemma wp_sys_step:
  "(\<And>r w'. step K (kern w) c = (kern w', r) \<Longrightarrow> after (c, r) w w' \<Longrightarrow> Q r w') \<Longrightarrow> wp (sys K c) Q w"
  by (simp add: wp_def run_sys)

lemma wp_call_step:
  "(\<And>r w'. step K (kern w) c = (kern w', r) \<Longrightarrow> after (c, r) w w' \<Longrightarrow> Q (ret r) w') \<Longrightarrow> wp (call K c) Q w"
  by (simp add: wp_def run_sys call_def)

lemma wp_call_value:
  assumes "\<And>k. ret (snd (step K k c)) = v"
    and "\<And>r w'. step K (kern w) c = (kern w', r) \<Longrightarrow> after (c, r) w w' \<Longrightarrow> Q v w'"
  shows "wp (call K c) Q w"
proof (rule wp_call_step)
  fix r and w' :: "'a world"
  assume st: "step K (kern w) c = (kern w', r)" and af: "after (c, r) w w'"
  from st assms(1) [of "kern w"] have "ret r = v" by simp
  with assms(2) [OF st af] show "Q (ret r) w'" by simp
qed

lemma posix_step: "posix K \<Longrightarrow> step K k c = (k', r) \<Longrightarrow> ret_ok c r"
  unfolding posix_def by (metis snd_conv)

lemma wp_eprintf:
  "(\<And>r w'. after (Stdio (Fprintf 2 s), r) w w' \<Longrightarrow> Q r w') \<Longrightarrow> wp (eprintf K s) Q w"
  unfolding eprintf_def by (rule wp_sys_any)

lemma wp_printf:
  "(\<And>r w'. after (Stdio (Fprintf 1 s), r) w w' \<Longrightarrow> Q r w') \<Longrightarrow> wp (printf K s) Q w"
  unfolding printf_def by (rule wp_sys_any)

lemma wp_get_errno [wp_rules, simp]: "wp get_errno Q = (\<lambda>w. Q (errno w) w)"
  by (simp add: wp_def get_errno_def fun_eq_iff)

lemma wp_set_errno [wp_rules, simp]: "wp (set_errno e) Q = (\<lambda>w. Q () (w\<lparr>errno := e\<rparr>))"
  by (simp add: wp_def set_errno_def fun_eq_iff)

lemma wp_die:
  "(\<And>s r w'. after (Stdio (Fprintf 2 s), r) w w' \<Longrightarrow> Q (Exit EXIT_FAILURE) w') \<Longrightarrow> wp (die K msg) Q w"
  unfolding die_def wp_bind wp_return wp_get_errno by (rule wp_eprintf)

lemma wp_usage:
  "(\<And>r w'. after (Stdio (Fprintf 2 s), r) w w' \<Longrightarrow> Q (Exit EXIT_FAILURE) w') \<Longrightarrow> wp (usage K s) Q w"
  unfolding usage_def wp_bind wp_return by (rule wp_eprintf)

text \<open>The same rules without what is known of \<open>errno\<close>.\<close>

lemma wp_tr:
  "posix K \<Longrightarrow> (\<And>r w'. ret_ok c r \<Longrightarrow> trace w' = trace w @ [(c, r)] \<Longrightarrow> Q r w') \<Longrightarrow> wp (sys K c) Q w"
  "posix K \<Longrightarrow> (\<And>r w'. ret_ok c r \<Longrightarrow> trace w' = trace w @ [(c, r)] \<Longrightarrow> P (ret r) w') \<Longrightarrow> wp (call K c) P w"
  "(\<And>r w'. trace w' = trace w @ [(Stdio (Fprintf 2 s), r)] \<Longrightarrow> Q r w') \<Longrightarrow> wp (eprintf K s) Q w"
  "(\<And>r w'. trace w' = trace w @ [(Stdio (Fprintf 1 s), r)] \<Longrightarrow> Q r w') \<Longrightarrow> wp (printf K s) Q w"
  "(\<And>s r w'. trace w' = trace w @ [(Stdio (Fprintf 2 s), r)] \<Longrightarrow> R (Exit EXIT_FAILURE) w') \<Longrightarrow> wp (die K msg) R w"
  "(\<And>r w'. trace w' = trace w @ [(Stdio (Fprintf 2 s), r)] \<Longrightarrow> R (Exit EXIT_FAILURE) w') \<Longrightarrow> wp (usage K s) R w"
  by (rule wp_sys wp_call wp_eprintf wp_printf wp_die wp_usage; simp)+

lemma wp_load_bytes:
  "(\<And>r w'. trace w' = trace w @ [(File (Load addr off n), r)] \<Longrightarrow> Q (take n (rdata r @ replicate n NUL)) w') \<Longrightarrow>
   wp (load_bytes K addr off n) Q w"
  unfolding load_bytes_def by (auto intro!: wp_sys_any)

lemma wp_load_int:
  "(\<And>r w'. trace w' = trace w @ [(File (Load addr off 4), r)] \<Longrightarrow> Q (int_at 0 (take 4 (rdata r @ replicate 4 NUL))) w') \<Longrightarrow>
   wp (load_int K addr off) Q w"
  unfolding load_int_def by (auto intro!: wp_load_bytes)

lemma wp_ctime_text:
  "(\<And>s r w'. trace w' = trace w @ [(Proc (Ctime t), r)] \<Longrightarrow> Q s w') \<Longrightarrow> wp (ctime_text K t) Q w"
  unfolding ctime_text_def by (auto intro!: wp_sys_any)

lemmas wp_calls = wp_sys wp_call wp_eprintf wp_printf wp_die wp_usage

lemmas run_calls =
  run_sys call_def eprintf_def printf_def die_def usage_def get_errno_def set_errno_def
  load_bytes_def load_int_def ctime_text_def

text \<open>Trace functions distribute over the growth of the trace.\<close>

lemma trace_append [simp]:
  "written fd (tr @ tr') = written fd tr @ written fd tr'"
  "bytes_read fd (tr @ tr') = bytes_read fd tr @ bytes_read fd tr'"
  "printed st (tr @ tr') = printed st tr @ printed st tr'"
  by (simp_all add: written_def bytes_read_def printed_def)

lemma trace_Cons [simp]:
  "written fd (e # tr) = ev_written fd e @ written fd tr"
  "bytes_read fd (e # tr) = ev_read fd e @ bytes_read fd tr"
  "printed st (e # tr) = ev_printed st e @ printed st tr"
  by (simp_all add: written_def bytes_read_def printed_def)

lemma trace_Nil [simp]: "written fd [] = []" "bytes_read fd [] = []" "printed st [] = []"
  by (simp_all add: written_def bytes_read_def printed_def)

text \<open>The read loop: an invariant kept by the body, given the bytes just read.\<close>

lemma wp_read_loop:
  assumes K: "posix K" and "I w"
    and body: "\<And>r w w'. I w \<Longrightarrow> 0 < ret r \<Longrightarrow> ret r = int (length (rdata r)) \<Longrightarrow> length (rdata r) \<le> sz \<Longrightarrow>
        after (File (Read fd sz), r) w w' \<Longrightarrow> wp (body (rdata r)) (and_then (\<lambda>_. I) Q) w'"
    and stop: "\<And>r w w'. I w \<Longrightarrow> ret r = 0 \<or> ret r = -1 \<Longrightarrow> after (File (Read fd sz), r) w w' \<Longrightarrow> Q (Ok (ret r)) w'"
    and hang: "\<And>w. I w \<Longrightarrow> Q Hang w"
  shows "wp (read_loop fuel K fd sz body) Q w"
  using \<open>I w\<close>
proof (induction fuel arbitrary: w)
  case 0
  then show ?case using hang by simp
next
  case (Suc fuel)
  show ?case
  proof (simp, rule wp_sys [OF K])
    fix r w'
    assume ok: "ret_ok (File (Read fd sz)) r" and aft: "after (File (Read fd sz), r) w w'"
    show "wp (if 0 < ret r
              then bind_res (body (take (nat (ret r)) (rdata r))) (\<lambda>_. read_loop fuel K fd sz body)
              else ok (ret r)) Q w'"
    proof (cases "0 < ret r")
      case True
      with ok have len: "ret r = int (length (rdata r))" "length (rdata r) \<le> sz"
        by (auto simp: transfer_ok_def)
      have "wp (body (rdata r)) (and_then (\<lambda>_. I) Q) w'"
        using body [OF Suc.prems True len aft] .
      then show ?thesis
        using True len Suc.IH by (auto elim!: wp_mono simp: and_then_def split: res.splits)
    next
      case False
      with ok have "ret r = 0 \<or> ret r = -1" by (auto simp: transfer_ok_def)
      then show ?thesis using False stop [OF Suc.prems _ aft] by simp
    qed
  qed
qed

end
