(* ===== verification/Num_Args.thy ===== *)
theory Num_Args
  imports Unix_Calls
begin

text \<open>
  The number parsers of the programs (\<open>getLong\<close>, \<open>getInt\<close>, \<open>getUnsignedLong\<close>,
  \<open>getUint\<close>), one definition per source file. They all clear \<open>errno\<close>, call
  \<open>strtol\<close> or \<open>strtoul\<close>, exit with a message under a condition on \<open>errno\<close> and the end
  pointer, and return the value converted to their result type; they differ in the
  conversion, the condition, the result type and the message. The conditions fall in
  four groups, each with its contract as a locale that is interpreted on every parser
  of the group. The theorem at the end says of every parser exactly what it accepts.
\<close>

section \<open>The parsers\<close>

text \<open>The arguments: the conversion; the condition under which the string is refused, on
  the string, the characters from the end pointer on and \<open>errno\<close>; the conversion to the
  result type; the message, on the string and \<open>strerror(errno)\<close>.\<close>

definition get_number ::
  "'k os \<Rightarrow> (string \<Rightarrow> int \<times> string \<times> int) \<Rightarrow> (string \<Rightarrow> string \<Rightarrow> int \<Rightarrow> bool) \<Rightarrow>
   (int \<Rightarrow> int) \<Rightarrow> (string \<Rightarrow> string \<Rightarrow> string) \<Rightarrow> string \<Rightarrow> ('k, int) cmd" where
  "get_number K conv refuse cast msg str =
     (case conv str of (result, endptr, e) \<Rightarrow> do {
        set_errno 0;
        (if e = 0 then State_Monad.return () else set_errno e);
        errno \<leftarrow> get_errno;
        if refuse str endptr errno then die K (msg str) else ok (cast result) })"

definition t_unlink_getUnsignedLong :: "'k os \<Rightarrow> string \<Rightarrow> ('k, int) cmd" where
  "t_unlink_getUnsignedLong K = get_number K (strtoul 0) (\<lambda>str endptr errno. errno \<noteq> 0 \<or> endptr = str) (\<lambda>v. v)
     (\<lambda>str err. ''Failed to convert '' @ str @ '' to unsigned long - '' @ err @ nl)"

definition seek_io_getUnsignedLong :: "'k os \<Rightarrow> string \<Rightarrow> ('k, int) cmd" where
  "seek_io_getUnsignedLong K = get_number K (strtoul 10) (\<lambda>str endptr errno. errno \<noteq> 0 \<or> endptr = str) (\<lambda>v. v)
     (\<lambda>str err. ''Failed to convert '' @ str @ '' to unsigned long'' @ nl)"

definition seek_io_getLong :: "'k os \<Rightarrow> string \<Rightarrow> ('k, int) cmd" where
  "seek_io_getLong K = get_number K (strtol 10) (\<lambda>str endptr errno. errno \<noteq> 0 \<or> endptr = str) (\<lambda>v. v)
     (\<lambda>str err. ''Failed to convert '' @ str @ '' to long'' @ nl)"

definition t_flock_getLong :: "'k os \<Rightarrow> string \<Rightarrow> ('k, int) cmd" where
  "t_flock_getLong K = get_number K (strtol 0) (\<lambda>str endptr errno. errno \<noteq> 0 \<and> endptr \<noteq> []) (\<lambda>v. v)
     (\<lambda>str err. ''Failed to convert strtol() '' @ str @ '' - '' @ err @ nl)"

definition free_and_sbrk_getUnsignedLong :: "'k os \<Rightarrow> string \<Rightarrow> ('k, int) cmd" where
  "free_and_sbrk_getUnsignedLong K = get_number K (strtoul 0) (\<lambda>str endptr errno. errno \<noteq> 0 \<or> endptr = str) (\<lambda>n. c_ulong (c_long n))
     (\<lambda>str err. ''Failed to convert '' @ str @ '' to unsigned long'' @ nl)"

definition fifo_client_getInt :: "'k os \<Rightarrow> string \<Rightarrow> ('k, int) cmd" where
  "fifo_client_getInt K = get_number K (strtol 0) (\<lambda>str endptr errno. errno \<noteq> 0 \<and> endptr \<noteq> []) c_int
     (\<lambda>str err. ''Failed to convert '' @ str @ '' to int - '' @ err @ nl)"

definition pipe_sync_getUint :: "'k os \<Rightarrow> string \<Rightarrow> ('k, int) cmd" where
  "pipe_sync_getUint K = get_number K (strtoul 0) (\<lambda>str endptr errno. errno \<noteq> 0 \<and> endptr \<noteq> []) c_uint
     (\<lambda>str err. ''Failed to convert '' @ str @ '' to unsigned int - '' @ err @ nl)"

definition pmsg_send_getUnsignedLong :: "'k os \<Rightarrow> string \<Rightarrow> ('k, int) cmd" where
  "pmsg_send_getUnsignedLong K = get_number K (strtoul 0) (\<lambda>str endptr errno. errno \<noteq> 0 \<and> endptr \<noteq> []) (\<lambda>v. v)
     (\<lambda>str err. ''Failed to convert strtoul() '' @ str @ '' - '' @ err @ nl)"

definition multi_wait_getUint :: "'k os \<Rightarrow> string \<Rightarrow> ('k, int) cmd" where
  "multi_wait_getUint K = get_number K (strtoul 0) (\<lambda>str endptr errno. errno \<noteq> 0 \<or> endptr \<noteq> []) c_uint
     (\<lambda>str err. ''Failed to convert '' @ str @ '' strtoul() - '' @ err @ nl)"

definition catch_rtsigs_getUnsignedLong :: "'k os \<Rightarrow> string \<Rightarrow> ('k, int) cmd" where
  "catch_rtsigs_getUnsignedLong K = get_number K (strtoul 0) (\<lambda>str endptr errno. errno \<noteq> 0 \<or> endptr \<noteq> []) (\<lambda>v. v)
     (\<lambda>str err. ''Failed convert '' @ str @ '' to unsigned long - '' @ err @ nl)"

definition sig_receiver_getUnsignedInt :: "'k os \<Rightarrow> string \<Rightarrow> ('k, int) cmd" where
  "sig_receiver_getUnsignedInt K = get_number K (strtoul 0) (\<lambda>str endptr errno. errno \<noteq> 0 \<or> endptr \<noteq> []) c_uint
     (\<lambda>str err. ''Failed to convert '' @ str @ '' to unsigned long - '' @ err @ nl)"

definition sig_sender_getLong :: "'k os \<Rightarrow> string \<Rightarrow> ('k, int) cmd" where
  "sig_sender_getLong K = get_number K (strtol 0) (\<lambda>str endptr errno. errno \<noteq> 0 \<or> endptr = str) (\<lambda>v. v)
     (\<lambda>str err. ''Failed to convert strtol() '' @ str @ nl)"

definition t_kill_getInt :: "'k os \<Rightarrow> string \<Rightarrow> ('k, int) cmd" where
  "t_kill_getInt K = get_number K (strtol 0) (\<lambda>str endptr errno. errno \<noteq> 0 \<or> endptr = str) c_int
     (\<lambda>str err. ''Failed to convert '' @ str @ '' to long'')"

definition t_sigqueue_getLong :: "'k os \<Rightarrow> string \<Rightarrow> ('k, int) cmd" where
  "t_sigqueue_getLong K = get_number K (strtol 0) (\<lambda>str endptr errno. errno \<noteq> 0 \<or> endptr \<noteq> []) (\<lambda>v. v)
     (\<lambda>str err. ''Failed to convert '' @ str @ '' to long - '' @ err @ nl)"

definition is_client_getLong :: "'k os \<Rightarrow> string \<Rightarrow> ('k, int) cmd" where
  "is_client_getLong K = get_number K (strtol 0) (\<lambda>str endptr errno. errno \<noteq> 0 \<and> endptr \<noteq> []) (\<lambda>v. v)
     (\<lambda>str err. ''Failed to convert strtol() '' @ str @ '' - '' @ err @ nl)"

definition is_server_getLong :: "'k os \<Rightarrow> string \<Rightarrow> ('k, int) cmd" where
  "is_server_getLong K = get_number K (strtol 0) (\<lambda>str endptr errno. errno \<noteq> 0 \<and> endptr \<noteq> []) (\<lambda>v. v)
     (\<lambda>str err. ''Failed to convert strtol() '' @ str @ '' - '' @ err @ nl)"

definition svmsg_create_getInt :: "'k os \<Rightarrow> string \<Rightarrow> ('k, int) cmd" where
  "svmsg_create_getInt K = get_number K (strtol 8) (\<lambda>str endptr errno. errno \<noteq> 0 \<and> endptr \<noteq> []) c_int
     (\<lambda>str err. ''Failed to strtol() '' @ str @ '' - '' @ err @ nl)"

definition svmsg_receive_getLong :: "'k os \<Rightarrow> string \<Rightarrow> ('k, int) cmd" where
  "svmsg_receive_getLong K = get_number K (strtol 0) (\<lambda>str endptr errno. errno \<noteq> 0 \<and> endptr \<noteq> []) (\<lambda>v. v)
     (\<lambda>str err. ''Failed to strtol() '' @ str @ '' - '' @ err @ nl)"

definition svmsg_send_getLong :: "'k os \<Rightarrow> string \<Rightarrow> ('k, int) cmd" where
  "svmsg_send_getLong K = get_number K (strtol 0) (\<lambda>str endptr errno. errno \<noteq> 0 \<and> endptr \<noteq> []) (\<lambda>v. v)
     (\<lambda>str err. ''Failed to strtol() '' @ str @ '' - '' @ err @ nl)"

definition svsem_demo_getInt :: "'k os \<Rightarrow> string \<Rightarrow> ('k, int) cmd" where
  "svsem_demo_getInt K = get_number K (strtol 0) (\<lambda>str endptr errno. errno = 0 \<and> endptr \<noteq> []) c_int
     (\<lambda>str err. ''Failed to convert strtol() '' @ str @ '' - '' @ err @ nl)"

definition svsem_mon_getInt :: "'k os \<Rightarrow> string \<Rightarrow> ('k, int) cmd" where
  "svsem_mon_getInt K = get_number K (strtol 0) (\<lambda>str endptr errno. errno \<noteq> 0 \<and> endptr \<noteq> []) c_int
     (\<lambda>str err. ''Failed to strtol() '' @ str @ '' - '' @ err @ nl)"

definition svsem_setall_getLong :: "'k os \<Rightarrow> string \<Rightarrow> ('k, int) cmd" where
  "svsem_setall_getLong K = get_number K (strtol 0) (\<lambda>str endptr errno. errno \<noteq> 0 \<and> endptr \<noteq> []) (\<lambda>v. v)
     (\<lambda>str err. ''Failed to convert strtol() '' @ str @ '' - '' @ err @ nl)"

definition thread_incr_getUnsignedLong :: "'k os \<Rightarrow> string \<Rightarrow> ('k, int) cmd" where
  "thread_incr_getUnsignedLong K = get_number K (strtoul 0) (\<lambda>str endptr errno. errno \<noteq> 0 \<or> endptr \<noteq> []) (\<lambda>v. v)
     (\<lambda>str err. ''Failed to convert '' @ str @ '' to unsigned long - '' @ err @ nl)"

definition thread_incr_mutex_getUnsignedLong :: "'k os \<Rightarrow> string \<Rightarrow> ('k, int) cmd" where
  "thread_incr_mutex_getUnsignedLong K = get_number K (strtoul 0) (\<lambda>str endptr errno. errno \<noteq> 0 \<or> endptr \<noteq> []) (\<lambda>v. v)
     (\<lambda>str err. ''Failed to convert '' @ str @ '' to unsigned long - '' @ err @ nl)"

definition multijoin_getInt :: "'k os \<Rightarrow> string \<Rightarrow> ('k, int) cmd" where
  "multijoin_getInt K = get_number K (strtol 0) (\<lambda>str endptr errno. errno \<noteq> 0 \<or> endptr \<noteq> []) c_int
     (\<lambda>str err. ''Failed to convert '' @ str @ '' to int - '' @ err @ nl)"

definition process_time_getUnsignedLong :: "'k os \<Rightarrow> string \<Rightarrow> ('k, int) cmd" where
  "process_time_getUnsignedLong K = get_number K (strtoul 0) (\<lambda>str endptr errno. errno \<noteq> 0 \<or> endptr = str) (\<lambda>v. v)
     (\<lambda>str err. ''Failed to convert '' @ str @ '' to unsigned long'' @ nl)"

definition pmsg_create_getLong :: "'k os \<Rightarrow> string \<Rightarrow> nat \<Rightarrow> ('k, int) cmd" where
  "pmsg_create_getLong K str base = get_number K (strtol base) (\<lambda>str endptr errno. errno \<noteq> 0 \<and> endptr \<noteq> []) (\<lambda>v. v)
     (\<lambda>str err. ''Failed to convert '' @ str @ '' to long - '' @ err @ nl) str"

definition psem_create_getLong :: "'k os \<Rightarrow> string \<Rightarrow> nat \<Rightarrow> ('k, int) cmd" where
  "psem_create_getLong K str base = get_number K (strtol base) (\<lambda>str endptr errno. errno \<noteq> 0 \<and> endptr \<noteq> []) (\<lambda>v. v)
     (\<lambda>str err. ''Failed to convert strtol() '' @ str @ '' - '' @ err @ nl) str"

definition pshm_create_getUnsignedLong :: "'k os \<Rightarrow> string \<Rightarrow> nat \<Rightarrow> ('k, int) cmd" where
  "pshm_create_getUnsignedLong K str base = get_number K (strtoul base) (\<lambda>str endptr errno. errno \<noteq> 0 \<and> endptr \<noteq> []) (\<lambda>v. v)
     (\<lambda>str err. ''Failed to convert strtoul() '' @ str @ '' - '' @ err @ nl) str"

section \<open>Contracts\<close>

text \<open>No call was made, and at most \<open>errno\<close> has changed.\<close>

abbreviation quiet :: "'k world \<Rightarrow> 'k world \<Rightarrow> bool" where
  "quiet w w' \<equiv> trace w' = trace w \<and> kern w' = kern w"

text \<open>
  What every parser promises its callers: the decimal form of a number in the range of
  its result type is read as that number, without output; and whatever the string, the
  parser either returns a number, without output, or prints one message on \<open>stderr\<close> and
  exits with status 1.
\<close>

locale num_arg =
  fixes parse :: "'k os \<Rightarrow> string \<Rightarrow> ('k, int) cmd" and lo hi :: int
  assumes accepts: "lo \<le> n \<Longrightarrow> n \<le> hi \<Longrightarrow>
      wp (parse K (dec n)) (\<lambda>r w'. r = Ok n \<and> quiet w w') w"
    and outcome: "(\<And>v w'. quiet w w' \<Longrightarrow> lo \<le> v \<Longrightarrow> v \<le> hi \<Longrightarrow> Q (Ok v) w') \<Longrightarrow>
      (\<And>t r w'. trace w' = trace w @ [(Stdio (Fprintf 2 t), r)] \<Longrightarrow> Q (Exit 1) w') \<Longrightarrow>
      wp (parse K s) Q w"
begin

text \<open>Reading a list of numbers, as the programs that take several do.\<close>

lemma accepts_all:
  assumes "\<And>n. n \<in> set ns \<Longrightarrow> lo \<le> n \<and> n \<le> hi"
  shows "wp (fold_each (map dec ns) (\<lambda>s vs. bind_res (parse K s) (\<lambda>v. ok (vs @ [v]))) vs0)
           (\<lambda>r w'. r = Ok (vs0 @ ns) \<and> quiet w w') w"
  using assms
proof (induction ns arbitrary: vs0 w)
  case Nil
  then show ?case by simp
next
  case (Cons n ns)
  from Cons.prems have "wp (parse K (dec n)) (\<lambda>r w'. r = Ok n \<and> quiet w w') w"
    by (intro accepts) auto
  then show ?case
  proof (simp, elim wp_mono conjE, simp)
    fix w' :: "'k world"
    assume "trace w' = trace w" "kern w' = kern w"
    then show "wp (fold_each (map dec ns) (\<lambda>s vs. bind_res (parse K s) (\<lambda>v. ok (vs @ [v]))) (vs0 @ [n]))
           (\<lambda>r w'. r = Ok (vs0 @ n # ns) \<and> quiet w w') w'"
      using Cons.IH [of "vs0 @ [n]" w'] Cons.prems by simp
  qed
qed

end

text \<open>The condition \<open>errno != 0 || *endptr != 0\<close>: a returned number was read from the
  whole string; the empty string counts as 0.\<close>

locale whole_arg = num_arg +
  fixes base :: nat
  assumes whole: "wp (parse K s) (\<lambda>r w'. is_ok r \<longrightarrow> s = [] \<or> (\<exists>neg m. strto_scan base s = Some (neg, m, []))) w"
begin

text \<open>So trailing characters are refused.\<close>

lemma refuses_trailing:
  assumes "strto_scan base s = Some (neg, m, c # cs)"
  shows "wp (parse K s) (\<lambda>r w'. r = Exit 1) w"
proof -
  have "wp (parse K s) (\<lambda>r w'. (is_ok r \<longrightarrow> s = [] \<or> (\<exists>neg m. strto_scan base s = Some (neg, m, []))) \<and>
          (is_ok r \<or> r = Exit 1)) w"
    by (rule wp_conj [OF whole outcome]) auto
  moreover have "s \<noteq> []"
    using assms by auto
  ultimately show ?thesis
    using assms by (auto elim!: wp_mono)
qed

end

text \<open>The condition \<open>errno != 0 || endptr == str\<close>: a returned number was read from some
  digits, but characters after them are ignored.\<close>

locale prefix_arg = num_arg +
  fixes base :: nat
  assumes digits: "wp (parse K s) (\<lambda>r w'. is_ok r \<longrightarrow> strto_scan base s \<noteq> None) w"
begin

lemma refuses_no_digits:
  assumes "strto_scan base s = None"
  shows "wp (parse K s) (\<lambda>r w'. r = Exit 1) w"
proof -
  have "wp (parse K s) (\<lambda>r w'. (is_ok r \<longrightarrow> strto_scan base s \<noteq> None) \<and> (is_ok r \<or> r = Exit 1)) w"
    by (rule wp_conj [OF digits outcome]) auto
  then show ?thesis
    using assms by (auto elim!: wp_mono)
qed

end

text \<open>The condition \<open>errno != 0 && *endptr != 0\<close>: a string with no digits at all is read
  as 0, and characters after the digits are ignored.\<close>

locale unchecked_arg = num_arg +
  fixes base :: nat
  assumes garbage: "strto_scan base s = None \<Longrightarrow>
      wp (parse K s) (\<lambda>r w'. r = Ok 0 \<and> quiet w w') w"
    and trailing: "strto_scan base s = Some (False, m, rest) \<Longrightarrow> int m \<le> hi \<Longrightarrow>
      wp (parse K s) (\<lambda>r w'. r = Ok (int m) \<and> quiet w w') w"

section \<open>Facts on the shared shape\<close>

lemma wp_get_number:
  assumes "\<And>v endptr e. conv s = (v, endptr, e) \<Longrightarrow> \<not> refuse s endptr e \<Longrightarrow> Q (Ok (cast v)) (w\<lparr>errno := e\<rparr>)"
    and "\<And>v endptr e t r w'. conv s = (v, endptr, e) \<Longrightarrow> refuse s endptr e \<Longrightarrow>
           trace w' = trace w @ [(Stdio (Fprintf 2 t), r)] \<Longrightarrow> Q (Exit 1) w'"
  shows "wp (get_number K conv refuse cast msg s) Q w"
proof -
  obtain v endptr e where c: "conv s = (v, endptr, e)" by (cases "conv s") auto
  from assms c show ?thesis
    unfolding get_number_def by (auto intro!: wp_die)
qed

lemma dec_nonempty [simp]: "dec n \<noteq> []"
  by (simp add: dec_def)

text \<open>What the contracts need of a conversion and the conversion to the result type.\<close>

definition num_conv ::
  "nat \<Rightarrow> (string \<Rightarrow> int \<times> string \<times> int) \<Rightarrow> (int \<Rightarrow> int) \<Rightarrow> int \<Rightarrow> int \<Rightarrow> bool" where
  "num_conv base conv cast lo hi \<longleftrightarrow>
     (\<forall>n. lo \<le> n \<and> n \<le> hi \<longrightarrow> conv (dec n) = (n, [], 0) \<and> cast n = n) \<and>
     (\<forall>s v endptr e. conv s = (v, endptr, e) \<longrightarrow> lo \<le> cast v \<and> cast v \<le> hi) \<and>
     (\<forall>s. strto_scan base s = None \<longrightarrow> conv s = (0, s, 0) \<and> cast 0 = 0) \<and>
     (\<forall>s neg m rest. strto_scan base s = Some (neg, m, rest) \<longrightarrow>
        (\<exists>v e. conv s = (v, rest, e)) \<and>
        (\<not> neg \<and> int m \<le> hi \<longrightarrow> conv s = (int m, rest, 0) \<and> cast (int m) = int m))"

lemma num_convD:
  assumes "num_conv base conv cast lo hi"
  shows "lo \<le> n \<Longrightarrow> n \<le> hi \<Longrightarrow> conv (dec n) = (n, [], 0)" "lo \<le> n \<Longrightarrow> n \<le> hi \<Longrightarrow> cast n = n"
    "conv s = (v, endptr, e) \<Longrightarrow> lo \<le> cast v" "conv s = (v, endptr, e) \<Longrightarrow> cast v \<le> hi"
    "strto_scan base s = None \<Longrightarrow> conv s = (0, s, 0)" "strto_scan base s = None \<Longrightarrow> cast 0 = 0"
    "strto_scan base s = Some (neg, m, rest) \<Longrightarrow> conv s = (v, endptr, e) \<Longrightarrow> endptr = rest"
    "strto_scan base s = Some (False, m, rest) \<Longrightarrow> int m \<le> hi \<Longrightarrow> conv s = (int m, rest, 0)"
    "strto_scan base s = Some (False, m, rest) \<Longrightarrow> int m \<le> hi \<Longrightarrow> cast (int m) = int m"
  using assms unfolding num_conv_def by (blast, blast, blast, blast, blast, blast, fastforce, blast, blast)

abbreviation UINT_MAX :: int where "UINT_MAX \<equiv> 2 ^ 32 - 1"

lemma conv_long: "num_conv 0 (strtol 0) (\<lambda>v. v) LONG_MIN LONG_MAX"
    "num_conv 10 (strtol 10) (\<lambda>v. v) LONG_MIN LONG_MAX"
  unfolding num_conv_def
  by (auto simp: strtol_dec dest: strtol_range) (auto simp: strtol_def LONG_MIN_def LONG_MAX_def Let_def)

lemma conv_int: "num_conv 0 (strtol 0) c_int INT_MIN INT_MAX"
proof -
  have "LONG_MIN \<le> n" "n \<le> LONG_MAX" if "INT_MIN \<le> n" "n \<le> INT_MAX" for n
    using that by (simp_all add: INT_MIN_def INT_MAX_def LONG_MIN_def LONG_MAX_def)
  moreover have "INT_MIN \<le> 0" "0 \<le> INT_MAX" by (simp_all add: INT_MIN_def INT_MAX_def)
  ultimately show ?thesis
    unfolding num_conv_def
    by (auto simp: strtol_dec c_int_range)
       (auto simp: strtol_def INT_MIN_def INT_MAX_def LONG_MIN_def LONG_MAX_def Let_def)
qed

lemma conv_ulong: "num_conv 0 (strtoul 0) (\<lambda>v. v) 0 ULONG_MAX"
    "num_conv 10 (strtoul 10) (\<lambda>v. v) 0 ULONG_MAX"
  unfolding num_conv_def
  by (auto simp: strtoul_dec dest: strtoul_range) (auto simp: strtoul_def)

lemma conv_uint: "num_conv 0 (strtoul 0) c_uint 0 UINT_MAX"
proof -
  have "n \<le> ULONG_MAX" if "n \<le> UINT_MAX" for n
    using that by (simp add: ULONG_MAX_def)
  moreover have "0 \<le> c_uint x" "c_uint x \<le> UINT_MAX" for x
    using take_bit_int_less_exp [of 32 x] by (simp_all add: c_uint_def)
  ultimately show ?thesis
    unfolding num_conv_def by (auto simp: strtoul_dec) (auto simp: strtoul_def ULONG_MAX_def)
qed

lemma c_ulong_c_long [simp]: "c_ulong (c_long n) = c_ulong n"
  by (simp add: c_ulong_def c_long_def take_bit_signed_take_bit)

lemma conv_ulong_via_long: "num_conv 0 (strtoul 0) (\<lambda>n. c_ulong (c_long n)) 0 ULONG_MAX"
  unfolding num_conv_def
  by (auto simp: strtoul_dec c_ulong_range) (auto simp: strtoul_def c_ulong_def)

lemma num_get_number:
  assumes "num_conv base conv cast lo hi" "\<And>s. s \<noteq> [] \<Longrightarrow> \<not> refuse s [] 0"
  shows "num_arg (\<lambda>K. get_number K conv refuse cast msg) lo hi"
proof
  show "wp (get_number K conv refuse cast msg (dec n)) (\<lambda>r w'. r = Ok n \<and> quiet w w') w"
    if "lo \<le> n" "n \<le> hi" for n K and w :: "'k world"
    using num_convD(1,2) [OF assms(1) that] assms(2) [of "dec n"] by (intro wp_get_number) auto
  show "wp (get_number K conv refuse cast msg s) Q w"
    if "\<And>v w'. quiet w w' \<Longrightarrow> lo \<le> v \<Longrightarrow> v \<le> hi \<Longrightarrow> Q (Ok v) w'"
      and "\<And>t r w'. trace w' = trace w @ [(Stdio (Fprintf 2 t), r)] \<Longrightarrow> Q (Exit 1) w'"
    for K s Q and w :: "'k world"
    by (intro wp_get_number that num_convD(3,4) [OF assms(1)]) auto
qed

lemma whole_get_number:
  assumes "num_conv base conv cast lo hi"
  shows "whole_arg (\<lambda>K. get_number K conv (\<lambda>str endptr errno. errno \<noteq> 0 \<or> endptr \<noteq> []) cast msg) lo hi base"
proof (intro whole_arg.intro whole_arg_axioms.intro num_get_number)
  show "num_conv base conv cast lo hi" by fact
  show "wp (get_number K conv (\<lambda>str endptr errno. errno \<noteq> 0 \<or> endptr \<noteq> []) cast msg s)
      (\<lambda>r w'. is_ok r \<longrightarrow> s = [] \<or> (\<exists>neg m. strto_scan base s = Some (neg, m, []))) w"
    for K s and w :: "'k world"
  proof (intro wp_get_number, goal_cases)
    case (1 v endptr e)
    then show ?case
      using num_convD(5,7) [OF assms, of s] by (cases "strto_scan base s") auto
  qed simp
qed simp

lemma prefix_get_number:
  assumes "num_conv base conv cast lo hi"
  shows "prefix_arg (\<lambda>K. get_number K conv (\<lambda>str endptr errno. errno \<noteq> 0 \<or> endptr = str) cast msg) lo hi base"
proof (intro prefix_arg.intro prefix_arg_axioms.intro num_get_number)
  show "num_conv base conv cast lo hi" by fact
  show "wp (get_number K conv (\<lambda>str endptr errno. errno \<noteq> 0 \<or> endptr = str) cast msg s)
      (\<lambda>r w'. is_ok r \<longrightarrow> strto_scan base s \<noteq> None) w"
    for K s and w :: "'k world"
    by (intro wp_get_number) (use num_convD(5) [OF assms, of s] in \<open>cases "strto_scan base s"; auto\<close>)+
qed simp

lemma unchecked_get_number:
  assumes "num_conv base conv cast lo hi"
  shows "unchecked_arg (\<lambda>K. get_number K conv (\<lambda>str endptr errno. errno \<noteq> 0 \<and> endptr \<noteq> []) cast msg) lo hi base"
proof (intro unchecked_arg.intro unchecked_arg_axioms.intro num_get_number)
  show "num_conv base conv cast lo hi" by fact
  show "wp (get_number K conv (\<lambda>str endptr errno. errno \<noteq> 0 \<and> endptr \<noteq> []) cast msg s)
      (\<lambda>r w'. r = Ok 0 \<and> quiet w w') w" if "strto_scan base s = None"
    for K s and w :: "'k world"
    by (intro wp_get_number) (use num_convD(5,6) [OF assms that] in auto)
  show "wp (get_number K conv (\<lambda>str endptr errno. errno \<noteq> 0 \<and> endptr \<noteq> []) cast msg s)
      (\<lambda>r w'. r = Ok (int m) \<and> quiet w w') w"
    if "strto_scan base s = Some (False, m, rest)" "int m \<le> hi"
    for K s m rest and w :: "'k world"
  proof -
    from num_convD(8,9) [OF assms that] show ?thesis by (intro wp_get_number) auto
  qed
qed simp

section \<open>The contracts hold of the parsers\<close>

interpretation t_unlink_getUnsignedLong: prefix_arg t_unlink_getUnsignedLong 0 ULONG_MAX 0
  unfolding t_unlink_getUnsignedLong_def [abs_def] by (rule prefix_get_number [OF conv_ulong(1)])

interpretation seek_io_getUnsignedLong: prefix_arg seek_io_getUnsignedLong 0 ULONG_MAX 10
  unfolding seek_io_getUnsignedLong_def [abs_def] by (rule prefix_get_number [OF conv_ulong(2)])

interpretation seek_io_getLong: prefix_arg seek_io_getLong LONG_MIN LONG_MAX 10
  unfolding seek_io_getLong_def [abs_def] by (rule prefix_get_number [OF conv_long(2)])

interpretation t_flock_getLong: unchecked_arg t_flock_getLong LONG_MIN LONG_MAX 0
  unfolding t_flock_getLong_def [abs_def] by (rule unchecked_get_number [OF conv_long(1)])

interpretation free_and_sbrk_getUnsignedLong: prefix_arg free_and_sbrk_getUnsignedLong 0 ULONG_MAX 0
  unfolding free_and_sbrk_getUnsignedLong_def [abs_def] by (rule prefix_get_number [OF conv_ulong_via_long])

interpretation fifo_client_getInt: unchecked_arg fifo_client_getInt INT_MIN INT_MAX 0
  unfolding fifo_client_getInt_def [abs_def] by (rule unchecked_get_number [OF conv_int])

interpretation pipe_sync_getUint: unchecked_arg pipe_sync_getUint 0 UINT_MAX 0
  unfolding pipe_sync_getUint_def [abs_def] by (rule unchecked_get_number [OF conv_uint])

interpretation pmsg_send_getUnsignedLong: unchecked_arg pmsg_send_getUnsignedLong 0 ULONG_MAX 0
  unfolding pmsg_send_getUnsignedLong_def [abs_def] by (rule unchecked_get_number [OF conv_ulong(1)])

interpretation multi_wait_getUint: whole_arg multi_wait_getUint 0 UINT_MAX 0
  unfolding multi_wait_getUint_def [abs_def] by (rule whole_get_number [OF conv_uint])

interpretation catch_rtsigs_getUnsignedLong: whole_arg catch_rtsigs_getUnsignedLong 0 ULONG_MAX 0
  unfolding catch_rtsigs_getUnsignedLong_def [abs_def] by (rule whole_get_number [OF conv_ulong(1)])

interpretation sig_receiver_getUnsignedInt: whole_arg sig_receiver_getUnsignedInt 0 UINT_MAX 0
  unfolding sig_receiver_getUnsignedInt_def [abs_def] by (rule whole_get_number [OF conv_uint])

interpretation sig_sender_getLong: prefix_arg sig_sender_getLong LONG_MIN LONG_MAX 0
  unfolding sig_sender_getLong_def [abs_def] by (rule prefix_get_number [OF conv_long(1)])

interpretation t_kill_getInt: prefix_arg t_kill_getInt INT_MIN INT_MAX 0
  unfolding t_kill_getInt_def [abs_def] by (rule prefix_get_number [OF conv_int])

interpretation t_sigqueue_getLong: whole_arg t_sigqueue_getLong LONG_MIN LONG_MAX 0
  unfolding t_sigqueue_getLong_def [abs_def] by (rule whole_get_number [OF conv_long(1)])

interpretation is_client_getLong: unchecked_arg is_client_getLong LONG_MIN LONG_MAX 0
  unfolding is_client_getLong_def [abs_def] by (rule unchecked_get_number [OF conv_long(1)])

interpretation is_server_getLong: unchecked_arg is_server_getLong LONG_MIN LONG_MAX 0
  unfolding is_server_getLong_def [abs_def] by (rule unchecked_get_number [OF conv_long(1)])

interpretation svmsg_receive_getLong: unchecked_arg svmsg_receive_getLong LONG_MIN LONG_MAX 0
  unfolding svmsg_receive_getLong_def [abs_def] by (rule unchecked_get_number [OF conv_long(1)])

interpretation svmsg_send_getLong: unchecked_arg svmsg_send_getLong LONG_MIN LONG_MAX 0
  unfolding svmsg_send_getLong_def [abs_def] by (rule unchecked_get_number [OF conv_long(1)])

interpretation svsem_mon_getInt: unchecked_arg svsem_mon_getInt INT_MIN INT_MAX 0
  unfolding svsem_mon_getInt_def [abs_def] by (rule unchecked_get_number [OF conv_int])

interpretation svsem_setall_getLong: unchecked_arg svsem_setall_getLong LONG_MIN LONG_MAX 0
  unfolding svsem_setall_getLong_def [abs_def] by (rule unchecked_get_number [OF conv_long(1)])

interpretation thread_incr_getUnsignedLong: whole_arg thread_incr_getUnsignedLong 0 ULONG_MAX 0
  unfolding thread_incr_getUnsignedLong_def [abs_def] by (rule whole_get_number [OF conv_ulong(1)])

interpretation thread_incr_mutex_getUnsignedLong: whole_arg thread_incr_mutex_getUnsignedLong 0 ULONG_MAX 0
  unfolding thread_incr_mutex_getUnsignedLong_def [abs_def] by (rule whole_get_number [OF conv_ulong(1)])

interpretation multijoin_getInt: whole_arg multijoin_getInt INT_MIN INT_MAX 0
  unfolding multijoin_getInt_def [abs_def] by (rule whole_get_number [OF conv_int])

interpretation process_time_getUnsignedLong: prefix_arg process_time_getUnsignedLong 0 ULONG_MAX 0
  unfolding process_time_getUnsignedLong_def [abs_def] by (rule prefix_get_number [OF conv_ulong(1)])

interpretation svsem_demo_getInt: num_arg svsem_demo_getInt INT_MIN INT_MAX
  unfolding svsem_demo_getInt_def [abs_def] by (rule num_get_number [OF conv_int]) simp

interpretation pmsg_create_getLong: unchecked_arg "\<lambda>K s. pmsg_create_getLong K s 0" LONG_MIN LONG_MAX 0
  unfolding pmsg_create_getLong_def [abs_def] by (rule unchecked_get_number [OF conv_long(1)])

interpretation psem_create_getLong: unchecked_arg "\<lambda>K s. psem_create_getLong K s 0" LONG_MIN LONG_MAX 0
  unfolding psem_create_getLong_def [abs_def] by (rule unchecked_get_number [OF conv_long(1)])

interpretation pshm_create_getUnsignedLong: unchecked_arg "\<lambda>K s. pshm_create_getUnsignedLong K s 0" 0 ULONG_MAX 0
  unfolding pshm_create_getUnsignedLong_def [abs_def] by (rule unchecked_get_number [OF conv_ulong(1)])

text \<open>A number is not mistaken for the option that asks for help.\<close>

lemma dec_not_option: "LONG_MIN \<le> n \<Longrightarrow> n \<le> LONG_MAX \<Longrightarrow> dec n \<noteq> ''-h''"
proof
  assume "LONG_MIN \<le> n" "n \<le> LONG_MAX" "dec n = ''-h''"
  then have "strtol 10 ''-h'' = (n, [], 0)" using strtol_dec [of 10 n] by simp
  moreover have "strtol 10 ''-h'' = (0, ''-h'', 0)" by code_simp
  ultimately show False by simp
qed

lemma dec_operand: "0 \<le> v \<Longrightarrow> hd (dec v) \<noteq> CHR ''-'' \<and> dec v \<noteq> ''--''"
proof -
  assume "0 \<le> v"
  then have d: "is_digit_of 36 c" if "c \<in> set (dec v)" for c
    using that radix_nat_digits [of 10 c "nat v"] by (auto simp: dec_def intro: is_digit_of_mono)
  have "is_digit_of 36 (hd (dec v))" by (rule d) simp
  then show ?thesis by auto
qed

section \<open>Properties\<close>

text \<open>
  The strict parsers read back what \<open>printf\<close> prints: for every \<open>int\<close>, the decimal
  form is accepted by \<open>getInt\<close> of \<open>thread_multijoin.c\<close> as that number, without output.
\<close>

theorem multijoin_getInt_roundtrip:
  assumes "INT_MIN \<le> n" "n \<le> INT_MAX"
  shows "wp (multijoin_getInt K (dec n)) (\<lambda>r w'. r = Ok n \<and> quiet w w') w"
  using assms by (rule multijoin_getInt.accepts)

theorem multijoin_getInt_roundtrip_witness:
  "wp (multijoin_getInt script_os (dec (-42))) (\<lambda>r w'. r = Ok (-42) \<and> quiet (start []) w') (start [])"
  using multijoin_getInt_roundtrip [of "-42" script_os "start []"]
  by (simp add: INT_MIN_def INT_MAX_def start_def)

text \<open>
  The parsers that test \<open>errno != 0 || *endptr != 0\<close> accept a string only if all
  of it is a number (or it is empty); a number followed by anything ends the program
  with status 1.
\<close>

theorem strict_parsers_refuse_trailing:
  assumes "strto_scan 0 s = Some (neg, m, c # cs)"
  shows "wp (thread_incr_getUnsignedLong K s) (\<lambda>r w'. r = Exit 1) w \<and>
         wp (multijoin_getInt K s) (\<lambda>r w'. r = Exit 1) w \<and>
         wp (sig_receiver_getUnsignedInt K s) (\<lambda>r w'. r = Exit 1) w \<and>
         wp (t_sigqueue_getLong K s) (\<lambda>r w'. r = Exit 1) w"
  using assms
  by (simp add: thread_incr_getUnsignedLong.refuses_trailing multijoin_getInt.refuses_trailing
      sig_receiver_getUnsignedInt.refuses_trailing t_sigqueue_getLong.refuses_trailing)

theorem strict_parsers_refuse_trailing_witness:
  "strto_scan 0 ''12x'' = Some (False, 12, ''x'') \<and>
   wp (multijoin_getInt script_os ''12x'') (\<lambda>r w'. r = Exit 1) (start [])"
proof -
  have "strto_scan 0 ''12x'' = Some (False, 12, ''x'')" by code_simp
  with strict_parsers_refuse_trailing [OF this, of script_os "start []"] show ?thesis by simp
qed

text \<open>
  The parsers that test \<open>errno != 0 && *endptr != 0\<close> check nothing in practice: a
  string without a single digit is accepted as the number 0, silently. (The two
  conditions are joined by \<open>&&\<close> where the other programs use \<open>||\<close>.)
\<close>

theorem unchecked_parsers_accept_garbage:
  assumes "strto_scan 0 s = None"
  shows "wp (svmsg_send_getLong K s) (\<lambda>r w'. r = Ok 0 \<and> quiet w w') w \<and>
         wp (svmsg_receive_getLong K s) (\<lambda>r w'. r = Ok 0 \<and> quiet w w') w \<and>
         wp (fifo_client_getInt K s) (\<lambda>r w'. r = Ok 0 \<and> quiet w w') w \<and>
         wp (is_server_getLong K s) (\<lambda>r w'. r = Ok 0 \<and> quiet w w') w \<and>
         wp (svsem_setall_getLong K s) (\<lambda>r w'. r = Ok 0 \<and> quiet w w') w"
  using assms
  by (simp add: svmsg_send_getLong.garbage svmsg_receive_getLong.garbage fifo_client_getInt.garbage
      is_server_getLong.garbage svsem_setall_getLong.garbage)

theorem unchecked_parsers_accept_garbage_witness:
  "strto_scan 0 ''abc'' = None \<and>
   wp (svmsg_send_getLong script_os ''abc'') (\<lambda>r w'. r = Ok 0 \<and> quiet (start []) w') (start [])"
proof -
  have "strto_scan 0 ''abc'' = None" by code_simp
  with unchecked_parsers_accept_garbage [OF this, of script_os "start []"] show ?thesis
    by (simp add: start_def)
qed

section \<open>What the parsers accept\<close>

text \<open>What stands at the beginning of a string: no number, a number and the characters after it, or a number that
  the conversion cannot represent, with the value that is returned instead. \<open>strtol\<close> represents the numbers of
  type \<open>long\<close>; \<open>strtoul\<close> takes the digits as a number of type \<open>unsigned long\<close> and negates it, modulo
  \<open>2 ^ 64\<close>, when there is a minus sign.\<close>

datatype reading = No_number string | Number int string | Too_large int string

definition read_long :: "nat \<Rightarrow> string \<Rightarrow> reading" where
  "read_long base s = (case strto_scan base s of
     None \<Rightarrow> No_number s
   | Some (neg, m, rest) \<Rightarrow>
       if neg then if m \<le> 2 ^ 63 then Number (- int m) rest else Too_large (- (2 ^ 63)) rest
       else if m < 2 ^ 63 then Number (int m) rest else Too_large (2 ^ 63 - 1) rest)"

definition read_ulong :: "nat \<Rightarrow> string \<Rightarrow> reading" where
  "read_ulong base s = (case strto_scan base s of
     None \<Rightarrow> No_number s
   | Some (neg, m, rest) \<Rightarrow>
       if m < 2 ^ 64 then Number (if neg then (2 ^ 64 - int m) mod 2 ^ 64 else int m) rest
       else Too_large (2 ^ 64 - 1) rest)"

text \<open>The four ways of deciding what is accepted, and the value before the conversion to the result type.\<close>

fun accept_whole :: "reading \<Rightarrow> int option" where
  "accept_whole (No_number s) = (if s = [] then Some 0 else None)"
| "accept_whole (Number v rest) = (if rest = [] then Some v else None)"
| "accept_whole (Too_large v rest) = None"

fun accept_prefix :: "reading \<Rightarrow> int option" where
  "accept_prefix (No_number s) = None"
| "accept_prefix (Number v rest) = Some v"
| "accept_prefix (Too_large v rest) = None"

fun accept_unchecked :: "reading \<Rightarrow> int option" where
  "accept_unchecked (No_number s) = Some 0"
| "accept_unchecked (Number v rest) = Some v"
| "accept_unchecked (Too_large v rest) = (if rest = [] then Some v else None)"

fun accept_inverted :: "reading \<Rightarrow> int option" where
  "accept_inverted (No_number s) = (if s = [] then Some 0 else None)"
| "accept_inverted (Number v rest) = (if rest = [] then Some v else None)"
| "accept_inverted (Too_large v rest) = Some v"

text \<open>A parser is exact: the strings with a value are accepted, silently, with the number of the result type (from \<open>lo\<close>
  to \<open>hi\<close>) that is congruent to the value; the others end the program with status 1 after one message on
  standard error.\<close>

definition exact :: "int \<Rightarrow> int \<Rightarrow> (string \<Rightarrow> int option) \<Rightarrow> ('k os \<Rightarrow> string \<Rightarrow> ('k, int) cmd) \<Rightarrow> bool" where
  "exact lo hi val parse \<longleftrightarrow> (\<forall>K s w. wp (parse K s) (\<lambda>r w'. case val s of
     Some v \<Rightarrow> (\<exists>n. r = Ok n \<and> lo \<le> n \<and> n \<le> hi \<and> n mod (hi - lo + 1) = v mod (hi - lo + 1)) \<and> quiet w w'
   | None \<Rightarrow> r = Exit 1 \<and> (\<exists>msg q. trace w' = trace w @ [(Stdio (Fprintf 2 msg), q)])) w)"

fun reading_result :: "reading \<Rightarrow> int \<times> string \<times> int" where
  "reading_result (No_number s) = (0, s, 0)"
| "reading_result (Number v rest) = (v, rest, 0)"
| "reading_result (Too_large v rest) = (v, rest, ERANGE)"

lemma strtol_reading: "strtol base s = reading_result (read_long base s)"
  by (auto simp: strtol_def read_long_def LONG_MIN_def LONG_MAX_def Let_def split: option.splits)

lemma strtoul_reading: "strtoul base s = reading_result (read_ulong base s)"
  by (auto simp: strtoul_def read_ulong_def ULONG_MAX_def c_ulong_def take_bit_eq_mod algebra_simps mod_diff_left_eq
      split: option.splits)

lemma scan_sign_length: "length (snd (scan_sign t)) \<le> length t"
  by (cases t) (auto simp: scan_sign_def)

lemma strto_scan_shorter:
  assumes "strto_scan base s = Some (neg, m, rest)"
  shows "length rest < length s"
proof -
  obtain sg s2 where s2: "scan_sign (dropWhile isspace s) = (sg, s2)" by fastforce
  obtain b s3 where s3: "scan_base base s2 = (b, s3)" by fastforce
  have "length s2 \<le> length (dropWhile isspace s)"
    using scan_sign_length [of "dropWhile isspace s"] s2 by simp
  moreover have "length s3 \<le> length s2"
    using s3 by (auto simp: scan_base_def split: if_splits)
  moreover have "takeWhile (is_digit_of b) s3 \<noteq> []" "rest = dropWhile (is_digit_of b) s3"
    using assms s2 s3 by (auto simp: strto_scan_def Let_def split: if_splits)
  moreover have "length s3 = length (takeWhile (is_digit_of b) s3) + length (dropWhile (is_digit_of b) s3)"
    by (metis length_append takeWhile_dropWhile_id)
  moreover have "length (dropWhile isspace s) \<le> length s" by (rule length_dropWhile_le)
  ultimately show ?thesis by (cases "takeWhile (is_digit_of b) s3") auto
qed

lemma reading_of:
  "read_long base s = No_number t \<Longrightarrow> t = s" "read_long base s = Number v rest \<Longrightarrow> rest \<noteq> s"
  "read_ulong base s = No_number t \<Longrightarrow> t = s" "read_ulong base s = Number v rest \<Longrightarrow> rest \<noteq> s"
  using strto_scan_shorter [of base s] by (auto simp: read_long_def read_ulong_def split: option.splits if_splits)

text \<open>The condition that each of the four groups of parsers tests decides acceptance in this way.\<close>

definition decides :: "(string \<Rightarrow> reading) \<Rightarrow> (reading \<Rightarrow> int option) \<Rightarrow> (string \<Rightarrow> string \<Rightarrow> int \<Rightarrow> bool) \<Rightarrow> bool" where
  "decides rd acc refuse \<longleftrightarrow> (\<forall>s v endptr e. reading_result (rd s) = (v, endptr, e) \<longrightarrow>
     acc (rd s) = (if refuse s endptr e then None else Some v))"

lemma decides_conditions:
  "decides rd accept_whole (\<lambda>str endptr errno. errno \<noteq> 0 \<or> endptr \<noteq> [])"
  "decides rd accept_unchecked (\<lambda>str endptr errno. errno \<noteq> 0 \<and> endptr \<noteq> [])"
  "decides rd accept_inverted (\<lambda>str endptr errno. errno = 0 \<and> endptr \<noteq> [])"
  "decides (read_long base) accept_prefix (\<lambda>str endptr errno. errno \<noteq> 0 \<or> endptr = str)"
  "decides (read_ulong base) accept_prefix (\<lambda>str endptr errno. errno \<noteq> 0 \<or> endptr = str)"
proof -
  have "ERANGE \<noteq> 0" by (simp add: ERANGE_def)
  then show "decides rd accept_whole (\<lambda>str endptr errno. errno \<noteq> 0 \<or> endptr \<noteq> [])"
    "decides rd accept_unchecked (\<lambda>str endptr errno. errno \<noteq> 0 \<and> endptr \<noteq> [])"
    "decides rd accept_inverted (\<lambda>str endptr errno. errno = 0 \<and> endptr \<noteq> [])"
    by (force simp: decides_def elim!: reading_result.elims)+
  show "decides (read_long base) accept_prefix (\<lambda>str endptr errno. errno \<noteq> 0 \<or> endptr = str)"
    "decides (read_ulong base) accept_prefix (\<lambda>str endptr errno. errno \<noteq> 0 \<or> endptr = str)"
    using \<open>ERANGE \<noteq> 0\<close> by (auto simp: decides_def dest: reading_of elim!: reading_result.elims)
qed

text \<open>The conversions to the result types.\<close>

definition converts :: "(int \<Rightarrow> int) \<Rightarrow> int \<Rightarrow> int \<Rightarrow> (string \<Rightarrow> reading) \<Rightarrow> bool" where
  "converts cast lo hi rd \<longleftrightarrow> (\<forall>s v endptr e. reading_result (rd s) = (v, endptr, e) \<longrightarrow>
     lo \<le> cast v \<and> cast v \<le> hi \<and> cast v mod (hi - lo + 1) = v mod (hi - lo + 1))"

lemma converts_types:
  "converts c_int INT_MIN INT_MAX rd" "converts c_uint 0 UINT_MAX rd"
  "converts (\<lambda>v. v) LONG_MIN LONG_MAX (read_long base)"
  "converts (\<lambda>v. v) 0 ULONG_MAX (read_ulong base)"
  "converts (\<lambda>n. c_ulong (c_long n)) 0 ULONG_MAX (read_ulong base)"
proof -
  show "converts c_int INT_MIN INT_MAX rd"
    using c_int_range by (simp add: converts_def) (simp add: c_int_def INT_MIN_def INT_MAX_def take_bit_signed_take_bit flip: take_bit_eq_mod [of 32, simplified])
  show "converts c_uint 0 UINT_MAX rd"
    using pos_mod_bound [of "2 ^ 32 :: int"] by (fastforce simp: converts_def c_uint_def take_bit_eq_mod)
  show "converts (\<lambda>v. v) LONG_MIN LONG_MAX (read_long base)"
    unfolding converts_def by (metis strtol_reading strtol_range)
  show "converts (\<lambda>v. v) 0 ULONG_MAX (read_ulong base)"
    unfolding converts_def by (metis strtoul_reading strtoul_range)
  show "converts (\<lambda>n. c_ulong (c_long n)) 0 ULONG_MAX (read_ulong base)"
    using c_ulong_range by (simp add: converts_def) (simp add: c_ulong_def ULONG_MAX_def take_bit_eq_mod)
qed

lemma exact_get_number:
  assumes "\<And>s. conv s = reading_result (rd s)" "decides rd acc refuse" "converts cast lo hi rd"
  shows "exact lo hi (\<lambda>s. acc (rd s)) (\<lambda>K. get_number K conv refuse cast msg)"
  unfolding exact_def
proof (intro allI wp_get_number)
  fix w :: "'a world" and s v endptr e
  assume c: "conv s = (v, endptr, e)" "\<not> refuse s endptr e"
  then have "acc (rd s) = Some v" using assms(1,2) by (auto simp: decides_def)
  moreover have "lo \<le> cast v \<and> cast v \<le> hi \<and> cast v mod (hi - lo + 1) = v mod (hi - lo + 1)"
    using assms(1,3) c(1) unfolding converts_def by metis
  ultimately show "case acc (rd s) of
      Some u \<Rightarrow> (\<exists>n. Ok (cast v) = Ok n \<and> lo \<le> n \<and> n \<le> hi \<and> n mod (hi - lo + 1) = u mod (hi - lo + 1)) \<and> quiet w (w\<lparr>errno := e\<rparr>)
    | None \<Rightarrow> Ok (cast v) = Exit 1 \<and> (\<exists>msg q. trace (w\<lparr>errno := e\<rparr>) = trace w @ [(Stdio (Fprintf 2 msg), q)])"
    by simp
next
  fix w w' :: "'a world" and s v endptr e t r
  assume "conv s = (v, endptr, e)" "refuse s endptr e" "trace w' = trace w @ [(Stdio (Fprintf 2 t), r)]"
  then show "case acc (rd s) of
      Some u \<Rightarrow> (\<exists>n. Exit 1 = Ok n \<and> lo \<le> n \<and> n \<le> hi \<and> n mod (hi - lo + 1) = u mod (hi - lo + 1)) \<and> quiet w w'
    | None \<Rightarrow> Exit 1 = (Exit 1 :: int res) \<and> (\<exists>msg q. trace w' = trace w @ [(Stdio (Fprintf 2 msg), q)])"
    using assms(1,2) by (auto simp: decides_def)
qed

lemmas exact_long =
  exact_get_number [OF strtol_reading decides_conditions(1) converts_types(1)]
  exact_get_number [OF strtol_reading decides_conditions(2) converts_types(1)]
  exact_get_number [OF strtol_reading decides_conditions(3) converts_types(1)]
  exact_get_number [OF strtol_reading decides_conditions(4) converts_types(1)]
  exact_get_number [OF strtol_reading decides_conditions(1) converts_types(3)]
  exact_get_number [OF strtol_reading decides_conditions(2) converts_types(3)]
  exact_get_number [OF strtol_reading decides_conditions(4) converts_types(3)]

lemmas exact_ulong =
  exact_get_number [OF strtoul_reading decides_conditions(1) converts_types(2)]
  exact_get_number [OF strtoul_reading decides_conditions(2) converts_types(2)]
  exact_get_number [OF strtoul_reading decides_conditions(1) converts_types(4)]
  exact_get_number [OF strtoul_reading decides_conditions(2) converts_types(4)]
  exact_get_number [OF strtoul_reading decides_conditions(5) converts_types(4)]
  exact_get_number [OF strtoul_reading decides_conditions(5) converts_types(5)]

lemmas parser_defs =
  fifo_client_getInt_def [abs_def] svsem_mon_getInt_def [abs_def] svmsg_create_getInt_def [abs_def] t_kill_getInt_def [abs_def]
  multijoin_getInt_def [abs_def] svsem_demo_getInt_def [abs_def] pipe_sync_getUint_def [abs_def] multi_wait_getUint_def [abs_def]
  sig_receiver_getUnsignedInt_def [abs_def] seek_io_getLong_def [abs_def] sig_sender_getLong_def [abs_def] t_flock_getLong_def [abs_def]
  is_client_getLong_def [abs_def] is_server_getLong_def [abs_def] svmsg_receive_getLong_def [abs_def] svmsg_send_getLong_def [abs_def]
  svsem_setall_getLong_def [abs_def] t_sigqueue_getLong_def [abs_def] pmsg_create_getLong_def [abs_def] psem_create_getLong_def [abs_def]
  t_unlink_getUnsignedLong_def [abs_def] seek_io_getUnsignedLong_def [abs_def] free_and_sbrk_getUnsignedLong_def [abs_def]
  process_time_getUnsignedLong_def [abs_def] pmsg_send_getUnsignedLong_def [abs_def] catch_rtsigs_getUnsignedLong_def [abs_def]
  thread_incr_getUnsignedLong_def [abs_def] thread_incr_mutex_getUnsignedLong_def [abs_def] pshm_create_getUnsignedLong_def [abs_def]

text \<open>
  C36. Every number parser of the programs accepts exactly the strings that its test lets through, and returns exactly
  the number they stand for, converted to its result type. The parsers with \<open>errno != 0 || *endptr != 0\<close> accept a
  representable number that is the whole string (and the empty string, as 0); those with \<open>errno != 0 || endptr == str\<close>
  accept a representable number followed by anything; those with \<open>errno != 0 && *endptr != 0\<close> also accept a
  string without a number, as 0, and refuse only a number that is not representable and is followed by
  something; \<open>getInt\<close> of \<open>svsem_demo.c\<close>, whose first test is \<open>errno == 0\<close>, accepts a number that
  is the whole string and every number that is not representable. A refused string ends the program with status 1
  after one message on standard error; an accepted one gives no output.
\<close>

theorem parsers_exact:
  "list_all (exact INT_MIN INT_MAX (\<lambda>s. accept_unchecked (read_long 0 s))) [fifo_client_getInt, svsem_mon_getInt] \<and>
   exact INT_MIN INT_MAX (\<lambda>s. accept_unchecked (read_long 8 s)) svmsg_create_getInt \<and>
   exact INT_MIN INT_MAX (\<lambda>s. accept_prefix (read_long 0 s)) t_kill_getInt \<and>
   exact INT_MIN INT_MAX (\<lambda>s. accept_whole (read_long 0 s)) multijoin_getInt \<and>
   exact INT_MIN INT_MAX (\<lambda>s. accept_inverted (read_long 0 s)) svsem_demo_getInt \<and>
   exact 0 UINT_MAX (\<lambda>s. accept_unchecked (read_ulong 0 s)) pipe_sync_getUint \<and>
   list_all (exact 0 UINT_MAX (\<lambda>s. accept_whole (read_ulong 0 s))) [multi_wait_getUint, sig_receiver_getUnsignedInt] \<and>
   exact LONG_MIN LONG_MAX (\<lambda>s. accept_prefix (read_long 10 s)) seek_io_getLong \<and>
   exact LONG_MIN LONG_MAX (\<lambda>s. accept_prefix (read_long 0 s)) sig_sender_getLong \<and>
   exact LONG_MIN LONG_MAX (\<lambda>s. accept_whole (read_long 0 s)) t_sigqueue_getLong \<and>
   list_all (exact LONG_MIN LONG_MAX (\<lambda>s. accept_unchecked (read_long 0 s)))
     [t_flock_getLong, is_client_getLong, is_server_getLong, svmsg_receive_getLong, svmsg_send_getLong, svsem_setall_getLong] \<and>
   list_all (exact LONG_MIN LONG_MAX (\<lambda>s. accept_unchecked (read_long base s)))
     [\<lambda>K s. pmsg_create_getLong K s base, \<lambda>K s. psem_create_getLong K s base] \<and>
   exact 0 ULONG_MAX (\<lambda>s. accept_prefix (read_ulong 10 s)) seek_io_getUnsignedLong \<and>
   list_all (exact 0 ULONG_MAX (\<lambda>s. accept_prefix (read_ulong 0 s)))
     [t_unlink_getUnsignedLong, free_and_sbrk_getUnsignedLong, process_time_getUnsignedLong] \<and>
   list_all (exact 0 ULONG_MAX (\<lambda>s. accept_whole (read_ulong 0 s)))
     [catch_rtsigs_getUnsignedLong, thread_incr_getUnsignedLong, thread_incr_mutex_getUnsignedLong] \<and>
   exact 0 ULONG_MAX (\<lambda>s. accept_unchecked (read_ulong 0 s)) pmsg_send_getUnsignedLong \<and>
   exact 0 ULONG_MAX (\<lambda>s. accept_unchecked (read_ulong base s)) (\<lambda>K s. pshm_create_getUnsignedLong K s base)"
  unfolding parser_defs list.pred_inject(2) by (intro conjI list.pred_inject(1) exact_long exact_ulong)

end
