(* ===== verification/Servers.thy ===== *)
theory Servers
  imports Num_Args
begin

text \<open>
  A rule for servers, programs that loop without an end over a local variable: an
  invariant on the events of the loop so far is enough to know the events of every run,
  however it is cut off.
\<close>

text \<open>\<open>J\<close> is an invariant of the loop variable, \<open>L\<close> one of the variable and the events so
  far, \<open>P\<close> what one iteration does, and \<open>F\<close> what is claimed of the events at the end.
  Nothing is claimed of a run that becomes undefined.\<close>

lemma wp_server:
  fixes body :: "'s \<Rightarrow> ('k, 's) cmd"
  assumes body: "\<And>s w. J s \<Longrightarrow> wp (body s) (\<lambda>r w'. r \<noteq> Undef \<longrightarrow> (\<exists>e. trace w' = trace w @ e \<and> P s e r)) w"
    and init: "J s0" "L s0 []"
    and step: "\<And>s d e s'. J s \<Longrightarrow> L s d \<Longrightarrow> P s e (Ok s') \<Longrightarrow> J s' \<and> L s' (d @ e)"
    and stop: "\<And>s d e r. J s \<Longrightarrow> L s d \<Longrightarrow> P s e r \<Longrightarrow> r \<noteq> Undef \<Longrightarrow> \<not> is_ok r \<Longrightarrow> F (d @ e)"
    and cut: "\<And>s d. J s \<Longrightarrow> L s d \<Longrightarrow> F d"
  shows "wp (forever fuel body s0 :: ('k, 'r) cmd) (\<lambda>r w'. r \<noteq> Undef \<longrightarrow> (\<exists>d. trace w' = trace w @ d \<and> F d)) w"
proof -
  have "wp (forever fuel body s :: ('k, 'r) cmd) (\<lambda>r w'. r \<noteq> Undef \<longrightarrow> (\<exists>d. trace w' = trace w @ d \<and> F d)) w1"
    if "J s" "L s d" "trace w1 = trace w @ d" for s d w1
    using that
  proof (induction fuel arbitrary: s d w1)
    case 0
    with cut show ?case by auto
  next
    case (Suc fuel)
    show ?case
      unfolding forever.simps wp_bind_res
    proof (rule wp_mono [OF body [OF Suc.prems(1)]])
      fix r and w2 :: "'k world"
      assume r: "r \<noteq> Undef \<longrightarrow> (\<exists>e. trace w2 = trace w1 @ e \<and> P s e r)"
      show "and_then (\<lambda>v. wp (forever fuel body v :: ('k, 'r) cmd) (\<lambda>r w'. r \<noteq> Undef \<longrightarrow> (\<exists>d. trace w' = trace w @ d \<and> F d)))
          (\<lambda>r w'. r \<noteq> Undef \<longrightarrow> (\<exists>d. trace w' = trace w @ d \<and> F d)) r w2"
      proof (cases r)
        case (Ok s')
        with r obtain e where e: "trace w2 = trace w1 @ e" "P s e (Ok s')" by auto
        have "J s' \<and> L s' (d @ e)" using step Suc.prems e(2) by blast
        with Ok Suc.IH [of s' "d @ e" w2] Suc.prems(3) e(1) show ?thesis by simp
      qed (use r Suc.prems stop [OF Suc.prems(1,2)] in auto)
    qed
  qed
  from this [OF init] show ?thesis by simp
qed

text \<open>The rule for a loop whose result has the type of its variable.\<close>

lemma wp_forever_and_then:
  fixes body :: "'s \<Rightarrow> ('k, 's) cmd"
  assumes "I a w"
    and "\<And>a w. I a w \<Longrightarrow> wp (body a) (and_then I Q) w"
    and "\<And>a w. I a w \<Longrightarrow> Q Hang w"
  shows "wp (forever fuel body a) Q w"
  using assms(1)
proof (induction fuel arbitrary: a w)
  case 0
  then show ?case using assms(3) by simp
next
  case (Suc fuel)
  from assms(2) [OF Suc.prems] show ?case
    using Suc.IH by (auto elim!: wp_mono simp: and_then_def split: res.splits)
qed

section \<open>Wire formats\<close>

text \<open>A value sent by one program is decoded by another.\<close>

locale wire_format =
  fixes encode :: "'a \<Rightarrow> string" and decode :: "string \<Rightarrow> 'a option" and valid :: "'a \<Rightarrow> bool"
  assumes decode_encode: "valid x \<Longrightarrow> decode (encode x) = Some x"
begin

lemma encode_inj: "inj_on encode {x. valid x}"
  by (rule inj_onI) (metis decode_encode mem_Collect_eq option.inject)

text \<open>A value that decodes from the encoding of a valid one is that one.\<close>

lemma decode_unique: "valid x \<Longrightarrow> bs = encode x \<Longrightarrow> decode bs = Some y \<Longrightarrow> y = x"
  by (simp add: decode_encode)

end

end
