(* ===== verification/Datagram.thy ===== *)
theory Datagram
  imports Servers
begin

text \<open>
  The datagram services that convert messages to upper case: \<open>sockets/ud_case_sv.c\<close> and
  \<open>ud_case_cl.c\<close> in the UNIX domain, \<open>sockets/i6d_ucase_sv.c\<close> and \<open>i6d_ucase_cl.c\<close> over
  IPv6. Both servers are instances of the interface \<open>ucase_server\<close>.
  \<open>toupper\<close> is glibc's in the C locale, which is defined on negative \<open>char\<close> values too.
\<close>

definition SUN_PATH_SIZE :: nat where "SUN_PATH_SIZE = 108"

section \<open>sockets/ud\_case.h, sockets/ud\_case\_sv.c\<close>

definition ud_SERVER_SOCKET_PATH :: string where "ud_SERVER_SOCKET_PATH = ''/tmp/ud_ucase''"

definition ud_BUFFER_SIZE :: nat where "ud_BUFFER_SIZE = 10"

text \<open>One iteration of the server loop. The name of a client without a bound address is
  not initialised.\<close>

definition ud_serve :: "'k os \<Rightarrow> int \<Rightarrow> ('k, unit) cmd" where
  "ud_serve K socketFd = do {
     q \<leftarrow> sys K (Sock (Recvfrom socketFd ud_BUFFER_SIZE));
     if ret q = -1
     then die K (\<lambda>err. ''Failed to recvfrom() socket - '' @ err @ nl)
     else case raddr q of
       AddrUn sun_path \<Rightarrow> do {
         printf K (''Server received '' @ dec (ret q) @ '' bytes from '' @ sun_path @ nl);
         s \<leftarrow> call K (Sock (Sendto socketFd (map toupper (take (nat (ret q)) (rdata q))) (raddr q)));
         if s \<noteq> ret q
         then die K (\<lambda>err. ''Failed to sendto() '' @ dec (ret q) @ '' bytes - '' @ err @ nl)
         else ok () }
     | _ \<Rightarrow> halt Undef }"

text \<open>The message of the length check prints the address of \<open>sun_path\<close> as a number; it is
  an argument here.\<close>

definition ud_server_main :: "nat \<Rightarrow> 'k os \<Rightarrow> int \<Rightarrow> string list \<Rightarrow> ('k, unit) cmd" where
  "ud_server_main fuel K sun_path argv = do {
     socketFd \<leftarrow> call K (Sock (Socket AF_UNIX SOCK_DGRAM 0));
     if socketFd = -1
     then die K (\<lambda>err. ''Failed to create AF_UNIX SOCK_DGRAM socket() - '' @ err @ nl)
     else if length ud_SERVER_SOCKET_PATH > SUN_PATH_SIZE - 1
     then usage K (''Server socket path '' @ ud_SERVER_SOCKET_PATH @ '' is too long (max: '' @ dec sun_path @ '')'' @ nl)
     else do {
     u \<leftarrow> call K (File (Remove ud_SERVER_SOCKET_PATH));
     e \<leftarrow> get_errno;
     if u = -1 \<and> e \<noteq> ENOENT
     then die K (\<lambda>err. ''Failed to remove() socket '' @ ud_SERVER_SOCKET_PATH @ '' - '' @ err @ nl)
     else do {
     b \<leftarrow> call K (Sock (Bind socketFd (AddrUn (cstr (strncpy (replicate SUN_PATH_SIZE NUL) ud_SERVER_SOCKET_PATH (SUN_PATH_SIZE - 1))))));
     if b = -1
     then die K (\<lambda>err. ''Failed to bind() socket to '' @ ud_SERVER_SOCKET_PATH @ '' - '' @ err @ nl)
     else forever fuel (\<lambda>_. ud_serve K socketFd) () }}}"

section \<open>sockets/ud\_case\_cl.c\<close>

definition ud_client_msg :: "'k os \<Rightarrow> int \<Rightarrow> nat \<times> string \<Rightarrow> ('k, unit) cmd" where
  "ud_client_msg K socketFd msg = (case msg of (i, m) \<Rightarrow> do {
     s \<leftarrow> call K (Sock (Sendto socketFd m
            (AddrUn (cstr (strncpy (replicate SUN_PATH_SIZE NUL) ud_SERVER_SOCKET_PATH (SUN_PATH_SIZE - 1))))));
     if s = -1
     then die K (\<lambda>err. ''Failed to send() '' @ dec (int (length m)) @ '' bytes to socket '' @
            ud_SERVER_SOCKET_PATH @ '' - '' @ err @ nl)
     else do {
     q \<leftarrow> sys K (Sock (Recvfrom socketFd ud_BUFFER_SIZE));
     if ret q = -1
     then die K (\<lambda>err. ''Failed to recvfrom() socket '' @ ud_SERVER_SOCKET_PATH @ '' - '' @ err @ nl)
     else do {
     printf K (''Response: '' @ dec (int i) @ '': '' @ cstr (take (nat (ret q)) (rdata q)) @ nl);
     ok () }}})"

definition ud_client_main :: "'k os \<Rightarrow> string list \<Rightarrow> ('k, unit) cmd" where
  "ud_client_main K argv =
     (if length argv < 2 \<or> arg argv 1 = ''-h''
      then usage K (''Usage '' @ arg argv 0 @ '' <msg>...'' @ nl)
      else do {
        socketFd \<leftarrow> call K (Sock (Socket AF_UNIX SOCK_DGRAM 0));
        if socketFd = -1
        then die K (\<lambda>err. ''Failed to create AF_UNIX SOCK_DGRAM socket() - '' @ err @ nl)
        else do {
        p \<leftarrow> call K (Proc Getpid);
        let sun_path = snprintf SUN_PATH_SIZE (''/tmp/ud_ucase_cl.'' @ dec p) in do {
        b \<leftarrow> call K (Sock (Bind socketFd (AddrUn sun_path)));
        if b \<noteq> 0
        then die K (\<lambda>err. ''Failed to bind() to socket '' @ sun_path @ '' - '' @ err @ nl)
        else
          bind_res (for_each (enumerate 1 (drop 1 argv)) (ud_client_msg K socketFd)) (\<lambda>_. do {
            u \<leftarrow> call K (File (Remove sun_path));
            if u = -1
            then die K (\<lambda>err. ''Failed to remove() socket '' @ sun_path @ '' - '' @ err @ nl)
            else do {
            c \<leftarrow> call K (File (Close socketFd));
            if c = -1
            then die K (\<lambda>err. ''Failed to close() socket - '' @ err @ nl)
            else halt (Exit EXIT_SUCCESS) }}) }}})"

section \<open>sockets/i6d\_ucase.h, sockets/i6d\_ucase\_sv.c\<close>

definition i6d_SERVER_PORT :: int where "i6d_SERVER_PORT = 50002"

definition i6d_BUFFER_SIZE :: nat where "i6d_BUFFER_SIZE = 10"

definition sin6_port :: "sockaddr \<Rightarrow> int" where
  "sin6_port a = (case a of AddrIn6 h p \<Rightarrow> p | _ \<Rightarrow> 0)"

definition i6d_serve :: "'k os \<Rightarrow> int \<Rightarrow> ('k, unit) cmd" where
  "i6d_serve K socketFd = do {
     q \<leftarrow> sys K (Sock (Recvfrom socketFd i6d_BUFFER_SIZE));
     if ret q = -1
     then die K (\<lambda>err. ''Failed to recvfrom() socket port '' @ dec i6d_SERVER_PORT @ '' - '' @ err @ nl)
     else do {
     a \<leftarrow> sys K (Sock (InetNtop (raddr q)));
     e \<leftarrow> get_errno;
     printf K (if ret a = 0
               then ''Failed to convert client address to string - '' @ strerror K e @ nl
               else ''Server received '' @ dec (ret q) @ '' bytes from ('' @ rdata a @ '', '' @ dec (sin6_port (raddr q)) @ '')'' @ nl);
     s \<leftarrow> call K (Sock (Sendto socketFd (map toupper (take (nat (ret q)) (rdata q))) (raddr q)));
     if s \<noteq> ret q
     then die K (\<lambda>err. ''Failed to sendto() client '' @ dec (ret q) @ '' bytes - '' @ err @ nl)
     else ok () }}"

definition i6d_server_main :: "nat \<Rightarrow> 'k os \<Rightarrow> string list \<Rightarrow> ('k, unit) cmd" where
  "i6d_server_main fuel K argv = do {
     socketFd \<leftarrow> call K (Sock (Socket AF_INET6 SOCK_DGRAM 0));
     if socketFd = -1
     then die K (\<lambda>err. ''Failed to create AF_INET6 SOCK_DGRAM socket() - '' @ err @ nl)
     else do {
     b \<leftarrow> call K (Sock (Bind socketFd (AddrIn6 ''::'' i6d_SERVER_PORT)));
     if b = -1
     then die K (\<lambda>err. ''Failed to bind() socket to port '' @ dec i6d_SERVER_PORT @ '' - '' @ err @ nl)
     else forever fuel (\<lambda>_. i6d_serve K socketFd) () }}"

section \<open>sockets/i6d\_ucase\_cl.c\<close>

definition i6d_client_msg :: "'k os \<Rightarrow> int \<Rightarrow> string \<Rightarrow> sockaddr \<Rightarrow> nat \<times> string \<Rightarrow> ('k, unit) cmd" where
  "i6d_client_msg K socketFd addrStr addr msg = (case msg of (i, m) \<Rightarrow> do {
     s \<leftarrow> call K (Sock (Sendto socketFd m addr));
     if s \<noteq> int (length m)
     then die K (\<lambda>err. ''Failed to sendto() ('' @ addrStr @ '', '' @ dec i6d_SERVER_PORT @ '') '' @
            dec (int (length m)) @ '' bytes - '' @ err @ nl)
     else do {
     q \<leftarrow> sys K (Sock (Recvfrom socketFd i6d_BUFFER_SIZE));
     if ret q = -1
     then die K (\<lambda>err. ''Failed to recvfrom() server - '' @ err @ nl)
     else do {
     printf K (''Response '' @ dec (int i - 1) @ '': '' @ cstr (take (nat (ret q)) (rdata q)) @ nl);
     ok () }}})"

text \<open>\<open>inet_pton\<close> returns 1 for a valid address, which is then \<open>raddr\<close> with the port.\<close>

definition i6d_client_main :: "'k os \<Rightarrow> string list \<Rightarrow> ('k, unit) cmd" where
  "i6d_client_main K argv =
     (if length argv < 3 \<or> arg argv 1 = ''-h''
      then usage K (''Usage: '' @ arg argv 0 @ '' <host_address> <msg>...'' @ nl)
      else do {
        socketFd \<leftarrow> call K (Sock (Socket AF_INET6 SOCK_DGRAM 0));
        if socketFd = -1
        then die K (\<lambda>err. ''Failed to create AF_INET6 SOCK_DGRAM socket() - '' @ err @ nl)
        else let addrStr = arg argv 1 in do {
        a \<leftarrow> sys K (Sock (InetPton addrStr));
        if ret a \<noteq> 1
        then die K (\<lambda>err. ''inet_pton() failed for address '' @ addrStr @ '' - '' @ err @ nl)
        else
          bind_res (for_each (enumerate 2 (drop 2 argv))
                     (i6d_client_msg K socketFd addrStr (AddrIn6 (rdata a) i6d_SERVER_PORT))) (\<lambda>_. do {
            c \<leftarrow> call K (File (Close socketFd));
            if c = -1
            then die K (\<lambda>err. ''Failed to close() socket - '' @ err @ nl)
            else halt (Exit EXIT_SUCCESS) }) }})"

section \<open>Datagrams in a trace\<close>

fun ev_sent :: "event \<Rightarrow> (sockaddr \<times> string) list" where
  "ev_sent (Sock (Sendto fd bs a), r) = (if ret r = int (length bs) then [(a, bs)] else [])"
| "ev_sent e = []"

fun ev_received :: "event \<Rightarrow> (sockaddr \<times> string) list" where
  "ev_received (Sock (Recvfrom fd n), r) = (if ret r = -1 then [] else [(raddr r, rdata r)])"
| "ev_received e = []"

definition sent :: "event list \<Rightarrow> (sockaddr \<times> string) list" where
  "sent tr = concat (map ev_sent tr)"

definition received :: "event list \<Rightarrow> (sockaddr \<times> string) list" where
  "received tr = concat (map ev_received tr)"

lemma datagrams_simps [simp]:
  "sent [] = []" "sent (e # tr) = ev_sent e @ sent tr" "sent (tr @ tr') = sent tr @ sent tr'"
  "received [] = []" "received (e # tr) = ev_received e @ received tr"
  "received (tr @ tr') = received tr @ received tr'"
  by (simp_all add: sent_def received_def)

section \<open>What the servers promise\<close>

text \<open>The answer to a datagram goes to its sender and is its text in upper case.\<close>

definition upper :: "sockaddr \<times> string \<Rightarrow> sockaddr \<times> string" where
  "upper m = (fst m, map toupper (snd m))"

text \<open>Every datagram received so far has been answered, in order, and none was longer than
  \<open>n\<close> bytes.\<close>

definition answered :: "nat \<Rightarrow> event list \<Rightarrow> bool" where
  "answered n d \<longleftrightarrow> sent d = map upper (received d) \<and> (\<forall>m \<in> set (received d). length (snd m) \<le> n)"

text \<open>The same up to the last datagram, whose answer may have failed.\<close>

definition answering :: "nat \<Rightarrow> event list \<Rightarrow> bool" where
  "answering n d \<longleftrightarrow> (\<exists>rest. map upper (received d) = sent d @ rest \<and> length rest \<le> 1) \<and>
     (\<forall>m \<in> set (received d). length (snd m) \<le> n)"

locale ucase_server =
  fixes serve :: "'k os \<Rightarrow> int \<Rightarrow> ('k, unit) cmd" and sz :: nat
  assumes answers_one: "posix K \<Longrightarrow> wp (serve K fd) (\<lambda>r w'. r \<noteq> Undef \<longrightarrow>
     (\<exists>d. trace w' = trace w @ d \<and> (if is_ok r then answered sz d else r = Exit 1 \<and> answering sz d))) w"
begin

lemma answers_all:
  assumes "posix K"
  shows "wp (forever fuel (\<lambda>_. serve K fd) ()) (\<lambda>r w'. r \<noteq> Undef \<longrightarrow>
     (\<exists>d. trace w' = trace w @ d \<and> answering sz d)) w"
proof (rule wp_server [where J = "\<lambda>_. True" and L = "\<lambda>_. answered sz" and
      P = "\<lambda>_ d r. if is_ok r then answered sz d else r = Exit 1 \<and> answering sz d"])
  show "wp (serve K fd) (\<lambda>r w'. r \<noteq> Undef \<longrightarrow> (\<exists>e. trace w' = trace w @ e \<and>
      (if is_ok r then answered sz e else r = Exit 1 \<and> answering sz e))) w" for w :: "'k world"
    by (rule answers_one [OF assms])
qed (auto simp: answered_def answering_def)

end

interpretation ud_serve: ucase_server ud_serve ud_BUFFER_SIZE
proof
  show "wp (ud_serve K fd) (\<lambda>r w'. r \<noteq> Undef \<longrightarrow> (\<exists>d. trace w' = trace w @ d \<and>
      (if is_ok r then answered ud_BUFFER_SIZE d else r = Exit 1 \<and> answering ud_BUFFER_SIZE d))) w"
    if "posix K" for K :: "'a os" and fd w
    using that unfolding ud_serve_def
    by (auto intro!: wp_tr split: sockaddr.splits simp: answered_def answering_def upper_def transfer_ok_def)
qed

interpretation i6d_serve: ucase_server i6d_serve i6d_BUFFER_SIZE
proof
  show "wp (i6d_serve K fd) (\<lambda>r w'. r \<noteq> Undef \<longrightarrow> (\<exists>d. trace w' = trace w @ d \<and>
      (if is_ok r then answered i6d_BUFFER_SIZE d else r = Exit 1 \<and> answering i6d_BUFFER_SIZE d))) w"
    if "posix K" for K :: "'a os" and fd w
    using that unfolding i6d_serve_def
    by (auto intro!: wp_tr simp: answered_def answering_def upper_def transfer_ok_def)
qed

section \<open>Properties\<close>

lemma wp_ucase_servers:
  assumes "posix K"
  shows "wp (ud_server_main fuel K a argv)
       (\<lambda>r w'. r \<noteq> Undef \<longrightarrow> (\<exists>d. trace w' = trace w @ d \<and> answering 10 d)) w \<and>
     wp (i6d_server_main fuel K argv)
       (\<lambda>r w'. r \<noteq> Undef \<longrightarrow> (\<exists>d. trace w' = trace w @ d \<and> answering 10 d)) w"
proof
  show "wp (ud_server_main fuel K a argv)
       (\<lambda>r w'. r \<noteq> Undef \<longrightarrow> (\<exists>d. trace w' = trace w @ d \<and> answering 10 d)) w"
    unfolding ud_server_main_def using assms
    by (auto intro!: wp_tr wp_mono [OF ud_serve.answers_all [OF assms]]
        simp: ud_SERVER_SOCKET_PATH_def SUN_PATH_SIZE_def answering_def ud_BUFFER_SIZE_def)
  show "wp (i6d_server_main fuel K argv)
       (\<lambda>r w'. r \<noteq> Undef \<longrightarrow> (\<exists>d. trace w' = trace w @ d \<and> answering 10 d)) w"
    unfolding i6d_server_main_def using assms
    by (auto intro!: wp_tr wp_mono [OF i6d_serve.answers_all [OF assms]] simp: answering_def i6d_BUFFER_SIZE_def)
qed

text \<open>
  C24. Both datagram servers answer every datagram they receive, in order, to its sender,
  with its text in upper case (of which they read at most the ten bytes of their
  buffer); only the last one may be unanswered, when sending its answer fails and the
  server ends. This holds for every number of iterations and every behaviour of the
  system, except that the UNIX domain server is undefined on a client without a name.
\<close>

theorem ucase_servers_answer:
  assumes "posix K"
  shows "wp (ud_server_main fuel K a argv)
       (\<lambda>r w'. r \<noteq> Undef \<longrightarrow> (\<exists>d. trace w' = trace w @ d \<and> answering 10 d)) w \<and>
     wp (i6d_server_main fuel K argv)
       (\<lambda>r w'. r \<noteq> Undef \<longrightarrow> (\<exists>d. trace w' = trace w @ d \<and> answering 10 d)) w"
  using assms by (rule wp_ucase_servers)

definition ud_script :: "sysret list" where
  "ud_script = [returns 3, returns 0, returns 0,
     (gives ''hello'')\<lparr>raddr := AddrUn ''/tmp/c''\<rparr>, returns 5, fails_with 4]"

theorem ucase_servers_answer_witness:
  "\<exists>d. trace (snd (run_state (ud_server_main 9 script_os 0 []) (start ud_script))) = d \<and>
     sent d = [(AddrUn ''/tmp/c'', ''HELLO'')] \<and> answering 10 d"
proof -
  let ?run = "run_state (ud_server_main 9 script_os 0 []) (start ud_script)"
  have "fst ?run = Exit 1" by code_simp
  moreover have "sent (trace (snd ?run)) = [(AddrUn ''/tmp/c'', ''HELLO'')]" by code_simp
  ultimately show ?thesis
    using ucase_servers_answer [OF script_posix, THEN conjunct1, THEN wp_run, of 9 0 "[]" "start ud_script"]
    by (simp add: start_def)
qed

end
