(* ===== verification/Lpi_Library.thy ===== *)
theory Lpi_Library
  imports Unix_Calls
begin

text \<open>
  The library of the repository: the error reporting functions of \<open>src/Error.c\<close>, the
  permission string of \<open>src/FilePerms.c\<close>, the signal set printers of
  \<open>src/SignalFunctions.c\<close> and the macros of \<open>include/lpi/Math.h\<close>. A variadic function
  takes the text that \<open>vfprintf\<close> makes of its format and arguments.
\<close>

section \<open>src/Error.c\<close>

datatype ExitType = EXIT_NORMAL | EXIT_IMMEDIATE

definition terminate :: "'k os \<Rightarrow> ExitType \<Rightarrow> ('k, 'a) cmd" where
  "terminate K exitType = do {
     s \<leftarrow> sys K (Proc (Getenv ''EF_DUMPCORE''));
     if ret s \<noteq> 0 \<and> 0 < length (cstr (rdata s)) then halt Abort
     else case exitType of
            EXIT_NORMAL \<Rightarrow> halt (Exit EXIT_FAILURE)
          | _ \<Rightarrow> halt (ExitNow EXIT_FAILURE) }"

definition printErrorMsg :: "'k os \<Rightarrow> int \<Rightarrow> string \<Rightarrow> ('k world, unit) state" where
  "printErrorMsg K error text = do {
     eprintf K (strerror K error @ '': '');
     eprintf K text;
     eprintf K nl;
     sys K (Stdio (Fflush 2));
     State_Monad.return () }"

definition errorMsg :: "'k os \<Rightarrow> string \<Rightarrow> ('k, unit) cmd" where
  "errorMsg K text = do {
     savedErrno \<leftarrow> get_errno;
     printErrorMsg K savedErrno text;
     sys K (Stdio (Fflush 1));
     set_errno savedErrno;
     ok () }"

definition errorExit :: "'k os \<Rightarrow> string \<Rightarrow> ('k, 'a) cmd" where
  "errorExit K text = do {
     e \<leftarrow> get_errno;
     printErrorMsg K e text;
     sys K (Stdio (Fflush 1));
     terminate K EXIT_NORMAL }"

definition errorNumExit :: "'k os \<Rightarrow> int \<Rightarrow> string \<Rightarrow> ('k, 'a) cmd" where
  "errorNumExit K errorNum text = do {
     printErrorMsg K errorNum text;
     sys K (Stdio (Fflush 1));
     terminate K EXIT_NORMAL }"

definition errorExitImmediate :: "'k os \<Rightarrow> string \<Rightarrow> ('k, 'a) cmd" where
  "errorExitImmediate K text = do {
     e \<leftarrow> get_errno;
     printErrorMsg K e text;
     sys K (Stdio (Fflush 1));
     terminate K EXIT_IMMEDIATE }"

definition fatal :: "'k os \<Rightarrow> string \<Rightarrow> ('k, 'a) cmd" where
  "fatal K text = do {
     eprintf K text;
     eprintf K nl;
     sys K (Stdio (Fflush 2));
     sys K (Stdio (Fflush 1));
     terminate K EXIT_NORMAL }"

definition usageError :: "'k os \<Rightarrow> string \<Rightarrow> ('k, 'a) cmd" where
  "usageError K text = do {
     eprintf K ''Usage: '';
     eprintf K text;
     sys K (Stdio (Fflush 2));
     sys K (Stdio (Fflush 1));
     halt (Exit EXIT_FAILURE) }"

definition cmdlineError :: "'k os \<Rightarrow> string \<Rightarrow> ('k, 'a) cmd" where
  "cmdlineError K text = do {
     eprintf K ''Command-line usage error: '';
     eprintf K text;
     sys K (Stdio (Fflush 2));
     sys K (Stdio (Fflush 1));
     halt (Exit EXIT_FAILURE) }"

section \<open>src/FilePerms.c\<close>

definition FILE_PERM_STR_SIZE :: nat where "FILE_PERM_STR_SIZE = length ''rwxrwxrwx'' + 1"

definition filePermStr :: "32 word \<Rightarrow> string" where
  "filePermStr perm = snprintf FILE_PERM_STR_SIZE
     [if perm AND S_IRUSR \<noteq> 0 then CHR ''r'' else CHR ''-'',
      if perm AND S_IWUSR \<noteq> 0 then CHR ''w'' else CHR ''-'',
      if perm AND S_IXUSR \<noteq> 0 then (if perm AND S_ISUID \<noteq> 0 then CHR ''s'' else CHR ''x'')
                              else (if perm AND S_ISUID \<noteq> 0 then CHR ''S'' else CHR ''-''),
      if perm AND S_IRGRP \<noteq> 0 then CHR ''r'' else CHR ''-'',
      if perm AND S_IWGRP \<noteq> 0 then CHR ''w'' else CHR ''-'',
      if perm AND S_IXGRP \<noteq> 0 then (if perm AND S_ISGID \<noteq> 0 then CHR ''s'' else CHR ''x'')
                              else (if perm AND S_ISGID \<noteq> 0 then CHR ''S'' else CHR ''-''),
      if perm AND S_IROTH \<noteq> 0 then CHR ''r'' else CHR ''-'',
      if perm AND S_IWOTH \<noteq> 0 then CHR ''w'' else CHR ''-'',
      if perm AND S_IXOTH \<noteq> 0 then (if perm AND S_ISVTX \<noteq> 0 then CHR ''t'' else CHR ''x'')
                              else (if perm AND S_ISVTX \<noteq> 0 then CHR ''T'' else CHR ''-'')]"

section \<open>src/SignalFunctions.c\<close>

text \<open>A signal set is the bit mask the kernel uses: signal \<open>n\<close> is bit \<open>n - 1\<close>.\<close>

type_synonym sigset = "64 word"

definition sigismember :: "sigset \<Rightarrow> int \<Rightarrow> int" where
  "sigismember S sig = (if sig < 1 \<or> NSIG \<le> sig then -1 else if bit S (nat (sig - 1)) then 1 else 0)"

definition printSigSet :: "'k os \<Rightarrow> int \<Rightarrow> string \<Rightarrow> sigset \<Rightarrow> ('k, unit) cmd" where
  "printSigSet K file prefix sigSet =
     bind_res
       (fold_each [1..NSIG - 1]
          (\<lambda>sig count.
             if sigismember sigSet sig = 1
             then do {
               sys K (Stdio (Fprintf file (prefix @ dec sig @ '' ('' @ strsignal K sig @ '')'' @ nl)));
               ok (count + 1) }
             else ok count) (0 :: int))
       (\<lambda>count.
          if count = 0
          then do { sys K (Stdio (Fprintf file (prefix @ ''<empty signal set>'' @ nl))); ok () }
          else ok ())"

definition SIG_BLOCK :: int where "SIG_BLOCK = 0"
definition SIG_SETMASK :: int where "SIG_SETMASK = 2"

definition printSigMask :: "'k os \<Rightarrow> int \<Rightarrow> string option \<Rightarrow> ('k, int) cmd" where
  "printSigMask K file msg = do {
     (case msg of Some m \<Rightarrow> do { sys K (Stdio (Fprintf file m)); State_Monad.return () }
                | None \<Rightarrow> State_Monad.return ());
     r \<leftarrow> sys K (Proc (Sigprocmask SIG_BLOCK None));
     if ret r = -1 then ok (-1)
     else bind_res (printSigSet K file (tab @ tab) (word_of_int (rnum 0 r))) (\<lambda>_. ok 0) }"

definition printPendingSigs :: "'k os \<Rightarrow> int \<Rightarrow> string option \<Rightarrow> ('k, int) cmd" where
  "printPendingSigs K file msg = do {
     (case msg of Some m \<Rightarrow> do { sys K (Stdio (Fprintf file m)); State_Monad.return () }
                | None \<Rightarrow> State_Monad.return ());
     r \<leftarrow> sys K (Proc Sigpending);
     if ret r = -1 then ok (-1)
     else bind_res (printSigSet K file (tab @ tab) (word_of_int (rnum 0 r))) (\<lambda>_. ok 0) }"

section \<open>include/lpi/Math.h\<close>

definition lpi_min :: "int \<Rightarrow> int \<Rightarrow> int" where "lpi_min m n = (if m < n then m else n)"
definition lpi_max :: "int \<Rightarrow> int \<Rightarrow> int" where "lpi_max m n = (if m > n then m else n)"

section \<open>Reference definitions\<close>

text \<open>The twelve mode bits that a permission string in the style of \<open>ls -l\<close> shows.\<close>

definition perm_of_str :: "string \<Rightarrow> 32 word" where
  "perm_of_str s =
     (if s ! 0 = CHR ''r'' then S_IRUSR else 0) OR (if s ! 1 = CHR ''w'' then S_IWUSR else 0) OR
     (if s ! 2 \<in> {CHR ''x'', CHR ''s''} then S_IXUSR else 0) OR
     (if s ! 2 \<in> {CHR ''s'', CHR ''S''} then S_ISUID else 0) OR
     (if s ! 3 = CHR ''r'' then S_IRGRP else 0) OR (if s ! 4 = CHR ''w'' then S_IWGRP else 0) OR
     (if s ! 5 \<in> {CHR ''x'', CHR ''s''} then S_IXGRP else 0) OR
     (if s ! 5 \<in> {CHR ''s'', CHR ''S''} then S_ISGID else 0) OR
     (if s ! 6 = CHR ''r'' then S_IROTH else 0) OR (if s ! 7 = CHR ''w'' then S_IWOTH else 0) OR
     (if s ! 8 \<in> {CHR ''x'', CHR ''t''} then S_IXOTH else 0) OR
     (if s ! 8 \<in> {CHR ''t'', CHR ''T''} then S_ISVTX else 0)"

definition sig_line :: "'k os \<Rightarrow> string \<Rightarrow> int \<Rightarrow> string" where
  "sig_line K prefix sig = prefix @ dec sig @ '' ('' @ strsignal K sig @ '')'' @ nl"

text \<open>The text that a signal set prints as: a line for each member, in increasing order,
  or one line for the empty set.\<close>

definition sigset_text :: "'k os \<Rightarrow> string \<Rightarrow> sigset \<Rightarrow> string" where
  "sigset_text K prefix S =
     (let sigs = filter (\<lambda>sig. sigismember S sig = 1) [1..NSIG - 1]
      in if sigs = [] then prefix @ ''<empty signal set>'' @ nl
         else concat (map (sig_line K prefix) sigs))"

text \<open>How \<open>terminate\<close> ends the process, given the answer to \<open>getenv\<close>.\<close>

definition dumps_core :: "sysret \<Rightarrow> bool" where
  "dumps_core s \<longleftrightarrow> ret s \<noteq> 0 \<and> cstr (rdata s) \<noteq> []"

section \<open>Properties\<close>

lemma and_bit_mask:
  fixes p :: "32 word"
  shows "(if p AND 2 ^ n \<noteq> 0 then 2 ^ n else 0) = p AND 2 ^ n"
  by (rule bit_word_eqI) (auto simp: and_exp_eq_0_iff_not_bit bit_and_iff bit_exp_iff)

lemma perm_shown:
  "perm_of_str
     [if ur then CHR ''r'' else CHR ''-'', if uw then CHR ''w'' else CHR ''-'',
      if ux then (if us then CHR ''s'' else CHR ''x'') else (if us then CHR ''S'' else CHR ''-''),
      if gr then CHR ''r'' else CHR ''-'', if gw then CHR ''w'' else CHR ''-'',
      if gx then (if gs then CHR ''s'' else CHR ''x'') else (if gs then CHR ''S'' else CHR ''-''),
      if r then CHR ''r'' else CHR ''-'', if w then CHR ''w'' else CHR ''-'',
      if x then (if t then CHR ''t'' else CHR ''x'') else (if t then CHR ''T'' else CHR ''-'')] =
     (if ur then S_IRUSR else 0) OR (if uw then S_IWUSR else 0) OR (if ux then S_IXUSR else 0) OR (if us then S_ISUID else 0) OR
     (if gr then S_IRGRP else 0) OR (if gw then S_IWGRP else 0) OR (if gx then S_IXGRP else 0) OR (if gs then S_ISGID else 0) OR
     (if r then S_IROTH else 0) OR (if w then S_IWOTH else 0) OR (if x then S_IXOTH else 0) OR (if t then S_ISVTX else 0)"
proof -
  have rw: "(if (if b then c else CHR ''-'') = c then m else 0) = (if b then m else 0)"
    if "c \<noteq> CHR ''-''" for b c and m :: "32 word"
    using that by simp
  have x: "(if (if a then (if b then c else e) else (if b then f else CHR ''-'')) \<in> {e, c} then m else 0) = (if a then m else 0)"
      "(if (if a then (if b then c else e) else (if b then f else CHR ''-'')) \<in> {c, f} then m else 0) = (if b then m else 0)"
    if "c \<noteq> e" "c \<noteq> f" "e \<noteq> f" "c \<noteq> CHR ''-''" "e \<noteq> CHR ''-''" "f \<noteq> CHR ''-''" for a b c e f and m :: "32 word"
    using that by auto
  show ?thesis
    unfolding perm_of_str_def by (simp add: rw x del: insert_iff split del: if_split)
qed

lemma perm_mask: "m = 2 ^ n \<Longrightarrow> (if perm AND m \<noteq> 0 then m else 0) = perm AND (m :: 32 word)"
  by (simp only: and_bit_mask)

lemma perm_masks:
  "(if perm AND S_IRUSR \<noteq> 0 then S_IRUSR else 0) = perm AND S_IRUSR"
  "(if perm AND S_IWUSR \<noteq> 0 then S_IWUSR else 0) = perm AND S_IWUSR"
  "(if perm AND S_IXUSR \<noteq> 0 then S_IXUSR else 0) = perm AND S_IXUSR"
  "(if perm AND S_ISUID \<noteq> 0 then S_ISUID else 0) = perm AND S_ISUID"
  "(if perm AND S_IRGRP \<noteq> 0 then S_IRGRP else 0) = perm AND S_IRGRP"
  "(if perm AND S_IWGRP \<noteq> 0 then S_IWGRP else 0) = perm AND S_IWGRP"
  "(if perm AND S_IXGRP \<noteq> 0 then S_IXGRP else 0) = perm AND S_IXGRP"
  "(if perm AND S_ISGID \<noteq> 0 then S_ISGID else 0) = perm AND S_ISGID"
  "(if perm AND S_IROTH \<noteq> 0 then S_IROTH else 0) = perm AND S_IROTH"
  "(if perm AND S_IWOTH \<noteq> 0 then S_IWOTH else 0) = perm AND S_IWOTH"
  "(if perm AND S_IXOTH \<noteq> 0 then S_IXOTH else 0) = perm AND S_IXOTH"
  "(if perm AND S_ISVTX \<noteq> 0 then S_ISVTX else 0) = perm AND S_ISVTX"
  by (rule perm_mask [of _ 8], simp add: S_IRUSR_def, rule perm_mask [of _ 7], simp add: S_IWUSR_def,
      rule perm_mask [of _ 6], simp add: S_IXUSR_def, rule perm_mask [of _ 11], simp add: S_ISUID_def,
      rule perm_mask [of _ 5], simp add: S_IRGRP_def, rule perm_mask [of _ 4], simp add: S_IWGRP_def,
      rule perm_mask [of _ 3], simp add: S_IXGRP_def, rule perm_mask [of _ 10], simp add: S_ISGID_def,
      rule perm_mask [of _ 2], simp add: S_IROTH_def, rule perm_mask [of _ 1], simp add: S_IWOTH_def,
      rule perm_mask [of _ 0], simp add: S_IXOTH_def, rule perm_mask [of _ 9], simp add: S_ISVTX_def)

text \<open>
  C28. The string \<open>filePermStr\<close> returns has nine characters and shows all twelve mode
  bits: reading it back gives the permission, set-user-ID, set-group-ID and sticky bits
  of its argument, whatever the file type bits are.
\<close>

theorem filePermStr_roundtrip:
  "length (filePermStr perm) = 9 \<and> perm_of_str (filePermStr perm) = perm AND 0xFFF"
proof -
  have "perm_of_str (filePermStr perm) =
     (if perm AND S_IRUSR \<noteq> 0 then S_IRUSR else 0) OR
     (if perm AND S_IWUSR \<noteq> 0 then S_IWUSR else 0) OR
     (if perm AND S_IXUSR \<noteq> 0 then S_IXUSR else 0) OR
     (if perm AND S_ISUID \<noteq> 0 then S_ISUID else 0) OR
     (if perm AND S_IRGRP \<noteq> 0 then S_IRGRP else 0) OR
     (if perm AND S_IWGRP \<noteq> 0 then S_IWGRP else 0) OR
     (if perm AND S_IXGRP \<noteq> 0 then S_IXGRP else 0) OR
     (if perm AND S_ISGID \<noteq> 0 then S_ISGID else 0) OR
     (if perm AND S_IROTH \<noteq> 0 then S_IROTH else 0) OR
     (if perm AND S_IWOTH \<noteq> 0 then S_IWOTH else 0) OR
     (if perm AND S_IXOTH \<noteq> 0 then S_IXOTH else 0) OR
     (if perm AND S_ISVTX \<noteq> 0 then S_ISVTX else 0)"
    unfolding perm_shown [symmetric] by (simp add: filePermStr_def snprintf_def FILE_PERM_STR_SIZE_def)
  also have "\<dots> =
     perm AND S_IRUSR OR perm AND S_IWUSR OR perm AND S_IXUSR OR perm AND S_ISUID OR
     perm AND S_IRGRP OR perm AND S_IWGRP OR perm AND S_IXGRP OR perm AND S_ISGID OR
     perm AND S_IROTH OR perm AND S_IWOTH OR perm AND S_IXOTH OR perm AND S_ISVTX"
    by (simp only: perm_masks)
  also have "\<dots> = perm AND (S_IRUSR OR S_IWUSR OR S_IXUSR OR S_ISUID OR S_IRGRP OR S_IWGRP OR
      S_IXGRP OR S_ISGID OR S_IROTH OR S_IWOTH OR S_IXOTH OR S_ISVTX)"
    by (simp only: bit.conj_disj_distrib)
  also have "S_IRUSR OR S_IWUSR OR S_IXUSR OR S_ISUID OR S_IRGRP OR S_IWGRP OR
      S_IXGRP OR S_ISGID OR S_IROTH OR S_IWOTH OR S_IXOTH OR S_ISVTX = 0xFFF"
    by (simp add: S_IRUSR_def S_IWUSR_def S_IXUSR_def S_ISUID_def S_IRGRP_def S_IWGRP_def
        S_IXGRP_def S_ISGID_def S_IROTH_def S_IWOTH_def S_IXOTH_def S_ISVTX_def)
  finally show ?thesis
    by (simp add: filePermStr_def snprintf_def FILE_PERM_STR_SIZE_def)
qed

text \<open>The error functions, as the text they print and the way they end.\<close>

lemma wp_printErrorMsg:
  assumes "\<And>w'. printed 2 (trace w') = printed 2 (trace w) @ strerror K e @ '': '' @ text @ nl \<Longrightarrow> Q () w'"
  shows "wp (printErrorMsg K e text) Q w"
  unfolding printErrorMsg_def
  by (simp, intro wp_eprintf wp_sys_any assms) simp

text \<open>
  \<open>errorMsg\<close> returns with the value of \<open>errno\<close> it was called with, whatever the
  stdio calls it makes do to \<open>errno\<close>, and prints the message of that value.
\<close>

theorem errorMsg_keeps_errno:
  "run_state (errorMsg K text) w = (r, w') \<Longrightarrow>
   r = Ok () \<and> errno w' = errno w \<and>
   printed 2 (trace w') = printed 2 (trace w) @ strerror K (errno w) @ '': '' @ text @ nl"
  by (erule wpD [rotated]) (simp add: errorMsg_def, intro wp_printErrorMsg wp_sys_any, simp)

theorem errorMsg_keeps_errno_witness:
  "errno (snd (run_state (errorMsg script_os ''x'')
     (\<lparr>kern = [fails_with 5, fails_with 9], errno = 2, trace = []\<rparr>))) = 2"
  using errorMsg_keeps_errno [of script_os "''x''" _ "fst (run_state (errorMsg script_os ''x'')
     (\<lparr>kern = [fails_with 5, fails_with 9], errno = 2, trace = []\<rparr>))"
     "snd (run_state (errorMsg script_os ''x'')
     (\<lparr>kern = [fails_with 5, fails_with 9], errno = 2, trace = []\<rparr>))"] by simp

text \<open>A function that ends the process by \<open>terminate\<close>, having printed a text.\<close>

definition ends_with :: "'a res \<Rightarrow> string \<Rightarrow> 'k world \<Rightarrow> 'a res \<Rightarrow> 'k world \<Rightarrow> bool" where
  "ends_with final text w r w' \<longleftrightarrow>
     printed 2 (trace w') = printed 2 (trace w) @ text \<and>
     (\<exists>s. last (trace w') = (Proc (Getenv ''EF_DUMPCORE''), s) \<and>
          r = (if dumps_core s then Abort else final))"

lemma wp_terminate:
  "printed 2 (trace w) = printed 2 (trace w0) @ text \<Longrightarrow>
   wp (terminate K t)
      (ends_with (case t of EXIT_NORMAL \<Rightarrow> Exit EXIT_FAILURE | _ \<Rightarrow> ExitNow EXIT_FAILURE) text w0) w"
  unfolding terminate_def ends_with_def dumps_core_def
  by (simp, rule wp_sys_any) (auto split: ExitType.split)

text \<open>
  C38. The four fatal error functions never return to their caller: they print their
  message (with the text of the error number where they take one), consult
  \<open>EF_DUMPCORE\<close> as their last call, and abort if it is set to a non-empty string; else
  \<open>errorExit\<close>, \<open>errorNumExit\<close> and \<open>fatal\<close> exit with status 1 and
  \<open>errorExitImmediate\<close> leaves by \<open>_exit\<close> with status 1.
\<close>

theorem error_functions_end:
  "wp (errorExit K text) (ends_with (Exit 1) (strerror K (errno w) @ '': '' @ text @ nl) w) w \<and>
   wp (errorNumExit K e text) (ends_with (Exit 1) (strerror K e @ '': '' @ text @ nl) w) w \<and>
   wp (errorExitImmediate K text) (ends_with (ExitNow 1) (strerror K (errno w) @ '': '' @ text @ nl) w) w \<and>
   wp (fatal K text) (ends_with (Exit 1) (text @ nl) w) w"
proof (intro conjI)
  note end_normal = wp_terminate [of _ w _ _ EXIT_NORMAL, simplified]
  note end_now = wp_terminate [of _ w _ _ EXIT_IMMEDIATE, simplified]
  show "wp (errorExit K text) (ends_with (Exit 1) (strerror K (errno w) @ '': '' @ text @ nl) w) w"
    unfolding errorExit_def
    by (simp, intro wp_printErrorMsg wp_sys_any, rule end_normal) simp
  show "wp (errorNumExit K e text) (ends_with (Exit 1) (strerror K e @ '': '' @ text @ nl) w) w"
    unfolding errorNumExit_def
    by (simp, intro wp_printErrorMsg wp_sys_any, rule end_normal) simp
  show "wp (errorExitImmediate K text) (ends_with (ExitNow 1) (strerror K (errno w) @ '': '' @ text @ nl) w) w"
    unfolding errorExitImmediate_def
    by (simp, intro wp_printErrorMsg wp_sys_any, rule end_now) simp
  show "wp (fatal K text) (ends_with (Exit 1) (text @ nl) w) w"
    unfolding fatal_def
    by (simp, intro wp_eprintf wp_sys_any, rule end_normal) simp
qed

lemma wp_printSigSet_loop:
  "wp (fold_each sigs
          (\<lambda>sig count.
             if sigismember S sig = 1
             then do { sys K (Stdio (Fprintf file (sig_line K prefix sig))); ok (count + 1) }
             else ok count) (0 :: int))
      (\<lambda>r w'. r = Ok (int (length (filter (\<lambda>sig. sigismember S sig = 1) sigs))) \<and>
              printed file (trace w') = printed file (trace w) @
                concat (map (sig_line K prefix) (filter (\<lambda>sig. sigismember S sig = 1) sigs))) w"
  by (rule wp_fold_each [where I = "\<lambda>done count w'.
              count = int (length (filter (\<lambda>sig. sigismember S sig = 1) done)) \<and>
              printed file (trace w') = printed file (trace w) @
                concat (map (sig_line K prefix) (filter (\<lambda>sig. sigismember S sig = 1) done))"])
     (auto intro!: wp_sys_any)

text \<open>
  C39. \<open>printSigSet\<close> prints a line for every member of the set, in increasing order of
  the signal numbers 1 to 64, and the line for the empty set exactly if it has none.
\<close>

theorem printSigSet_text:
  "wp (printSigSet K file prefix S)
      (\<lambda>r w'. r = Ok () \<and> printed file (trace w') = printed file (trace w) @ sigset_text K prefix S) w"
  unfolding printSigSet_def wp_bind_res sig_line_def [symmetric]
  by (rule wp_mono [OF wp_printSigSet_loop])
     (auto simp: sigset_text_def Let_def filter_empty_conv intro!: wp_sys_any)

end
