(* ===== verification/Transfers.thy ===== *)
theory Transfers
  imports Lpi_Library
begin

text \<open>
  The loop that several programs share: read a chunk, write it out, until end of file.
  The interface \<open>chunk_writer\<close> is what the loop needs of the code that writes one chunk;
  the lemmas inside it say what the whole loop then does. \<open>copy.c\<close>, \<open>simple_pipe.c\<close> and
  \<open>us_xfr_sv.c\<close> provide instances.
\<close>

section \<open>Runs of the system\<close>

text \<open>The events are a run of the system from one state to another.\<close>

primrec runs :: "'k os \<Rightarrow> 'k \<Rightarrow> event list \<Rightarrow> 'k \<Rightarrow> bool" where
  "runs K k [] k' = (k' = k)"
| "runs K k (e # tr) k' =
     (snd (step K k (fst e)) = snd e \<and> runs K (fst (step K k (fst e))) tr k')"

lemma runs_append:
  "runs K k (tr @ tr') k' \<longleftrightarrow> (\<exists>k1. runs K k tr k1 \<and> runs K k1 tr' k')"
  by (induction tr arbitrary: k) auto

section \<open>What a file, a pipe or a stream socket does\<close>

text \<open>
  \<open>rem k\<close> is what is still to be read from \<open>fd\<close>: a read delivers a prefix of it, not
  empty as long as something is left, and nothing else consumes it.
\<close>

definition serves :: "'k os \<Rightarrow> int \<Rightarrow> ('k \<Rightarrow> string) \<Rightarrow> bool" where
  "serves K fd rem \<longleftrightarrow>
     (\<forall>k n. 0 < n \<longrightarrow> (\<exists>m. m \<le> n \<and> m \<le> length (rem k) \<and> (rem k \<noteq> [] \<longrightarrow> 0 < m) \<and>
        ret (snd (step K k (File (Read fd n)))) = int m \<and>
        rdata (snd (step K k (File (Read fd n)))) = take m (rem k) \<and>
        rem (fst (step K k (File (Read fd n)))) = drop m (rem k))) \<and>
     (\<forall>k c. (\<forall>n. c \<noteq> File (Read fd n)) \<longrightarrow> rem (fst (step K k c)) = rem k)"

text \<open>Every write to \<open>fd\<close> takes all the bytes it is given.\<close>

definition takes_all :: "'k os \<Rightarrow> int \<Rightarrow> bool" where
  "takes_all K fd \<longleftrightarrow> (\<forall>k bs. ret (snd (step K k (File (Write fd bs)))) = int (length bs))"

lemma take_prefix: "\<exists>rest. bs = take n bs @ rest"
  by (metis append_take_drop_id)

lemma servesD_other:
  "serves K fd rem \<Longrightarrow> step K k c = (k', r) \<Longrightarrow> (\<And>n. c \<noteq> File (Read fd n)) \<Longrightarrow> rem k' = rem k"
  unfolding serves_def by (metis fst_conv)

lemma servesD_read:
  assumes "serves K fd rem" "step K k (File (Read fd n)) = (k', r)" "0 < n"
  obtains m where "m \<le> n" "m \<le> length (rem k)" "rem k \<noteq> [] \<Longrightarrow> 0 < m" "ret r = int m"
    "rdata r = take m (rem k)" "rem k' = drop m (rem k)"
  using assms unfolding serves_def by (metis fst_conv snd_conv)

lemma takes_allD: "takes_all K fd \<Longrightarrow> step K k (File (Write fd bs)) = (k', r) \<Longrightarrow> ret r = int (length bs)"
  unfolding takes_all_def by (metis snd_conv)

section \<open>The interface\<close>

text \<open>Events of a transfer from \<open>i\<close> to \<open>out\<close>: reads, writes and messages.\<close>

fun transfer_event :: "int \<Rightarrow> int \<Rightarrow> event \<Rightarrow> bool" where
  "transfer_event i out (File (Read d n), r) = (d = i)"
| "transfer_event i out (File (Write d bs), r) = (d = out)"
| "transfer_event i out (Stdio (Fprintf d s), r) = (d = 2)"
| "transfer_event i out _ = False"

text \<open>How a transfer with reads of size \<open>sz\<close> ended, given its events: the loop stopped
  at end of file or at a failed read with everything written, or a write failed and a
  prefix was written.\<close>

definition pumped :: "int \<Rightarrow> nat \<Rightarrow> int \<Rightarrow> int res \<Rightarrow> event list \<Rightarrow> bool" where
  "pumped i sz out r d \<longleftrightarrow>
     list_all (transfer_event i out) d \<and>
     (case r of
        Ok n \<Rightarrow> written out d = bytes_read i d \<and> d \<noteq> [] \<and> fst (last d) = File (Read i sz) \<and>
                ret (snd (last d)) = n \<and> (n = 0 \<or> n = -1)
      | Exit n \<Rightarrow> n = 1 \<and> (\<exists>rest. bytes_read i d = written out d @ rest)
      | Hang \<Rightarrow> written out d = bytes_read i d
      | _ \<Rightarrow> False)"

text \<open>The loop stopped at end of file, with all that there was to read written.\<close>

definition drained :: "int \<Rightarrow> int \<Rightarrow> ('k \<Rightarrow> string) \<Rightarrow> 'k world \<Rightarrow> int res \<Rightarrow> 'k world \<Rightarrow> bool" where
  "drained i out rem w r w' \<longleftrightarrow>
     r = Ok 0 \<and> rem (kern w') = [] \<and>
     written out (trace w') = written out (trace w) @ rem (kern w) \<and>
     (\<exists>d. trace w' = trace w @ d \<and> list_all (transfer_event i out) d)"

text \<open>Writing a chunk is one write of exactly the chunk; if it is not taken whole, a
  message and exit status 1.\<close>

locale chunk_writer =
  fixes chunk :: "'k os \<Rightarrow> int \<Rightarrow> string \<Rightarrow> ('k, unit) cmd"
  assumes one_write:
    "\<lbrakk>\<And>w' a. runs K (kern w) [(File (Write out bs), a)] (kern w') \<Longrightarrow>
        trace w' = trace w @ [(File (Write out bs), a)] \<Longrightarrow> ret a = int (length bs) \<Longrightarrow> Q (Ok ()) w';
      \<And>w' a s p. runs K (kern w) [(File (Write out bs), a), (Stdio (Fprintf 2 s), p)] (kern w') \<Longrightarrow>
        trace w' = trace w @ [(File (Write out bs), a), (Stdio (Fprintf 2 s), p)] \<Longrightarrow>
        ret a \<noteq> int (length bs) \<Longrightarrow> Q (Exit 1) w'\<rbrakk> \<Longrightarrow>
     wp (chunk K out bs) Q w"
begin

abbreviation pump :: "nat \<Rightarrow> 'k os \<Rightarrow> int \<Rightarrow> nat \<Rightarrow> int \<Rightarrow> ('k, int) cmd" where
  "pump fuel K i sz out \<equiv> read_loop fuel K i sz (chunk K out)"

text \<open>Whatever the system does: if the loop ends, every byte read has been written, in
  order; if a write fails, the program ends with status 1.\<close>

lemma pump_faithful:
  assumes "posix K"
  shows "wp (pump fuel K i sz out) (\<lambda>r w'. \<exists>d. trace w' = trace w @ d \<and> pumped i sz out r d) w"
  by (rule wp_read_loop [OF assms, where I = "\<lambda>w'. \<exists>d. trace w' = trace w @ d \<and>
           list_all (transfer_event i out) d \<and> written out d = bytes_read i d"])
     (auto intro!: one_write simp: pumped_def intro: take_prefix)

lemma wp_pump:
  assumes "posix K"
    and "\<And>w' d. trace w' = trace w @ d \<Longrightarrow> pumped i sz out (Ok 0) d \<Longrightarrow> Q (Ok 0) w'"
    and "\<And>w' d. trace w' = trace w @ d \<Longrightarrow> pumped i sz out (Ok (-1)) d \<Longrightarrow> Q (Ok (-1)) w'"
    and "\<And>w' d. trace w' = trace w @ d \<Longrightarrow> pumped i sz out (Exit 1) d \<Longrightarrow> Q (Exit 1) w'"
    and "\<And>w' d. trace w' = trace w @ d \<Longrightarrow> pumped i sz out Hang d \<Longrightarrow> Q Hang w'"
  shows "wp (pump fuel K i sz out) Q w"
  using assms(2-)
  by (intro wp_mono [OF pump_faithful [OF assms(1)]])
     (force simp: pumped_def split: res.splits)

text \<open>When the input delivers all it has and the output takes all it is given, the loop
  ends after at most one read per byte and one for end of file, and has copied
  everything.\<close>

lemma pump_complete:
  assumes "serves K i rem" "takes_all K out" "0 < sz" "length (rem (kern w)) < fuel"
  shows "wp (pump fuel K i sz out) (drained i out rem w) w"
  using assms(4)
proof (induction fuel arbitrary: w)
  case 0
  then show ?case by simp
next
  case (Suc fuel)
  show ?case
  proof (simp only: read_loop.simps wp_bind, rule wp_sys_step)
    fix r and w1 :: "'k world"
    assume st: "step K (kern w) (File (Read i sz)) = (kern w1, r)"
      and af: "after (File (Read i sz), r) w w1"
    from servesD_read [OF assms(1) st assms(3)] obtain m where
      m: "m \<le> length (rem (kern w))" "rem (kern w) \<noteq> [] \<Longrightarrow> 0 < m" "ret r = int m"
        "rdata r = take m (rem (kern w))" "rem (kern w1) = drop m (rem (kern w))" by blast
    let ?bs = "take m (rem (kern w))"
    have "wp (chunk K out ?bs) (and_then (\<lambda>_. wp (pump fuel K i sz out) (drained i out rem w)) (drained i out rem w)) w1"
      if "m \<noteq> 0"
    proof (rule one_write)
      fix w2 :: "'k world" and a
      assume run: "runs K (kern w1) [(File (Write out ?bs), a)] (kern w2)"
        and tr: "trace w2 = trace w1 @ [(File (Write out ?bs), a)]" and ra: "ret a = int (length ?bs)"
      from run have rem: "rem (kern w2) = drop m (rem (kern w))"
        using assms(1) m(5) unfolding serves_def by auto
      then have "length (rem (kern w2)) < fuel" using Suc.prems that m(1) by simp
      from Suc.IH [OF this] show "and_then (\<lambda>_. wp (pump fuel K i sz out) (drained i out rem w)) (drained i out rem w) (Ok ()) w2"
        using tr ra af rem m(1) by (auto elim!: wp_mono simp: drained_def min_def)
    qed (use assms(2) in \<open>auto simp: takes_all_def\<close>)
    with m af show "wp (if 0 < ret r
              then bind_res (chunk K out (take (nat (ret r)) (rdata r))) (\<lambda>_. pump fuel K i sz out)
              else ok (ret r)) (drained i out rem w) w1"
      by (cases "m = 0") (auto simp: drained_def)
  qed
qed

end

text \<open>The code the programs use: one write, its result compared with the length, and a
  message on standard error with or without the text of \<open>errno\<close>.\<close>

lemma chunk_writerI:
  assumes "\<And>K out bs. chunk K out bs = do {
      n \<leftarrow> call K (File (Write out bs));
      if n \<noteq> int (length bs) then die K (msg out bs) else ok () }"
  shows "chunk_writer chunk"
proof
  fix K :: "'a os" and w :: "'a world" and out bs and Q :: "unit res \<Rightarrow> 'a world \<Rightarrow> bool"
  assume ok: "\<And>w' a. runs K (kern w) [(File (Write out bs), a)] (kern w') \<Longrightarrow>
      trace w' = trace w @ [(File (Write out bs), a)] \<Longrightarrow> ret a = int (length bs) \<Longrightarrow> Q (Ok ()) w'"
    and bad: "\<And>w' a s p. runs K (kern w) [(File (Write out bs), a), (Stdio (Fprintf 2 s), p)] (kern w') \<Longrightarrow>
      trace w' = trace w @ [(File (Write out bs), a), (Stdio (Fprintf 2 s), p)] \<Longrightarrow>
      ret a \<noteq> int (length bs) \<Longrightarrow> Q (Exit 1) w'"
  show "wp (chunk K out bs) Q w"
    unfolding assms wp_bind
  proof (rule wp_call_step)
    fix r and w1 :: "'a world"
    assume "step K (kern w) (File (Write out bs)) = (kern w1, r)" "after (File (Write out bs), r) w w1"
    then show "wp (if ret r \<noteq> int (length bs) then die K (msg out bs) else ok ()) Q w1"
      by (auto simp: die_def eprintf_def intro!: wp_sys_step ok bad)
  qed
qed

lemma usage_as_die: "usage K msg = die K (\<lambda>_. msg)"
  unfolding usage_def die_def get_errno_def by (rule state_ext) simp

section \<open>A system with one input\<close>

text \<open>The system state is what is left to read from descriptor 3, delivered in chunks of
  at most five bytes; opening for reading gives descriptor 3, for writing 4, and every
  other call succeeds. It shows that the hypotheses above can hold.\<close>

fun feed_step :: "string \<Rightarrow> syscall \<Rightarrow> string \<times> sysret" where
  "feed_step k (File (Read fd n)) =
     (if fd = 3 then let m = min n (min 5 (length k)) in (drop m k, gives (take m k)) else (k, gives []))"
| "feed_step k (File (Write fd bs)) = (k, returns (int (length bs)))"
| "feed_step k (File (Open p fl md)) = (k, returns (if fl = O_RDONLY then 3 else 4))"
| "feed_step k (Sock (Recvfrom fd n)) = (k, gives [])"
| "feed_step k (Ipc (Msgrcv q n t f)) = (k, gives [])"
| "feed_step k (Ipc (MqReceive q n)) = (k, gives [])"
| "feed_step k c = (k, returns 0)"

definition feed_os :: "string os" where
  "feed_os = \<lparr>step = feed_step, strerror = (\<lambda>e. ''error ''), strsignal = (\<lambda>s. ''signal ''),
              gai_strerror = (\<lambda>s. ''error '')\<rparr>"

lemma feed_posix: "posix feed_os"
proof -
  have "ret_ok c (snd (feed_step k c))" for k c
    by (rule feed_step.cases [of "(k, c)"])
       (auto simp: Let_def gives_def returns_def reply0_def transfer_ok_def count_ok_def ok_zero)
  then show ?thesis by (simp add: posix_def feed_os_def)
qed

lemma feed_serves: "serves feed_os 3 (\<lambda>k. k)"
proof -
  have "fst (feed_step k c) = k" if "\<forall>n. c \<noteq> File (Read 3 n)" for k c
    using that by (cases "(k, c)" rule: feed_step.cases) auto
  then show ?thesis
    by (auto simp: serves_def feed_os_def gives_def reply0_def Let_def
        intro!: exI [where x = "min _ (min 5 (length _))"])
qed

lemma feed_takes_all: "takes_all feed_os fd"
  by (simp add: takes_all_def feed_os_def returns_def reply0_def)

end
