(* ===== verification/Stream_Sock.thy ===== *)
theory Stream_Sock
  imports Transfers Servers
begin

text \<open>
  The stream socket pair \<open>sockets/us_xfr_sv.c\<close> and \<open>sockets/us_xfr_cl.c\<close>: the client copies
  its standard input to the socket, the server copies what it receives on every
  connection to its standard output.
\<close>

definition SV_SOCK_PATH :: string where "SV_SOCK_PATH = ''/tmp/us_xfr''"

definition us_SUN_PATH_SIZE :: nat where "us_SUN_PATH_SIZE = 108"

definition us_addr :: sockaddr where
  "us_addr = AddrUn (cstr (strncpy (replicate us_SUN_PATH_SIZE NUL) SV_SOCK_PATH (us_SUN_PATH_SIZE - 1)))"

section \<open>sockets/us\_xfr\_sv.c\<close>

definition us_BACKLOG :: int where "us_BACKLOG = 5"
definition us_BUFFER_SIZE :: nat where "us_BUFFER_SIZE = 100"

definition us_chunk :: "'k os \<Rightarrow> int \<Rightarrow> string \<Rightarrow> ('k, unit) cmd" where
  "us_chunk K out buffer = do {
     n \<leftarrow> call K (File (Write out buffer));
     if n \<noteq> int (length buffer)
     then die K (\<lambda>err. ''Failed to write() '' @ dec (int (length buffer)) @ '' bytes - '' @ err @ nl)
     else ok () }"

text \<open>One connection; \<open>fuel\<close> bounds the reads.\<close>

definition us_serve :: "nat \<Rightarrow> 'k os \<Rightarrow> int \<Rightarrow> ('k, unit) cmd" where
  "us_serve fuel K listeningSocketFd = do {
     fd \<leftarrow> call K (Sock (Accept listeningSocketFd));
     if fd = -1
     then die K (\<lambda>err. ''Failed to accept() socket connection at '' @ SV_SOCK_PATH @ '' - '' @ err @ nl)
     else
       bind_res (read_loop fuel K fd us_BUFFER_SIZE (us_chunk K STDOUT_FILENO)) (\<lambda>numBytesRead.
         if numBytesRead = -1
         then die K (\<lambda>err. ''Failed to read() from socket '' @ SV_SOCK_PATH @ '' - '' @ err @ nl)
         else do {
         c \<leftarrow> call K (File (Close fd));
         if c = -1
         then die K (\<lambda>err. ''Failed to close() connected socket '' @ SV_SOCK_PATH @ '' - '' @ err @ nl)
         else ok () }) }"

definition us_server_main :: "nat \<Rightarrow> 'k os \<Rightarrow> string list \<Rightarrow> ('k, unit) cmd" where
  "us_server_main fuel K argv = do {
     fd \<leftarrow> call K (Sock (Socket AF_UNIX SOCK_STREAM 0));
     if fd = -1
     then die K (\<lambda>err. ''Failed to create UNIX stream socket() - '' @ err @ nl)
     else if length SV_SOCK_PATH > us_SUN_PATH_SIZE - 1
     then usage K (''Socket addr '' @ SV_SOCK_PATH @ '' is too long (max: '' @ dec (int us_SUN_PATH_SIZE) @ '')'' @ nl)
     else do {
     u \<leftarrow> call K (File (Remove SV_SOCK_PATH));
     e \<leftarrow> get_errno;
     if u = -1 \<and> e \<noteq> ENOENT
     then die K (\<lambda>err. ''Failed to remove() '' @ SV_SOCK_PATH @ '' - '' @ err @ nl)
     else do {
     b \<leftarrow> call K (Sock (Bind fd us_addr));
     if b = -1
     then die K (\<lambda>err. ''Failed to bind() socket to '' @ SV_SOCK_PATH @ '' - '' @ err @ nl)
     else do {
     l \<leftarrow> call K (Sock (Listen fd us_BACKLOG));
     if l = -1
     then die K (\<lambda>err. ''Failed to listen() at '' @ SV_SOCK_PATH @ '' - '' @ err @ nl)
     else forever fuel (\<lambda>_. us_serve fuel K fd) () }}}}"

section \<open>sockets/us\_xfr\_cl.c\<close>

text \<open>The loop. The write sends all \<open>BUFFER_SIZE\<close> bytes of the buffer, whose contents before
  the first read are an argument, and compares the result with the number of bytes read.\<close>

primrec us_client_loop :: "nat \<Rightarrow> 'k os \<Rightarrow> int \<Rightarrow> string \<Rightarrow> ('k, int) cmd" where
  "us_client_loop 0 K socketFd buffer = halt Hang"
| "us_client_loop (Suc fuel) K socketFd buffer = do {
     r \<leftarrow> sys K (File (Read STDIN_FILENO us_BUFFER_SIZE));
     if 0 < ret r
     then let buffer' = take (nat (ret r)) (rdata r) @ drop (nat (ret r)) buffer in do {
       n \<leftarrow> call K (File (Write socketFd buffer'));
       if n \<noteq> ret r
       then die K (\<lambda>err. ''Failed to write() '' @ dec (ret r) @ '' bytes - '' @ err @ nl)
       else us_client_loop fuel K socketFd buffer' }
     else ok (ret r) }"

definition us_client_main :: "nat \<Rightarrow> 'k os \<Rightarrow> string \<Rightarrow> string list \<Rightarrow> ('k, unit) cmd" where
  "us_client_main fuel K buffer0 argv = do {
     fd \<leftarrow> call K (Sock (Socket AF_UNIX SOCK_STREAM 0));
     if fd = -1
     then die K (\<lambda>err. ''Failed to create socket() - '' @ err @ nl)
     else if length SV_SOCK_PATH > us_SUN_PATH_SIZE - 1
     then usage K (''Socket path '' @ SV_SOCK_PATH @ '' is too long (max: '' @ dec (int us_SUN_PATH_SIZE - 1) @ '')'' @ nl)
     else do {
     c \<leftarrow> call K (Sock (Connect fd us_addr));
     if c = -1
     then die K (\<lambda>err. ''Failed to connect() to socket '' @ SV_SOCK_PATH @ '' - '' @ err @ nl)
     else
       bind_res (us_client_loop fuel K fd buffer0) (\<lambda>numBytes.
         if numBytes = -1
         then die K (\<lambda>err. ''Failed to read() from stdin - '' @ err @ nl)
         else do {
         c \<leftarrow> call K (File (Close fd));
         if c = -1
         then die K (\<lambda>err. ''Failed to close() to socket '' @ SV_SOCK_PATH @ '' - '' @ err @ nl)
         else halt (Exit EXIT_SUCCESS) }) }}"

section \<open>The server copies its connections\<close>

interpretation us_chunk: chunk_writer us_chunk
  by (rule chunk_writerI [where
        msg = "\<lambda>out buffer err. ''Failed to write() '' @ dec (int (length buffer)) @ '' bytes - '' @ err @ nl"])
     (unfold us_chunk_def, rule refl)

text \<open>All bytes read, from any descriptor, in order.\<close>

fun ev_read_any :: "event \<Rightarrow> string" where
  "ev_read_any (File (Read d n), r) = take (nat (ret r)) (rdata r)"
| "ev_read_any _ = []"

definition all_read :: "event list \<Rightarrow> string" where
  "all_read tr = concat (map ev_read_any tr)"

lemma all_read_simps [simp]:
  "all_read [] = []" "all_read (e # tr) = ev_read_any e @ all_read tr"
  "all_read (tr @ tr') = all_read tr @ all_read tr'"
  by (simp_all add: all_read_def)

lemma all_read_transfer: "list_all (transfer_event i out) d \<Longrightarrow> all_read d = bytes_read i d"
proof (induction d)
  case (Cons e d)
  then show ?case by (cases "(i, out, e)" rule: transfer_event.cases) auto
qed simp

lemma pumped_all_read:
  "pumped i sz out r d \<Longrightarrow> is_ok r \<or> r = Hang \<Longrightarrow> all_read d = written out d"
  "pumped i sz out (Exit n) d \<Longrightarrow> \<exists>rest. all_read d = written out d @ rest"
  by (auto simp: pumped_def all_read_transfer split: res.splits)

text \<open>
  C25. The stream server relays its connections: at every moment, and whatever the system
  does, what it has written to standard output is a prefix of the bytes it has read from
  its connections, in the order of the connections; it falls short of them only when a
  write failed and the server ended with status 1.
\<close>

theorem us_server_relays:
  assumes "posix K"
  shows "wp (us_server_main fuel K argv) (\<lambda>r w'. (r = Exit 1 \<or> r = Hang) \<and>
     (\<exists>d rest. trace w' = trace w @ d \<and> all_read d = written STDOUT_FILENO d @ rest \<and> (r = Hang \<longrightarrow> rest = []))) w"
proof -
  have serve: "wp (us_serve fuel K fd) (\<lambda>r w'. (is_ok r \<or> r = Exit 1 \<or> r = Hang) \<and>
      (\<exists>d rest. trace w' = trace w1 @ d \<and> all_read d = written 1 d @ rest \<and> (r \<noteq> Exit 1 \<longrightarrow> rest = []))) w1"
    for fd and w1 :: "'a world"
    unfolding us_serve_def using assms
    by (auto intro!: wp_tr us_chunk.wp_pump dest: pumped_all_read simp: pumped_all_read)
  have loop: "wp (forever n (\<lambda>_. us_serve fuel K fd) () :: ('a, unit) cmd) (\<lambda>r w'. (r = Exit 1 \<or> r = Hang) \<and>
      (\<exists>d rest. trace w' = trace w1 @ d \<and> all_read d = written 1 d @ rest \<and> (r = Hang \<longrightarrow> rest = []))) w1"
    for n fd and w1 :: "'a world"
  proof (rule wp_forever_and_then [where I = "\<lambda>_ w'. \<exists>d. trace w' = trace w1 @ d \<and> all_read d = written 1 d"])
    fix w2 :: "'a world"
    assume "\<exists>d. trace w2 = trace w1 @ d \<and> all_read d = written 1 d"
    then obtain d where d: "trace w2 = trace w1 @ d" "all_read d = written 1 d" by blast
    show "wp (us_serve fuel K fd) (and_then (\<lambda>_ w'. \<exists>d. trace w' = trace w1 @ d \<and> all_read d = written 1 d)
        (\<lambda>r w'. (r = Exit 1 \<or> r = Hang) \<and> (\<exists>d rest. trace w' = trace w1 @ d \<and>
            all_read d = written 1 d @ rest \<and> (r = Hang \<longrightarrow> rest = [])))) w2"
      using d by (intro wp_mono [OF serve]) (auto simp: and_then_def split: res.splits)
  qed auto
  show ?thesis
    unfolding us_server_main_def using assms
    by (auto intro!: wp_tr wp_mono [OF loop] simp: SV_SOCK_PATH_def us_SUN_PATH_SIZE_def)
qed

definition us_script :: "sysret list" where
  "us_script = [returns 3, fails_with ENOENT, returns 0, returns 0,
     returns 4, gives ''ab'', returns 2, gives ''c'', returns 1, gives [], returns 0,
     returns 4, gives ''def'', returns 3, gives [], returns 0, fails_with 4]"

theorem us_server_relays_witness:
  "written 1 (trace (snd (run_state (us_server_main 9 script_os []) (start us_script)))) = ''abcdef'' \<and>
   (\<exists>rest. ''abcdef'' = written 1 (trace (snd (run_state (us_server_main 9 script_os []) (start us_script)))) @ rest)"
proof -
  let ?run = "run_state (us_server_main 9 script_os []) (start us_script)"
  have "all_read (trace (snd ?run)) = ''abcdef''" "written 1 (trace (snd ?run)) = ''abcdef''" by code_simp+
  then show ?thesis
    using us_server_relays [OF script_posix, of 9 "[]" "start us_script", THEN wp_run] by (auto simp: start_def)
qed

section \<open>The client\<close>

text \<open>
  The client sends the whole buffer instead of the bytes it read: if a read delivers
  fewer than 100 bytes and the socket takes what it is given, the client has sent those
  bytes followed by whatever the rest of the buffer held, and ends with an error.
\<close>

theorem us_client_sends_stale_bytes:
  assumes "takes_all K fd" "length buffer = us_BUFFER_SIZE"
    and "step K (kern w) (File (Read STDIN_FILENO us_BUFFER_SIZE)) = (k, r)"
    and "ret r = int (length (rdata r))" "rdata r \<noteq> []" "length (rdata r) < us_BUFFER_SIZE"
  shows "wp (us_client_loop (Suc fuel) K fd buffer) (\<lambda>res w'. res = Exit 1 \<and>
     written fd (trace w') = written fd (trace w) @ rdata r @ drop (length (rdata r)) buffer) w"
proof -
  have wr: "wp (call K (File (Write fd bs))) Q w1"
    if "\<And>a w'. ret a = int (length bs) \<Longrightarrow> trace w' = trace w1 @ [(File (Write fd bs), a)] \<Longrightarrow> Q (int (length bs)) w'"
    for bs Q w1
  proof (rule wp_call_step)
    fix a and w' :: "'a world"
    assume "step K (kern w1) (File (Write fd bs)) = (kern w', a)" "after (File (Write fd bs), a) w1 w'"
    with takes_allD [OF assms(1)] that [of a w'] show "Q (ret a) w'" by simp
  qed
  have rd: "wp (sys K (File (Read 0 us_BUFFER_SIZE))) Q w"
    if "\<And>w'. trace w' = trace w @ [(File (Read 0 us_BUFFER_SIZE), r)] \<Longrightarrow> Q r w'" for Q
    using assms(3) by (auto intro!: wp_sys_step that)
  show ?thesis
    using assms(2,4-6) by (auto intro!: rd wr wp_die simp: Let_def)
qed

text \<open>A terminal on which the user types \<open>hi\<close>.\<close>

fun tty_step :: "unit \<Rightarrow> syscall \<Rightarrow> unit \<times> sysret" where
  "tty_step k (File (Read fd n)) = (k, gives (take n (''hi'' @ nl)))"
| "tty_step k (File (Write fd bs)) = (k, returns (int (length bs)))"
| "tty_step k c = (k, returns 0)"

definition tty_os :: "unit os" where
  "tty_os = \<lparr>step = tty_step, strerror = (\<lambda>e. ''error ''), strsignal = (\<lambda>s. ''signal ''),
             gai_strerror = (\<lambda>s. ''error '')\<rparr>"

theorem us_client_sends_stale_bytes_witness:
  "wp (us_client_loop 1 tty_os 3 (replicate 100 NUL)) (\<lambda>res w'. res = Exit 1 \<and>
     written 3 (trace w') = ''hi'' @ nl @ replicate 97 NUL) (start ())"
  using us_client_sends_stale_bytes [of tty_os 3 "replicate 100 NUL" "start ()" "()" "gives (''hi'' @ nl)" 0]
  by (simp add: takes_all_def tty_os_def returns_def gives_def reply0_def us_BUFFER_SIZE_def start_def)

end
