(* ===== verification/Pipes.thy ===== *)
theory Pipes
  imports Transfers Servers
begin

text \<open>
  The pipe programs \<open>pipes/simple_pipe.c\<close>, \<open>pipes/pipe_ls_wc.c\<close> and \<open>pipes/pipe_sync.c\<close>. A run of
  a model is the run of one process: \<open>fork\<close> returns 0 in the child and the child's
  identifier in the parent, and the run follows the answer it gets; the events before
  the fork are part of the history of both. A successful \<open>execlp\<close> ends the run with
  \<open>Execed\<close>.
\<close>

section \<open>pipes/simple\_pipe.c\<close>

definition simple_pipe_BUFFER_SIZE :: nat where "simple_pipe_BUFFER_SIZE = 10"

definition simple_pipe_chunk :: "'k os \<Rightarrow> int \<Rightarrow> string \<Rightarrow> ('k, unit) cmd" where
  "simple_pipe_chunk K out buffer = do {
     n \<leftarrow> call K (File (Write out buffer));
     if n \<noteq> int (length buffer)
     then die K (\<lambda>err. ''CHILD: Failed to write() to pipe - '' @ err @ nl)
     else ok () }"

definition simple_pipe_child :: "nat \<Rightarrow> 'k os \<Rightarrow> int \<Rightarrow> int \<Rightarrow> ('k, unit) cmd" where
  "simple_pipe_child fuel K fd0 fd1 = do {
     c \<leftarrow> call K (File (Close fd1));
     if c = -1
     then die K (\<lambda>err. ''CHILD: Failed to close() pipe's write fd - '' @ err @ nl)
     else
       bind_res (read_loop fuel K fd0 simple_pipe_BUFFER_SIZE (simple_pipe_chunk K STDOUT_FILENO)) (\<lambda>numRead. do {
         sys K (File (Write STDOUT_FILENO nl));
         if numRead = -1
         then die K (\<lambda>err. ''CHILD: Failed to read() from pipe - '' @ err @ nl)
         else do {
         c \<leftarrow> call K (File (Close fd0));
         if c = -1
         then die K (\<lambda>err. ''CHILD: Failed to close() pipe's read fd - '' @ err @ nl)
         else halt (ExitNow EXIT_SUCCESS) }}) }"

definition simple_pipe_parent :: "'k os \<Rightarrow> int \<Rightarrow> int \<Rightarrow> string \<Rightarrow> ('k, unit) cmd" where
  "simple_pipe_parent K fd0 fd1 str = do {
     c \<leftarrow> call K (File (Close fd0));
     if c = -1
     then die K (\<lambda>err. ''PARENT: Failed to close() pipe's read fd - '' @ err @ nl)
     else do {
     n \<leftarrow> call K (File (Write fd1 str));
     if c_ulong n \<noteq> int (length str)
     then die K (\<lambda>err. ''PARENT: Failed to write() to pipe - '' @ err @ nl)
     else do {
     c \<leftarrow> call K (File (Close fd1));
     if c = -1
     then die K (\<lambda>err. ''PARENT: Failed to close() pipe's write fd - '' @ err @ nl)
     else do {
     p \<leftarrow> call K (Proc Wait);
     if p = -1
     then die K (\<lambda>err. ''PARENT: Failed to wait() on child - '' @ err @ nl)
     else halt (Exit EXIT_SUCCESS) }}}}"

definition simple_pipe_main :: "nat \<Rightarrow> 'k os \<Rightarrow> string list \<Rightarrow> ('k, unit) cmd" where
  "simple_pipe_main fuel K argv =
     (if length argv \<noteq> 2 \<or> arg argv 1 = ''-h''
      then usage K (''Usage: '' @ arg argv 0 @ '' <str>'' @ nl)
      else do {
        p \<leftarrow> sys K (Proc Pipe);
        if ret p = -1
        then die K (\<lambda>err. ''Failed to create pipe() - '' @ err @ nl)
        else do {
        f \<leftarrow> call K (Proc Fork);
        if f = -1
        then die K (\<lambda>err. ''Failed to fork() child - '' @ err @ nl)
        else if f = 0 then simple_pipe_child fuel K (rnum 0 p) (rnum 1 p)
        else simple_pipe_parent K (rnum 0 p) (rnum 1 p) (arg argv 1) }})"

section \<open>pipes/pipe\_ls\_wc.c\<close>

text \<open>The code of the two children: keep one end of the pipe as the descriptor \<open>std\<close>, close
  the other, and run a program. When \<open>execlp\<close> fails it returns -1.\<close>

definition ls_child :: "'k os \<Rightarrow> int \<Rightarrow> int \<Rightarrow> ('k, unit) cmd" where
  "ls_child K rfd wfd = do {
     c \<leftarrow> call K (File (Close rfd));
     if c = -1
     then die K (\<lambda>err. ''Child ls process failed to close() pipe read fd - '' @ err @ nl)
     else bind_res
       (if wfd \<noteq> STDOUT_FILENO
        then do {
          d \<leftarrow> call K (Proc (Dup2 wfd STDOUT_FILENO));
          if d = -1
          then die K (\<lambda>err. ''Child ls process failed to dup2() pipe write fd to stdout - '' @ err @ nl)
          else do {
          c \<leftarrow> call K (File (Close wfd));
          if c = -1
          then die K (\<lambda>err. ''Child ls process failed to close() pipe write fd - '' @ err @ nl)
          else ok () }}
        else ok ())
       (\<lambda>_. do {
          x \<leftarrow> call K (Proc (Execlp ''ls'' [''ls'']));
          if x = -1 then die K (\<lambda>err. ''Failed to execlp() ls - '' @ err @ nl)
          else halt Execed }) }"

definition wc_child :: "'k os \<Rightarrow> int \<Rightarrow> int \<Rightarrow> ('k, unit) cmd" where
  "wc_child K rfd wfd = do {
     c \<leftarrow> call K (File (Close wfd));
     if c = -1
     then die K (\<lambda>err. ''Child wc process failed to close() pipe write fd - '' @ err @ nl)
     else bind_res
       (if rfd \<noteq> STDIN_FILENO
        then do {
          d \<leftarrow> call K (Proc (Dup2 rfd STDIN_FILENO));
          if d = -1
          then die K (\<lambda>err. ''Child wc process failed to dup2() pipe read fd to stdin - '' @ err @ nl)
          else do {
          c \<leftarrow> call K (File (Close rfd));
          if c = -1
          then die K (\<lambda>err. ''Child wc process failed to close() pipe read fd - '' @ err @ nl)
          else ok () }}
        else ok ())
       (\<lambda>_. do {
          x \<leftarrow> call K (Proc (Execlp ''wc'' [''wc'', ''-l'']));
          if x = -1 then die K (\<lambda>err. ''Failed to execlp() wc - '' @ err @ nl)
          else halt Execed }) }"

definition pipe_ls_wc_main :: "'k os \<Rightarrow> string list \<Rightarrow> ('k, unit) cmd" where
  "pipe_ls_wc_main K argv = do {
     p \<leftarrow> sys K (Proc Pipe);
     if ret p = -1
     then die K (\<lambda>err. ''Failed to create pipe() - '' @ err @ nl)
     else let rfd = rnum 0 p; wfd = rnum 1 p in do {
     f \<leftarrow> call K (Proc Fork);
     if f = -1
     then die K (\<lambda>err. ''Failed to fork() child ls process - '' @ err @ nl)
     else if f = 0 then ls_child K rfd wfd
     else do {
     g \<leftarrow> call K (Proc Fork);
     if g = -1
     then die K (\<lambda>err. ''Failed to fork() child wc process - '' @ err @ nl)
     else if g = 0 then wc_child K rfd wfd
     else do {
     c \<leftarrow> call K (File (Close rfd));
     if c = -1
     then die K (\<lambda>err. ''Parent failed to close() pipe read fd - '' @ err @ nl)
     else do {
     c \<leftarrow> call K (File (Close wfd));
     if c = -1
     then die K (\<lambda>err. ''Parent failed to close() pipe write fd - '' @ err @ nl)
     else
       bind_res (for_each [0, 1 :: nat] (\<lambda>i. do {
         p \<leftarrow> call K (Proc Wait);
         if p = -1 then die K (\<lambda>err. ''Parent failed to wait() on child - '' @ err @ nl)
         else ok () }))
       (\<lambda>_. halt (Exit EXIT_SUCCESS)) }}}}}"

section \<open>pipes/pipe\_sync.c\<close>

definition pipe_sync_child :: "'k os \<Rightarrow> int \<Rightarrow> int \<Rightarrow> nat \<Rightarrow> string \<Rightarrow> ('k, unit) cmd" where
  "pipe_sync_child K rfd wfd i sec = do {
     c \<leftarrow> call K (File (Close rfd));
     if c = -1
     then die K (\<lambda>err. ''Child failed to close pipe read fd - '' @ err @ nl)
     else bind_res (pipe_sync_getUint K sec) (\<lambda>n. do {
       sys K (Proc (Sleep n));
       p \<leftarrow> call K (Proc Getpid);
       printf K (''Child '' @ dec (int i) @ '' (PID='' @ dec p @ '') closing pipe'' @ nl);
       c \<leftarrow> call K (File (Close wfd));
       if c = -1
       then die K (\<lambda>err. ''Child failed to close pipe write fd - '' @ err @ nl)
       else halt (ExitNow EXIT_SUCCESS) }) }"

definition pipe_sync_fork :: "'k os \<Rightarrow> int \<Rightarrow> int \<Rightarrow> nat \<times> string \<Rightarrow> ('k, unit) cmd" where
  "pipe_sync_fork K rfd wfd child = (case child of (i, sec) \<Rightarrow> do {
     f \<leftarrow> call K (Proc Fork);
     if f = -1
     then die K (\<lambda>err. ''Failed to fork() child process - '' @ err @ nl)
     else if f = 0 then pipe_sync_child K rfd wfd i sec
     else ok () })"

definition pipe_sync_wait :: "'k os \<Rightarrow> ('k, unit) cmd" where
  "pipe_sync_wait K = do {
     p \<leftarrow> call K (Proc Wait);
     if p = -1 then die K (\<lambda>err. ''Failed to wait() on child - '' @ err @ nl)
     else ok () }"

definition pipe_sync_main :: "'k os \<Rightarrow> string list \<Rightarrow> ('k, unit) cmd" where
  "pipe_sync_main K argv =
     (if length argv \<le> 1 \<or> arg argv 1 = ''-h''
      then usage K (''Usage: '' @ arg argv 0 @ '' <sec>...'' @ nl)
      else do {
        printf K (''Parent started'' @ nl);
        p \<leftarrow> sys K (Proc Pipe);
        if ret p = -1
        then die K (\<lambda>err. ''Failed to create pipe() - '' @ err @ nl)
        else let rfd = rnum 0 p; wfd = rnum 1 p in
          bind_res (for_each (enumerate 1 (drop 1 argv)) (pipe_sync_fork K rfd wfd)) (\<lambda>_. do {
          c \<leftarrow> call K (File (Close wfd));
          if c = -1
          then die K (\<lambda>err. ''Parent failed to close pipe write fd - '' @ err @ nl)
          else do {
          n \<leftarrow> call K (File (Read rfd 1));
          if n \<noteq> 0
          then die K (\<lambda>err. ''Parent didn't get EOF - '' @ err @ nl)
          else do {
          c \<leftarrow> call K (File (Close rfd));
          if c = -1
          then die K (\<lambda>err. ''Parent failed to close pipe read fd - '' @ err @ nl)
          else do {
          printf K (''Parent ready to go'' @ nl);
          bind_res (for_each (drop 1 argv) (\<lambda>_. pipe_sync_wait K))
          (\<lambda>_. halt (Exit EXIT_SUCCESS)) }}}}) })"

section \<open>What the child prints is what the parent was given\<close>

interpretation simple_pipe_chunk: chunk_writer simple_pipe_chunk
  by (rule chunk_writerI [where msg = "\<lambda>_ _ err. ''CHILD: Failed to write() to pipe - '' @ err @ nl"])
     (unfold simple_pipe_chunk_def, rule refl)

lemma write_all:
  assumes "c_ulong v = int (length str)" "-1 \<le> v" "length str < 2 ^ 63"
  shows "take (nat v) str = str"
proof -
  have "v \<noteq> -1" using assms by (auto simp: c_ulong_def take_bit_eq_mod)
  with assms(2) have "c_ulong v = v \<or> v \<ge> 2 ^ 64" by (auto simp: ULONG_MAX_def)
  with assms show ?thesis by auto
qed

text \<open>A successful parent has created the pipe, written its argument into the write end and waited for the child at the end. Its events
  are \<open>d\<close>; the answer to \<open>pipe\<close>, the first of them, holds the two descriptors.\<close>

lemma wp_simple_pipe_parent:
  assumes "posix K" "length str < 2 ^ 63" "str \<noteq> ''-h''"
  shows "wp (simple_pipe_main fuel K [prog, str]) (\<lambda>r w'. r = Exit 0 \<longrightarrow> (\<exists>d. trace w' = trace w @ d \<and>
     fst (hd d) = Proc Pipe \<and> written (rnum 1 (snd (hd d))) d = str \<and> fst (last d) = Proc Wait)) w"
proof -
  have child: "wp (simple_pipe_child fuel K fd0 fd1) (\<lambda>r w'. r \<noteq> Exit 0) w1" for fd0 fd1 w1
    unfolding simple_pipe_child_def using assms(1)
    by (auto intro!: wp_tr wp_mono [OF simple_pipe_chunk.pump_faithful] simp: pumped_def and_then_def split: res.splits)
  have parent: "wp (simple_pipe_parent K (rnum 0 p) (rnum 1 p) str) (\<lambda>r w'. r = Exit 0 \<longrightarrow> (\<exists>d. trace w' = trace w @ d \<and>
      fst (hd d) = Proc Pipe \<and> written (rnum 1 (snd (hd d))) d = str \<and> fst (last d) = Proc Wait)) w1"
    if "\<exists>f. trace w1 = trace w @ [(Proc Pipe, p), (Proc Fork, f)]" for p w1
    unfolding simple_pipe_parent_def using assms(1,2) that by (auto intro!: wp_tr simp: count_ok_def write_all)
  show ?thesis
    unfolding simple_pipe_main_def using assms(1,3)
    by (auto simp: arg_def simp del: One_nat_def intro!: wp_tr parent wp_mono [OF child])
qed


text \<open>A parent that writes "hello", and a child whose read end delivers it in pieces of five bytes at most.\<close>

definition pipe_script :: "sysret list" where
  "pipe_script = [reply0\<lparr>rnums := [3, 4]\<rparr>, returns 42, returns 0, returns 5, returns 0, returns 42]"

definition child_os :: "string os" where
  "child_os = feed_os\<lparr>step := (\<lambda>k c. if c = Proc Pipe then (k, reply0\<lparr>rnums := [3, 4]\<rparr>) else feed_step k c)\<rparr>"


section \<open>Descriptors\<close>

text \<open>
  What the open descriptors of a process refer to, as far as the pipe is concerned, and
  how the calls of a process change it.
\<close>

datatype pipe_end = ReadEnd | WriteEnd

type_synonym fd_table = "int \<Rightarrow> pipe_end option"

fun fd_event :: "event \<Rightarrow> fd_table \<Rightarrow> fd_table" where
  "fd_event (Proc Pipe, r) t = (if ret r = -1 then t else t(rnum 0 r \<mapsto> ReadEnd, rnum 1 r \<mapsto> WriteEnd))"
| "fd_event (File (Close fd), r) t = (if ret r = -1 then t else t(fd := None))"
| "fd_event (Proc (Dup2 a b), r) t = (if ret r = -1 then t else t(b := t a))"
| "fd_event e t = t"

definition fd_table :: "event list \<Rightarrow> fd_table" where
  "fd_table tr = fold fd_event tr (\<lambda>_. None)"

text \<open>\<open>pipe\<close> returns two different descriptors.\<close>

definition pipe_ok :: "'k os \<Rightarrow> bool" where
  "pipe_ok K \<longleftrightarrow> (\<forall>k. rnum 0 (snd (step K k (Proc Pipe))) \<noteq> rnum 1 (snd (step K k (Proc Pipe))))"

lemma wp_pipe:
  assumes "pipe_ok K"
    and "\<And>r w'. rnum 0 r \<noteq> rnum 1 r \<Longrightarrow> trace w' = trace w @ [(Proc Pipe, r)] \<Longrightarrow> Q r w'"
  shows "wp (sys K (Proc Pipe)) Q w"
  using assms(1) unfolding pipe_ok_def by (intro wp_sys_step assms(2)) (metis snd_conv, simp)

text \<open>A system that follows a script, except that the pipe gets descriptors 3 and 4.\<close>

definition pipe_step :: "sysret list \<Rightarrow> syscall \<Rightarrow> sysret list \<times> sysret" where
  "pipe_step rs c = (if c = Proc Pipe then (rs, reply0\<lparr>rnums := [3, 4]\<rparr>) else script_step rs c)"

definition pipe_os :: "sysret list os" where
  "pipe_os = \<lparr>step = pipe_step, strerror = (\<lambda>e. ''error ''), strsignal = (\<lambda>s. ''signal ''),
              gai_strerror = (\<lambda>s. ''error '')\<rparr>"

lemma pipe_os_ok: "posix pipe_os" "pipe_ok pipe_os"
proof -
  have "ret_ok c (snd (pipe_step k c))" for k c
    using script_posix by (simp add: pipe_step_def posix_def script_os_def)
  then show "posix pipe_os" by (simp add: posix_def pipe_os_def)
  show "pipe_ok pipe_os" by (simp add: pipe_ok_def pipe_os_def pipe_step_def rnum_def reply0_def)
qed

text \<open>
  C5. The pipeline of \<open>pipe_ls_wc\<close> is plumbed correctly in every process: \<open>ls\<close> is started
  with standard output as its only descriptor of the pipe, the write end; \<open>wc -l\<close> with
  standard input as its only one, the read end; and the parent, which waits for both,
  keeps none. So \<open>wc\<close> sees end of file when \<open>ls\<close> ends. This holds also when the pipe was
  given the descriptors 0 or 1.
\<close>

theorem pipe_ls_wc_plumbing:
  assumes "posix K" "pipe_ok K"
  shows "wp (pipe_ls_wc_main K argv) (\<lambda>r w'. (r = Exit 0 \<or> r = Exit 1 \<or> r = Execed) \<and> (\<exists>d. trace w' = trace w @ d \<and>
     (r = Execed \<longrightarrow>
        fst (last d) = Proc (Execlp ''ls'' [''ls'']) \<and> fd_table d = [STDOUT_FILENO \<mapsto> WriteEnd] \<or>
        fst (last d) = Proc (Execlp ''wc'' [''wc'', ''-l'']) \<and> fd_table d = [STDIN_FILENO \<mapsto> ReadEnd]) \<and>
     (r = Exit 0 \<longrightarrow> fst (last d) = Proc Wait \<and> fd_table d = Map.empty))) w"
  unfolding pipe_ls_wc_main_def ls_child_def wc_child_def wp_bind
  by (rule wp_pipe [OF assms(2)])
     (use assms(1) in \<open>auto intro!: wp_tr simp: Let_def fd_table_def fun_eq_iff\<close>)

theorem pipe_ls_wc_plumbing_witness:
  "fd_table (trace (snd (run_state (pipe_ls_wc_main pipe_os []) (start [returns 10, returns 0, returns 0, returns 0, returns 0, returns 0])))) =
     [STDIN_FILENO \<mapsto> ReadEnd]"
proof -
  let ?run = "run_state (pipe_ls_wc_main pipe_os []) (start [returns 10, returns 0, returns 0, returns 0, returns 0, returns 0])"
  have "fst ?run = Execed" by code_simp
  moreover have "fst (last (trace (snd ?run))) = Proc (Execlp ''wc'' [''wc'', ''-l''])" by code_simp
  ultimately show ?thesis
    using pipe_ls_wc_plumbing [OF pipe_os_ok, of "[]"
        "start [returns 10, returns 0, returns 0, returns 0, returns 0, returns 0]", THEN wp_run]
    by (auto simp: start_def)
qed

lemma wp_pipe_sync_waits:
  assumes "posix K"
  shows "wp (for_each xs (\<lambda>_. pipe_sync_wait K)) (\<lambda>r w'. (is_ok r \<or> r = Exit 1) \<and>
     (\<exists>d. trace w' = trace w @ d \<and> (r = Ok () \<longrightarrow> list_all (\<lambda>e. fst e = Proc Wait) d \<and> length d = length xs))) w"
proof (induction xs arbitrary: w)
  case (Cons x xs)
  show ?case
    unfolding for_each.simps pipe_sync_wait_def using assms
    by (auto intro!: wp_tr wp_mono [OF Cons.IH [unfolded pipe_sync_wait_def]])
qed simp

lemma wp_pipe_sync_fork:
  assumes "posix K"
  shows "wp (pipe_sync_fork K rfd wfd c) (\<lambda>r w'. \<exists>a e. trace w' = trace w @ (Proc Fork, a) # e \<and>
     (is_ok r \<longrightarrow> e = []) \<and> r \<noteq> Exit 0 \<and>
     (r = ExitNow 0 \<longrightarrow> fold fd_event e [rfd \<mapsto> ReadEnd, wfd \<mapsto> WriteEnd] = Map.empty)) w"
  unfolding pipe_sync_fork_def pipe_sync_child_def using assms
  by (cases c) (auto intro!: wp_tr pipe_sync_getUint.outcome simp: fun_eq_iff)

lemma fold_fork [simp]: "list_all (\<lambda>e. fst e = Proc Fork) d \<Longrightarrow> fold fd_event d t = t"
  by (induction d arbitrary: t) auto

text \<open>The parent's part of the loop, or its part and that of the child it has become.\<close>

definition forked :: "int \<Rightarrow> int \<Rightarrow> nat \<Rightarrow> unit res \<Rightarrow> event list \<Rightarrow> bool" where
  "forked rfd wfd n r d \<longleftrightarrow>
     (r = Ok () \<longrightarrow> list_all (\<lambda>e. fst e = Proc Fork) d \<and> length d = n) \<and> r \<noteq> Exit 0 \<and>
     (r = ExitNow 0 \<longrightarrow> fold fd_event d [rfd \<mapsto> ReadEnd, wfd \<mapsto> WriteEnd] = Map.empty)"

lemma wp_pipe_sync_forks:
  assumes "posix K"
  shows "wp (for_each cs (pipe_sync_fork K rfd wfd)) (\<lambda>r w'. \<exists>d. trace w' = trace w @ d \<and> forked rfd wfd (length cs) r d) w"
proof (induction cs arbitrary: w)
  case (Cons c cs)
  show ?case
    unfolding for_each.simps wp_bind_res
    by (rule wp_mono [OF wp_pipe_sync_fork [OF assms]])
       (auto simp: and_then_def forked_def split: res.splits intro!: wp_mono [OF Cons.IH])
qed (simp add: forked_def)

text \<open>The history of a parent with \<open>n\<close> children that has synchronised.\<close>

definition synced :: "nat \<Rightarrow> event list \<Rightarrow> bool" where
  "synced n d \<longleftrightarrow> (\<exists>before after rd fd. d = before @ rd # after \<and>
     printed 1 before = ''Parent started'' @ nl \<and> printed 1 after = ''Parent ready to go'' @ nl \<and>
     fst rd = File (Read fd 1) \<and> ret (snd rd) = 0 \<and> fd_table before = [fd \<mapsto> ReadEnd] \<and>
     length (filter (\<lambda>e. fst e = Proc Fork) before) = n \<and>
     length (filter (\<lambda>e. fst e = Proc Wait) after) = n)"

lemma no_output [simp]:
  "list_all (\<lambda>e. fst e = Proc c) d \<Longrightarrow> printed st d = []"
  by (induction d) auto

lemma syncedI:
  assumes "list_all (\<lambda>e. fst e = Proc Fork) forks" "length forks = n"
    and "list_all (\<lambda>e. fst e = Proc Wait) waits" "length waits = n"
    and "rnum 0 p \<noteq> rnum 1 p" "ret p \<noteq> -1" "ret c \<noteq> -1" "ret rd = 0"
  shows "synced n ((Stdio (Fprintf 1 (''Parent started'' @ nl)), a) # (Proc Pipe, p) # forks @
     (File (Close (rnum 1 p)), c) # (File (Read (rnum 0 p) 1), rd) # (File (Close (rnum 0 p)), c') #
     (Stdio (Fprintf 1 (''Parent ready to go'' @ nl)), b) # waits)"
proof -
  have "filter (\<lambda>e. fst e = Proc Fork) forks = forks" "filter (\<lambda>e. fst e = Proc Wait) waits = waits"
    using assms(1,3) by (simp_all add: filter_id_conv list_all_iff)
  with assms show ?thesis
    unfolding synced_def
    by (intro exI [where x = "(Stdio (Fprintf 1 (''Parent started'' @ nl)), a) # (Proc Pipe, p) # forks @
          [(File (Close (rnum 1 p)), c)]"] exI [where x = "(File (Close (rnum 0 p)), c') #
          (Stdio (Fprintf 1 (''Parent ready to go'' @ nl)), b) # waits"]
          exI [where x = "(File (Read (rnum 0 p) 1), rd)"] exI [where x = "rnum 0 p"])
       (auto simp: fd_table_def fun_eq_iff)
qed

text \<open>
  C21. \<open>pipe_sync\<close> synchronises: the parent prints that it is ready to go only after a read
  from the pipe has reported end of file, made when the read end was the only descriptor
  of the pipe it had left, and exits successfully only after it has forked and waited
  for one child per argument; a child that ends successfully keeps neither end.
\<close>

theorem pipe_sync_waits_for_children:
  assumes "posix K" "pipe_ok K"
  shows "wp (pipe_sync_main K argv) (\<lambda>r w'. \<exists>d. trace w' = trace w @ d \<and>
     (r = ExitNow 0 \<longrightarrow> fd_table d = Map.empty) \<and> (r = Exit 0 \<longrightarrow> synced (length argv - 1) d)) w"
proof -
  show ?thesis
  proof (cases "length argv \<le> 1 \<or> arg argv 1 = ''-h''")
    case True
    then show ?thesis unfolding pipe_sync_main_def using assms(1) by (auto intro!: wp_tr)
  next
    case False
    show ?thesis
      unfolding pipe_sync_main_def if_not_P [OF False] wp_bind Let_def
    proof (rule wp_tr(4), rule wp_pipe [OF assms(2)], goal_cases)
      case (1 r w1 p w2)
      with assms(1) show ?case
        by (auto intro!: wp_tr wp_mono [OF wp_pipe_sync_forks [OF assms(1)]] wp_mono [OF wp_pipe_sync_waits [OF assms(1)]]
            syncedI [simplified] simp: and_then_def forked_def fd_table_def split: res.splits)
    qed
  qed
qed

theorem pipe_sync_waits_for_children_witness:
  "synced 1 (trace (snd (run_state (pipe_sync_main pipe_os [''pipe_sync'', ''5''])
     (start [returns 10, returns 0, gives [], returns 0, returns 10]))))"
proof -
  let ?run = "run_state (pipe_sync_main pipe_os [''pipe_sync'', ''5''])
     (start [returns 10, returns 0, gives [], returns 0, returns 10])"
  have "fst ?run = Exit 0" by code_simp
  then show ?thesis
    using pipe_sync_waits_for_children [OF pipe_os_ok, of "[''pipe_sync'', ''5'']"
        "start [returns 10, returns 0, gives [], returns 0, returns 10]", THEN wp_run]
    by (auto simp: start_def)
qed

end
