(* ===== verification/Seqnum.thy ===== *)
theory Seqnum
  imports Servers
begin

text \<open>
  The sequence number services: \<open>pipes/fifo_seqnum_server.c\<close> and \<open>fifo_seqnum_client.c\<close> over
  FIFOs, \<open>sockets/is_seqnum_sv.c\<close> and \<open>is_seqnum_cl.c\<close> over TCP. Both servers hand out
  intervals of sequence numbers; what they promise is stated as the interface
  \<open>seq_server\<close>, of which both are instances. The sum of two \<open>int\<close> values that does not
  fit in \<open>int\<close> is undefined in C, and so it is here.
\<close>

section \<open>pipes/fifo\_seqnum.h\<close>

definition SERVER_FIFO :: string where "SERVER_FIFO = ''/tmp/seqnum_sv''"

definition CLIENT_FIFO_NAME_LEN :: nat where
  "CLIENT_FIFO_NAME_LEN = length ''/tmp/seqnum_cl.%ld'' + 1 + 20"

definition client_fifo :: "int \<Rightarrow> string" where
  "client_fifo pid = snprintf CLIENT_FIFO_NAME_LEN (''/tmp/seqnum_cl.'' @ dec pid)"

record Request =
  pid :: int
  seqLen :: int

definition request_bytes :: "Request \<Rightarrow> string" where
  "request_bytes q = int_bytes (pid q) @ int_bytes (seqLen q)"

definition request_of_bytes :: "string \<Rightarrow> Request" where
  "request_of_bytes bs = \<lparr>pid = int_at 0 bs, seqLen = int_at 4 bs\<rparr>"

definition fifo_perms :: "32 word" where "fifo_perms = S_IRUSR OR S_IWUSR OR S_IWGRP"

section \<open>pipes/fifo\_seqnum\_server.c\<close>

text \<open>One iteration of the server loop, on the next free sequence number.\<close>

definition fifo_serve :: "int \<Rightarrow> 'k os \<Rightarrow> int \<Rightarrow> ('k, int) cmd" where
  "fifo_serve serverFd K seqNum = do {
     q \<leftarrow> sys K (File (Read serverFd 8));
     if ret q \<noteq> 8
     then die K (\<lambda>err. ''Failed to read() from '' @ SERVER_FIFO @ '' - '' @ err @ nl)
     else let request = request_of_bytes (rdata q); clientFifo = client_fifo (pid request) in do {
     clientFd \<leftarrow> call K (File (Open clientFifo O_WRONLY 0));
     if clientFd = -1
     then do {
       e \<leftarrow> get_errno;
       eprintf K (''Failed to open() '' @ clientFifo @ '' for writing - '' @ strerror K e @ nl);
       ok seqNum }
     else do {
     n \<leftarrow> call K (File (Write clientFd (int_bytes seqNum)));
     if n \<noteq> 4
     then do {
       e \<leftarrow> get_errno;
       eprintf K (''Failed to write() response to '' @ clientFifo @ '' - '' @ strerror K e @ nl);
       ok seqNum }
     else do {
     c \<leftarrow> call K (File (Close clientFd));
     (if c = -1
      then do {
        e \<leftarrow> get_errno;
        eprintf K (''Failed to close() '' @ clientFifo @ '' - '' @ strerror K e @ nl);
        State_Monad.return () }
      else State_Monad.return ());
     let sum = seqNum + seqLen request
     in if INT_MIN \<le> sum \<and> sum \<le> INT_MAX then ok sum else halt Undef }}}}"

definition fifo_server_main :: "nat \<Rightarrow> 'k os \<Rightarrow> string list \<Rightarrow> ('k, unit) cmd" where
  "fifo_server_main fuel K argv = do {
     sys K (File (Umask 0));
     m \<leftarrow> call K (File (Mkfifo SERVER_FIFO fifo_perms));
     e \<leftarrow> get_errno;
     if m = -1 \<and> e \<noteq> EEXIST
     then die K (\<lambda>err. ''Failed to mkfifo() at '' @ SERVER_FIFO @ '' - '' @ err @ nl)
     else do {
     serverFd \<leftarrow> call K (File (Open SERVER_FIFO O_RDONLY 0));
     if serverFd = -1
     then die K (\<lambda>err. ''Failed to open() '' @ SERVER_FIFO @ '' for reading - '' @ err @ nl)
     else do {
     dummyFd \<leftarrow> call K (File (Open SERVER_FIFO O_WRONLY 0));
     if dummyFd = -1
     then die K (\<lambda>err. ''Failed to open() '' @ SERVER_FIFO @ '' for writing - '' @ err @ nl)
     else do {
     s \<leftarrow> call K (Proc (Sigaction SIGPIPE SIG_IGN 0));
     if s = -1
     then die K (\<lambda>err. ''Failed to set sigaction() of SIGPIPE to SIG_IGN - '' @ err @ nl)
     else forever fuel (fifo_serve serverFd K) 0 }}}}"

section \<open>pipes/fifo\_seqnum\_client.c\<close>

definition removeClientFifo :: "'k os \<Rightarrow> string \<Rightarrow> ('k world, unit) state" where
  "removeClientFifo K clientFifo = do {
     u \<leftarrow> call K (File (Unlink clientFifo));
     if u = -1
     then do {
       e \<leftarrow> get_errno;
       eprintf K (''Failed to unlink() '' @ clientFifo @ '' - '' @ strerror K e @ nl);
       State_Monad.return () }
     else State_Monad.return () }"

text \<open>\<open>exit\<close> runs the handler that \<open>atexit\<close> registered (it returns 0 when it did).\<close>

definition at_exit :: "bool \<Rightarrow> ('k world, unit) state \<Rightarrow> ('k, 'a) cmd \<Rightarrow> ('k, 'a) cmd" where
  "at_exit registered handler m = do {
     r \<leftarrow> m;
     case r of
       Exit n \<Rightarrow> (if registered then do { handler; halt (Exit n) } else halt (Exit n))
     | _ \<Rightarrow> halt r }"

definition fifo_client_request :: "'k os \<Rightarrow> string list \<Rightarrow> string \<Rightarrow> ('k, unit) cmd" where
  "fifo_client_request K argv clientFifo = do {
     p \<leftarrow> call K (Proc Getpid);
     bind_res (if length argv = 2 then fifo_client_getInt K (arg argv 1) else ok 1) (\<lambda>n. do {
     serverFd \<leftarrow> call K (File (Open SERVER_FIFO O_WRONLY 0));
     if serverFd = -1
     then die K (\<lambda>err. ''Failed to open() '' @ SERVER_FIFO @ '' for writing - '' @ err @ nl)
     else do {
     wr \<leftarrow> call K (File (Write serverFd (request_bytes \<lparr>pid = p, seqLen = n\<rparr>)));
     if wr \<noteq> 8
     then die K (\<lambda>err. ''Failed to write() request to '' @ SERVER_FIFO @ '' - '' @ err @ nl)
     else do {
     c \<leftarrow> call K (File (Close serverFd));
     if c = -1
     then die K (\<lambda>err. ''Failed to close() '' @ SERVER_FIFO @ '' - '' @ err @ nl)
     else do {
     clientFd \<leftarrow> call K (File (Open clientFifo O_RDONLY 0));
     if clientFd = -1
     then die K (\<lambda>err. ''Failed to open() '' @ clientFifo @ '' for reading - '' @ err @ nl)
     else do {
     r \<leftarrow> sys K (File (Read clientFd 4));
     if ret r \<noteq> 4
     then die K (\<lambda>err. ''Failed to read() response from '' @ clientFifo @ '' - '' @ err @ nl)
     else do {
     printf K (dec (int_at 0 (rdata r)) @ nl);
     c \<leftarrow> call K (File (Close clientFd));
     if c = -1
     then die K (\<lambda>err. ''Failed to close() '' @ clientFifo @ '' - '' @ err @ nl)
     else halt (Exit EXIT_SUCCESS) }}}}}})}"

definition fifo_client_main :: "'k os \<Rightarrow> string list \<Rightarrow> ('k, unit) cmd" where
  "fifo_client_main K argv =
     (if length argv > 2 \<or> (length argv = 2 \<and> arg argv 1 = ''-h'')
      then usage K (''Usage: '' @ arg argv 0 @ '' [<n>]'' @ nl)
      else do {
        sys K (File (Umask 0));
        p \<leftarrow> call K (Proc Getpid);
        let clientFifo = client_fifo p in do {
        m \<leftarrow> call K (File (Mkfifo clientFifo fifo_perms));
        e \<leftarrow> get_errno;
        if m = -1 \<and> e \<noteq> EEXIST
        then die K (\<lambda>err. ''Failed to mkfifo() '' @ clientFifo @ '' - '' @ err @ nl)
        else do {
        a \<leftarrow> call K (Proc (Atexit ''removeClientFifo''));
        at_exit (a = 0) (removeClientFifo K clientFifo)
          (if a = -1 then usage K (''Failed to register removeClientFifo() with atexit()'' @ nl)
           else fifo_client_request K argv clientFifo) }}})"

section \<open>sockets/is\_seqnum.h\<close>

definition is_SERVER_PORT :: string where "is_SERVER_PORT = ''50000''"

section \<open>sockets/is\_seqnum\_sv.c\<close>

definition is_BACKLOG :: int where "is_BACKLOG = 50"

text \<open>\<open>NI_MAXHOST + NI_MAXSERV + 10\<close>\<close>

definition ADDR_STR_LEN :: nat where "ADDR_STR_LEN = 1025 + 32 + 10"

text \<open>The loop over the addresses: the listening socket, or none if the list ends.\<close>

primrec is_bind :: "'k os \<Rightarrow> (int \<times> int \<times> sockaddr) list \<Rightarrow> ('k, int option) cmd" where
  "is_bind K [] = ok None"
| "is_bind K (ai # ais) = (case ai of (family, socktype, addr) \<Rightarrow> do {
     fd \<leftarrow> call K (Sock (Socket family socktype 0));
     if fd = -1 then is_bind K ais
     else do {
     s \<leftarrow> call K (Sock (Setsockopt fd SOL_SOCKET SO_REUSEADDR 1));
     if s = -1 then die K (\<lambda>err. ''Failed to setsockopt() - '' @ err @ nl)
     else do {
     b \<leftarrow> call K (Sock (Bind fd addr));
     if b = 0 then ok (Some fd)
     else do {
     c \<leftarrow> call K (File (Close fd));
     if c = -1 then die K (\<lambda>err. ''Failed to close() server listening socket - '' @ err @ nl)
     else is_bind K ais }}}})"

text \<open>One iteration of the server loop. \<open>request\<close> is not initialised: when the read stores
  fewer than its four bytes, its use is undefined.\<close>

definition is_serve :: "int \<Rightarrow> 'k os \<Rightarrow> int \<Rightarrow> ('k, int) cmd" where
  "is_serve listenSocketFd K seqNum = do {
     a \<leftarrow> sys K (Sock (Accept listenSocketFd));
     if ret a = -1
     then do {
       e \<leftarrow> get_errno;
       eprintf K (''Failed to accept() socket connection - '' @ strerror K e @ nl);
       ok seqNum }
     else let fd = ret a in do {
     ni \<leftarrow> sys K (Sock (Getnameinfo (raddr a)));
     let clientAddrStr = snprintf ADDR_STR_LEN
           (if ret ni = 0 then ''('' @ rdata ni @ '', '' @ rtext ni @ '')'' else ''(?UNKNOWN?)'');
         close_failed = die K (\<lambda>err. ''Failed to close() socket connection with '' @ clientAddrStr @ '' - '' @ err @ nl)
     in do {
     printf K (''Connection from '' @ clientAddrStr @ nl);
     r \<leftarrow> sys K (File (Read fd 4));
     if ret r = -1
     then do {
       e \<leftarrow> get_errno;
       eprintf K (''Failed to read() '' @ dec 4 @ '' bytes from socket connection with '' @ clientAddrStr @ '' - '' @ strerror K e @ nl);
       c \<leftarrow> call K (File (Close fd));
       if c = -1 then close_failed else ok seqNum }
     else do {
     n \<leftarrow> call K (File (Write fd (int_bytes seqNum)));
     (if n \<noteq> 4
      then do {
        e \<leftarrow> get_errno;
        eprintf K (''Failed to write() '' @ dec 4 @ '' bytes to socket connection with '' @ clientAddrStr @ '' - '' @ strerror K e @ nl);
        State_Monad.return () }
      else State_Monad.return ());
     if ret r \<noteq> 4 then halt Undef
     else let sum = seqNum + int_at 0 (rdata r) in
     if \<not> (INT_MIN \<le> sum \<and> sum \<le> INT_MAX) then halt Undef
     else do {
     c \<leftarrow> call K (File (Close fd));
     if c = -1 then close_failed else ok sum }}}}}"

definition is_server_main :: "nat \<Rightarrow> 'k os \<Rightarrow> string list \<Rightarrow> ('k, unit) cmd" where
  "is_server_main fuel K argv =
     (if length argv > 1 \<and> arg argv 1 = ''-h''
      then usage K (''Usage: '' @ arg argv 0 @ '' <initial_seq_num'' @ nl)
      else bind_res (if length argv > 1 then is_server_getLong K (arg argv 1) else ok 0) (\<lambda>first. do {
        s \<leftarrow> call K (Proc (Signal SIGPIPE SIG_IGN));
        if s = SIG_ERR
        then die K (\<lambda>err. ''Failed to establish signal() handler for SIGPIPE - '' @ err @ nl)
        else do {
        g \<leftarrow> sys K (Sock (Getaddrinfo None is_SERVER_PORT (AI_PASSIVE OR AI_NUMERICSERV) AF_UNSPEC SOCK_STREAM));
        if ret g \<noteq> 0
        then die K (\<lambda>err. ''getaddrinfo() failed - '' @ (if ret g = EAI_SYSTEM then err else gai_strerror K (ret g)) @ nl)
        else bind_res (is_bind K (raddrs g)) (\<lambda>found. case found of
          None \<Rightarrow> usage K (''Failed to bind socket to any address'' @ nl)
        | Some listenSocketFd \<Rightarrow> do {
            sys K (Sock Freeaddrinfo);
            l \<leftarrow> call K (Sock (Listen listenSocketFd is_BACKLOG));
            if l = -1 then die K (\<lambda>err. ''Failed to listen() on socket - '' @ err @ nl)
            else forever fuel (is_serve listenSocketFd K) (c_int first) }) }}))"

section \<open>sockets/is\_seqnum\_cl.c\<close>

primrec is_connect :: "'k os \<Rightarrow> (int \<times> int \<times> sockaddr) list \<Rightarrow> ('k, int option) cmd" where
  "is_connect K [] = ok None"
| "is_connect K (ai # ais) = (case ai of (family, socktype, addr) \<Rightarrow> do {
     fd \<leftarrow> call K (Sock (Socket family socktype 0));
     if fd = -1
     then do {
       e \<leftarrow> get_errno;
       eprintf K (''Failed to create socket() - '' @ strerror K e @ nl);
       is_connect K ais }
     else do {
     c \<leftarrow> call K (Sock (Connect fd addr));
     if c \<noteq> -1 then ok (Some fd)
     else do {
     e \<leftarrow> get_errno;
     eprintf K (''Failed to connect() - '' @ strerror K e @ nl);
     c \<leftarrow> call K (File (Close fd));
     if c = -1 then die K (\<lambda>err. ''Failed to close() socket - '' @ err @ nl)
     else is_connect K ais }}})"

definition is_client_main :: "'k os \<Rightarrow> string list \<Rightarrow> ('k, unit) cmd" where
  "is_client_main K argv =
     (if length argv < 2 \<or> arg argv 1 = ''-h''
      then usage K (''Usage '' @ arg argv 0 @ '' <server> [<seq_length>]'' @ nl)
      else let hostname = arg argv 1 in do {
        g \<leftarrow> sys K (Sock (Getaddrinfo (Some hostname) is_SERVER_PORT AI_NUMERICSERV AF_UNSPEC SOCK_STREAM));
        if ret g \<noteq> 0
        then die K (\<lambda>err. ''Failed to getaddrinfo() for ('' @ hostname @ '', '' @ is_SERVER_PORT @ '') - '' @
               (if ret g = EAI_SYSTEM then err else gai_strerror K (ret g)) @ nl)
        else bind_res (is_connect K (raddrs g)) (\<lambda>found. case found of
          None \<Rightarrow> usage K (''Failed to locate addr ('' @ hostname @ '', '' @ is_SERVER_PORT @ '')'' @ nl)
        | Some socketFd \<Rightarrow> do {
            sys K (Sock Freeaddrinfo);
            bind_res (if length argv > 2 then is_client_getLong K (arg argv 2) else ok 1) (\<lambda>n. do {
            wr \<leftarrow> call K (File (Write socketFd (int_bytes (c_int n))));
            if wr \<noteq> 4 then die K (\<lambda>err. ''Failed to write() to socket - '' @ err @ nl)
            else do {
            r \<leftarrow> sys K (File (Read socketFd 4));
            if ret r = -1 then die K (\<lambda>err. ''Failed to read() from socket - '' @ err @ nl)
            else if ret r \<noteq> 4 then halt Undef
            else do {
            printf K (''Sequence number: '' @ dec (int_at 0 (rdata r)) @ nl);
            c \<leftarrow> call K (File (Close socketFd));
            if c = -1 then die K (\<lambda>err. ''Failed to close() socket - '' @ err @ nl)
            else halt (Exit EXIT_SUCCESS) }}})}) })"

section \<open>Reading the trace of a server\<close>

text \<open>
  The log of a server: the length of the request that was read and not yet answered, the
  grants (the first number and the length of an interval, one for each response that was
  written whole), and the lengths of all requests. \<open>req\<close> reads the length off the bytes of
  a request.
\<close>

type_synonym log = "int option \<times> (int \<times> int) list \<times> int list"

fun note_event :: "(string \<Rightarrow> int) \<Rightarrow> event \<Rightarrow> log \<Rightarrow> log" where
  "note_event req (File (Read fd n), r) (l, gs, qs) =
     (if ret r = int n then (Some (req (rdata r)), gs, qs @ [req (rdata r)]) else (None, gs, qs))"
| "note_event req (File (Write fd bs), r) (l, gs, qs) =
     (case l of
        Some len \<Rightarrow> (None, if ret r = 4 then gs @ [(int_at 0 bs, len)] else gs, qs)
      | None \<Rightarrow> (None, gs, qs))"
| "note_event req e lg = lg"

definition grants :: "(string \<Rightarrow> int) \<Rightarrow> event list \<Rightarrow> (int \<times> int) list" where
  "grants req tr = fst (snd (fold (note_event req) tr (None, [], [])))"

definition requests :: "(string \<Rightarrow> int) \<Rightarrow> event list \<Rightarrow> int list" where
  "requests req tr = snd (snd (fold (note_event req) tr (None, [], [])))"

text \<open>The events stand for themselves: what they log does not depend on what came before.\<close>

definition closed_log :: "(string \<Rightarrow> int) \<Rightarrow> event list \<Rightarrow> bool" where
  "closed_log req d \<longleftrightarrow> (\<forall>l gs qs. \<exists>l'. fold (note_event req) d (l, gs, qs) = (l', gs @ grants req d, qs @ requests req d))"

lemma closed_log_append:
  assumes "closed_log req d" "closed_log req e"
  shows "closed_log req (d @ e)" "grants req (d @ e) = grants req d @ grants req e"
    "requests req (d @ e) = requests req d @ requests req e"
proof -
  obtain l where d: "fold (note_event req) d (None, [], []) = (l, grants req d, requests req d)"
    using assms(1) unfolding closed_log_def by (metis append_Nil)
  obtain l' where e: "fold (note_event req) e (l, grants req d, requests req d) =
      (l', grants req d @ grants req e, requests req d @ requests req e)"
    using assms(2) unfolding closed_log_def by blast
  from d e show g: "grants req (d @ e) = grants req d @ grants req e"
    and q: "requests req (d @ e) = requests req d @ requests req e"
    by (simp_all add: grants_def [of req "d @ e"] requests_def [of req "d @ e"])
  show "closed_log req (d @ e)"
    unfolding closed_log_def g q fold_append comp_def
    using assms unfolding closed_log_def by (metis append_assoc)
qed

lemma closed_log_Nil [simp]: "closed_log req []" "grants req [] = []" "requests req [] = []"
  by (simp_all add: closed_log_def grants_def requests_def)

text \<open>Calls other than reads and writes are not logged.\<close>

fun no_transfer :: "event \<Rightarrow> bool" where
  "no_transfer (File (Read fd n), r) = False"
| "no_transfer (File (Write fd bs), r) = False"
| "no_transfer e = True"

lemma note_event_other: "no_transfer e \<Longrightarrow> note_event req e lg = lg"
  by (cases lg, cases "(req, e, lg)" rule: note_event.cases) auto

lemma grants_skip [simp]: "no_transfer e \<Longrightarrow> grants req (e # d) = grants req d"
  "no_transfer e \<Longrightarrow> requests req (e # d) = requests req d"
  by (simp_all add: grants_def requests_def note_event_other)

lemma grants_skip_list [simp]:
  "list_all no_transfer d \<Longrightarrow> grants req (d @ e) = grants req e"
  "list_all no_transfer d \<Longrightarrow> requests req (d @ e) = requests req e"
  by (induction d) auto

lemma grants_none [simp]:
  "list_all no_transfer d \<Longrightarrow> grants req d = []" "list_all no_transfer d \<Longrightarrow> requests req d = []"
  using grants_skip_list [of d req "[]"] by simp_all

section \<open>What a sequence number server promises\<close>

text \<open>One iteration from the next free number \<open>s\<close>: it reads at most one request; it grants
  nothing or the interval that starts at \<open>s\<close> with the requested length; the next free
  number moves by the requested length or, if nothing was granted, may stay.\<close>

definition serves_one :: "(string \<Rightarrow> int) \<Rightarrow> int \<Rightarrow> event list \<Rightarrow> int res \<Rightarrow> bool" where
  "serves_one req s d r \<longleftrightarrow>
     closed_log req d \<and>
     (grants req d = [] \<or> (\<exists>len. requests req d = [len] \<and> grants req d = [(s, len)])) \<and>
     (\<forall>s'. r = Ok s' \<longrightarrow> INT_MIN \<le> s' \<and> s' \<le> INT_MAX \<and>
        (requests req d = [] \<and> s' = s \<or>
         (\<exists>len. requests req d = [len] \<and> (s' = s + len \<or> s' = s \<and> grants req d = []))))"

text \<open>The intervals do not overlap, and come in increasing order.\<close>

definition apart :: "(int \<times> int) list \<Rightarrow> bool" where
  "apart = sorted_wrt (\<lambda>g h. fst g + snd g \<le> fst h)"

text \<open>All of them below \<open>s\<close>.\<close>

definition apart_below :: "int \<Rightarrow> (int \<times> int) list \<Rightarrow> bool" where
  "apart_below s gs \<longleftrightarrow> apart gs \<and> (\<forall>g \<in> set gs. fst g + snd g \<le> s)"

lemma apart_below_simps:
  "apart_below s []" "apart_below s gs \<Longrightarrow> apart gs" "apart_below s gs \<Longrightarrow> s \<le> t \<Longrightarrow> apart_below t gs"
  "apart_below s gs \<Longrightarrow> apart (gs @ [(s, l)])"
  "apart_below s gs \<Longrightarrow> 0 \<le> l \<Longrightarrow> apart_below (s + l) (gs @ [(s, l)])"
  "apart_below s gs \<Longrightarrow> 0 \<le> l \<Longrightarrow> apart_below (s + l) gs"
  by (force simp: apart_below_def apart_def sorted_wrt_append)+

text \<open>Every interval starts where the one before it ends, the first one at \<open>s\<close>. When no length is
  negative, the intervals are then disjoint and together hold every number from \<open>s\<close> on exactly once.\<close>

primrec gapless :: "int \<Rightarrow> (int \<times> int) list \<Rightarrow> bool" where
  "gapless s [] = True"
| "gapless s (g # gs) = (fst g = s \<and> gapless (s + snd g) gs)"

lemma gapless_snoc: "gapless s (gs @ [g]) \<longleftrightarrow> gapless s gs \<and> fst g = s + sum_list (map snd gs)"
  by (induction gs arbitrary: s) (auto simp: algebra_simps)

lemma gapless_below: "gapless s gs \<Longrightarrow> list_all (\<lambda>g. 0 \<le> snd g) gs \<Longrightarrow> g \<in> set gs \<Longrightarrow> s \<le> fst g"
  by (induction gs arbitrary: s) fastforce+

lemma gapless_apart: "gapless s gs \<Longrightarrow> list_all (\<lambda>g. 0 \<le> snd g) gs \<Longrightarrow> apart gs"
  by (induction gs arbitrary: s) (fastforce simp: apart_def dest: gapless_below)+

definition numbers :: "(int \<times> int) list \<Rightarrow> int list" where
  "numbers gs = concat (map (\<lambda>g. [fst g .. fst g + snd g - 1]) gs)"

lemma gapless_numbers:
  "gapless s gs \<Longrightarrow> list_all (\<lambda>g. 0 \<le> snd g) gs \<Longrightarrow> numbers gs = [s .. s + sum_list (map snd gs) - 1]"
proof (induction gs arbitrary: s)
  case (Cons g gs)
  have "0 \<le> sum_list (map snd gs)"
    using Cons.prems(2) by (auto simp: list_all_iff intro!: sum_list_nonneg)
  with Cons show ?case
    using upto_split1 [of s "s + snd g" "s + snd g + sum_list (map snd gs)"]
      upto_split2 [of s "s + snd g - 1" "s + snd g + sum_list (map snd gs) - 1"]
    by (cases "snd g = 0") (auto simp: numbers_def algebra_simps)
qed (simp add: numbers_def)

locale seq_server =
  fixes serve :: "'k os \<Rightarrow> int \<Rightarrow> ('k, int) cmd" and req :: "string \<Rightarrow> int"
  assumes serve_one: "posix K \<Longrightarrow> INT_MIN \<le> s \<Longrightarrow> s \<le> INT_MAX \<Longrightarrow>
     wp (serve K s) (\<lambda>r w'. r \<noteq> Undef \<longrightarrow> (\<exists>d. trace w' = trace w @ d \<and> serves_one req s d r)) w"
begin

text \<open>However long it runs and whatever the system does, as long as no length is negative.\<close>

lemma serve_forever_apart:
  assumes "posix K" "INT_MIN \<le> s0" "s0 \<le> INT_MAX"
  shows "wp (forever fuel (serve K) s0) (\<lambda>r w'. r \<noteq> Undef \<longrightarrow> (\<exists>d. trace w' = trace w @ d \<and>
           closed_log req d \<and> (list_all (\<lambda>len. 0 \<le> len) (requests req d) \<longrightarrow> apart (grants req d)))) w"
proof (rule wp_server [where J = "\<lambda>s. INT_MIN \<le> s \<and> s \<le> INT_MAX" and P = "serves_one req" and
      L = "\<lambda>s d. closed_log req d \<and> (list_all (\<lambda>len. 0 \<le> len) (requests req d) \<longrightarrow> apart_below s (grants req d))"])
  show "wp (serve K s) (\<lambda>r w'. r \<noteq> Undef \<longrightarrow> (\<exists>e. trace w' = trace w @ e \<and> serves_one req s e r)) w"
    if "INT_MIN \<le> s \<and> s \<le> INT_MAX" for s and w :: "'k world"
    using that by (intro serve_one [OF assms(1)]) auto
  show "(INT_MIN \<le> s' \<and> s' \<le> INT_MAX) \<and> closed_log req (d @ e) \<and>
      (list_all (\<lambda>len. 0 \<le> len) (requests req (d @ e)) \<longrightarrow> apart_below s' (grants req (d @ e)))"
    if "INT_MIN \<le> s \<and> s \<le> INT_MAX" and "serves_one req s e (Ok s')"
      and "closed_log req d \<and> (list_all (\<lambda>len. 0 \<le> len) (requests req d) \<longrightarrow> apart_below s (grants req d))"
    for s d e s'
    using that by (auto simp: serves_one_def closed_log_append apart_below_simps)
  show "closed_log req (d @ e) \<and> (list_all (\<lambda>len. 0 \<le> len) (requests req (d @ e)) \<longrightarrow> apart (grants req (d @ e)))"
    if "serves_one req s e r"
      and "closed_log req d \<and> (list_all (\<lambda>len. 0 \<le> len) (requests req d) \<longrightarrow> apart_below s (grants req d))"
    for s d e r
    using that by (auto simp: serves_one_def closed_log_append apart_below_simps)
qed (use assms in \<open>auto simp: apart_below_simps\<close>)

end

text \<open>A server that moves on only when the client got its answer.\<close>

definition serves_gapless :: "(string \<Rightarrow> int) \<Rightarrow> int \<Rightarrow> event list \<Rightarrow> int res \<Rightarrow> bool" where
  "serves_gapless req s d r \<longleftrightarrow>
     serves_one req s d r \<and> (\<forall>s'. r = Ok s' \<longrightarrow> s' = s + sum_list (map snd (grants req d)))"

locale gapless_server =
  fixes serve :: "'k os \<Rightarrow> int \<Rightarrow> ('k, int) cmd" and req :: "string \<Rightarrow> int"
  assumes serve_gapless: "posix K \<Longrightarrow> INT_MIN \<le> s \<Longrightarrow> s \<le> INT_MAX \<Longrightarrow>
     wp (serve K s) (\<lambda>r w'. r \<noteq> Undef \<longrightarrow> (\<exists>d. trace w' = trace w @ d \<and> serves_gapless req s d r)) w"

sublocale gapless_server \<subseteq> seq_server
  by unfold_locales (auto simp: serves_gapless_def intro: wp_mono [OF serve_gapless])

context gapless_server
begin

lemma serve_forever_gapless:
  assumes "posix K" "INT_MIN \<le> s0" "s0 \<le> INT_MAX"
  shows "wp (forever fuel (serve K) s0) (\<lambda>r w'. r \<noteq> Undef \<longrightarrow> (\<exists>d. trace w' = trace w @ d \<and>
           closed_log req d \<and> gapless s0 (grants req d))) w"
proof (rule wp_server [where J = "\<lambda>s. INT_MIN \<le> s \<and> s \<le> INT_MAX" and P = "serves_gapless req" and
      L = "\<lambda>s d. closed_log req d \<and> gapless s0 (grants req d) \<and> s = s0 + sum_list (map snd (grants req d))"])
  show "wp (serve K s) (\<lambda>r w'. r \<noteq> Undef \<longrightarrow> (\<exists>e. trace w' = trace w @ e \<and> serves_gapless req s e r)) w"
    if "INT_MIN \<le> s \<and> s \<le> INT_MAX" for s and w :: "'k world"
    using that by (intro serve_gapless [OF assms(1)]) auto
  show "(INT_MIN \<le> s' \<and> s' \<le> INT_MAX) \<and> closed_log req (d @ e) \<and> gapless s0 (grants req (d @ e)) \<and>
      s' = s0 + sum_list (map snd (grants req (d @ e)))"
    if "serves_gapless req s e (Ok s')"
      and "closed_log req d \<and> gapless s0 (grants req d) \<and> s = s0 + sum_list (map snd (grants req d))"
    for s d e s'
    using that by (auto simp: serves_gapless_def serves_one_def closed_log_append gapless_snoc)
  show "closed_log req (d @ e) \<and> gapless s0 (grants req (d @ e))"
    if "serves_gapless req s e r"
      and "closed_log req d \<and> gapless s0 (grants req d) \<and> s = s0 + sum_list (map snd (grants req d))"
    for s d e r
    using that by (auto simp: serves_gapless_def serves_one_def closed_log_append gapless_snoc)
qed (use assms in auto)

end

section \<open>The servers keep the promise\<close>

definition fifo_req :: "string \<Rightarrow> int" where "fifo_req bs = seqLen (request_of_bytes bs)"
definition is_req :: "string \<Rightarrow> int" where "is_req bs = int_at 0 bs"

lemmas log_simps = closed_log_def grants_def requests_def serves_one_def serves_gapless_def

interpretation fifo_serve: gapless_server "fifo_serve serverFd" fifo_req for serverFd
proof
  show "wp (fifo_serve serverFd K s) (\<lambda>r w'. r \<noteq> Undef \<longrightarrow> (\<exists>d. trace w' = trace w @ d \<and> serves_gapless fifo_req s d r)) w"
    if "posix K" "INT_MIN \<le> s" "s \<le> INT_MAX" for K :: "'a os" and s w
    using that unfolding fifo_serve_def Let_def
    by (auto intro!: wp_tr; simp add: log_simps fifo_req_def)
qed

interpretation is_serve: seq_server "is_serve listenSocketFd" is_req for listenSocketFd
proof
  show "wp (is_serve listenSocketFd K s) (\<lambda>r w'. r \<noteq> Undef \<longrightarrow> (\<exists>d. trace w' = trace w @ d \<and> serves_one is_req s d r)) w"
    if "posix K" "INT_MIN \<le> s" "s \<le> INT_MAX" for K :: "'a os" and s w
    using that unfolding is_serve_def Let_def
    by (auto intro!: wp_tr; simp add: log_simps is_req_def)
qed

section \<open>Properties\<close>

lemma wp_fifo_server:
  assumes "posix K"
  shows "wp (fifo_server_main fuel K argv) (\<lambda>r w'. r \<noteq> Undef \<longrightarrow>
     (\<exists>d. trace w' = trace w @ d \<and> gapless 0 (grants fifo_req d))) w"
proof -
  have loop: "wp (forever fuel (fifo_serve fd K) 0) Q w1"
    if "\<And>r w' d. trace w' = trace w1 @ d \<Longrightarrow> gapless 0 (grants fifo_req d) \<Longrightarrow> Q r w'"
      and "\<And>w'. Q Undef w'" for fd Q w1
    using fifo_serve.serve_forever_gapless [OF assms, of 0 fuel fd w1]
    by (rule wp_mono) (auto simp: INT_MIN_def INT_MAX_def intro: that)
  show ?thesis
    unfolding fifo_server_main_def using assms by (auto intro!: wp_tr loop)
qed

text \<open>
  C2. The FIFO server hands out consecutive sequence numbers, whatever the system does and however
  long it runs: the responses it wrote are 0, then the first granted length, then the sum of the
  first two, and so on; a client that could not be answered does not consume numbers. When no client
  asked for a negative length, there are neither gaps nor overlaps: the granted intervals are
  disjoint, and the numbers handed out are 0, 1, 2 and so on in this order, each once. (The server
  does not reject a negative length, which takes numbers back that were handed out before.) Runs in
  which the sum leaves the range of \<open>int\<close> are undefined and excluded.
\<close>

theorem fifo_server_gapless:
  assumes "posix K"
  shows "wp (fifo_server_main fuel K argv) (\<lambda>r w'. r \<noteq> Undef \<longrightarrow>
     (\<exists>d. trace w' = trace w @ d \<and> gapless 0 (grants fifo_req d) \<and>
        (list_all (\<lambda>g. 0 \<le> snd g) (grants fifo_req d) \<longrightarrow>
           apart (grants fifo_req d) \<and>
           numbers (grants fifo_req d) = [0 .. sum_list (map snd (grants fifo_req d)) - 1]))) w"
  by (rule wp_mono [OF wp_fifo_server [OF assms]]) (auto simp: gapless_apart gapless_numbers [of 0, simplified])

text \<open>Two clients are answered, then the FIFO is read short.\<close>

definition fifo_script :: "sysret list" where
  "fifo_script = [returns 0, returns 0, returns 3, returns 4, returns 0,
     gives (request_bytes \<lparr>pid = 100, seqLen = 5\<rparr>), returns 5, returns 4, returns 0,
     gives (request_bytes \<lparr>pid = 200, seqLen = 3\<rparr>), returns 5, returns 4, returns 0, gives []]"

theorem fifo_server_gapless_witness:
  "\<exists>d. trace (snd (run_state (fifo_server_main 9 script_os [''server'']) (start fifo_script))) = d \<and>
     grants fifo_req d = [(0, 5), (5, 3)] \<and> gapless 0 (grants fifo_req d) \<and>
     apart (grants fifo_req d) \<and> numbers (grants fifo_req d) = [0 .. 7]"
proof -
  have "fst (run_state (fifo_server_main 9 script_os [''server'']) (start fifo_script)) = Exit 1"
    by code_simp
  moreover have "grants fifo_req (trace (snd (run_state (fifo_server_main 9 script_os [''server'']) (start fifo_script)))) =
      [(0, 5), (5, 3)]"
    by code_simp
  ultimately show ?thesis
    using fifo_server_gapless [OF script_posix, of 9 "[''server'']" "start fifo_script", THEN wp_run]
    by (auto simp: start_def)
qed

text \<open>The case left out of the second half: a client that asks for -5 numbers makes the server grant
  the numbers from 0 to 4 twice.\<close>

lemma fifo_server_negative_length:
  "grants fifo_req (trace (snd (run_state (fifo_server_main 9 script_os [''server''])
     (start [returns 0, returns 0, returns 3, returns 4, returns 0,
        gives (request_bytes \<lparr>pid = 100, seqLen = 5\<rparr>), returns 5, returns 4, returns 0,
        gives (request_bytes \<lparr>pid = 200, seqLen = -5\<rparr>), returns 5, returns 4, returns 0,
        gives (request_bytes \<lparr>pid = 300, seqLen = 5\<rparr>), returns 5, returns 4, returns 0])))) =
   [(0, 5), (5, -5), (0, 5)]"
  by code_simp

text \<open>Finding an address makes no transfers.\<close>

lemma wp_is_bind:
  assumes "posix K"
  shows "wp (is_bind K ais) (\<lambda>r w'. \<exists>d. trace w' = trace w @ d \<and> list_all no_transfer d \<and>
     (is_ok r \<or> r = Exit 1)) w"
proof (induction ais arbitrary: w)
  case (Cons ai ais)
  show ?case
    using assms by (cases ai) (auto intro!: wp_tr wp_mono [OF Cons.IH])
qed simp

lemma wp_is_connect:
  assumes "posix K"
  shows "wp (is_connect K ais) (\<lambda>r w'. \<exists>d. trace w' = trace w @ d \<and> list_all no_transfer d \<and>
     printed 1 d = [] \<and> (is_ok r \<or> r = Exit 1)) w"
proof (induction ais arbitrary: w)
  case (Cons ai ais)
  show ?case
    using assms by (cases ai) (auto intro!: wp_tr wp_mono [OF Cons.IH])
qed simp

text \<open>
  The TCP server never hands out a number twice, whatever the system does and however
  long it runs: if no client asks for a negative length, the intervals of the responses
  it wrote are disjoint and increasing. (Unlike the FIFO server it also skips the numbers
  of clients whose response could not be written.)
\<close>

theorem is_server_apart:
  assumes "posix K"
  shows "wp (is_server_main fuel K argv) (\<lambda>r w'. r \<noteq> Undef \<longrightarrow>
     (\<exists>d. trace w' = trace w @ d \<and>
        (list_all (\<lambda>len. 0 \<le> len) (requests is_req d) \<longrightarrow> apart (grants is_req d)))) w"
proof -
  have loop: "wp (forever fuel (is_serve fd K) (c_int first)) Q w1"
    if "\<And>r w' d. trace w' = trace w1 @ d \<Longrightarrow>
        (list_all (\<lambda>len. 0 \<le> len) (requests is_req d) \<longrightarrow> apart (grants is_req d)) \<Longrightarrow> Q r w'"
      and "\<And>w'. Q Undef w'" for fd first Q w1
    by (rule wp_mono [OF is_serve.serve_forever_apart [OF assms]])
       (use c_int_range [of first] in \<open>auto intro: that\<close>)
  have bind: "wp (is_bind K ais) (and_then P Q) w1"
    if "\<And>fd d w'. trace w' = trace w1 @ d \<Longrightarrow> list_all no_transfer d \<Longrightarrow> P fd w'"
      and "\<And>d w'. trace w' = trace w1 @ d \<Longrightarrow> list_all no_transfer d \<Longrightarrow> Q (Exit 1) w'" for ais P Q w1
    by (rule wp_mono [OF wp_is_bind [OF assms]]) (auto simp: and_then_def split: res.splits intro: that)
  show ?thesis
    unfolding is_server_main_def using assms
    by (auto intro!: wp_tr loop bind is_server_getLong.outcome simp: apart_def split: option.splits)
qed

text \<open>One client asks for 4 numbers, a second for 2; then closing a connection fails.\<close>

definition is_script :: "sysret list" where
  "is_script = [returns 0, reply0\<lparr>raddrs := [(2, 1, AddrRaw ''any'')]\<rparr>, returns 3, returns 0, returns 0,
     returns 0, returns 0,
     returns 4, returns 1, gives (int_bytes 4), returns 4, returns 0,
     returns 4, returns 1, gives (int_bytes 2), returns 4, returns (-1)]"

theorem is_server_apart_witness:
  "\<exists>d. trace (snd (run_state (is_server_main 9 script_os [''server'', ''7'']) (start is_script))) = d \<and>
     grants is_req d = [(7, 4), (11, 2)] \<and> apart (grants is_req d)"
proof -
  let ?run = "run_state (is_server_main 9 script_os [''server'', ''7'']) (start is_script)"
  have "fst ?run = Exit 1" by code_simp
  moreover have "grants is_req (trace (snd ?run)) = [(7, 4), (11, 2)]" by code_simp
  moreover have "requests is_req (trace (snd ?run)) = [4, 2]" by code_simp
  ultimately show ?thesis
    using is_server_apart [OF script_posix, of 9 "[''server'', ''7'']" "start is_script", THEN wp_run]
    by (simp add: start_def)
qed

lemma wp_at_exit:
  "wp (at_exit b h m) Q = wp m (\<lambda>r w'. case r of
     Exit n \<Rightarrow> if b then wp h (\<lambda>_. Q (Exit n)) w' else Q (Exit n) w' | _ \<Rightarrow> Q r w')"
  unfolding at_exit_def wp_bind by (rule arg_cong [where f = "wp m"]) (auto simp: fun_eq_iff split: res.split)

lemma request_roundtrip:
  "INT_MIN \<le> p \<Longrightarrow> p \<le> INT_MAX \<Longrightarrow> INT_MIN \<le> n \<Longrightarrow> n \<le> INT_MAX \<Longrightarrow>
   request_of_bytes (request_bytes \<lparr>pid = p, seqLen = n\<rparr>) = \<lparr>pid = p, seqLen = n\<rparr>"
  using int_at_append [of "[]" p "int_bytes n"] int_at_append [of "int_bytes p" n "[]"]
  by (simp add: request_of_bytes_def request_bytes_def)

interpretation fifo_request: wire_format request_bytes "\<lambda>bs. Some (request_of_bytes bs)"
    "\<lambda>q. INT_MIN \<le> pid q \<and> pid q \<le> INT_MAX \<and> INT_MIN \<le> seqLen q \<and> seqLen q \<le> INT_MAX"
proof
  show "Some (request_of_bytes (request_bytes q)) = Some q"
    if "INT_MIN \<le> pid q \<and> pid q \<le> INT_MAX \<and> INT_MIN \<le> seqLen q \<and> seqLen q \<le> INT_MAX" for q
    using that request_roundtrip [of "pid q" "seqLen q"] by (cases q) simp
qed

lemma fifo_req_request: "INT_MIN \<le> n \<Longrightarrow> n \<le> INT_MAX \<Longrightarrow> fifo_req (request_bytes \<lparr>pid = p, seqLen = n\<rparr>) = n"
  using int_at_append [of "int_bytes p" n "[]"]
  by (simp add: fifo_req_def request_of_bytes_def request_bytes_def)

text \<open>
  The client leaves no FIFO behind: whenever it ends, successfully or with an error,
  after \<open>atexit\<close> has registered the handler, it has called \<open>unlink\<close> on the FIFO it made.
\<close>

theorem fifo_client_removes_fifo:
  assumes "posix K"
  shows "wp (fifo_client_main K argv) (\<lambda>r w'. \<exists>d. trace w' = trace w @ d \<and> (r = Exit 0 \<or> r = Exit 1) \<and>
     (\<forall>a name m b. (Proc (Atexit ''removeClientFifo''), a) \<in> set d \<and> ret a = 0 \<and>
        (File (Mkfifo name m), b) \<in> set d \<longrightarrow> (\<exists>x. (File (Unlink name), x) \<in> set d))) w"
proof -
  have client: "wp (fifo_client_request K argv name) (\<lambda>r w'. \<exists>d. trace w' = trace w1 @ d \<and>
          (\<forall>a. (Proc (Atexit ''removeClientFifo''), a) \<notin> set d) \<and>
          (\<forall>n m b. (File (Mkfifo n m), b) \<notin> set d) \<and> (r = Exit 0 \<or> r = Exit 1)) w1" for name w1
    unfolding fifo_client_request_def using assms by (auto intro!: wp_tr fifo_client_getInt.outcome)
  show ?thesis
    unfolding fifo_client_main_def wp_at_exit Let_def removeClientFifo_def
    using assms by (auto intro!: wp_tr wp_mono [OF client] simp: wp_at_exit ex_disj_distrib)
qed

theorem fifo_client_removes_fifo_witness:
  "\<exists>d x. trace (snd (run_state (fifo_client_main script_os [''client''])
       (start [returns 0, returns 42, returns 0, returns 0, returns 42, fails_with 2]))) = d \<and>
     (File (Unlink ''/tmp/seqnum_cl.42''), x) \<in> set d"
proof -
  let ?run = "run_state (fifo_client_main script_os [''client''])
       (start [returns 0, returns 42, returns 0, returns 0, returns 42, fails_with 2])"
  have "(Proc (Atexit ''removeClientFifo''), returns 0) \<in> set (trace (snd ?run))"
    "(File (Mkfifo ''/tmp/seqnum_cl.42'' fifo_perms), returns 0) \<in> set (trace (snd ?run))"
    by code_simp+
  moreover have "ret (returns 0) = 0" by code_simp
  moreover have "trace (start [returns 0, returns 42, returns 0, returns 0, returns 42, fails_with 2]) = []"
    by (simp add: start_def)
  ultimately show ?thesis
    using fifo_client_removes_fifo [OF script_posix, of "[''client'']"
        "start [returns 0, returns 42, returns 0, returns 0, returns 42, fails_with 2]", THEN wp_run]
    by (metis append_Nil)
qed

end
