(* ===== verification/Sv_Msg.thy ===== *)
theory Sv_Msg
  imports Transfers Servers Seqnum
begin

text \<open>
  The System V message queue programs of \<open>svipc/\<close>: the tools \<open>svmsg_create.c\<close>,
  \<open>svmsg_send.c\<close>, \<open>svmsg_receive.c\<close> and \<open>svmsg_rm.c\<close>, \<open>svmsg_demo_server.c\<close>, and the file
  service \<open>svmsg_file_server.c\<close> with its client \<open>svmsg_file_client.c\<close>. A message is its type
  and its data; \<open>msgrcv\<close> answers with the data and, as a number, the type.
\<close>

definition MSG_NOERROR :: int where "MSG_NOERROR = 4096"
definition MSG_EXCEPT :: int where "MSG_EXCEPT = 8192"
definition SA_RESTART :: int where "SA_RESTART = 0x10000000"
definition WNOHANG :: int where "WNOHANG = 1"

text \<open>\<open>sscanf(s, "%i", &n)\<close> and \<open>"%li"\<close>: -1 at the end of the string, 0 if there is no number,
  else 1 and the number.\<close>

definition sscanf_i :: "string \<Rightarrow> int \<times> int" where
  "sscanf_i s = (if dropWhile isspace s = [] then (-1, 0)
     else case strto_scan 0 s of None \<Rightarrow> (0, 0) | Some _ \<Rightarrow> (1, c_int (fst (strtol 0 s))))"

section \<open>svipc/svmsg\_create.c\<close>

record create_opts =
  msgFlags :: int
  key :: "int option"       \<comment> \<open>not initialised at first\<close>
  numKeyFlags :: int

definition svmsg_create_printUsage :: "'k os \<Rightarrow> string \<Rightarrow> ('k world, unit) state" where
  "svmsg_create_printUsage K programName = do {
     eprintf K (''Usage: '' @ programName @ '' [-cx] {-f <pathname> | -k <key> | -p} [<octal perm>]'' @ nl);
     eprintf K (''    -c            - Use IPC_CREAT flag'' @ nl);
     eprintf K (''    -x            - Use IPC_EXCL flag'' @ nl);
     eprintf K (''    -f <pathname> - Generate key using ftok()'' @ nl);
     eprintf K (''    -k <key>      - Use key'' @ nl);
     eprintf K (''    -p            - Use IPC_PRIVATE key'' @ nl);
     State_Monad.return () }"

definition svmsg_create_opt :: "'k os \<Rightarrow> string \<Rightarrow> getopt_ev \<Rightarrow> create_opts \<Rightarrow> ('k, create_opts) cmd" where
  "svmsg_create_opt K prog ev st = (case ev of
     Opt c optarg \<Rightarrow>
       if c = CHR ''c'' then ok (st\<lparr>msgFlags := msgFlags st OR IPC_CREAT\<rparr>)
       else if c = CHR ''x'' then ok (st\<lparr>msgFlags := msgFlags st OR IPC_EXCL\<rparr>)
       else if c = CHR ''f'' then do {
         k \<leftarrow> call K (Ipc (Ftok optarg 1));
         if k = -1
         then die K (\<lambda>err. ''Failed to ftok() key from file '' @ optarg @ '' - '' @ err @ nl)
         else ok (st\<lparr>key := Some k, numKeyFlags := numKeyFlags st + 1\<rparr>) }
       else if c = CHR ''k'' then
         (if fst (sscanf_i optarg) \<noteq> 1
          then usage K (''-k <key> requires a numeric argument'' @ nl)
          else ok (st\<lparr>numKeyFlags := numKeyFlags st + 1\<rparr>))
       else if c = CHR ''p'' then ok (st\<lparr>key := Some IPC_PRIVATE, numKeyFlags := numKeyFlags st + 1\<rparr>)
       else do { svmsg_create_printUsage K prog; halt (Exit EXIT_FAILURE) }
   | _ \<Rightarrow> do {
       eprintf K (getopt_message prog ev);
       svmsg_create_printUsage K prog;
       halt (Exit EXIT_FAILURE) })"

definition svmsg_create_main :: "'k os \<Rightarrow> string list \<Rightarrow> ('k, unit) cmd" where
  "svmsg_create_main K argv = (case getopt ''hcxf:k:p'' (drop 1 argv) of (evs, operands) \<Rightarrow>
     bind_res (fold_each evs (svmsg_create_opt K (arg argv 0)) \<lparr>msgFlags = 0, key = None, numKeyFlags = 0\<rparr>) (\<lambda>st.
       if numKeyFlags st \<noteq> 1
       then usage K (''Exactly one of the options -f, -k, or -p must be supplied'' @ nl)
       else bind_res (if operands = [] then ok (uint (S_IRUSR OR S_IWUSR)) else svmsg_create_getInt K (hd operands)) (\<lambda>perms.
         case key st of
           None \<Rightarrow> halt Undef
         | Some k \<Rightarrow> do {
             id \<leftarrow> call K (Ipc (Msgget k (msgFlags st OR perms)));
             if id = -1
             then die K (\<lambda>err. ''Failed to msgget() msg queue - '' @ err @ nl)
             else do { printf K (dec id @ nl); halt (Exit EXIT_SUCCESS) } })))"

section \<open>svipc/svmsg\_send.c\<close>

definition MAX_MSG_TEXT_LENGTH :: nat where "MAX_MSG_TEXT_LENGTH = 1024"

definition svmsg_send_usage :: "'k os \<Rightarrow> string \<Rightarrow> ('k, 'a) cmd" where
  "svmsg_send_usage K prog = do {
     eprintf K (''Usage: '' @ prog @ '' [-n] msqid msg-type [msg-text]'' @ nl);
     eprintf K (''    -n - Use IPC_NOWAIT flag'' @ nl);
     halt (Exit EXIT_FAILURE) }"

definition svmsg_send_opt :: "'k os \<Rightarrow> string \<Rightarrow> getopt_ev \<Rightarrow> int \<Rightarrow> ('k, int) cmd" where
  "svmsg_send_opt K prog ev flags = (case ev of
     Opt c optarg \<Rightarrow>
       if c = CHR ''n'' then ok (flags OR IPC_NOWAIT)
       else svmsg_send_usage K prog
   | _ \<Rightarrow> do { eprintf K (getopt_message prog ev); svmsg_send_usage K prog })"

definition svmsg_send_main :: "'k os \<Rightarrow> string list \<Rightarrow> ('k, unit) cmd" where
  "svmsg_send_main K argv = (case getopt ''nh'' (drop 1 argv) of (evs, operands) \<Rightarrow>
     bind_res (fold_each evs (svmsg_send_opt K (arg argv 0)) 0) (\<lambda>flags.
       if length operands < 2 \<or> length operands > 3
       then usage K (''Wrong number of arguments'' @ nl)
       else
         bind_res (svmsg_send_getLong K (operands ! 0)) (\<lambda>msqid.
         bind_res (svmsg_send_getLong K (operands ! 1)) (\<lambda>type.
           if length operands > 2 \<and> length (operands ! 2) + 1 > MAX_MSG_TEXT_LENGTH
           then usage K (''msg-text too long (max: '' @ dec (int MAX_MSG_TEXT_LENGTH) @ '' chars)'' @ nl)
           else do {
             s \<leftarrow> call K (Ipc (Msgsnd (c_int msqid) type
                    (if length operands > 2 then operands ! 2 @ [NUL] else []) flags));
             if s = -1 then die K (\<lambda>err. ''msgsnd() failed - '' @ err @ nl)
             else halt (Exit EXIT_SUCCESS) }))))"

section \<open>svipc/svmsg\_receive.c\<close>

definition svmsg_receive_printUsage :: "'k os \<Rightarrow> string \<Rightarrow> ('k world, unit) state" where
  "svmsg_receive_printUsage K program = do {
     eprintf K (''Usage: '' @ program @ '' [<options>] <msqid> [<max-bytes>]'' @ nl);
     eprintf K (''Permitted options are:'' @ nl);
     eprintf K (''    -e        - Use MSG_NOERROR flag'' @ nl);
     eprintf K (''    -t <type> - Select msg of given type'' @ nl);
     eprintf K (''    -n        - Use IPC_NOWAIT flag'' @ nl);
     eprintf K (''    -x        - Use MSG_EXCEPT flag'' @ nl);
     State_Monad.return () }"

definition svmsg_receive_opt :: "'k os \<Rightarrow> string \<Rightarrow> getopt_ev \<Rightarrow> int \<times> int \<Rightarrow> ('k, int \<times> int) cmd" where
  "svmsg_receive_opt K prog ev st = (case st of (flags, type) \<Rightarrow> case ev of
     Opt c optarg \<Rightarrow>
       if c = CHR ''e'' then ok (flags OR MSG_NOERROR, type)
       else if c = CHR ''t'' then bind_res (svmsg_receive_getLong K optarg) (\<lambda>t. ok (flags, t))
       else if c = CHR ''n'' then ok (flags OR IPC_NOWAIT, type)
       else if c = CHR ''x'' then ok (flags OR MSG_EXCEPT, type)
       else do { svmsg_receive_printUsage K prog; halt (Exit EXIT_FAILURE) }
   | _ \<Rightarrow> do {
       eprintf K (getopt_message prog ev);
       svmsg_receive_printUsage K prog;
       halt (Exit EXIT_FAILURE) })"

text \<open>The buffer holds 1024 bytes and is not initialised: a longer message is written past
  its end, and a message without a NUL is printed past its end.\<close>

definition svmsg_receive_main :: "'k os \<Rightarrow> string list \<Rightarrow> ('k, unit) cmd" where
  "svmsg_receive_main K argv = (case getopt ''het:nx'' (drop 1 argv) of (evs, operands) \<Rightarrow>
     bind_res (fold_each evs (svmsg_receive_opt K (arg argv 0)) (0, 0)) (\<lambda>(flags, type).
       if length operands < 1 \<or> length operands > 2
       then do {
         eprintf K (''Wrong number of arguments'' @ nl);
         svmsg_receive_printUsage K (arg argv 0);
         halt (Exit EXIT_FAILURE) }
       else
         bind_res (svmsg_receive_getLong K (operands ! 0)) (\<lambda>msqid.
         bind_res (if length operands > 1 then svmsg_receive_getLong K (operands ! 1) else ok (int MAX_MSG_TEXT_LENGTH)) (\<lambda>maxBytes. do {
           m \<leftarrow> sys K (Ipc (Msgrcv (c_int msqid) (c_ulong maxBytes) type flags));
           if ret m = -1 then die K (\<lambda>err. ''msgrcv() failed - '' @ err @ nl)
           else if length (rdata m) > MAX_MSG_TEXT_LENGTH then halt Undef
           else do {
             printf K (''Received: type='' @ dec (rnum 0 m) @ ''; length='' @ dec (ret m));
             if ret m > 0 \<and> NUL \<notin> set (rdata m) then halt Undef
             else do {
             (if ret m > 0 then do { printf K (''; body='' @ cstr (rdata m)); State_Monad.return () }
              else State_Monad.return ());
             printf K nl;
             halt (Exit EXIT_SUCCESS) }}}))))"

section \<open>svipc/svmsg\_rm.c\<close>

definition svmsg_rm_one :: "'k os \<Rightarrow> string \<Rightarrow> ('k, unit) cmd" where
  "svmsg_rm_one K s =
     (if fst (sscanf_i s) = 0 then usage K (''msqid must be an integer'' @ nl)
      else if fst (sscanf_i s) = -1 then halt Undef
      else do {
        m \<leftarrow> call K (Ipc (MsgctlRmid (snd (sscanf_i s))));
        if m = -1
        then die K (\<lambda>err. ''Failed to remove msqid '' @ dec (snd (sscanf_i s)) @ '' - '' @ err @ nl)
        else ok () })"

definition svmsg_rm_main :: "'k os \<Rightarrow> string list \<Rightarrow> ('k, unit) cmd" where
  "svmsg_rm_main K argv =
     (if length argv = 1 \<or> (length argv > 1 \<and> arg argv 1 = ''-h'')
      then usage K (''Usage: '' @ arg argv 0 @ '' <msqid>...'' @ nl)
      else bind_res (for_each (drop 1 argv) (svmsg_rm_one K)) (\<lambda>_. halt (Exit EXIT_SUCCESS)))"

section \<open>svipc/svmsg\_demo\_server.c\<close>

definition KEY_PATH :: string where "KEY_PATH = ''/etc/passwd''"

definition MQ_PERM :: int where "MQ_PERM = uint (S_IRUSR OR S_IWUSR OR S_IWGRP)"

text \<open>The loop that creates the queue, removing one that exists: the new identifier.\<close>

primrec demo_create :: "nat \<Rightarrow> 'k os \<Rightarrow> int \<Rightarrow> ('k, int) cmd" where
  "demo_create 0 K k = halt Hang"
| "demo_create (Suc fuel) K k = do {
     id \<leftarrow> call K (Ipc (Msgget k (IPC_CREAT OR IPC_EXCL OR MQ_PERM)));
     e \<leftarrow> get_errno;
     if id \<noteq> -1 then ok id
     else if e = EEXIST
     then do {
       old \<leftarrow> call K (Ipc (Msgget k 0));
       if old = -1 then die K (\<lambda>err. ''Failed to msgget() old id - '' @ err @ nl)
       else do {
       m \<leftarrow> call K (Ipc (MsgctlRmid old));
       if m = -1 then die K (\<lambda>err. ''Failed to removed old id '' @ dec old @ '' - '' @ err @ nl)
       else do {
       eprintf K (''Removed old id '' @ dec old @ nl);
       demo_create fuel K k }}}
     else die K (\<lambda>err. ''Failed to msgget() id - '' @ err @ nl) }"

definition svmsg_demo_server_main :: "nat \<Rightarrow> 'k os \<Rightarrow> string list \<Rightarrow> ('k, unit) cmd" where
  "svmsg_demo_server_main fuel K argv = do {
     k \<leftarrow> call K (Ipc (Ftok KEY_PATH 1));
     if k = -1
     then die K (\<lambda>err. ''Failed to generate ipc key from '' @ KEY_PATH @ '' - '' @ err @ nl)
     else bind_res (demo_create fuel K k) (\<lambda>id. do {
       printf K (''Created new id '' @ dec id @ nl);
       halt (Exit EXIT_SUCCESS) }) }"

section \<open>svipc/svmsg\_file.h\<close>

definition SERVER_KEY :: int where "SERVER_KEY = 0x1aaaaaa1"
definition PATH_MAX :: nat where "PATH_MAX = 4096"
definition REQUEST_MSG_DATA_SIZE :: nat where "REQUEST_MSG_DATA_SIZE = 4 + PATH_MAX"
definition RESPONSE_MSG_DATA_SIZE :: nat where "RESPONSE_MSG_DATA_SIZE = 8192"
definition RESPONSE_MSG_FAILURE :: int where "RESPONSE_MSG_FAILURE = 1"
definition RESPONSE_MSG_DATA :: int where "RESPONSE_MSG_DATA = 2"
definition RESPONSE_MSG_END :: int where "RESPONSE_MSG_END = 3"

text \<open>The data of a request: the identifier of the client's queue and the array that holds
  the path. A request whose path has no NUL, or that is shorter than the identifier,
  leaves fields that are used without being initialised.\<close>

record RequestMsg =
  clientId :: int
  pathname :: string

definition request_msg_bytes :: "RequestMsg \<Rightarrow> string" where
  "request_msg_bytes q =
     int_bytes (clientId q) @ strncpy (replicate PATH_MAX NUL) (pathname q) (PATH_MAX - 1)"

definition request_msg_of_bytes :: "string \<Rightarrow> RequestMsg option" where
  "request_msg_of_bytes bs =
     (if length bs < 4 \<or> NUL \<notin> set (drop 4 bs) then None
      else Some \<lparr>clientId = int_at 0 bs, pathname = cstr (drop 4 bs)\<rparr>)"

section \<open>svipc/svmsg\_file\_server.c\<close>

text \<open>The handler of \<open>SIGCHLD\<close>.\<close>

primrec reap_children :: "nat \<Rightarrow> 'k os \<Rightarrow> ('k, unit) cmd" where
  "reap_children 0 K = halt Hang"
| "reap_children (Suc fuel) K = do {
     p \<leftarrow> call K (Proc (Waitpid (-1) WNOHANG));
     if 0 < p then reap_children fuel K else ok () }"

definition childCleanupHandler :: "nat \<Rightarrow> 'k os \<Rightarrow> ('k, unit) cmd" where
  "childCleanupHandler fuel K = do {
     savedErrno \<leftarrow> get_errno;
     bind_res (reap_children fuel K) (\<lambda>_. do { set_errno savedErrno; ok () }) }"

text \<open>The loop that sends the contents: the last result of \<open>read\<close>.\<close>

primrec serve_data :: "nat \<Rightarrow> 'k os \<Rightarrow> int \<Rightarrow> int \<Rightarrow> ('k, int) cmd" where
  "serve_data 0 K fd client = halt Hang"
| "serve_data (Suc fuel) K fd client = do {
     r \<leftarrow> sys K (File (Read fd RESPONSE_MSG_DATA_SIZE));
     if 0 < ret r
     then do {
       s \<leftarrow> call K (Ipc (Msgsnd client RESPONSE_MSG_DATA (take (nat (ret r)) (rdata r)) 0));
       if s = -1
       then do {
         e \<leftarrow> get_errno;
         eprintf K (''Failed to msgsnd() RESPONSE_MSG_DATA to '' @ dec client @ '' - '' @ strerror K e @ nl);
         ok (ret r) }
       else serve_data fuel K fd client }
     else ok (ret r) }"

definition serveRequest :: "nat \<Rightarrow> 'k os \<Rightarrow> RequestMsg \<Rightarrow> ('k, unit) cmd" where
  "serveRequest fuel K request = do {
     fd \<leftarrow> call K (File (Open (pathname request) O_RDONLY 0));
     if fd = -1
     then do {
       e \<leftarrow> get_errno;
       s \<leftarrow> call K (Ipc (Msgsnd (clientId request) RESPONSE_MSG_FAILURE
              (snprintf RESPONSE_MSG_DATA_SIZE (''Failed to open '' @ pathname request @ '' for reading - '' @ strerror K e @ nl) @ [NUL]) 0));
       (if s = -1
        then do {
          e \<leftarrow> get_errno;
          eprintf K (''Failed to msgsnd() RESPONSE_MSG_FAILURE to '' @ dec (clientId request) @ '' - '' @ strerror K e @ nl);
          State_Monad.return () }
        else State_Monad.return ());
       halt (Exit EXIT_FAILURE) }
     else bind_res (serve_data fuel K fd (clientId request)) (\<lambda>bytesRead. do {
       (if bytesRead = -1
        then do {
          e \<leftarrow> get_errno;
          eprintf K (''Failed to read() '' @ pathname request @ '' - '' @ strerror K e @ nl);
          State_Monad.return () }
        else State_Monad.return ());
       s \<leftarrow> call K (Ipc (Msgsnd (clientId request) RESPONSE_MSG_END [] 0));
       (if s = -1
        then do {
          e \<leftarrow> get_errno;
          eprintf K (''Failed to msgsnd() RESPONSE_MSG_END to '' @ dec (clientId request) @ '' - '' @ strerror K e @ nl);
          State_Monad.return () }
        else State_Monad.return ());
       c \<leftarrow> call K (File (Close fd));
       if c = -1 then die K (\<lambda>err. ''Failed to close '' @ pathname request @ '' - '' @ err @ nl)
       else ok () }) }"

primrec file_server_loop :: "nat \<Rightarrow> 'k os \<Rightarrow> int \<Rightarrow> ('k, unit) cmd" where
  "file_server_loop 0 K msqid = halt Hang"
| "file_server_loop (Suc fuel) K msqid = do {
     m \<leftarrow> sys K (Ipc (Msgrcv msqid (int REQUEST_MSG_DATA_SIZE) 0 0));
     e \<leftarrow> get_errno;
     if ret m = -1
     then if e = EINTR then file_server_loop fuel K msqid
          else do {
            eprintf K (''msgrcv() failed on msqid '' @ dec msqid @ '' - '' @ strerror K e @ nl);
            ok () }
     else do {
     p \<leftarrow> call K (Proc Fork);
     if p = -1
     then do {
       e \<leftarrow> get_errno;
       eprintf K (''Failed to fork() - '' @ strerror K e @ nl);
       ok () }
     else if p = 0
     then case request_msg_of_bytes (rdata m) of
       None \<Rightarrow> halt Undef
     | Some request \<Rightarrow> bind_res (serveRequest fuel K request) (\<lambda>_. halt (ExitNow EXIT_SUCCESS))
     else file_server_loop fuel K msqid }}"

definition svmsg_file_server_main :: "nat \<Rightarrow> 'k os \<Rightarrow> string list \<Rightarrow> ('k, unit) cmd" where
  "svmsg_file_server_main fuel K argv =
     bind_res (do {
       msqid \<leftarrow> call K (Ipc (Msgget SERVER_KEY (IPC_CREAT OR IPC_EXCL OR MQ_PERM)));
       e \<leftarrow> get_errno;
       if msqid \<noteq> -1 then ok msqid
       else if e = EEXIST
       then do {
         msqid \<leftarrow> call K (Ipc (Msgget SERVER_KEY MQ_PERM));
         if msqid = -1
         then die K (\<lambda>err. ''Failed to msgget() server id from key 0x'' @ hex SERVER_KEY @ '' - '' @ err @ nl)
         else ok msqid }
       else die K (\<lambda>err. ''Failed to msgget() server id from key 0x'' @ hex SERVER_KEY @ '' - '' @ err @ nl) })
     (\<lambda>msqid. do {
       s \<leftarrow> call K (Proc Sigemptyset);
       if s = -1
       then die K (\<lambda>err. ''Failed to sigemptyset() sigaction mask - '' @ err @ nl)
       else do {
       s \<leftarrow> call K (Proc (Sigaction SIGCHLD SIG_HANDLER SA_RESTART));
       if s = -1
       then die K (\<lambda>err. ''Failed to set sigaction() for SIGCHLD - '' @ err @ nl)
       else bind_res (file_server_loop fuel K msqid) (\<lambda>_. do {
         m \<leftarrow> call K (Ipc (MsgctlRmid msqid));
         if m = -1
         then die K (\<lambda>err. ''Failed to remove msqid '' @ dec msqid @ '' - '' @ err @ nl)
         else halt (Exit EXIT_SUCCESS) }) }})"

section \<open>svipc/svmsg\_file\_client.c\<close>

definition removeClientMsq :: "'k os \<Rightarrow> int \<Rightarrow> ('k world, unit) state" where
  "removeClientMsq K clientMsqid = do {
     m \<leftarrow> call K (Ipc (MsgctlRmid clientMsqid));
     if m \<noteq> 0
     then do {
       e \<leftarrow> get_errno;
       eprintf K (''Failed to remove client msqid '' @ dec clientMsqid @ '' - '' @ strerror K e @ nl);
       State_Monad.return () }
     else State_Monad.return () }"

text \<open>The loop over the responses: the total and the number of messages.\<close>

primrec client_receive :: "nat \<Rightarrow> 'k os \<Rightarrow> int \<Rightarrow> int \<Rightarrow> int \<Rightarrow> int \<Rightarrow> ('k, int \<times> int) cmd" where
  "client_receive 0 K msqid type totalBytes numMsgs = halt Hang"
| "client_receive (Suc fuel) K msqid type totalBytes numMsgs =
     (if type = RESPONSE_MSG_END then ok (totalBytes, numMsgs)
      else do {
        m \<leftarrow> sys K (Ipc (Msgrcv msqid (int RESPONSE_MSG_DATA_SIZE) 0 0));
        if ret m = -1
        then die K (\<lambda>err. ''Failed to msgrcv() response from server - '' @ err @ nl)
        else if numMsgs = INT_MAX then halt Undef
        else client_receive fuel K msqid (rnum 0 m) (totalBytes + ret m) (numMsgs + 1) })"

definition file_client_transfer :: "nat \<Rightarrow> 'k os \<Rightarrow> string \<Rightarrow> int \<Rightarrow> int \<Rightarrow> ('k, unit) cmd" where
  "file_client_transfer fuel K path serverMsqid clientMsqid = do {
     s \<leftarrow> call K (Ipc (Msgsnd serverMsqid 1 (request_msg_bytes \<lparr>clientId = clientMsqid, pathname = path\<rparr>) 0));
     if s = -1
     then die K (\<lambda>err. ''Failed to msgsnd() request to server - '' @ err @ nl)
     else do {
     m \<leftarrow> sys K (Ipc (Msgrcv clientMsqid (int RESPONSE_MSG_DATA_SIZE) 0 0));
     if ret m = -1
     then die K (\<lambda>err. ''Failed to msgrcv() response from server - '' @ err @ nl)
     else if rnum 0 m = RESPONSE_MSG_FAILURE
     then if NUL \<notin> set (rdata m) then halt Undef
          else do { printf K (cstr (rdata m) @ nl); halt (Exit EXIT_FAILURE) }
     else bind_res (client_receive fuel K clientMsqid (rnum 0 m) (ret m) 1) (\<lambda>(totalBytes, numMsgs). do {
       printf K (''Received '' @ dec totalBytes @ '' bytes ('' @ dec numMsgs @ '' messages)'' @ nl);
       halt (Exit EXIT_SUCCESS) }) }}"

definition svmsg_file_client_main :: "nat \<Rightarrow> 'k os \<Rightarrow> string list \<Rightarrow> ('k, unit) cmd" where
  "svmsg_file_client_main fuel K argv =
     (if length argv \<noteq> 2 \<or> arg argv 1 = ''-h''
      then usage K (''Usage: '' @ arg argv 0 @ '' <pathname>'' @ nl)
      else if length (arg argv 1) > PATH_MAX - 1
      then usage K (''Pathname is too long (max: '' @ dec (int PATH_MAX - 1) @ '' bytes)'' @ nl)
      else do {
        serverMsqid \<leftarrow> call K (Ipc (Msgget SERVER_KEY (uint S_IWUSR)));
        if serverMsqid = -1
        then die K (\<lambda>err. ''Failed to msgget() server msqid - '' @ err @ nl)
        else do {
        clientMsqid \<leftarrow> call K (Ipc (Msgget IPC_PRIVATE MQ_PERM));
        if clientMsqid = -1
        then die K (\<lambda>err. ''Failed to msgget() client msqid - '' @ err @ nl)
        else do {
        a \<leftarrow> call K (Proc (Atexit ''removeClientMsq''));
        at_exit (a = 0) (removeClientMsq K clientMsqid)
          (if a = -1
           then die K (\<lambda>err. ''Failed to register removeClientMsq() with atexit() - '' @ err @ nl)
           else file_client_transfer fuel K (arg argv 1) serverMsqid clientMsqid) }}})"

section \<open>Messages in a trace\<close>

fun ev_msg_sent :: "int \<Rightarrow> event \<Rightarrow> (int \<times> string) list" where
  "ev_msg_sent q (Ipc (Msgsnd q' t bs f), r) = (if q' = q \<and> ret r \<noteq> -1 then [(t, bs)] else [])"
| "ev_msg_sent q e = []"

fun ev_msg_rcvd :: "int \<Rightarrow> event \<Rightarrow> (int \<times> string) list" where
  "ev_msg_rcvd q (Ipc (Msgrcv q' n t f), r) = (if q' = q \<and> ret r \<noteq> -1 then [(rnum 0 r, rdata r)] else [])"
| "ev_msg_rcvd q e = []"

definition msgs_sent :: "int \<Rightarrow> event list \<Rightarrow> (int \<times> string) list" where
  "msgs_sent q tr = concat (map (ev_msg_sent q) tr)"

definition msgs_rcvd :: "int \<Rightarrow> event list \<Rightarrow> (int \<times> string) list" where
  "msgs_rcvd q tr = concat (map (ev_msg_rcvd q) tr)"

lemma msgs_simps [simp]:
  "msgs_sent q [] = []" "msgs_sent q (e # tr) = ev_msg_sent q e @ msgs_sent q tr"
  "msgs_sent q (tr @ tr') = msgs_sent q tr @ msgs_sent q tr'"
  "msgs_rcvd q [] = []" "msgs_rcvd q (e # tr) = ev_msg_rcvd q e @ msgs_rcvd q tr"
  "msgs_rcvd q (tr @ tr') = msgs_rcvd q tr @ msgs_rcvd q tr'"
  by (simp_all add: msgs_sent_def msgs_rcvd_def)

section \<open>The file service\<close>

lemma takeWhile_not_NUL [simp]: "NUL \<notin> set s \<Longrightarrow> takeWhile (\<lambda>c. c \<noteq> NUL) (s @ NUL # t) = s"
  by (induction s) auto

lemma path_field:
  assumes "NUL \<notin> set p" "length p < PATH_MAX"
  shows "strncpy (replicate PATH_MAX NUL) p (PATH_MAX - 1) = p @ replicate (PATH_MAX - length p) NUL"
proof -
  have "PATH_MAX - length p = Suc (PATH_MAX - 1 - length p)" using assms(2) by simp
  then show ?thesis
    using assms(2) by (simp add: strncpy_def replicate_append_same PATH_MAX_def)
qed

interpretation file_request: wire_format request_msg_bytes request_msg_of_bytes
    "\<lambda>q. INT_MIN \<le> clientId q \<and> clientId q \<le> INT_MAX \<and> NUL \<notin> set (pathname q) \<and> length (pathname q) < PATH_MAX"
proof
  fix q :: RequestMsg
  assume q: "INT_MIN \<le> clientId q \<and> clientId q \<le> INT_MAX \<and> NUL \<notin> set (pathname q) \<and> length (pathname q) < PATH_MAX"
  then obtain n where "PATH_MAX - length (pathname q) = Suc n" by (cases "PATH_MAX - length (pathname q)") auto
  with q show "request_msg_of_bytes (request_msg_bytes q) = Some q"
    using int_at_append [of "[]" "clientId q" "pathname q @ replicate (Suc n) NUL"]
    by (simp add: request_msg_of_bytes_def request_msg_bytes_def path_field [unfolded One_nat_def] cstr_def)
qed

text \<open>What the server sends for a file with the given contents.\<close>

definition file_msgs :: "string \<Rightarrow> (int \<times> string) list \<Rightarrow> bool" where
  "file_msgs contents ms \<longleftrightarrow> (\<exists>chunks. ms = map (Pair RESPONSE_MSG_DATA) chunks @ [(RESPONSE_MSG_END, [])] \<and>
     concat chunks = contents \<and> (\<forall>c \<in> set chunks. c \<noteq> [] \<and> length c \<le> RESPONSE_MSG_DATA_SIZE))"

lemma wp_serve_data:
  assumes "serves K fd rem" "\<And>k t bs. ret (snd (step K k (Ipc (Msgsnd q t bs 0)))) \<noteq> -1"
    and "length (rem (kern w)) < fuel"
  shows "wp (serve_data fuel K fd q) (\<lambda>r w'. r = Ok 0 \<and> (\<exists>d chunks. trace w' = trace w @ d \<and>
     msgs_sent q d = map (Pair RESPONSE_MSG_DATA) chunks \<and> concat chunks = rem (kern w) \<and>
     (\<forall>c \<in> set chunks. c \<noteq> [] \<and> length c \<le> RESPONSE_MSG_DATA_SIZE))) w"
  using assms(3)
proof (induction fuel arbitrary: w)
  case (Suc fuel)
  have snd: "wp (call K (Ipc (Msgsnd q t bs 0))) Q w1"
    if "\<And>v w' a. v \<noteq> -1 \<Longrightarrow> ret a \<noteq> -1 \<Longrightarrow> trace w' = trace w1 @ [(Ipc (Msgsnd q t bs 0), a)] \<Longrightarrow>
        rem (kern w') = rem (kern w1) \<Longrightarrow> Q v w'" for t bs Q w1
    using assms(2) [of "kern w1" t bs] by (auto intro!: wp_call_step that servesD_other [OF assms(1)])
  show ?case
    unfolding serve_data.simps wp_bind
  proof (rule wp_sys_step)
    fix r and w1 :: "'a world"
    assume st: "step K (kern w) (File (Read fd RESPONSE_MSG_DATA_SIZE)) = (kern w1, r)"
      and af: "after (File (Read fd RESPONSE_MSG_DATA_SIZE), r) w w1"
    obtain m where m: "m \<le> RESPONSE_MSG_DATA_SIZE" "m \<le> length (rem (kern w))" "rem (kern w) \<noteq> [] \<Longrightarrow> 0 < m"
        "ret r = int m" "rdata r = take m (rem (kern w))" "rem (kern w1) = drop m (rem (kern w))"
      using servesD_read [OF assms(1) st] by (auto simp: RESPONSE_MSG_DATA_SIZE_def)
    have IH: "wp (serve_data fuel K fd q) (\<lambda>r w'. r = Ok 0 \<and> (\<exists>d chunks. trace w' = trace w2 @ d \<and>
         msgs_sent q d = map (Pair RESPONSE_MSG_DATA) chunks \<and> concat chunks = drop m (rem (kern w)) \<and>
         (\<forall>c \<in> set chunks. c \<noteq> [] \<and> length c \<le> RESPONSE_MSG_DATA_SIZE))) w2"
      if "0 < m" "rem (kern w2) = drop m (rem (kern w))" for w2
      using Suc.IH [of w2] Suc.prems that m(2) by simp
    have cons: "\<exists>cs. a # map (Pair RESPONSE_MSG_DATA) chunks = map (Pair RESPONSE_MSG_DATA) cs \<and> concat cs = rem (kern w) \<and>
         (\<forall>c \<in> set cs. c \<noteq> [] \<and> length c \<le> RESPONSE_MSG_DATA_SIZE)"
      if "a = (RESPONSE_MSG_DATA, take m (rem (kern w)))" "0 < m" "concat chunks = drop m (rem (kern w))"
        "\<forall>c \<in> set chunks. c \<noteq> [] \<and> length c \<le> RESPONSE_MSG_DATA_SIZE" for a chunks
      using that m by (intro exI [where x = "take m (rem (kern w)) # chunks"]) auto
    show "wp (if 0 < ret r then call K (Ipc (Msgsnd q RESPONSE_MSG_DATA (take (nat (ret r)) (rdata r)) 0)) \<bind>
            (\<lambda>s. if s = -1 then get_errno \<bind> (\<lambda>e. eprintf K (''Failed to msgsnd() RESPONSE_MSG_DATA to '' @ dec q @ '' - '' @ strerror K e @ nl) \<bind> (\<lambda>_. ok (ret r)))
             else serve_data fuel K fd q) else ok (ret r))
        (\<lambda>r w'. r = Ok 0 \<and> (\<exists>d chunks. trace w' = trace w @ d \<and>
         msgs_sent q d = map (Pair RESPONSE_MSG_DATA) chunks \<and> concat chunks = rem (kern w) \<and>
         (\<forall>c \<in> set chunks. c \<noteq> [] \<and> length c \<le> RESPONSE_MSG_DATA_SIZE))) w1"
      using af m by (cases "rem (kern w) = []") (auto intro!: snd wp_mono [OF IH] cons)
  qed
qed simp

lemma serveRequest_sends:
  assumes K: "serves K fd rem" "\<And>k t bs. ret (snd (step K k (Ipc (Msgsnd (clientId q) t bs 0)))) \<noteq> -1"
    and "\<And>k. ret (snd (step K k (File (Open (pathname q) O_RDONLY 0)))) = fd" "fd \<noteq> -1"
    and "\<And>k. ret (snd (step K k (File (Close fd)))) \<noteq> -1"
    and "length (rem (kern w)) < fuel"
  shows "wp (serveRequest fuel K q) (\<lambda>r w'. r = Ok () \<and>
     (\<exists>d. trace w' = trace w @ d \<and> file_msgs (rem (kern w)) (msgs_sent (clientId q) d))) w"
proof -
  have data: "wp (serve_data fuel K fd (clientId q)) (\<lambda>r w'. r = Ok 0 \<and> (\<exists>d chunks. trace w' = trace w1 @ d \<and>
     msgs_sent (clientId q) d = map (Pair RESPONSE_MSG_DATA) chunks \<and> concat chunks = rem (kern w) \<and>
     (\<forall>c \<in> set chunks. c \<noteq> [] \<and> length c \<le> RESPONSE_MSG_DATA_SIZE))) w1"
    if "rem (kern w1) = rem (kern w)" for w1
    using wp_serve_data [OF K, of w1 fuel] that assms(6) by simp
  have call_ok: "wp (call K c) Q w1"
    if "ret (snd (step K (kern w1) c)) \<noteq> -1"
      and "\<And>v w' a. trace w' = trace w1 @ [(c, a)] \<Longrightarrow> ret a \<noteq> -1 \<Longrightarrow> v \<noteq> -1 \<Longrightarrow> Q v w'" for c Q w1
    using that(1) by (auto intro!: wp_call_step that(2))
  have rem: "rem k' = rem k" if "step K k (File (Open p fl m)) = (k', r)" for k k' p fl m r
    using servesD_other [OF assms(1) that] by simp
  show ?thesis
    unfolding serveRequest_def using assms(2,4,5)
    by (auto intro!: wp_call_value [OF assms(3)] wp_mono [OF data] call_ok dest!: rem simp: file_msgs_def) blast
qed

text \<open>
  C19. The file server sends the whole file: when opening, reading, sending and closing
  succeed, and the file delivers its contents in pieces of any size, the process that
  serves a request returns after sending to the client's queue the contents in non-empty
  data messages of at most 8192 bytes, in order, followed by exactly one end message.
\<close>

theorem serveRequest_sends_file:
  assumes K: "serves K fd rem" "\<And>k t bs. ret (snd (step K k (Ipc (Msgsnd (clientId q) t bs 0)))) \<noteq> -1"
    and "\<And>k. ret (snd (step K k (File (Open (pathname q) O_RDONLY 0)))) = fd" "fd \<noteq> -1"
    and "\<And>k. ret (snd (step K k (File (Close fd)))) \<noteq> -1"
    and "length (rem (kern w)) < fuel"
  shows "wp (serveRequest fuel K q) (\<lambda>r w'. r = Ok () \<and>
     (\<exists>d. trace w' = trace w @ d \<and> file_msgs (rem (kern w)) (msgs_sent (clientId q) d))) w"
  using assms by (rule serveRequest_sends)

text \<open>The messages a client that ends successfully has received: the last is the end
  message, and the only one, and the first is not a failure message.\<close>

primrec until_end :: "int \<Rightarrow> (int \<times> string) list \<Rightarrow> bool" where
  "until_end t [] = (t = RESPONSE_MSG_END)"
| "until_end t (m # ms) = (t \<noteq> RESPONSE_MSG_END \<and> until_end (fst m) ms)"

definition client_msgs :: "(int \<times> string) list \<Rightarrow> bool" where
  "client_msgs ms = (case ms of [] \<Rightarrow> False
     | m # ms' \<Rightarrow> fst m \<noteq> RESPONSE_MSG_FAILURE \<and> until_end (fst m) ms')"

definition client_text :: "(int \<times> string) list \<Rightarrow> string" where
  "client_text ms = ''Received '' @ dec (int (sum_list (map (length \<circ> snd) ms))) @ '' bytes ('' @
     dec (int (length ms)) @ '' messages)'' @ nl"

lemma wp_client_receive:
  assumes "posix K"
  shows "wp (client_receive fuel K q t tot n) (\<lambda>r w'. r \<noteq> Exit 0 \<and> (\<exists>d. trace w' = trace w @ d \<and>
     (\<forall>a. (Proc (Atexit ''removeClientMsq''), a) \<notin> set d) \<and>
     (\<forall>a. r = Ok a \<longrightarrow> printed 1 d = [] \<and> (\<forall>p. msgs_sent p d = []) \<and> until_end t (msgs_rcvd q d) \<and>
        a = (tot + int (sum_list (map (length \<circ> snd) (msgs_rcvd q d))), n + int (length (msgs_rcvd q d)))))) w"
proof (induction fuel arbitrary: t tot n w)
  case (Suc fuel)
  show ?case
    using assms
    by (auto intro!: wp_tr wp_mono [OF Suc.IH] simp: transfer_ok_def)
qed simp

lemma wp_file_client_transfer:
  assumes "posix K"
  shows "wp (file_client_transfer fuel K path sq cq) (\<lambda>r w'. \<exists>d. trace w' = trace w @ d \<and>
     (\<forall>a. (Proc (Atexit ''removeClientMsq''), a) \<notin> set d) \<and>
     (r = Exit 0 \<longrightarrow> client_msgs (msgs_rcvd cq d) \<and> printed 1 d = client_text (msgs_rcvd cq d) \<and>
        msgs_sent sq d = [(1, request_msg_bytes \<lparr>clientId = cq, pathname = path\<rparr>)])) w"
  unfolding file_client_transfer_def using assms
  by (auto intro!: wp_tr wp_mono [OF wp_client_receive [OF assms]]
      simp: and_then_def client_msgs_def client_text_def transfer_ok_def split: res.splits)

lemma client_reports:
  assumes "posix K"
  shows "wp (svmsg_file_client_main fuel K [prog, path]) (\<lambda>r w'. \<exists>d. trace w' = trace w @ d \<and>
     (r = Exit 0 \<longrightarrow> (\<exists>sq cq. client_msgs (msgs_rcvd cq d) \<and> printed 1 d = client_text (msgs_rcvd cq d) \<and>
        msgs_sent sq d = [(1, request_msg_bytes \<lparr>clientId = cq, pathname = path\<rparr>)])) \<and>
     (\<forall>n a. r = Exit n \<and> (Proc (Atexit ''removeClientMsq''), a) \<in> set d \<and> ret a = 0 \<longrightarrow>
        (\<exists>x y. (Ipc (Msgget IPC_PRIVATE MQ_PERM), y) \<in> set d \<and> (Ipc (MsgctlRmid (ret y)), x) \<in> set d))) w"
  unfolding svmsg_file_client_main_def removeClientMsq_def using assms
  by (auto intro!: wp_tr wp_mono [OF wp_file_client_transfer [OF assms]] simp: arg_def wp_at_exit split: res.splits)
     blast+

text \<open>
  C32. A client that exits successfully has sent the server one request, with its own queue
  and the path it was given; has received messages up to the first end message, the first
  of them not a failure; and has printed their total length and their number. Its queue is
  removed, on success and on failure, once the exit handler is registered.
\<close>

theorem file_client_reports:
  assumes "posix K"
  shows "wp (svmsg_file_client_main fuel K [prog, path]) (\<lambda>r w'. \<exists>d. trace w' = trace w @ d \<and>
     (r = Exit 0 \<longrightarrow> (\<exists>sq cq. client_msgs (msgs_rcvd cq d) \<and> printed 1 d = client_text (msgs_rcvd cq d) \<and>
        msgs_sent sq d = [(1, request_msg_bytes \<lparr>clientId = cq, pathname = path\<rparr>)])) \<and>
     (\<forall>n a. r = Exit n \<and> (Proc (Atexit ''removeClientMsq''), a) \<in> set d \<and> ret a = 0 \<longrightarrow>
        (\<exists>x y. (Ipc (Msgget IPC_PRIVATE MQ_PERM), y) \<in> set d \<and> (Ipc (MsgctlRmid (ret y)), x) \<in> set d))) w"
  using assms by (rule client_reports)

text \<open>Messages that carry a file are what a client expects.\<close>

lemma file_msgs_total:
  "file_msgs contents ms \<Longrightarrow> sum_list (map (length \<circ> snd) ms) = length contents"
  by (auto simp: file_msgs_def length_concat comp_def)

definition file_request7 :: RequestMsg where
  "file_request7 = \<lparr>clientId = 7, pathname = ''/etc/motd''\<rparr>"

theorem serveRequest_sends_file_witness:
  "wp (serveRequest 20 feed_os file_request7) (\<lambda>r w'. r = Ok () \<and>
     (\<exists>d. trace w' = d \<and> file_msgs ''some text'' (msgs_sent 7 d))) (start ''some text'')"
  using serveRequest_sends_file [OF feed_serves, of file_request7 "start ''some text''" 20]
  by (simp add: feed_os_def returns_def reply0_def start_def O_RDONLY_def file_request7_def)

definition file_client_script :: "sysret list" where
  "file_client_script = [returns 1, returns 7, returns 0, returns 0, (gives ''some '')\<lparr>rnums := [2]\<rparr>,
     (gives ''text'')\<lparr>rnums := [2]\<rparr>, (gives [])\<lparr>rnums := [3]\<rparr>, returns 0]"

lemma file_client_run:
  "fst (run_state (svmsg_file_client_main (Suc (Suc (Suc (Suc 0)))) script_os [''client'', ''f'']) (start file_client_script)) = Exit 0"
  "msgs_rcvd cq (trace (snd (run_state (svmsg_file_client_main (Suc (Suc (Suc (Suc 0)))) script_os [''client'', ''f'']) (start file_client_script)))) =
     (if cq = 7 then [(2, ''some ''), (2, ''text''), (3, [])] else [])"
  by (simp_all add: svmsg_file_client_main_def file_client_transfer_def at_exit_def removeClientMsq_def
      run_calls script_os_def script_step_def file_client_script_def start_def returns_def gives_def reply0_def
      PATH_MAX_def arg_def transfer_ok_def RESPONSE_MSG_DATA_SIZE_def rnum_def RESPONSE_MSG_FAILURE_def
      RESPONSE_MSG_END_def INT_MAX_def)

lemma trace_start: "trace (start k) = []"
  by (simp add: start_def)

theorem file_client_reports_witness:
  "\<exists>d. trace (snd (run_state (svmsg_file_client_main (Suc (Suc (Suc (Suc 0)))) script_os [''client'', ''f'']) (start file_client_script))) = d \<and>
     printed 1 d = client_text [(2, ''some ''), (2, ''text''), (3, [])]"
  using file_client_reports [OF script_posix, of "Suc (Suc (Suc (Suc 0)))" "''client''" "''f''" "start file_client_script", THEN wp_run]
  by (auto simp: file_client_run trace_start client_msgs_def split: if_splits)

text \<open>
  C9. End to end: if the client's queue delivers to the client the messages that the server
  process sent to it for its request, a client that exits successfully prints the length of
  the file's contents.
\<close>

theorem file_service_end_to_end:
  assumes "serves K fd rem" "\<And>k t bs. ret (snd (step K k (Ipc (Msgsnd (clientId q) t bs 0)))) \<noteq> -1"
    and "\<And>k. ret (snd (step K k (File (Open (pathname q) O_RDONLY 0)))) = fd" "fd \<noteq> -1"
    and "\<And>k. ret (snd (step K k (File (Close fd)))) \<noteq> -1"
    and "length (rem (kern w)) < fuel"
    and server: "run_state (serveRequest fuel K q) w = (r1, w1)" "trace w1 = trace w @ d1"
    and client: "posix K'" "run_state (svmsg_file_client_main fuel' K' [prog, path]) v = (Exit 0, v1)" "trace v1 = trace v @ d2"
    and queue: "\<And>cq. msgs_rcvd cq d2 \<noteq> [] \<Longrightarrow> msgs_rcvd cq d2 = msgs_sent (clientId q) d1"
  shows "\<exists>n. printed 1 d2 = ''Received '' @ dec (int (length (rem (kern w)))) @ '' bytes ('' @ dec n @ '' messages)'' @ nl"
proof -
  have sent: "file_msgs (rem (kern w)) (msgs_sent (clientId q) d1)"
    using serveRequest_sends [OF assms(1-6), THEN wpD, OF server(1)] server(2) by auto
  obtain cq where cq: "client_msgs (msgs_rcvd cq d2)" "printed 1 d2 = client_text (msgs_rcvd cq d2)"
    using client_reports [OF client(1), THEN wpD, OF client(2)] client(3) by auto
  then have "msgs_rcvd cq d2 = msgs_sent (clientId q) d1"
    by (intro queue) (auto simp: client_msgs_def)
  then show ?thesis
    using cq(2) file_msgs_total [OF sent]
    by (intro exI [of _ "int (length (msgs_rcvd cq d2))"]) (simp add: client_text_def)
qed

lemma serveRequest_run:
  "msgs_sent 7 (trace (snd (run_state (serveRequest (Suc (Suc (Suc (Suc (Suc (Suc (Suc (Suc (Suc (Suc 0)))))))))) feed_os file_request7) (start ''some text'')))) =
     [(2, ''some ''), (2, ''text''), (3, [])]"
  by (simp add: serveRequest_def run_calls feed_os_def start_def returns_def gives_def reply0_def file_request7_def
      O_RDONLY_def RESPONSE_MSG_DATA_SIZE_def RESPONSE_MSG_DATA_def RESPONSE_MSG_END_def Let_def)

theorem file_service_end_to_end_witness:
  "\<exists>n d. trace (snd (run_state (svmsg_file_client_main (Suc (Suc (Suc (Suc 0)))) script_os [''client'', ''f'']) (start file_client_script))) = d \<and>
     printed 1 d = ''Received '' @ dec 9 @ '' bytes ('' @ dec n @ '' messages)'' @ nl"
proof -
  let ?srv = "run_state (serveRequest (Suc (Suc (Suc (Suc (Suc (Suc (Suc (Suc (Suc (Suc 0)))))))))) feed_os file_request7) (start ''some text'')"
  let ?cl = "run_state (svmsg_file_client_main (Suc (Suc (Suc (Suc 0)))) script_os [''client'', ''f'']) (start file_client_script)"
  have sent: "msgs_sent 7 (trace (snd ?srv)) = [(2, ''some ''), (2, ''text''), (3, [])]"
    by (rule serveRequest_run)
  have cl: "?cl = (Exit 0, snd ?cl)" using file_client_run(1) by (metis prod.collapse)
  have fd: "ret (snd (step feed_os k (File (Open (pathname file_request7) O_RDONLY 0)))) = 3"
    "ret (snd (step feed_os k (File (Close 3)))) \<noteq> -1"
    "ret (snd (step feed_os k (Ipc (Msgsnd (clientId file_request7) t bs 0)))) \<noteq> -1" for k t bs
    by (simp_all add: feed_os_def returns_def reply0_def O_RDONLY_def file_request7_def)
  have kern: "kern (start ''some text'') = ''some text''" by (simp add: start_def)
  have queue: "msgs_rcvd cq (trace (snd ?cl)) = msgs_sent (clientId file_request7) (trace (snd ?srv))"
    if "msgs_rcvd cq (trace (snd ?cl)) \<noteq> []" for cq
    using that sent unfolding file_client_run(2) by (simp add: file_request7_def split: if_splits)
  have "\<exists>n. printed 1 (trace (snd ?cl)) = ''Received '' @ dec (int (length ''some text'')) @ '' bytes ('' @ dec n @ '' messages)'' @ nl"
    using file_service_end_to_end [OF feed_serves fd(3) fd(1) _ fd(2) _ prod.collapse [symmetric] _ script_posix cl _ queue,
        of "start ''some text''" "Suc (Suc (Suc (Suc (Suc (Suc (Suc (Suc (Suc (Suc 0)))))))))"] unfolding trace_start kern by (simp only: append_Nil) simp
  then show ?thesis by simp
qed

end
