(* ===== verification/File_IO.thy ===== *)
theory File_IO
  imports Transfers Num_Args
begin

text \<open>
  The programs of \<open>fileio/\<close>: \<open>copy.c\<close>, \<open>seek_io.c\<close> and \<open>t_readv.c\<close>. \<open>copy\<close> is shown
  to be a faithful copy; \<open>seek_io\<close> is shown to refine an interpreter of its commands on
  an abstract file (contents and offset).
\<close>

definition rw_all :: "32 word" where
  "rw_all = S_IRUSR OR S_IWUSR OR S_IRGRP OR S_IWGRP OR S_IROTH OR S_IWOTH"

section \<open>fileio/src/copy.c\<close>

definition copy_BUFFER_SIZE :: nat where "copy_BUFFER_SIZE = 1024"

definition copy_chunk :: "string \<Rightarrow> 'k os \<Rightarrow> int \<Rightarrow> string \<Rightarrow> ('k, unit) cmd" where
  "copy_chunk outputFilepath K outputFd buffer = do {
     n \<leftarrow> call K (File (Write outputFd buffer));
     if n \<noteq> int (length buffer)
     then usage K (''Failed to write whole buffer to '' @ outputFilepath @ nl)
     else ok () }"

definition copy_main :: "nat \<Rightarrow> 'k os \<Rightarrow> string list \<Rightarrow> ('k, unit) cmd" where
  "copy_main fuel K argv =
     (if length argv \<noteq> 3 \<or> arg argv 1 = ''--help''
      then usage K (''Usage: '' @ arg argv 0 @ '' <inputFile> <outputFile>'' @ nl)
      else let inputFilepath = arg argv 1; outputFilepath = arg argv 2 in do {
        inputFd \<leftarrow> call K (File (Open inputFilepath O_RDONLY 0));
        if inputFd = -1
        then die K (\<lambda>err. err @ '': Failed to open file '' @ inputFilepath @ nl)
        else do {
        outputFd \<leftarrow> call K (File (Open outputFilepath (O_CREAT OR O_WRONLY OR O_TRUNC) rw_all));
        if outputFd = -1
        then die K (\<lambda>err. err @ '': Failed to open file '' @ outputFilepath @ nl)
        else
          bind_res (read_loop fuel K inputFd copy_BUFFER_SIZE (copy_chunk outputFilepath K outputFd))
            (\<lambda>numRead.
              if numRead = -1 then usage K (''Failed to read '' @ inputFilepath @ nl)
              else do {
              c \<leftarrow> call K (File (Close inputFd));
              if c = -1
              then die K (\<lambda>err. err @ '': Failed to close file '' @ inputFilepath @ nl)
              else do {
              c \<leftarrow> call K (File (Close outputFd));
              if c = -1
              then die K (\<lambda>err. err @ '': Failed to close file '' @ outputFilepath @ nl)
              else halt (Exit 0) }})}})"

section \<open>fileio/src/seek_io.c\<close>

datatype DisplayType = TEXT | HEX

definition readDisplayBytes :: "'k os \<Rightarrow> int \<Rightarrow> int \<Rightarrow> DisplayType \<Rightarrow> ('k, unit) cmd" where
  "readDisplayBytes K fd len displayType = do {
     buffer \<leftarrow> call K (Proc (Malloc len));
     if buffer = 0 then usage K (''Failed to malloc '' @ dec (c_long len) @ '' bytes'' @ nl)
     else do {
     r \<leftarrow> sys K (File (Read fd (nat len)));
     bind_res
       (if ret r = -1
        then die K (\<lambda>err. err @ '': Failed to read '' @ dec (c_long len) @ '' bytes'' @ nl)
        else if ret r = 0 then do { printf K (''End-of-file'' @ nl); ok () }
        else case displayType of
          TEXT \<Rightarrow> for_each (take (nat (ret r)) (rdata r)) (\<lambda>c. do {
                     printf K [if isprint c then c else CHR ''?'']; ok () })
        | HEX \<Rightarrow> for_each (take (nat (ret r)) (rdata r)) (\<lambda>c. do {
                     printf K (pad_left 2 (CHR ''0'') (hex (c_uint (char_value c))) @ '' ''); ok () }))
       (\<lambda>_. do { sys K (Proc (Free buffer)); ok () }) }}"

definition seek_io_usage :: "'k os \<Rightarrow> string list \<Rightarrow> ('k, 'a) cmd" where
  "seek_io_usage K argv =
     usage K (''Usage: '' @ arg argv 0 @ '' <file> {r<length>|R<length>|w<string>|s<offset> ...}'' @ nl)"

definition seek_io_command :: "'k os \<Rightarrow> string list \<Rightarrow> int \<Rightarrow> string \<Rightarrow> string \<Rightarrow> ('k, unit) cmd" where
  "seek_io_command K argv fd filepath a =
     (if length a < 2 then seek_io_usage K argv
      else if a ! 0 = CHR ''r''
      then bind_res (seek_io_getUnsignedLong K (tl a)) (\<lambda>len. readDisplayBytes K fd len TEXT)
      else if a ! 0 = CHR ''R''
      then bind_res (seek_io_getUnsignedLong K (tl a)) (\<lambda>len. readDisplayBytes K fd len HEX)
      else if a ! 0 = CHR ''w''
      then do {
        numBytesWritten \<leftarrow> call K (File (Write fd (tl a)));
        if numBytesWritten = -1
        then die K (\<lambda>err. err @ '': Failed to write to '' @ filepath @ nl)
        else do {
          printf K (''Wrote '' @ dec (c_ulong numBytesWritten) @ '' bytes to '' @ filepath @ nl);
          ok () } }
      else if a ! 0 = CHR ''s''
      then bind_res (seek_io_getLong K (tl a)) (\<lambda>offset. do {
        offsetSeeked \<leftarrow> call K (File (Lseek fd offset SEEK_SET));
        if offsetSeeked \<noteq> offset
        then usage K (''Failed to seek to offset '' @ dec offset @ nl)
        else do { printf K (''Seeked to offset '' @ dec offsetSeeked @ nl); ok () } })
      else usage K (''Command-line usage error - Argument must start with [rRws]: '' @ a @ nl))"

definition seek_io_main :: "'k os \<Rightarrow> string list \<Rightarrow> ('k, unit) cmd" where
  "seek_io_main K argv =
     (if length argv < 3 \<or> arg argv 1 = ''--help'' then seek_io_usage K argv
      else let filepath = arg argv 1 in do {
        fd \<leftarrow> call K (File (Open filepath (O_RDWR OR O_CREAT) rw_all));
        if fd = -1 then die K (\<lambda>err. err @ '': Failed to open '' @ filepath @ nl)
        else
          bind_res (for_each (drop 2 argv) (seek_io_command K argv fd filepath)) (\<lambda>_. do {
            c \<leftarrow> call K (File (Close fd));
            if c = -1 then die K (\<lambda>err. err @ '': Failed to close '' @ filepath @ nl)
            else halt (Exit 0) }) })"

section \<open>fileio/src/t_readv.c\<close>

definition STRING_LENGTH :: nat where "STRING_LENGTH = 100"

text \<open>The sizes of \<open>struct stat\<close> and \<open>int\<close> on x86-64 Linux, and of the string.\<close>

definition t_readv_buffers :: "nat list" where "t_readv_buffers = [144, 4, STRING_LENGTH]"

definition t_readv_main :: "'k os \<Rightarrow> string list \<Rightarrow> ('k, unit) cmd" where
  "t_readv_main K argv =
     (if length argv \<noteq> 2 \<or> arg argv 1 = ''--help''
      then usage K (''Usage: '' @ arg argv 0 @ '' <file>'' @ nl)
      else let filepath = arg argv 1 in do {
        fd \<leftarrow> call K (File (Open filepath O_RDONLY 0));
        if fd = -1 then die K (\<lambda>err. ''Failed to open '' @ filepath @ '' - '' @ err @ nl)
        else let totalSize_bytes = int (sum_list t_readv_buffers) in do {
        bytesRead \<leftarrow> call K (File (Readv fd t_readv_buffers));
        if bytesRead = -1 then die K (\<lambda>err. ''Failed to read '' @ filepath @ '' - '' @ err @ nl)
        else do {
        (if c_ulong bytesRead < totalSize_bytes
         then do { printf K (''Read fewer bytes than requested'' @ nl); State_Monad.return () }
         else State_Monad.return ());
        printf K (''Total bytes requested: '' @ dec totalSize_bytes @ ''; bytes read: '' @ dec bytesRead @ nl);
        c \<leftarrow> call K (File (Close fd));
        if c = -1 then die K (\<lambda>err. ''Failed to close '' @ filepath @ '' - '' @ err @ nl)
        else halt (Exit 0) }}})"

section \<open>Properties of copy\<close>

interpretation copy_chunk: chunk_writer "copy_chunk outputFilepath" for outputFilepath
  by (rule chunk_writerI [where msg = "\<lambda>_ _ _. ''Failed to write whole buffer to '' @ outputFilepath @ nl"])
     (unfold copy_chunk_def usage_as_die, rule refl)

text \<open>What the calls of a run that copied one file to another are.\<close>

definition copied :: "string list \<Rightarrow> event list \<Rightarrow> bool" where
  "copied argv tr \<longleftrightarrow> (\<exists>i out a b c d body.
     tr = [(File (Open (arg argv 1) O_RDONLY 0), a),
           (File (Open (arg argv 2) (O_CREAT OR O_WRONLY OR O_TRUNC) rw_all), b)] @ body @
          [(File (Close i), c), (File (Close out), d)] \<and>
     ret a = i \<and> i \<noteq> -1 \<and> ret b = out \<and> out \<noteq> -1 \<and> ret c \<noteq> -1 \<and> ret d \<noteq> -1 \<and>
     pumped i copy_BUFFER_SIZE out (Ok 0) body)"

lemma usage_exits: "wp (usage K msg) (\<lambda>r w'. r = Exit 1) w"
  by (rule wp_usage) simp

lemma die_exits: "wp (die K msg) (\<lambda>r w'. r = Exit 1) w"
  by (rule wp_die) simp

text \<open>
  C20. \<open>copy\<close> reports success only for a faithful copy, whatever the system answers within
  the documented ranges: if it exits with status 0 it has opened both files, what it
  wrote to the output is, byte for byte and in order, what it read from the input, the
  last read reported end of file, and both descriptors were closed without an error.
\<close>

theorem copy_success_is_faithful:
  assumes "posix K"
  shows "wp (copy_main fuel K argv)
     (\<lambda>r w'. (r = Exit 0 \<or> r = Exit 1 \<or> r = Hang) \<and>
        (r = Exit 0 \<longrightarrow> (\<exists>d. trace w' = trace w @ d \<and> copied argv d))) w"
  unfolding copy_main_def copied_def
  by (auto simp: Let_def intro!: wp_call [OF assms] wp_usage wp_die copy_chunk.wp_pump [OF assms])

theorem copy_success_is_faithful_witness:
  "fst (run_state (copy_main 9 feed_os [''copy'', ''a'', ''b'']) (start ''some text'')) = Exit 0 \<and>
   (\<exists>d. trace (snd (run_state (copy_main 9 feed_os [''copy'', ''a'', ''b'']) (start ''some text''))) = d \<and>
        copied [''copy'', ''a'', ''b''] d)"
proof -
  have "fst (run_state (copy_main 9 feed_os [''copy'', ''a'', ''b'']) (start ''some text'')) = Exit 0"
    by code_simp
  with copy_success_is_faithful [OF feed_posix, of 9 "[''copy'', ''a'', ''b'']" "start ''some text''",
      THEN wp_run] show ?thesis
    by (simp add: start_def)
qed

text \<open>
  C1. \<open>copy\<close> copies everything: if the input file delivers its contents in non-empty
  pieces of any size up to the one asked for, the output file takes what it is given and
  opening and closing succeed, then the program ends with status 0 after as many reads
  as the file has bytes plus one at most, and has written exactly the contents.
\<close>

theorem copy_copies_everything:
  assumes "serves K i rem" "takes_all K out"
    and "\<And>k. ret (snd (step K k (File (Open src O_RDONLY 0)))) = i" "i \<noteq> -1"
    and "\<And>k. ret (snd (step K k (File (Open dst (O_CREAT OR O_WRONLY OR O_TRUNC) rw_all)))) = out" "out \<noteq> -1"
    and "\<And>k fd. ret (snd (step K k (File (Close fd)))) \<noteq> -1"
    and "src \<noteq> ''--help''" "length (rem (kern w)) < fuel"
  shows "wp (copy_main fuel K [prog, src, dst])
     (\<lambda>r w'. r = Exit 0 \<and> written out (trace w') = written out (trace w) @ rem (kern w)) w"
proof -
  have rem: "rem k' = rem k" if "step K k (File (Open p fl m)) = (k', r)" for k k' p fl m r
    using servesD_other [OF assms(1) that] by simp
  have pump: "wp (copy_chunk.pump dst fuel K i copy_BUFFER_SIZE out) Q w1"
    if "rem (kern w1) = rem (kern w)"
      and "\<And>w'. written out (trace w') = written out (trace w1) @ rem (kern w1) \<Longrightarrow> Q (Ok 0) w'" for Q w1
    using assms that
    by (intro wp_mono [OF copy_chunk.pump_complete [of K i rem]])
       (auto simp: copy_BUFFER_SIZE_def drained_def)
  have close: "wp (call K (File (Close fd))) Q w1"
    if "\<And>v w' r. trace w' = trace w1 @ [(File (Close fd), r)] \<Longrightarrow> v \<noteq> -1 \<Longrightarrow> Q v w'" for Q w1 fd
    using assms(7) [of "kern w1" fd] by (auto intro!: wp_call_step that)
  show ?thesis
    using assms(4,6,8)
    by (auto simp: copy_main_def arg_def Let_def dest!: rem
        intro!: wp_call_value [OF assms(3)] wp_call_value [OF assms(5)] pump close)
qed

theorem copy_copies_everything_witness:
  "wp (copy_main 10 feed_os [''copy'', ''a'', ''b''])
      (\<lambda>r w'. r = Exit 0 \<and> written 4 (trace w') = ''some text'') (start ''some text'')"
  using copy_copies_everything [OF feed_serves feed_takes_all, of "''a''" "''b''" 4 "start ''some text''" 10 "''copy''"]
  by (simp add: start_def feed_os_def returns_def reply0_def O_RDONLY_def O_CREAT_def O_WRONLY_def O_TRUNC_def)

section \<open>seek\_io refines an interpreter on an abstract file\<close>

text \<open>An open regular file: its contents and the file offset.\<close>

type_synonym afile = "string \<times> nat"

definition file_read :: "nat \<Rightarrow> afile \<Rightarrow> string \<times> afile" where
  "file_read n f = (let bs = take n (drop (snd f) (fst f)) in (bs, (fst f, snd f + length bs)))"

definition file_write :: "string \<Rightarrow> afile \<Rightarrow> afile" where
  "file_write s f =
     (take (snd f) (fst f @ replicate (snd f - length (fst f)) NUL) @ s @ drop (snd f + length s) (fst f),
      snd f + length s)"

text \<open>The descriptor is a regular file: reads, writes and seeks act on it as above, and no
  other call of the program changes it. Linux transfers at most \<open>0x7ffff000\<close> bytes a call.\<close>

definition MAX_RW_COUNT :: nat where "MAX_RW_COUNT = 0x7ffff000"

definition acts_as_file :: "'k os \<Rightarrow> int \<Rightarrow> ('k \<Rightarrow> afile) \<Rightarrow> bool" where
  "acts_as_file K fd view \<longleftrightarrow>
     (\<forall>k n k' r. n \<le> MAX_RW_COUNT \<longrightarrow> step K k (File (Read fd n)) = (k', r) \<longrightarrow>
        rdata r = fst (file_read n (view k)) \<and> ret r = int (length (rdata r)) \<and>
        view k' = snd (file_read n (view k))) \<and>
     (\<forall>k s k' r. length s \<le> MAX_RW_COUNT \<longrightarrow> step K k (File (Write fd s)) = (k', r) \<longrightarrow>
        ret r = int (length s) \<and> view k' = file_write s (view k)) \<and>
     (\<forall>k n k' r. step K k (File (Lseek fd (int n) SEEK_SET)) = (k', r) \<longrightarrow>
        ret r = int n \<and> view k' = (fst (view k), n)) \<and>
     (\<forall>k c k' r. (\<exists>s d. c = Stdio (Fprintf d s)) \<or> (\<exists>n. c = Proc (Malloc n)) \<or> (\<exists>p. c = Proc (Free p)) \<or>
        c = File (Close fd) \<longrightarrow> step K k c = (k', r) \<longrightarrow> view k' = view k)"

datatype seek_cmd = ShowText nat | ShowHex nat | PutStr string | SeekTo nat

primrec seek_arg :: "seek_cmd \<Rightarrow> string" where
  "seek_arg (ShowText n) = CHR ''r'' # dec (int n)"
| "seek_arg (ShowHex n) = CHR ''R'' # dec (int n)"
| "seek_arg (PutStr s) = CHR ''w'' # s"
| "seek_arg (SeekTo n) = CHR ''s'' # dec (int n)"

primrec seek_cmd_ok :: "seek_cmd \<Rightarrow> bool" where
  "seek_cmd_ok (ShowText n) = (n \<le> MAX_RW_COUNT)"
| "seek_cmd_ok (ShowHex n) = (n \<le> MAX_RW_COUNT)"
| "seek_cmd_ok (PutStr s) = (s \<noteq> [] \<and> length s \<le> MAX_RW_COUNT)"
| "seek_cmd_ok (SeekTo n) = (int n \<le> LONG_MAX)"

text \<open>One byte as \<open>seek_io\<close> shows it: as itself or a question mark, or in hexadecimal.\<close>

definition byte_text :: "DisplayType \<Rightarrow> char \<Rightarrow> string" where
  "byte_text ty c = (case ty of
     TEXT \<Rightarrow> [if isprint c then c else CHR ''?'']
   | HEX \<Rightarrow> pad_left 2 (CHR ''0'') (hex (c_uint (char_value c))) @ '' '')"

definition show_bytes :: "DisplayType \<Rightarrow> string \<Rightarrow> string" where
  "show_bytes ty bs = (if bs = [] then ''End-of-file'' @ nl else concat (map (byte_text ty) bs))"

text \<open>The meaning of a command: what it prints and what it leaves of the file.\<close>

primrec seek_exec :: "string \<Rightarrow> seek_cmd \<Rightarrow> afile \<Rightarrow> string \<times> afile" where
  "seek_exec path (ShowText n) f = (show_bytes TEXT (fst (file_read n f)), snd (file_read n f))"
| "seek_exec path (ShowHex n) f = (show_bytes HEX (fst (file_read n f)), snd (file_read n f))"
| "seek_exec path (PutStr s) f =
     (''Wrote '' @ dec (int (length s)) @ '' bytes to '' @ path @ nl, file_write s f)"
| "seek_exec path (SeekTo n) f = (''Seeked to offset '' @ dec (int n) @ nl, (fst f, n))"

primrec seek_run :: "string \<Rightarrow> seek_cmd list \<Rightarrow> afile \<Rightarrow> string \<times> afile" where
  "seek_run path [] f = ([], f)"
| "seek_run path (c # cs) f =
     (let (out, f') = seek_exec path c f; (out', f'') = seek_run path cs f' in (out @ out', f''))"

text \<open>The calls of the program, on a system whose descriptor acts as a file.\<close>

lemma acts_read:
  assumes "acts_as_file K fd view" "n \<le> MAX_RW_COUNT"
    and "\<And>r w'. rdata r = fst (file_read n (view (kern w))) \<Longrightarrow> ret r = int (length (rdata r)) \<Longrightarrow>
      view (kern w') = snd (file_read n (view (kern w))) \<Longrightarrow>
      trace w' = trace w @ [(File (Read fd n), r)] \<Longrightarrow> Q r w'"
  shows "wp (sys K (File (Read fd n))) Q w"
  using assms(1,2) unfolding acts_as_file_def by (intro wp_sys_step assms(3)) auto

lemma acts_write:
  assumes "acts_as_file K fd view" "length s \<le> MAX_RW_COUNT"
    and "\<And>r w'. view (kern w') = file_write s (view (kern w)) \<Longrightarrow>
      trace w' = trace w @ [(File (Write fd s), r)] \<Longrightarrow> Q (int (length s)) w'"
  shows "wp (call K (File (Write fd s))) Q w"
proof (rule wp_call_step)
  fix r and w' :: "'a world"
  assume st: "step K (kern w) (File (Write fd s)) = (kern w', r)" and "after (File (Write fd s), r) w w'"
  moreover have "ret r = int (length s) \<and> view (kern w') = file_write s (view (kern w))"
    using assms(1,2) st unfolding acts_as_file_def by blast
  ultimately show "Q (ret r) w'" using assms(3) [of w' r] by simp
qed

lemma acts_seek:
  assumes "acts_as_file K fd view"
    and "\<And>r w'. view (kern w') = (fst (view (kern w)), n) \<Longrightarrow>
      trace w' = trace w @ [(File (Lseek fd (int n) SEEK_SET), r)] \<Longrightarrow> Q (int n) w'"
  shows "wp (call K (File (Lseek fd (int n) SEEK_SET))) Q w"
proof (rule wp_call_step)
  fix r and w' :: "'a world"
  assume st: "step K (kern w) (File (Lseek fd (int n) SEEK_SET)) = (kern w', r)"
    and "after (File (Lseek fd (int n) SEEK_SET), r) w w'"
  moreover have "ret r = int n \<and> view (kern w') = (fst (view (kern w)), n)"
    using assms(1) st unfolding acts_as_file_def by blast
  ultimately show "Q (ret r) w'" using assms(2) [of w' r] by simp
qed

lemma acts_other:
  assumes "acts_as_file K fd view"
    and "(\<exists>s d. c = Stdio (Fprintf d s)) \<or> (\<exists>n. c = Proc (Malloc n)) \<or> (\<exists>p. c = Proc (Free p)) \<or> c = File (Close fd)"
    and "\<And>r w'. view (kern w') = view (kern w) \<Longrightarrow> step K (kern w) c = (kern w', r) \<Longrightarrow>
      trace w' = trace w @ [(c, r)] \<Longrightarrow> Q r w'"
  shows "wp (sys K c) Q w"
proof (rule wp_sys_step)
  fix r and w' :: "'a world"
  assume st: "step K (kern w) c = (kern w', r)" and "after (c, r) w w'"
  moreover from assms(1) have "\<forall>k c k' r. (\<exists>s d. c = Stdio (Fprintf d s)) \<or> (\<exists>n. c = Proc (Malloc n)) \<or>
      (\<exists>p. c = Proc (Free p)) \<or> c = File (Close fd) \<longrightarrow> step K k c = (k', r) \<longrightarrow> view k' = view k"
    unfolding acts_as_file_def by simp
  with assms(2) st have "view (kern w') = view (kern w)" by blast
  ultimately show "Q r w'" using assms(3) [of w' r] by simp
qed

text \<open>Printing the bytes leaves the file alone.\<close>

lemma wp_show_bytes:
  assumes "acts_as_file K fd view"
  shows "wp (for_each bs (\<lambda>c. do { printf K (byte_text ty c); ok () }))
     (\<lambda>r w'. r = Ok () \<and> view (kern w') = view (kern w) \<and>
             printed 1 (trace w') = printed 1 (trace w) @ concat (map (byte_text ty) bs)) w"
  by (rule wp_for_each [where I = "\<lambda>done w'. view (kern w') = view (kern w) \<and>
             printed 1 (trace w') = printed 1 (trace w) @ concat (map (byte_text ty) done)"])
     (auto simp: printf_def intro!: acts_other [OF assms])

lemma readDisplayBytes_acts:
  assumes K: "acts_as_file K fd view" and "n \<le> MAX_RW_COUNT"
    and "\<And>k n. ret (snd (step K k (Proc (Malloc n)))) \<noteq> 0"
  shows "wp (readDisplayBytes K fd (int n) ty)
     (\<lambda>r w'. r = Ok () \<and> view (kern w') = snd (file_read n (view (kern w))) \<and>
        printed 1 (trace w') = printed 1 (trace w) @ show_bytes ty (fst (file_read n (view (kern w))))) w"
  (is "wp _ ?Q w")
proof -
  have malloc: "wp (call K (Proc (Malloc m))) Q w1"
    if "\<And>p r w'. p \<noteq> 0 \<Longrightarrow> view (kern w') = view (kern w1) \<Longrightarrow> trace w' = trace w1 @ [(Proc (Malloc m), r)] \<Longrightarrow> Q p w'"
    for m Q w1
    unfolding call_def wp_bind wp_return
    using assms(3) [of "kern w1" m] by (auto intro!: acts_other [OF K] that)
  have bytes: "(\<lambda>c. do { printf K [if isprint c then c else CHR ''?'']; ok () }) =
      (\<lambda>c. do { printf K (byte_text TEXT c); ok () })"
    "(\<lambda>c. do { printf K (pad_left 2 (CHR ''0'') (hex (c_uint (char_value c))) @ '' ''); ok () }) =
      (\<lambda>c. do { printf K (byte_text HEX c); ok () })"
    by (simp_all add: byte_text_def)
  show ?thesis
    unfolding readDisplayBytes_def bytes
    by (cases ty)
       (auto simp: show_bytes_def printf_def
        intro!: malloc acts_read [OF K assms(2)] acts_other [OF K] wp_mono [OF wp_show_bytes [OF K, unfolded printf_def]])
qed

lemma MAX_RW_COUNT_le: "n \<le> MAX_RW_COUNT \<Longrightarrow> int n \<le> ULONG_MAX"
  by (simp add: MAX_RW_COUNT_def ULONG_MAX_def)

lemma seek_io_command_refines:
  assumes K: "acts_as_file K fd view" and "\<And>k n. ret (snd (step K k (Proc (Malloc n)))) \<noteq> 0"
    and "seek_cmd_ok c"
  shows "wp (seek_io_command K argv fd path (seek_arg c))
     (\<lambda>r w'. r = Ok () \<and> view (kern w') = snd (seek_exec path c (view (kern w))) \<and>
        printed 1 (trace w') = printed 1 (trace w) @ fst (seek_exec path c (view (kern w)))) w"
proof (cases c)
  case (ShowText n)
  then show ?thesis
    using assms(3)
    by (auto simp: seek_io_command_def dest: MAX_RW_COUNT_le intro!: wp_mono [OF seek_io_getUnsignedLong.accepts]
        wp_mono [OF readDisplayBytes_acts [OF K _ assms(2)]])
next
  case (ShowHex n)
  then show ?thesis
    using assms(3)
    by (auto simp: seek_io_command_def dest: MAX_RW_COUNT_le intro!: wp_mono [OF seek_io_getUnsignedLong.accepts]
        wp_mono [OF readDisplayBytes_acts [OF K _ assms(2)]])
next
  case (PutStr s)
  then show ?thesis
    using assms(3) MAX_RW_COUNT_le [of "length s"]
    by (auto simp: seek_io_command_def printf_def intro!: acts_write [OF K] acts_other [OF K])
next
  case (SeekTo n)
  then show ?thesis
    using assms(3)
    by (auto simp: seek_io_command_def printf_def LONG_MIN_def
        intro!: wp_mono [OF seek_io_getLong.accepts] acts_seek [OF K] acts_other [OF K])
qed

lemma seek_io_commands_refine:
  assumes K: "acts_as_file K fd view" and "\<And>k n. ret (snd (step K k (Proc (Malloc n)))) \<noteq> 0"
    and "list_all seek_cmd_ok cs"
  shows "wp (for_each (map seek_arg cs) (seek_io_command K argv fd path))
     (\<lambda>r w'. r = Ok () \<and> view (kern w') = snd (seek_run path cs (view (kern w))) \<and>
        printed 1 (trace w') = printed 1 (trace w) @ fst (seek_run path cs (view (kern w)))) w"
  using assms(3)
proof (induction cs arbitrary: w)
  case Nil
  then show ?case by simp
next
  case (Cons c cs)
  then have "seek_cmd_ok c" and IH: "\<And>w. wp (for_each (map seek_arg cs) (seek_io_command K argv fd path))
     (\<lambda>r w'. r = Ok () \<and> view (kern w') = snd (seek_run path cs (view (kern w))) \<and>
        printed 1 (trace w') = printed 1 (trace w) @ fst (seek_run path cs (view (kern w)))) w"
    by simp_all
  then show ?case
    by (auto simp: split_beta intro!: wp_mono [OF seek_io_command_refines [OF K assms(2)]] wp_mono [OF IH])
qed

text \<open>
  C14. \<open>seek_io\<close> implements its command language: on a file descriptor that behaves as a
  regular file, the program run on any list of well-formed commands (lengths within what
  one call transfers, offsets within \<open>long\<close>, strings not empty) exits with status 0, has
  printed exactly what the interpreter \<open>seek_run\<close> prints for the contents, and leaves the
  file with the contents and the offset the interpreter computes.
\<close>

theorem seek_io_refines_interpreter:
  assumes "acts_as_file K fd view" "fd \<noteq> -1"
    and "\<And>k n. ret (snd (step K k (Proc (Malloc n)))) \<noteq> 0"
    and "\<And>k. ret (snd (step K k (File (Close fd)))) \<noteq> -1"
    and "\<And>k. ret (snd (step K k (File (Open path (O_RDWR OR O_CREAT) rw_all)))) = fd"
    and "view (fst (step K (kern w) (File (Open path (O_RDWR OR O_CREAT) rw_all)))) = (contents, 0)"
    and "path \<noteq> ''--help''" "cs \<noteq> []" "list_all seek_cmd_ok cs"
  shows "wp (seek_io_main K (prog # path # map seek_arg cs))
     (\<lambda>r w'. r = Exit 0 \<and> view (kern w') = snd (seek_run path cs (contents, 0)) \<and>
        printed 1 (trace w') = printed 1 (trace w) @ fst (seek_run path cs (contents, 0))) w"
proof -
  have opened: "view k' = (contents, 0)" if "step K (kern w) (File (Open path (O_RDWR OR O_CREAT) rw_all)) = (k', r)" for k' r
    using assms(6) that by simp
  have close: "wp (call K (File (Close fd))) Q w1"
    if "\<And>v w' r. trace w' = trace w1 @ [(File (Close fd), r)] \<Longrightarrow> view (kern w') = view (kern w1) \<Longrightarrow> v \<noteq> -1 \<Longrightarrow> Q v w'"
    for Q w1
    unfolding call_def wp_bind wp_return
    using assms(4) [of "kern w1"] by (auto intro!: acts_other [OF assms(1)] that)
  show ?thesis
    using assms(2,7,8)
    by (auto simp: seek_io_main_def arg_def Let_def Suc_le_eq dest!: opened
        intro!: wp_call_value [OF assms(5)] close
          wp_mono [OF seek_io_commands_refine [OF assms(1,3,9), of "prog # path # map seek_arg cs" path]])
qed

text \<open>A system with one regular file, open as descriptor 3.\<close>

fun disk_step :: "afile \<Rightarrow> syscall \<Rightarrow> afile \<times> sysret" where
  "disk_step f (File (Read fd n)) = (snd (file_read n f), gives (fst (file_read n f)))"
| "disk_step f (File (Write fd s)) = (file_write s f, returns (int (length s)))"
| "disk_step f (File (Lseek fd n wh)) = ((fst f, nat n), returns n)"
| "disk_step f (File (Open p fl m)) = ((fst f, 0), returns 3)"
| "disk_step f (Proc (Malloc n)) = (f, returns 1)"
| "disk_step f c = (f, returns 0)"

definition disk_os :: "afile os" where
  "disk_os = \<lparr>step = disk_step, strerror = (\<lambda>e. ''error ''), strsignal = (\<lambda>s. ''signal ''),
              gai_strerror = (\<lambda>s. ''error '')\<rparr>"

lemma disk_acts: "acts_as_file disk_os 3 (\<lambda>f. f)"
  by (auto simp: acts_as_file_def disk_os_def gives_def returns_def reply0_def file_read_def Let_def)

theorem seek_io_refines_interpreter_witness:
  "wp (seek_io_main disk_os [''seek_io'', ''f'', ''s3'', ''wXY'', ''r9''])
     (\<lambda>r w'. r = Exit 0 \<and> fst (kern w') = ''helXY world'' \<and>
        printed 1 (trace w') = ''Seeked to offset 3'' @ nl @ ''Wrote 2 bytes to f'' @ nl @ '' world'')
     (start (''hello world'', 0))"
proof -
  have args: "map seek_arg [SeekTo 3, PutStr ''XY'', ShowText 9] = [''s3'', ''wXY'', ''r9'']"
    by code_simp
  have run: "seek_run ''f'' [SeekTo 3, PutStr ''XY'', ShowText 9] (''hello world'', 0) =
      (''Seeked to offset 3'' @ nl @ ''Wrote 2 bytes to f'' @ nl @ '' world'', (''helXY world'', 11))"
    by code_simp
  from seek_io_refines_interpreter [OF disk_acts, of "''f''" "start (''hello world'', 0)" "''hello world''"
      "[SeekTo 3, PutStr ''XY'', ShowText 9]" "''seek_io''", unfolded args run]
  show ?thesis
    by (auto simp: disk_os_def returns_def reply0_def start_def MAX_RW_COUNT_def LONG_MAX_def elim!: wp_mono)
qed

lemma radix_nat_step: "0 < m \<Longrightarrow> d < 16 \<Longrightarrow> radix_nat 16 (m * 16 + d) = radix_nat 16 m @ [digit_char d]"
  by (subst radix_nat.simps) simp

lemma hex_byte:
  assumes "n < 256"
  shows "byte_text HEX (chr n) =
     (if n < 16 then ''0'' else if n < 128 then [] else ''ffffff'') @ hex (int n) @ '' ''"
proof (cases "n < 128")
  case True
  then have "c_uint (char_value (chr n)) = int n"
    by (simp add: char_value_def c_schar_def c_uint_def signed_take_bit_int_eq_self take_bit_int_eq_self)
  with True show ?thesis
    by (auto simp: byte_text_def pad_left_def hex_def radix_nat.simps [of 16 n] radix_nat.simps [of 16 "n div 16"])
next
  case False
  define h l where "h = n div 16" and "l = n mod 16"
  have n: "n = h * 16 + l" "0 < h" "h < 16" "l < 16"
    using False assms by (auto simp: h_def l_def)
  have "(int n - 128 + 256) mod 256 = int n - 128"
    using False assms by (simp only: mod_add_self2) simp
  then have "c_schar (int n) = int n - 256"
    by (simp add: c_schar_def signed_take_bit_eq_take_bit_shift take_bit_eq_mod add.commute [of 128])
  moreover have "(int n - 256) mod 2 ^ 32 = (int n - 256 + 2 ^ 32) mod 2 ^ 32"
    by (rule mod_add_self2 [symmetric])
  moreover have "\<dots> = int n - 256 + 2 ^ 32" using assms by (intro mod_pos_pos_trivial) auto
  ultimately have "nat (c_uint (char_value (chr n))) = (0xffffff * 16 + h) * 16 + l"
    using assms n by (simp add: char_value_def c_uint_def take_bit_eq_mod)
  moreover have "radix_nat 16 0xffffff = ''ffffff''"
    by (simp add: radix_nat.simps digit_char_def char_of_def bit_0)
  moreover have "radix_nat 16 h = [digit_char h]" using n by (subst radix_nat.simps) simp
  moreover have "hex (int n) = radix_nat 16 (h * 16 + l)" 
    unfolding n(1) [symmetric] by (simp add: hex_def)
  ultimately show ?thesis
    using False n radix_nat_step [of h l] radix_nat_step [of "0xffffff * 16 + h" l] radix_nat_step [of "0xffffff" h]
    by (simp add: byte_text_def pad_left_def hex_def [of "c_uint _"])
qed

text \<open>
  The hexadecimal display converts a \<open>char\<close>, which is signed, to \<open>unsigned int\<close>: a byte
  below 0x80 is shown as two digits, but a byte from 0x80 on is sign extended and shown
  as eight, with six leading \<open>f\<close>.
\<close>

theorem readDisplayBytes_hex_sign_extends:
  assumes "acts_as_file K fd view" "\<And>k n. ret (snd (step K k (Proc (Malloc n)))) \<noteq> 0"
    and "view (kern w) = (pre @ chr n # post, length pre)" "n < 256"
  shows "wp (readDisplayBytes K fd 1 HEX)
     (\<lambda>r w'. r = Ok () \<and> printed 1 (trace w') = printed 1 (trace w) @
        (if n < 16 then ''0'' else if n < 128 then [] else ''ffffff'') @ hex (int n) @ '' '') w"
  using hex_byte [OF assms(4)] assms(3)
  by (intro wp_mono [OF readDisplayBytes_acts [OF assms(1) _ assms(2), of 1 HEX w, simplified]])
     (auto simp: MAX_RW_COUNT_def file_read_def show_bytes_def)

theorem readDisplayBytes_hex_sign_extends_witness:
  "wp (readDisplayBytes disk_os 3 1 HEX)
     (\<lambda>r w'. r = Ok () \<and> printed 1 (trace w') = ''ffffffe9 '') (start ([chr 0xe9], 0))"
proof -
  have "hex 0xe9 = ''e9''" by code_simp
  with readDisplayBytes_hex_sign_extends [OF disk_acts, where w = "start ([chr 0xe9], 0)" and
      pre = "[]" and n = "0xe9" and post = "[]"] show ?thesis
    by (simp add: disk_os_def returns_def reply0_def start_def)
qed

end
