(* ===== verification/Sv_Sem.thy ===== *)
theory Sv_Sem
  imports Num_Args
begin

text \<open>
  The System V semaphore tools of \<open>svsem/\<close>: creating a semaphore and operating on it,
  displaying a set, and initialising all semaphores of a set. The answer to \<open>IPC_STAT\<close> holds
  the change time, the time of the last operation and the number of semaphores; the answer
  to \<open>GETALL\<close> the values. Where C leaves the order of two calls in an argument list open,
  they are made from left to right.
\<close>

section \<open>svsem/svsem\_demo.c\<close>

definition svsem_demo_main :: "'k os \<Rightarrow> string list \<Rightarrow> ('k, unit) cmd" where
  "svsem_demo_main K argv =
     (if length argv < 2 \<or> length argv > 3 \<or> arg argv 1 = ''-h''
      then do {
        eprintf K (''Usage: '' @ arg argv 0 @ '' <init value>'' @ nl);
        usage K (''       '' @ arg argv 0 @ '' <semid> <op>'' @ nl) }
      else if length argv = 2
      then do {
        semid \<leftarrow> call K (Ipc (Semget IPC_PRIVATE 1 (uint (S_IRUSR OR S_IWUSR))));
        if semid = -1
        then die K (\<lambda>err. ''semget() failed - '' @ err @ nl)
        else bind_res (svsem_demo_getInt K (arg argv 1)) (\<lambda>val. do {
          s \<leftarrow> call K (Ipc (SemctlSetval semid 0 val));
          if s = -1
          then die K (\<lambda>err. ''Failed to initialize semaphore '' @ dec semid @ '' - '' @ err @ nl)
          else do {
            printf K (''Sempahore ID = '' @ dec semid @ nl);
            halt (Exit EXIT_SUCCESS) }}) }
      else bind_res (svsem_demo_getInt K (arg argv 1)) (\<lambda>semid.
        bind_res (svsem_demo_getInt K (arg argv 2)) (\<lambda>val. do {
          let op = c_short val;
          t \<leftarrow> call K (Proc Time);
          p \<leftarrow> call K (Proc Getpid);
          at \<leftarrow> ctime_text K t;
          printf K (dec p @ '': about to semop at '' @ at);
          s \<leftarrow> call K (Ipc (Semop semid 0 op 0));
          (if s = -1
           then do {
             e \<leftarrow> get_errno;
             eprintf K (''Failed to semop() on semaphore '' @ dec semid @ '' with op '' @ dec op @ '' - '' @ strerror K e @ nl);
             State_Monad.return () }
           else State_Monad.return ());
          p \<leftarrow> call K (Proc Getpid);
          at \<leftarrow> ctime_text K t;
          printf K (dec p @ '': semop completed at '' @ at);
          halt (Exit EXIT_SUCCESS) })))"

section \<open>svsem/svsem\_mon.c\<close>

definition GETPID :: int where "GETPID = 11"
definition GETNCNT :: int where "GETNCNT = 14"
definition GETZCNT :: int where "GETZCNT = 15"

definition svsem_mon_row :: "'k os \<Rightarrow> int \<Rightarrow> int list \<Rightarrow> nat \<Rightarrow> ('k, unit) cmd" where
  "svsem_mon_row K semid array i = do {
     p \<leftarrow> call K (Ipc (SemctlGet semid (int i) GETPID));
     n \<leftarrow> call K (Ipc (SemctlGet semid (int i) GETNCNT));
     z \<leftarrow> call K (Ipc (SemctlGet semid (int i) GETZCNT));
     printf K (pad_left 3 CHR '' '' (dec (int i)) @ ''   '' @ pad_left 5 CHR '' '' (dec (array ! i)) @ ''   '' @
       pad_left 5 CHR '' '' (dec p) @ ''   '' @ pad_left 5 CHR '' '' (dec n) @ ''    '' @
       pad_left 5 CHR '' '' (dec z) @ nl);
     ok () }"

definition svsem_mon_main :: "'k os \<Rightarrow> string list \<Rightarrow> ('k, unit) cmd" where
  "svsem_mon_main K argv =
     (if length argv \<noteq> 2 \<or> arg argv 1 = ''-h''
      then usage K (arg argv 0 @ '' <semid>'' @ nl)
      else bind_res (svsem_mon_getInt K (arg argv 1)) (\<lambda>semid. do {
        ds \<leftarrow> sys K (Ipc (SemctlStat semid));
        if ret ds = -1
        then die K (\<lambda>err. ''Failed to semctl() IPC_STAT semid '' @ dec semid @ '' - '' @ err @ nl)
        else do {
        let nsems = nat (rnum 2 ds);
        changed \<leftarrow> ctime_text K (rnum 0 ds);
        printf K (''Semaphore changed: '' @ changed);
        lastop \<leftarrow> ctime_text K (rnum 1 ds);
        printf K (''Last semop():      '' @ lastop);
        a \<leftarrow> call K (Proc (Calloc (int nsems) 2));
        if a = 0
        then die K (\<lambda>err. ''Failed to calloc() '' @ dec (int nsems) @ '' unsigned shorts for sem array values - '' @ err @ nl)
        else do {
        g \<leftarrow> sys K (Ipc (SemctlGetall semid));
        if ret g = -1
        then do {
          sys K (Proc (Free a));
          die K (\<lambda>err. ''Failed to semctl() GETALL semid '' @ dec semid @ '' - '' @ err @ nl) }
        else do {
        printf K (''Sem #  Value  SEMPID  SEMNCNT  SEMZCNT'' @ nl);
        bind_res (for_each [0..<nsems] (svsem_mon_row K semid (map (\<lambda>i. rnum i g) [0..<nsems]))) (\<lambda>_. do {
          sys K (Proc (Free a));
          halt (Exit EXIT_SUCCESS) }) }}}}))"

section \<open>svsem/svsem\_setall.c\<close>

text \<open>The loop over the values: every one of them is stored in element 0 of the array.\<close>

definition svsem_setall_values :: "'k os \<Rightarrow> string list \<Rightarrow> int list \<Rightarrow> ('k, int list) cmd" where
  "svsem_setall_values K vals array0 =
     fold_each vals (\<lambda>v array. bind_res (svsem_setall_getLong K v) (\<lambda>x. ok (array[0 := c_ushort x]))) array0"

definition svsem_setall_main :: "'k os \<Rightarrow> string list \<Rightarrow> ('k, unit) cmd" where
  "svsem_setall_main K argv =
     (if length argv < 3 \<or> arg argv 1 = ''-h''
      then usage K (''Usage: '' @ arg argv 0 @ '' <semid> <val>...'' @ nl)
      else bind_res (svsem_setall_getLong K (arg argv 1)) (\<lambda>v. do {
        let semid = c_int v;
        ds \<leftarrow> sys K (Ipc (SemctlStat semid));
        if ret ds = -1
        then die K (\<lambda>err. ''Failed to semctl() IPC_STAT semid '' @ dec semid @ '' - '' @ err @ nl)
        else if int (length argv) - 2 \<noteq> rnum 2 ds
        then usage K (''Set '' @ dec semid @ '' contains '' @ dec (rnum 2 ds) @ '' semaphores but '' @
          dec (int (length argv) - 2) @ '' values were supplied.'' @ nl)
        else do {
        let nsems = nat (rnum 2 ds);
        a \<leftarrow> call K (Proc (Calloc (int nsems) 2));
        if a = 0
        then die K (\<lambda>err. ''Failed to calloc() '' @ dec (int nsems) @ '' unsigned shorts - '' @ err @ nl)
        else bind_res (svsem_setall_values K (drop 2 argv) (replicate nsems 0)) (\<lambda>array. do {
          s \<leftarrow> call K (Ipc (SemctlSetall semid array));
          if s = -1
          then die K (\<lambda>err. ''Failed to semctl() SET_ALL semid '' @ dec semid @ '' - '' @ err @ ''n'')
          else do {
            p \<leftarrow> call K (Proc Getpid);
            printf K (''Semaphore values changed (PID='' @ dec p @ '')'' @ nl);
            halt (Exit EXIT_SUCCESS) }}) }}))"

section \<open>Properties\<close>

lemma wp_setall_values:
  assumes "\<And>v. v \<in> set vs \<Longrightarrow> LONG_MIN \<le> v \<and> v \<le> LONG_MAX" "vs \<noteq> []"
  shows "wp (svsem_setall_values K (map dec vs) array) (\<lambda>r w'. r = Ok (array[0 := c_ushort (last vs)]) \<and> trace w' = trace w) w"
  using assms
proof (induction vs arbitrary: array w)
  case (Cons v vs)
  have v: "wp (svsem_setall_getLong K (dec v)) (\<lambda>r w'. r = Ok v \<and> quiet w w') w"
    using Cons.prems(1) by (intro svsem_setall_getLong.accepts) auto
  note IH = Cons.IH [of "array[0 := c_ushort v]", unfolded svsem_setall_values_def]
  show ?case
    using Cons.prems(1)
    by (cases "vs = []")
       (auto simp: svsem_setall_values_def intro!: wp_mono [OF v] wp_mono [OF IH])
qed simp

text \<open>
  \<open>svsem_setall\<close> does not set all: given one number for each semaphore of the set, a
  successful run has stored only the last number, reduced to 16 bits, in the first
  semaphore and 0 in all the others.
\<close>

theorem svsem_setall_sets_first_only:
  assumes "posix K" "LONG_MIN \<le> semid" "semid \<le> LONG_MAX"
    and "list_all (\<lambda>v. LONG_MIN \<le> v \<and> v \<le> LONG_MAX) vs" "vs \<noteq> []"
  shows "wp (svsem_setall_main K (prog # dec semid # map dec vs)) (\<lambda>r w'. (r = Exit 0 \<or> r = Exit 1) \<and>
     (r = Exit 0 \<longrightarrow> (\<exists>d x. trace w' = trace w @ d \<and>
        (Ipc (SemctlSetall (c_int semid) (c_ushort (last vs) # replicate (length vs - 1) 0)), x) \<in> set d))) w"
proof -
  have getid: "wp (svsem_setall_getLong K (dec semid)) (\<lambda>r w'. r = Ok semid \<and> quiet w1 w') w1" for w1
    using assms(2,3) by (rule svsem_setall_getLong.accepts)
  have "(replicate (nat k) 0)[0 := x] = x # replicate (length vs - 1) 0" if "int (length vs) = k" for k x :: int
    unfolding that [symmetric] nat_int using assms(5) by (cases vs) auto
  with assms show ?thesis
    unfolding svsem_setall_main_def
    by (auto simp: arg_def dec_not_option Let_def Suc_le_eq list_all_iff
        intro!: wp_tr wp_mono [OF getid] wp_mono [OF wp_setall_values])
qed

theorem svsem_setall_sets_first_only_witness:
  "\<exists>d x. trace (snd (run_state (svsem_setall_main script_os [''setall'', ''5'', ''7'', ''8''])
       (start [(returns 0)\<lparr>rnums := [0, 0, 2]\<rparr>, returns 9, returns 0, returns 42]))) = d \<and>
     (Ipc (SemctlSetall 5 [8, 0]), x) \<in> set d"
proof -
  let ?run = "run_state (svsem_setall_main script_os [''setall'', ''5'', ''7'', ''8''])
       (start [(returns 0)\<lparr>rnums := [0, 0, 2]\<rparr>, returns 9, returns 0, returns 42])"
  have args: "''setall'' # dec 5 # map dec [7, 8] = [''setall'', ''5'', ''7'', ''8'']" by code_simp
  have "fst ?run = Exit 0" by code_simp
  with svsem_setall_sets_first_only [OF script_posix, of 5 "[7, 8]" "''setall''"
      "start [(returns 0)\<lparr>rnums := [0, 0, 2]\<rparr>, returns 9, returns 0, returns 42]", unfolded args, THEN wp_run]
  show ?thesis
    by (auto simp: LONG_MIN_def LONG_MAX_def start_def c_int_def c_ushort_def)
qed

end
