(* ===== verification/Sv_Shm.thy ===== *)
theory Sv_Shm
  imports Num_Args
begin

text \<open>
  The shared memory transfer of \<open>svshm/\<close>: the binary semaphores of \<open>binary_sems.c\<close>, the writer
  and the reader. The programs are modelled twice. As sequential programs, with every error
  path, an access to the shared segment is a call answered by the system, since the other
  process may have written it. For the protocol, the writer and the reader are two programs
  that take turns in a shared state, one call of a semaphore or one access to the segment at
  a time; there, the system calls succeed.
\<close>

section \<open>svshm/binary\_sems.c\<close>

definition SEM_UNDO :: int where "SEM_UNDO = 4096"

text \<open>The two global flags of the module and their initial values.\<close>

record bs_flags =
  bsUseSemUndo :: bool
  bsRetryOnEintr :: bool

definition bs_initial :: bs_flags where
  "bs_initial = \<lparr>bsUseSemUndo = False, bsRetryOnEintr = True\<rparr>"

lemma bs_initial_simps [simp]: "bsUseSemUndo bs_initial = False" "bsRetryOnEintr bs_initial = True"
  by (simp_all add: bs_initial_def)

definition initSemAvailable :: "'k os \<Rightarrow> int \<Rightarrow> int \<Rightarrow> ('k world, int) state" where
  "initSemAvailable K semId semNum = call K (Ipc (SemctlSetval semId semNum 1))"

definition initSemInUse :: "'k os \<Rightarrow> int \<Rightarrow> int \<Rightarrow> ('k world, int) state" where
  "initSemInUse K semId semNum = call K (Ipc (SemctlSetval semId semNum 0))"

primrec reserveSem :: "nat \<Rightarrow> bs_flags \<Rightarrow> 'k os \<Rightarrow> int \<Rightarrow> int \<Rightarrow> ('k, int) cmd" where
  "reserveSem 0 bs K semId semNum = halt Hang"
| "reserveSem (Suc fuel) bs K semId semNum = do {
     s \<leftarrow> call K (Ipc (Semop semId (c_ushort semNum) (-1) (if bsUseSemUndo bs then SEM_UNDO else 0)));
     if s = -1
     then do {
       e \<leftarrow> get_errno;
       if e \<noteq> EINTR \<or> \<not> bsRetryOnEintr bs then ok (-1) else reserveSem fuel bs K semId semNum }
     else ok 0 }"

definition releaseSem :: "bs_flags \<Rightarrow> 'k os \<Rightarrow> int \<Rightarrow> int \<Rightarrow> ('k world, int) state" where
  "releaseSem bs K semId semNum =
     call K (Ipc (Semop semId (c_ushort semNum) 1 (if bsUseSemUndo bs then SEM_UNDO else 0)))"

section \<open>svshm/svshm\_xfr.h\<close>

definition SHM_KEY :: int where "SHM_KEY = 0x1234"
definition SEM_KEY :: int where "SEM_KEY = 0x5678"
definition OBJ_PERMS :: int where "OBJ_PERMS = uint (S_IRUSR OR S_IWUSR OR S_IRGRP OR S_IWGRP)"
definition WRITE_SEM :: int where "WRITE_SEM = 0"
definition READ_SEM :: int where "READ_SEM = 1"
definition BUF_SIZE :: nat where "BUF_SIZE = 1024"

text \<open>\<open>struct shmseg\<close>: the offsets of its fields and its size.\<close>

definition bufferSize_off :: nat where "bufferSize_off = 0"
definition buffer_off :: nat where "buffer_off = 4"
definition shmseg_size :: int where "shmseg_size = 4 + int BUF_SIZE"

definition SHM_RDONLY :: int where "SHM_RDONLY = 4096"

text \<open>Addition of two \<open>int\<close>, undefined on overflow.\<close>

definition int_add :: "int \<Rightarrow> int \<Rightarrow> int option" where
  "int_add a b = (if INT_MIN \<le> a + b \<and> a + b \<le> INT_MAX then Some (a + b) else None)"

section \<open>svshm/svshm\_xfr\_writer.c\<close>

text \<open>The \<open>for\<close> loop, entered at its test, with the local variables \<open>xfrs\<close> and \<open>bytes\<close>.\<close>

primrec shm_write_loop :: "nat \<Rightarrow> 'k os \<Rightarrow> int \<Rightarrow> int \<Rightarrow> int \<Rightarrow> int \<Rightarrow> ('k, int \<times> int) cmd" where
  "shm_write_loop 0 K semid shmp xfrs bytes = halt Hang"
| "shm_write_loop (Suc fuel) K semid shmp xfrs bytes = do {
     size \<leftarrow> load_int K shmp bufferSize_off;
     if size = 0 then ok (xfrs, bytes)
     else bind_res (reserveSem fuel bs_initial K semid WRITE_SEM) (\<lambda>s.
       if s = -1
       then die K (\<lambda>err. ''Failed to reserve WRITE_SEM '' @ dec WRITE_SEM @ '' - '' @ err @ nl)
       else do {
       r \<leftarrow> sys K (File (Read STDIN_FILENO BUF_SIZE));
       (if 0 < ret r then sys K (File (Store shmp buffer_off (rdata r))) else State_Monad.return r);
       sys K (File (Store shmp bufferSize_off (int_bytes (ret r))));
       size \<leftarrow> load_int K shmp bufferSize_off;
       if size = -1
       then die K (\<lambda>err. ''Failed to read from stdin - '' @ err @ nl)
       else do {
       s \<leftarrow> releaseSem bs_initial K semid READ_SEM;
       if s = -1
       then die K (\<lambda>err. ''Failed to release READ_SEM '' @ dec READ_SEM @ '' - '' @ err @ nl)
       else do {
       size \<leftarrow> load_int K shmp bufferSize_off;
       case (int_add xfrs 1, int_add bytes size) of
         (Some xfrs', Some bytes') \<Rightarrow> shm_write_loop fuel K semid shmp xfrs' bytes'
       | _ \<Rightarrow> halt Undef }}}) }"

definition svshm_xfr_writer_main :: "nat \<Rightarrow> 'k os \<Rightarrow> string list \<Rightarrow> ('k, unit) cmd" where
  "svshm_xfr_writer_main fuel K argv = do {
     semid \<leftarrow> call K (Ipc (Semget SEM_KEY 2 (IPC_CREAT OR OBJ_PERMS)));
     if semid = -1
     then die K (\<lambda>err. ''Failed to semget() SEM_KEY '' @ hex SEM_KEY @ '' - '' @ err @ nl)
     else do {
     s \<leftarrow> initSemAvailable K semid WRITE_SEM;
     if s = -1
     then die K (\<lambda>err. ''Failed to initialize WRITE_SEM - '' @ err @ nl)
     else do {
     s \<leftarrow> initSemInUse K semid READ_SEM;
     if s = -1
     then die K (\<lambda>err. ''Failed to initialize READ_SEM - '' @ err @ nl)
     else do {
     shmid \<leftarrow> call K (Ipc (Shmget SHM_KEY shmseg_size (IPC_CREAT OR OBJ_PERMS)));
     if shmid = -1
     then die K (\<lambda>err. ''Failed to shmget() SHM_KEY '' @ hex SHM_KEY @ '' - '' @ err @ nl)
     else do {
     shmp \<leftarrow> call K (Ipc (Shmat shmid 0));
     if shmp = -1
     then die K (\<lambda>err. ''Failed to shmat() shmid '' @ dec shmid @ '' - '' @ err @ nl)
     else do {
     sys K (File (Store shmp bufferSize_off (int_bytes (int BUF_SIZE))));
     bind_res (shm_write_loop fuel K semid shmp 0 0) (\<lambda>(xfrs, bytes).
       bind_res (reserveSem fuel bs_initial K semid WRITE_SEM) (\<lambda>s.
       if s = -1
       then die K (\<lambda>err. ''Failed to reserve WRITE_SEM '' @ dec WRITE_SEM @ '' - '' @ err @ nl)
       else do {
       s \<leftarrow> call K (Ipc (Shmdt shmp));
       if s = -1
       then die K (\<lambda>err. ''Failed to shmdt() - '' @ err @ nl)
       else do {
       s \<leftarrow> call K (Ipc (ShmctlRmid shmid));
       if s = -1
       then die K (\<lambda>err. ''Failed to shmctl() IPC_RMID semid '' @ dec shmid @ '' - '' @ err @ nl)
       else do {
       s \<leftarrow> call K (Ipc (SemctlRmid semid));
       if s \<noteq> 0
       then die K (\<lambda>err. ''Failed to semctl() IPC_RMID semid '' @ dec semid @ '' - '' @ err @ nl)
       else do {
       printf K (''Sent '' @ dec bytes @ '' bytes ('' @ dec xfrs @ '' xfrs)'' @ nl);
       halt (Exit EXIT_SUCCESS) }}}})) }}}}}}"

section \<open>svshm/svshm\_xfr\_reader.c\<close>

primrec shm_read_loop :: "nat \<Rightarrow> 'k os \<Rightarrow> int \<Rightarrow> int \<Rightarrow> int \<Rightarrow> int \<Rightarrow> ('k, int \<times> int) cmd" where
  "shm_read_loop 0 K semid shmp xfrs bytes = halt Hang"
| "shm_read_loop (Suc fuel) K semid shmp xfrs bytes =
     bind_res (reserveSem fuel bs_initial K semid READ_SEM) (\<lambda>s.
       if s = -1
       then die K (\<lambda>err. ''Failed to reserve READ_SEM - '' @ err @ nl)
       else do {
       size \<leftarrow> load_int K shmp bufferSize_off;
       if size = 0 then ok (xfrs, bytes)
       else do {
       size \<leftarrow> load_int K shmp bufferSize_off;
       bs \<leftarrow> load_bytes K shmp buffer_off (nat (c_ulong size));
       n \<leftarrow> call K (File (Write STDOUT_FILENO bs));
       size \<leftarrow> load_int K shmp bufferSize_off;
       if n \<noteq> size
       then die K (\<lambda>err. ''Failed to write() - '' @ err @ nl)
       else do {
       s \<leftarrow> releaseSem bs_initial K semid WRITE_SEM;
       if s = -1
       then die K (\<lambda>err. ''Failed to release WRITE_SEM - '' @ err @ nl)
       else do {
       size \<leftarrow> load_int K shmp bufferSize_off;
       case (int_add xfrs 1, int_add bytes size) of
         (Some xfrs', Some bytes') \<Rightarrow> shm_read_loop fuel K semid shmp xfrs' bytes'
       | _ \<Rightarrow> halt Undef }}}})"

definition svshm_xfr_reader_main :: "nat \<Rightarrow> 'k os \<Rightarrow> string list \<Rightarrow> ('k, unit) cmd" where
  "svshm_xfr_reader_main fuel K argv = do {
     semid \<leftarrow> call K (Ipc (Semget SEM_KEY 0 0));
     if semid = -1
     then die K (\<lambda>err. ''Failed to semget() SEM_KEY '' @ hex SEM_KEY @ '' - '' @ err @ nl)
     else do {
     shmid \<leftarrow> call K (Ipc (Shmget SHM_KEY 0 0));
     if shmid = -1
     then die K (\<lambda>err. ''Failed to shmget() SHM_KEY '' @ hex SHM_KEY @ '' - '' @ err @ nl)
     else do {
     shmp \<leftarrow> call K (Ipc (Shmat shmid SHM_RDONLY));
     if shmp = -1
     then die K (\<lambda>err. ''Failed to shmat() shmid '' @ dec shmid @ '' - '' @ err @ nl)
     else bind_res (shm_read_loop fuel K semid shmp 0 0) (\<lambda>(xfrs, bytes). do {
       s \<leftarrow> call K (Ipc (Shmdt shmp));
       if s = -1
       then die K (\<lambda>err. ''Failed to shmdt() shmid '' @ dec shmid @ '' - '' @ err @ nl)
       else do {
       s \<leftarrow> releaseSem bs_initial K semid WRITE_SEM;
       if s = -1
       then die K (\<lambda>err. ''Failed to release WRITE_SEM - '' @ err @ nl)
       else do {
       printf K (''Received '' @ dec bytes @ '' bytes ('' @ dec xfrs @ '' xfrs)'' @ nl);
       halt (Exit EXIT_SUCCESS) }}}) }}}"

text \<open>The value of \<open>errno\<close> after the calls \<open>d\<close>, when it was \<open>e\<close> before them, and that the last of
  these calls has failed because of a signal.\<close>

definition errno_after :: "int \<Rightarrow> event list \<Rightarrow> int" where
  "errno_after e d = fold (\<lambda>ev e. if err (snd ev) = 0 then e else err (snd ev)) d e"

definition interrupted :: "int \<Rightarrow> event list \<Rightarrow> bool" where
  "interrupted e d \<longleftrightarrow> d \<noteq> [] \<and> ret (snd (last d)) = -1 \<and> errno_after e d = EINTR"

text \<open>The calls that \<open>reserveSem\<close> may have made, with its result: it has retried after every call but the last, and only
  because it is told to and the call was interrupted. It returns 0 after a call that has not failed, and -1 after
  one that has failed for another reason or must not be retried; out of fuel, all calls were interrupted.\<close>

definition attempts :: "bool \<Rightarrow> nat \<Rightarrow> int \<Rightarrow> event list \<Rightarrow> int res \<Rightarrow> bool" where
  "attempts retry fuel e d r \<longleftrightarrow>
     list_all (\<lambda>i. retry \<and> interrupted e (take i d)) [1..<length d] \<and>
     (d \<noteq> [] \<and> ret (snd (last d)) \<noteq> -1 \<and> r = Ok 0 \<or>
      d \<noteq> [] \<and> ret (snd (last d)) = -1 \<and> \<not> (retry \<and> interrupted e d) \<and> r = Ok (-1) \<or>
      length d = fuel \<and> (d = [] \<or> retry \<and> interrupted e d) \<and> r = Hang)"

lemma errno_after_Cons: "errno_after e (ev # d) = errno_after (errno_after e [ev]) d"
  by (simp add: errno_after_def)

lemma attempts_retry:
  assumes "attempts True fuel (errno_after e [ev]) d r" "interrupted e [ev]"
  shows "attempts True (Suc fuel) e (ev # d) r"
proof -
  have more: "interrupted e (ev # d') \<longleftrightarrow> interrupted (errno_after e [ev]) d'" if "d' \<noteq> []" for d'
    using that by (simp add: interrupted_def errno_after_Cons [of e ev d'])
  have "interrupted e (take i (ev # d))" if i: "1 \<le> i" "i < length (ev # d)" for i
  proof (cases "i = 1")
    case False
    with i(1) have "i = Suc (i - 1)" "1 \<le> i - 1" by simp_all
    then obtain j where "i = Suc j" "1 \<le> j" by blast
    moreover from this i(2) have "d \<noteq> []" "interrupted (errno_after e [ev]) (take j d)"
      using assms(1) by (auto simp: attempts_def list_all_iff)
    ultimately show ?thesis using more [of "take j d"] by simp
  qed (use assms(2) in simp)
  with assms more [of d] show ?thesis by (cases "d = []") (auto simp: attempts_def list_all_iff)
qed

text \<open>
  C34. \<open>reserveSem\<close> retries an interrupted \<open>semop\<close> exactly when it is told to, for every setting of the two
  flags of the module. Every call it makes is the same decrement of the semaphore, with \<open>SEM_UNDO\<close> exactly when
  \<open>bsUseSemUndo\<close> is set. A call is followed by another one exactly when it failed with \<open>EINTR\<close> and
  \<open>bsRetryOnEintr\<close> is set; the function returns 0 exactly when the last call has not failed, so that the semaphore
  was decremented once, and -1 exactly when the last call failed with another error or must not be
  retried. With fuel for one call more than the system interrupts, it returns.
\<close>

theorem reserveSem_retries:
  "wp (reserveSem fuel bs K semId semNum) (\<lambda>r w'. \<exists>d. trace w' = trace w @ d \<and> errno w' = errno_after (errno w) d \<and>
      list_all (\<lambda>ev. fst ev = Ipc (Semop semId (c_ushort semNum) (-1) (if bsUseSemUndo bs then SEM_UNDO else 0))) d \<and>
      attempts (bsRetryOnEintr bs) fuel (errno w) d r) w"
proof (induction fuel arbitrary: w)
  case 0
  show ?case by (simp add: attempts_def errno_after_def)
next
  case (Suc fuel)
  let ?c = "Ipc (Semop semId (c_ushort semNum) (-1) (if bsUseSemUndo bs then SEM_UNDO else 0))"
  have again: "wp (reserveSem fuel bs K semId semNum) (\<lambda>r w'. \<exists>d. trace w' = trace w @ d \<and> errno w' = errno_after (errno w) d \<and>
      list_all (\<lambda>ev. fst ev = ?c) d \<and> attempts (bsRetryOnEintr bs) (Suc fuel) (errno w) d r) w1"
    if w1: "after (?c, x) w w1" and "ret x = -1" "errno w1 = EINTR" and retry: "bsRetryOnEintr bs" for x w1
  proof (rule wp_mono [OF Suc.IH])
    have e: "errno w1 = errno_after (errno w) [(?c, x)]" using w1 by (simp add: errno_after_def)
    then have int: "interrupted (errno w) [(?c, x)]" using that by (simp add: interrupted_def)
    fix r w'
    assume "\<exists>d. trace w' = trace w1 @ d \<and> errno w' = errno_after (errno w1) d \<and> list_all (\<lambda>ev. fst ev = ?c) d \<and>
        attempts (bsRetryOnEintr bs) fuel (errno w1) d r"
    then obtain d where d: "trace w' = trace w1 @ d" "errno w' = errno_after (errno w1) d" "list_all (\<lambda>ev. fst ev = ?c) d"
        "attempts True fuel (errno w1) d r" using retry by auto
    then have "trace w' = trace w @ (?c, x) # d" "errno w' = errno_after (errno w) ((?c, x) # d)"
      using w1 e by (simp_all add: errno_after_Cons [of "errno w" "(?c, x)" d])
    moreover have "attempts True (Suc fuel) (errno w) ((?c, x) # d) r"
      using d(4) int unfolding e by (rule attempts_retry)
    ultimately show "\<exists>d. trace w' = trace w @ d \<and> errno w' = errno_after (errno w) d \<and> list_all (\<lambda>ev. fst ev = ?c) d \<and>
        attempts (bsRetryOnEintr bs) (Suc fuel) (errno w) d r"
      using d(3) retry by (intro exI [of _ "(?c, x) # d"]) simp
  qed
  show ?case
    unfolding reserveSem.simps wp_bind
  proof (rule wp_call_any)
    fix x w1
    assume w1: "after (?c, x) w w1"
    then have e: "errno w1 = errno_after (errno w) [(?c, x)]" by (simp add: errno_after_def)
    show "wp (if ret x = -1 then do { e \<leftarrow> get_errno;
          if e \<noteq> EINTR \<or> \<not> bsRetryOnEintr bs then ok (-1) else reserveSem fuel bs K semId semNum } else ok 0)
        (\<lambda>r w'. \<exists>d. trace w' = trace w @ d \<and> errno w' = errno_after (errno w) d \<and>
          list_all (\<lambda>ev. fst ev = ?c) d \<and> attempts (bsRetryOnEintr bs) (Suc fuel) (errno w) d r) w1"
    proof (cases "ret x = -1 \<and> errno w1 = EINTR \<and> bsRetryOnEintr bs")
      case True
      with again [OF w1] show ?thesis by simp
    next
      case False
      then have "attempts (bsRetryOnEintr bs) (Suc fuel) (errno w) [(?c, x)] (Ok (if ret x = -1 then -1 else 0))"
        using e by (auto simp: attempts_def interrupted_def)
      with False w1 e show ?thesis by (auto intro!: exI [of _ "[(?c, x)]"])
    qed
  qed
qed

section \<open>The protocol as an interleaving of the two processes\<close>

text \<open>
  Where each process is: the call or the access it makes next. \<open>W_test\<close> is the test of the
  writer's \<open>for\<close> loop, \<open>W_count\<close> its last expression, and \<open>W_final\<close> the last \<open>reserveSem\<close>;
  likewise for the reader.
\<close>

datatype writer_pc = W_test | W_reserve | W_read | W_release | W_count | W_final | W_done
datatype reader_pc = R_reserve | R_check | R_write | R_release | R_count | R_detach | R_last | R_done

record xfr =
  wsem :: nat             \<comment> \<open>value of \<open>WRITE_SEM\<close>\<close>
  rsem :: nat             \<comment> \<open>value of \<open>READ_SEM\<close>\<close>
  bufsize :: nat          \<comment> \<open>\<open>shmp->bufferSize\<close>\<close>
  buf :: string           \<comment> \<open>\<open>shmp->buffer\<close>\<close>
  inp :: string           \<comment> \<open>what the writer can still read from standard input\<close>
  outp :: string          \<comment> \<open>what the reader has written to standard output\<close>
  wpc :: writer_pc
  rpc :: reader_pc
  w_xfrs :: "int option"   \<comment> \<open>\<open>xfrs\<close> and \<open>bytes\<close> of the writer and of the reader; \<open>None\<close>: overflowed\<close>
  w_bytes :: "int option"
  r_xfrs :: "int option"
  r_bytes :: "int option"

text \<open>The counters are variables of type \<open>int\<close> that are only added to and printed at the end. Once a sum
  has left the range of \<open>int\<close>, a counter has no value any more.\<close>

definition count_up :: "int option \<Rightarrow> nat \<Rightarrow> int option" where
  "count_up c n = Option.bind c (\<lambda>a. int_add a (int n))"

text \<open>The state when the writer has initialised the semaphores and the segment.\<close>

definition xfr_init :: "string \<Rightarrow> xfr" where
  "xfr_init input = \<lparr>wsem = 1, rsem = 0, bufsize = BUF_SIZE, buf = replicate BUF_SIZE NUL, inp = input, outp = [],
     wpc = W_test, rpc = R_reserve, w_xfrs = Some 0, w_bytes = Some 0, r_xfrs = Some 0, r_bytes = Some 0\<rparr>"

text \<open>One step of the writer; \<open>n\<close> is the number of bytes its next \<open>read\<close> delivers. \<open>None\<close>: the
  process is blocked in \<open>reserveSem\<close>, or has ended, or \<open>read\<close> cannot deliver \<open>n\<close> bytes.\<close>

definition writer_step :: "nat \<Rightarrow> xfr \<Rightarrow> xfr option" where
  "writer_step n s = (case wpc s of
     W_test \<Rightarrow> Some (s\<lparr>wpc := if bufsize s \<noteq> 0 then W_reserve else W_final\<rparr>)
   | W_reserve \<Rightarrow> if 0 < wsem s then Some (s\<lparr>wsem := wsem s - 1, wpc := W_read\<rparr>) else None
   | W_read \<Rightarrow> if n \<le> BUF_SIZE \<and> n \<le> length (inp s) \<and> (n = 0 \<longrightarrow> inp s = [])
       then Some (s\<lparr>buf := take n (inp s) @ drop n (buf s), bufsize := n, inp := drop n (inp s), wpc := W_release\<rparr>)
       else None
   | W_release \<Rightarrow> Some (s\<lparr>rsem := rsem s + 1, wpc := W_count\<rparr>)
   | W_count \<Rightarrow> Some (s\<lparr>w_xfrs := count_up (w_xfrs s) 1, w_bytes := count_up (w_bytes s) (bufsize s), wpc := W_test\<rparr>)
   | W_final \<Rightarrow> if 0 < wsem s then Some (s\<lparr>wsem := wsem s - 1, wpc := W_done\<rparr>) else None
   | W_done \<Rightarrow> None)"

definition reader_step :: "xfr \<Rightarrow> xfr option" where
  "reader_step s = (case rpc s of
     R_reserve \<Rightarrow> if 0 < rsem s then Some (s\<lparr>rsem := rsem s - 1, rpc := R_check\<rparr>) else None
   | R_check \<Rightarrow> Some (s\<lparr>rpc := if bufsize s = 0 then R_detach else R_write\<rparr>)
   | R_write \<Rightarrow> Some (s\<lparr>outp := outp s @ take (bufsize s) (buf s), rpc := R_release\<rparr>)
   | R_release \<Rightarrow> Some (s\<lparr>wsem := wsem s + 1, rpc := R_count\<rparr>)
   | R_count \<Rightarrow> Some (s\<lparr>r_xfrs := count_up (r_xfrs s) 1, r_bytes := count_up (r_bytes s) (bufsize s), rpc := R_reserve\<rparr>)
   | R_detach \<Rightarrow> Some (s\<lparr>rpc := R_last\<rparr>)
   | R_last \<Rightarrow> Some (s\<lparr>wsem := wsem s + 1, rpc := R_done\<rparr>)
   | R_done \<Rightarrow> None)"

inductive xfr_step :: "xfr \<Rightarrow> xfr \<Rightarrow> bool" where
  writer: "writer_step n s = Some t \<Longrightarrow> xfr_step s t"
| reader: "reader_step s = Some t \<Longrightarrow> xfr_step s t"

inductive_cases xfr_stepE: "xfr_step s t"

abbreviation xfr_reach :: "string \<Rightarrow> xfr \<Rightarrow> bool" where
  "xfr_reach input \<equiv> xfr_step\<^sup>*\<^sup>* (xfr_init input)"

text \<open>A run by a schedule: \<open>Some n\<close> lets the writer step, \<open>None\<close> the reader.\<close>

fun xfr_run :: "nat option list \<Rightarrow> xfr \<Rightarrow> xfr option" where
  "xfr_run [] s = Some s"
| "xfr_run (x # xs) s = (case (case x of Some n \<Rightarrow> writer_step n s | None \<Rightarrow> reader_step s) of
     None \<Rightarrow> None | Some t \<Rightarrow> xfr_run xs t)"

lemma xfr_run_steps: "xfr_run xs s = Some t \<Longrightarrow> (xfr_step ^^ length xs) s t"
proof (induction xs s rule: xfr_run.induct)
  case (2 x xs s)
  then show ?case
    by (auto split: option.splits intro: xfr_step.intros relpowp_Suc_I2 simp del: relpowp.simps)
qed simp

lemma xfr_run_reach: "xfr_run xs s = Some t \<Longrightarrow> xfr_step\<^sup>*\<^sup>* s t"
  by (rule relpowp_imp_rtranclp [OF xfr_run_steps])

subsection \<open>The invariant\<close>

text \<open>Who may touch the buffer: the writer between its reserve and its release, the reader
  between its own. The two semaphores pass one token around, which is in a semaphore or with
  a process; the writer keeps it at the end.\<close>

fun writer_in :: "writer_pc \<Rightarrow> bool" where
  "writer_in W_read = True" | "writer_in W_release = True" | "writer_in _ = False"

fun reader_in :: "reader_pc \<Rightarrow> bool" where
  "reader_in R_reserve = False" | "reader_in R_count = False" | "reader_in R_done = False" | "reader_in _ = True"

definition token :: "xfr \<Rightarrow> nat" where
  "token s = wsem s + rsem s + of_bool (writer_in (wpc s) \<or> wpc s = W_done) + of_bool (reader_in (rpc s))"

text \<open>Places from which the end of the input has been seen, or cannot have been seen.\<close>

fun writer_ended :: "writer_pc \<Rightarrow> bool option" where
  "writer_ended W_reserve = Some False" | "writer_ended W_read = Some False"
| "writer_ended W_final = Some True" | "writer_ended W_done = Some True" | "writer_ended _ = None"

fun reader_ended :: "reader_pc \<Rightarrow> bool option" where
  "reader_ended R_write = Some False" | "reader_ended R_release = Some False"
| "reader_ended R_detach = Some True" | "reader_ended R_last = Some True" | "reader_ended R_done = Some True"
| "reader_ended _ = None"

definition xfr_ctl :: "xfr \<Rightarrow> bool" where
  "xfr_ctl s \<longleftrightarrow> token s = 1 \<and>
     (bufsize s = 0 \<longrightarrow> inp s = []) \<and>
     writer_ended (wpc s) \<noteq> Some (bufsize s \<noteq> 0) \<and>
     reader_ended (rpc s) \<noteq> Some (bufsize s \<noteq> 0) \<and>
     (bufsize s = 0 \<and> (wsem s = 1 \<or> wpc s = W_done) \<longrightarrow> rpc s = R_done) \<and>
     (rpc s = R_done \<longrightarrow> rsem s = 0 \<and> wpc s \<noteq> W_release)"

text \<open>The steps, one case each.\<close>

lemma writer_stepE:
  assumes "writer_step n s = Some t"
  obtains
    (again) "wpc s = W_test" "bufsize s \<noteq> 0" "t = s\<lparr>wpc := W_reserve\<rparr>"
  | (leave) "wpc s = W_test" "bufsize s = 0" "t = s\<lparr>wpc := W_final\<rparr>"
  | (reserve) m where "wpc s = W_reserve" "wsem s = Suc m" "t = s\<lparr>wsem := m, wpc := W_read\<rparr>"
  | (fill) "wpc s = W_read" "n \<le> BUF_SIZE" "n \<le> length (inp s)" "n = 0 \<Longrightarrow> inp s = []"
      "t = s\<lparr>buf := take n (inp s) @ drop n (buf s), bufsize := n, inp := drop n (inp s), wpc := W_release\<rparr>"
  | (release) "wpc s = W_release" "t = s\<lparr>rsem := Suc (rsem s), wpc := W_count\<rparr>"
  | (count) "wpc s = W_count" "t = s\<lparr>w_xfrs := count_up (w_xfrs s) 1, w_bytes := count_up (w_bytes s) (bufsize s), wpc := W_test\<rparr>"
  | (final) m where "wpc s = W_final" "wsem s = Suc m" "t = s\<lparr>wsem := m, wpc := W_done\<rparr>"
proof (cases "wpc s")
  case W_test
  then show ?thesis using assms again leave by (simp add: writer_step_def split: if_splits)
next
  case W_reserve
  then show ?thesis using assms reserve [of "wsem s - 1"] by (simp add: writer_step_def split: if_splits)
next
  case W_read
  then show ?thesis using assms fill by (simp add: writer_step_def split: if_splits)
next
  case W_release
  then show ?thesis using assms release by (simp add: writer_step_def)
next
  case W_count
  then show ?thesis using assms count by (simp add: writer_step_def)
next
  case W_final
  then show ?thesis using assms final [of "wsem s - 1"] by (simp add: writer_step_def split: if_splits)
next
  case W_done
  then show ?thesis using assms by (simp add: writer_step_def)
qed

lemma reader_stepE:
  assumes "reader_step s = Some t"
  obtains
    (reserve) m where "rpc s = R_reserve" "rsem s = Suc m" "t = s\<lparr>rsem := m, rpc := R_check\<rparr>"
  | (more) "rpc s = R_check" "bufsize s \<noteq> 0" "t = s\<lparr>rpc := R_write\<rparr>"
  | (leave) "rpc s = R_check" "bufsize s = 0" "t = s\<lparr>rpc := R_detach\<rparr>"
  | (drain) "rpc s = R_write" "t = s\<lparr>outp := outp s @ take (bufsize s) (buf s), rpc := R_release\<rparr>"
  | (release) "rpc s = R_release" "t = s\<lparr>wsem := Suc (wsem s), rpc := R_count\<rparr>"
  | (count) "rpc s = R_count" "t = s\<lparr>r_xfrs := count_up (r_xfrs s) 1, r_bytes := count_up (r_bytes s) (bufsize s), rpc := R_reserve\<rparr>"
  | (detach) "rpc s = R_detach" "t = s\<lparr>rpc := R_last\<rparr>"
  | (final) "rpc s = R_last" "t = s\<lparr>wsem := Suc (wsem s), rpc := R_done\<rparr>"
proof (cases "rpc s")
  case R_reserve
  then show ?thesis using assms reserve [of "rsem s - 1"] by (simp add: reader_step_def split: if_splits)
next
  case R_check
  then show ?thesis using assms more leave by (simp add: reader_step_def split: if_splits)
next
  case R_write
  then show ?thesis using assms drain by (simp add: reader_step_def)
next
  case R_release
  then show ?thesis using assms release by (simp add: reader_step_def)
next
  case R_count
  then show ?thesis using assms count by (simp add: reader_step_def)
next
  case R_detach
  then show ?thesis using assms detach by (simp add: reader_step_def)
next
  case R_last
  then show ?thesis using assms final by (simp add: reader_step_def)
next
  case R_done
  then show ?thesis using assms by (simp add: reader_step_def)
qed

lemma xfr_ctl_writer:
  assumes "xfr_ctl s" "writer_step n s = Some t"
  shows "xfr_ctl t"
  using assms(2,1) by (cases rule: writer_stepE; cases "rpc s"; auto simp: xfr_ctl_def token_def)

lemma xfr_ctl_reader:
  assumes "xfr_ctl s" "reader_step s = Some t"
  shows "xfr_ctl t"
  using assms(2,1) by (cases rule: reader_stepE; cases "wpc s"; auto simp: xfr_ctl_def token_def)

text \<open>The bytes in the buffer that the reader has not written yet, and the place of the input.\<close>

definition pending :: "xfr \<Rightarrow> bool" where
  "pending s \<longleftrightarrow> wpc s = W_release \<or> rsem s = 1 \<or> rpc s = R_check \<or> rpc s = R_write"

definition xfr_data :: "string \<Rightarrow> xfr \<Rightarrow> bool" where
  "xfr_data input s \<longleftrightarrow> BUF_SIZE \<le> length (buf s) \<and> bufsize s \<le> BUF_SIZE \<and>
     outp s @ (if pending s then take (bufsize s) (buf s) else []) @ inp s = input"

text \<open>A counter whose exact value would be \<open>n\<close>.\<close>

definition counter :: "nat \<Rightarrow> int option" where
  "counter n = (if int n \<le> INT_MAX then Some (int n) else None)"

lemma count_up_counter [simp]: "count_up (counter n) m = counter (n + m)"
  by (simp add: count_up_def counter_def int_add_def INT_MIN_def INT_MAX_def)

text \<open>What the writer has counted, how the two numbers of transfers are related, and bounds: the writer has made at most one
  transfer for each byte it has read, and a last one; the reader, which adds the size of the buffer
  after it has released it, counts no byte more than twice.\<close>

fun writer_uncounted :: "writer_pc \<Rightarrow> nat" where
  "writer_uncounted W_release = 1" | "writer_uncounted W_count = 1" | "writer_uncounted _ = 0"

fun reader_uncounted :: "reader_pc \<Rightarrow> nat" where
  "reader_uncounted R_reserve = 0" | "reader_uncounted R_check = 0" | "reader_uncounted R_write = 0"
| "reader_uncounted _ = 1"

text \<open>How often the reader may still count the bytes in the buffer.\<close>

definition reader_may_count :: "xfr \<Rightarrow> nat" where
  "reader_may_count s = of_bool (pending s) + of_bool (rpc s = R_count \<or> rpc s = R_release)"

definition xfr_counts :: "string \<Rightarrow> nat \<Rightarrow> nat \<Rightarrow> nat \<Rightarrow> nat \<Rightarrow> xfr \<Rightarrow> bool" where
  "xfr_counts input wx wb rx rb s \<longleftrightarrow>
     w_xfrs s = counter wx \<and> w_bytes s = counter wb \<and> r_xfrs s = counter rx \<and> r_bytes s = counter rb \<and>
     wb + writer_uncounted (wpc s) * bufsize s + length (inp s) = length input \<and>
     wx + writer_uncounted (wpc s) = rx + reader_uncounted (rpc s) + of_bool (pending s) \<and>
     wx + writer_uncounted (wpc s) + length (inp s) + of_bool (bufsize s \<noteq> 0) \<le> length input + 1 \<and>
     rb + reader_may_count s * bufsize s + 2 * length (inp s) \<le> 2 * length input"

definition xfr_count :: "string \<Rightarrow> xfr \<Rightarrow> bool" where
  "xfr_count input s \<longleftrightarrow> (\<exists>wx wb rx rb. xfr_counts input wx wb rx rb s)"

definition xfr_inv :: "string \<Rightarrow> xfr \<Rightarrow> bool" where
  "xfr_inv input s \<longleftrightarrow> xfr_ctl s \<and> xfr_data input s \<and> xfr_count input s"

lemma xfr_data_writer:
  assumes "xfr_ctl s" "xfr_data input s" "writer_step n s = Some t"
  shows "xfr_data input t"
  using assms(3,1,2)
  by (cases rule: writer_stepE; cases "rpc s")
     (auto simp: xfr_ctl_def token_def xfr_data_def pending_def)

lemma xfr_data_reader:
  assumes "xfr_ctl s" "xfr_data input s" "reader_step s = Some t"
  shows "xfr_data input t"
  using assms(3,1,2)
  by (cases rule: reader_stepE; cases "wpc s")
     (auto simp: xfr_ctl_def token_def xfr_data_def pending_def)

lemma xfr_counts_writer:
  assumes "xfr_ctl s" "xfr_counts input wx wb rx rb s" "writer_step n s = Some t"
  shows "xfr_counts input (wx + of_bool (wpc s = W_count)) (wb + of_bool (wpc s = W_count) * bufsize s) rx rb t"
  using assms(3,1,2)
  by (cases rule: writer_stepE; cases "rpc s")
     (auto simp: xfr_ctl_def token_def xfr_counts_def pending_def reader_may_count_def)

lemma xfr_counts_reader:
  assumes "xfr_ctl s" "xfr_counts input wx wb rx rb s" "reader_step s = Some t"
  shows "xfr_counts input wx wb (rx + of_bool (rpc s = R_count)) (rb + of_bool (rpc s = R_count) * bufsize s) t"
  using assms(3,1,2)
  by (cases rule: reader_stepE; cases "wpc s")
     (auto simp: xfr_ctl_def token_def xfr_counts_def pending_def reader_may_count_def)

lemma xfr_count_step:
  "xfr_ctl s \<Longrightarrow> xfr_count input s \<Longrightarrow> xfr_step s t \<Longrightarrow> xfr_count input t"
  unfolding xfr_count_def by (elim xfr_stepE exE) (blast intro: xfr_counts_writer xfr_counts_reader)+

lemma xfr_inv_init: "xfr_inv input (xfr_init input)"
proof -
  have "xfr_counts input 0 0 0 0 (xfr_init input)"
    by (simp add: xfr_counts_def xfr_init_def pending_def reader_may_count_def BUF_SIZE_def counter_def INT_MAX_def)
  then show ?thesis
    by (auto simp: xfr_inv_def xfr_count_def) (simp_all add: xfr_ctl_def xfr_data_def xfr_init_def token_def pending_def BUF_SIZE_def)
qed

lemma xfr_inv_step: "xfr_step s t \<Longrightarrow> xfr_inv input s \<Longrightarrow> xfr_inv input t"
  unfolding xfr_inv_def using xfr_count_step [of s input t]
  by (auto elim!: xfr_stepE dest: xfr_ctl_writer xfr_ctl_reader intro: xfr_data_writer xfr_data_reader)

lemma xfr_inv_reach: "xfr_reach input s \<Longrightarrow> xfr_inv input s"
  by (induction rule: rtranclp_induct) (auto intro: xfr_inv_init xfr_inv_step)

subsection \<open>Termination and progress\<close>

fun writer_rank :: "writer_pc \<Rightarrow> nat" where
  "writer_rank W_release = 20" | "writer_rank W_count = 5" | "writer_rank W_test = 4" | "writer_rank W_reserve = 3"
| "writer_rank W_read = 2" | "writer_rank W_final = 3" | "writer_rank W_done = 0"

fun reader_rank :: "reader_pc \<Rightarrow> nat" where
  "reader_rank R_check = 7" | "reader_rank R_write = 6" | "reader_rank R_release = 5" | "reader_rank R_count = 4"
| "reader_rank R_detach = 3" | "reader_rank R_last = 2" | "reader_rank R_reserve = 0" | "reader_rank R_done = 0"

definition xfr_rank :: "xfr \<Rightarrow> nat" where
  "xfr_rank s = 100 * (length (inp s) + of_bool (bufsize s \<noteq> 0)) + writer_rank (wpc s) + 8 * rsem s + reader_rank (rpc s)"

lemma xfr_rank_writer:
  assumes "xfr_ctl s" "writer_step n s = Some t"
  shows "xfr_rank t < xfr_rank s"
  using assms(2,1) by (cases rule: writer_stepE) (auto simp: xfr_rank_def xfr_ctl_def)

lemma xfr_rank_reader: "reader_step s = Some t \<Longrightarrow> xfr_rank t < xfr_rank s"
  by (cases rule: reader_stepE) (auto simp: xfr_rank_def)

lemma xfr_rank_steps:
  "(xfr_step ^^ n) s t \<Longrightarrow> xfr_inv input s \<Longrightarrow> xfr_inv input t \<and> xfr_rank t + n \<le> xfr_rank s"
proof (induction n arbitrary: t)
  case (Suc n)
  then obtain u where u: "(xfr_step ^^ n) s u" "xfr_step u t" by auto
  with Suc have inv: "xfr_inv input u" and le: "xfr_rank u + n \<le> xfr_rank s" by auto
  from u(2) have "xfr_rank t < xfr_rank u"
    using inv by (auto simp: xfr_inv_def elim!: xfr_stepE dest: xfr_rank_writer xfr_rank_reader)
  with le inv u(2) show ?case by (auto intro: xfr_inv_step)
qed simp

text \<open>A state in which no process can go on is the end of both.\<close>

lemma writer_moves:
  "wpc s \<noteq> W_done \<Longrightarrow> wpc s \<noteq> W_reserve \<and> wpc s \<noteq> W_final \<or> 0 < wsem s \<Longrightarrow> \<exists>t. xfr_step s t"
  by (cases "wpc s")
     (auto intro!: exI xfr_step.writer [where n = "min BUF_SIZE (length (inp s))"] simp: writer_step_def BUF_SIZE_def)

lemma reader_moves: "rpc s \<noteq> R_done \<Longrightarrow> rpc s \<noteq> R_reserve \<or> 0 < rsem s \<Longrightarrow> \<exists>t. xfr_step s t"
  by (cases "rpc s") (auto intro!: exI xfr_step.reader simp: reader_step_def)

lemma xfr_progress:
  assumes "xfr_ctl s" "\<nexists>t. xfr_step s t"
  shows "wpc s = W_done \<and> rpc s = R_done"
proof -
  have w: "wpc s = W_done \<or> (wpc s = W_reserve \<or> wpc s = W_final) \<and> wsem s = 0"
    using assms(2) writer_moves [of s] by auto
  have r: "rpc s = R_done \<or> rpc s = R_reserve \<and> rsem s = 0"
    using assms(2) reader_moves [of s] by (cases "rpc s = R_reserve") auto
  from w r assms(1) show ?thesis by (auto simp: xfr_ctl_def token_def)
qed

section \<open>Properties\<close>

text \<open>Input "abc", read as two bytes and one; the reader is overtaken each time before it adds
  to its count.\<close>

definition xfr_race :: "nat option list" where
  "xfr_race = map Some [0, 0, 2, 0] @ [None, None, None, None] @ map Some [0, 0, 0, 1] @ [None] @ [Some 0] @
     [None, None, None, None] @ map Some [0, 0, 0, 0] @ [None] @ map Some [0, 0, 0] @ [None, None, None, None] @ [Some 0]"

lemma xfr_race_run:
  obtains s where "xfr_run xfr_race (xfr_init ''abc'') = Some s" "wpc s = W_done" "rpc s = R_done"
    "outp s = ''abc''" "w_bytes s = Some 3" "r_bytes s = Some 1"
proof -
  have "\<exists>s. xfr_run xfr_race (xfr_init ''abc'') = Some s \<and>
      wpc s = W_done \<and> rpc s = R_done \<and> outp s = ''abc'' \<and> w_bytes s = Some 3 \<and> r_bytes s = Some 1"
    by (simp add: xfr_race_def xfr_init_def BUF_SIZE_def writer_step_def reader_step_def count_up_def int_add_def INT_MIN_def INT_MAX_def)
  with that show thesis by blast
qed



text \<open>
  C8. The transfer ends: no run from the initial state has more than 100 steps for each byte
  of input and 104 besides, and a run can stop only where both processes have ended. So the
  semaphores never deadlock, and every maximal run delivers the input. (This does not depend on the
  counters, which the protocol never reads.)
\<close>

theorem xfr_ends:
  assumes "(xfr_step ^^ n) (xfr_init input) s"
  shows "n \<le> 100 * length input + 104 \<and>
     ((\<nexists>t. xfr_step s t) \<longrightarrow> wpc s = W_done \<and> rpc s = R_done \<and> outp s = input)"
proof -
  have inv: "xfr_inv input s" and rank: "xfr_rank s + n \<le> xfr_rank (xfr_init input)"
    using xfr_rank_steps [OF assms xfr_inv_init] by auto
  have "outp s = input" if "wpc s = W_done" "rpc s = R_done"
    using inv that by (auto simp: xfr_inv_def xfr_ctl_def xfr_data_def token_def pending_def)
  with inv rank xfr_progress [of s] show ?thesis
    by (auto simp: xfr_rank_def xfr_init_def BUF_SIZE_def xfr_inv_def)
qed

theorem xfr_ends_witness:
  "length xfr_race \<le> 100 * length ''abc'' + 104 \<and> (\<exists>s. (xfr_step ^^ length xfr_race) (xfr_init ''abc'') s)"
proof (rule xfr_race_run)
  fix s
  assume s: "xfr_run xfr_race (xfr_init ''abc'') = Some s"
  with xfr_ends [OF xfr_run_steps [OF s]] show ?thesis by (blast intro: xfr_run_steps)
qed

text \<open>
  The number of bytes that the reader reports can be wrong: it adds \<open>shmp->bufferSize\<close>
  after it has released the buffer. In some run with three bytes of input the output is
  right, but the reader has counted one byte.
\<close>

theorem xfr_reader_miscounts:
  "\<exists>s. xfr_reach ''abc'' s \<and> wpc s = W_done \<and> rpc s = R_done \<and> outp s = ''abc'' \<and> w_bytes s = Some 3 \<and> r_bytes s = Some 1"
  by (rule xfr_race_run) (blast intro: xfr_run_reach)

end
