(* ===== verification/Threads.thy ===== *)
theory Threads
  imports Num_Args
begin

text \<open>
  The programs of \<open>threads/\<close>, function by function. Each function is a sequential program; what
  the other threads do meanwhile is part of the system's answers: a read of a shared static
  variable is a call. The \<open>pthread\<close> functions return an error number. The interleavings of
  the threads are in the theories \<open>Thread_Incr\<close> and \<open>Thread_Join\<close>.
\<close>

text \<open>\<open>fprintf(stderr, ... strerror(result)); exit(EXIT_FAILURE)\<close> for an error number.\<close>

definition die_num :: "'k os \<Rightarrow> int \<Rightarrow> (string \<Rightarrow> string) \<Rightarrow> ('k, 'a) cmd" where
  "die_num K e msg = usage K (msg (strerror K e))"

text \<open>A call that returns an error number: the program goes on only if it is 0.\<close>

definition pthread :: "'k os \<Rightarrow> thread_call \<Rightarrow> (string \<Rightarrow> string) \<Rightarrow> ('k, unit) cmd" where
  "pthread K c msg = do {
     e \<leftarrow> call K (Thr c);
     if e \<noteq> 0 then die_num K e msg else ok () }"

section \<open>threads/simple\_thread.c\<close>

text \<open>The thread function, called with a string; the argument of \<open>pthread_create\<close> stands for
  that string by its length. The value a joined thread returned is the first number of the
  answer.\<close>

definition simple_thread_f :: "'k os \<Rightarrow> string \<Rightarrow> ('k, int) cmd" where
  "simple_thread_f K s = do {
     printf K (s @ nl);
     ok (int (length s)) }"

definition simple_thread_main :: "'k os \<Rightarrow> string list \<Rightarrow> ('k, unit) cmd" where
  "simple_thread_main K argv = do {
     r \<leftarrow> sys K (Thr (PthreadCreate ''f'' (int (length ''Hello thread''))));
     if ret r \<noteq> 0
     then die_num K (ret r) (\<lambda>err. ''Failed to create thread - '' @ err @ nl)
     else do {
     printf K (''Message from main'' @ nl);
     j \<leftarrow> sys K (Thr (PthreadJoin (rnum 0 r)));
     if ret j \<noteq> 0
     then die_num K (ret j) (\<lambda>err. ''Failed to join with thread - '' @ err @ nl)
     else do {
     printf K (''Thread returned: '' @ dec (rnum 0 j) @ nl);
     halt (Exit EXIT_SUCCESS) }}}"

section \<open>threads/thread\_incr.c\<close>

definition NUM_THREADS :: nat where "NUM_THREADS = 2"

text \<open>The body of the loop of \<open>f\<close>: an increment of the variable in two accesses.\<close>

definition incr_glob :: "'k os \<Rightarrow> ('k, unit) cmd" where
  "incr_glob K = do {
     loc \<leftarrow> call K (Thr (GetVar ''glob''));
     if loc = INT_MAX then halt Undef
     else do {
       sys K (Thr (SetVar ''glob'' (loc + 1)));
       ok () }}"

definition thread_incr_f :: "'k os \<Rightarrow> int \<Rightarrow> ('k, unit) cmd" where
  "thread_incr_f K numLoops = for_each [0..<nat numLoops] (\<lambda>_. incr_glob K)"

text \<open>Creating \<open>NUM_THREADS\<close> threads and joining them; the identifiers of the threads.\<close>

definition create_threads :: "'k os \<Rightarrow> int \<Rightarrow> ('k, int list) cmd" where
  "create_threads K numLoops = fold_each [0..<NUM_THREADS] (\<lambda>i threads. do {
     r \<leftarrow> sys K (Thr (PthreadCreate ''f'' numLoops));
     if ret r \<noteq> 0
     then die_num K (ret r) (\<lambda>err. ''Failed to create thread - '' @ err @ nl)
     else ok (threads @ [rnum 0 r]) }) []"

definition join_threads :: "'k os \<Rightarrow> int list \<Rightarrow> ('k, unit) cmd" where
  "join_threads K threads = for_each threads (\<lambda>t.
     pthread K (PthreadJoin t) (\<lambda>err. ''Failed to join thread - '' @ err @ nl))"

definition thread_incr_main :: "'k os \<Rightarrow> string list \<Rightarrow> ('k, unit) cmd" where
  "thread_incr_main K argv =
     bind_res (if length argv > 1 then thread_incr_getUnsignedLong K (arg argv 1) else ok 10000000) (\<lambda>n.
     bind_res (create_threads K (c_int n)) (\<lambda>threads.
     bind_res (join_threads K threads) (\<lambda>_. do {
       glob \<leftarrow> call K (Thr (GetVar ''glob''));
       printf K (''glob = '' @ dec glob @ nl);
       halt (Exit EXIT_SUCCESS) })))"

section \<open>threads/thread\_incr\_mutex.c\<close>

text \<open>The messages print \<open>strerror(errno)\<close>, not the error number that was returned.\<close>

definition thread_incr_mutex_f :: "'k os \<Rightarrow> int \<Rightarrow> ('k, unit) cmd" where
  "thread_incr_mutex_f K numLoops = for_each [0..<nat numLoops] (\<lambda>_. do {
     e \<leftarrow> call K (Thr (MutexLock ''globMutex''));
     if e \<noteq> 0
     then die K (\<lambda>err. ''Failed to lock mutex - '' @ err @ nl)
     else bind_res (incr_glob K) (\<lambda>_. do {
       e \<leftarrow> call K (Thr (MutexUnlock ''globMutex''));
       if e \<noteq> 0
       then die K (\<lambda>err. ''Failed to unlock mutex - '' @ err @ nl)
       else ok () }) })"

definition thread_incr_mutex_main :: "'k os \<Rightarrow> string list \<Rightarrow> ('k, unit) cmd" where
  "thread_incr_mutex_main K argv =
     bind_res (if length argv > 1 then thread_incr_mutex_getUnsignedLong K (arg argv 1) else ok 10000000) (\<lambda>n.
     bind_res (create_threads K (c_int n)) (\<lambda>threads.
     bind_res (join_threads K threads) (\<lambda>_. do {
       glob \<leftarrow> call K (Thr (GetVar ''glob''));
       printf K (''glob = '' @ dec glob @ nl);
       halt (Exit EXIT_SUCCESS) })))"

section \<open>threads/thread\_cleanup.c\<close>

text \<open>\<open>%p\<close> prints an address in hexadecimal.\<close>

definition ptr :: "int \<Rightarrow> string" where
  "ptr p = (if p = 0 then ''(nil)'' else ''0x'' @ hex p)"

definition memoryCleanupHandler :: "'k os \<Rightarrow> int \<Rightarrow> ('k, unit) cmd" where
  "memoryCleanupHandler K p = do {
     printf K (''cleanup: freeing block at '' @ ptr p @ nl);
     sys K (Proc (Free p));
     ok () }"

definition mutexCleanupHandler :: "'k os \<Rightarrow> ('k, unit) cmd" where
  "mutexCleanupHandler K = do {
     printf K (''cleanup: unlocking mutex'' @ nl);
     pthread K (MutexUnlock ''mutex'') (\<lambda>err. ''pthread_mutex_unlock() failed - '' @ err @ nl) }"

text \<open>Cancellation. The thread can be cancelled at \<open>pthread_cond_wait\<close>, and output may be a cancellation point too;
  the answer to a call is marked by the number \<open>PTHREAD_CANCELED\<close> when the thread is cancelled there. The function \<open>main\<close>
  either cancels the thread or sets \<open>glob\<close>, never both, so that a thread that has seen \<open>glob\<close> set is not
  cancelled any more; and no cancellation is acted upon while the cleanup handlers of a cancelled thread
  run. This leaves the message on the allocated memory, before the mutex is locked, and \<open>pthread_cond_wait\<close>, in which the mutex is
  locked again.

  The wait loop. The result is whether the thread was cancelled.\<close>

definition PTHREAD_CANCELED :: int where "PTHREAD_CANCELED = -1"

primrec cleanup_wait :: "nat \<Rightarrow> 'k os \<Rightarrow> ('k, bool) cmd" where
  "cleanup_wait 0 K = halt Hang"
| "cleanup_wait (Suc fuel) K = do {
     glob \<leftarrow> call K (Thr (GetVar ''glob''));
     if glob = 0
     then do {
       r \<leftarrow> sys K (Thr (CondWait ''cond'' ''mutex''));
       if rnum 0 r = PTHREAD_CANCELED then ok True
       else if ret r \<noteq> 0
       then die_num K (ret r) (\<lambda>err. ''pthread_cond_wait() failed - '' @ err @ nl)
       else cleanup_wait fuel K }
     else ok False }"

text \<open>\<open>threadFunc\<close>: the cleanup handlers run when the thread is cancelled, and also at the end,
  since they are popped with a non-zero argument; the last pushed runs first.\<close>

definition cleanup_threadFunc :: "nat \<Rightarrow> 'k os \<Rightarrow> ('k, int) cmd" where
  "cleanup_threadFunc fuel K = do {
     buffer \<leftarrow> call K (Proc (Malloc 0x10000));
     if buffer = 0
     then die K (\<lambda>err. ''malloc() failed - '' @ err @ nl)
     else do {
     p \<leftarrow> printf K (''thread:  allocated memory at '' @ ptr buffer @ nl);
     if rnum 0 p = PTHREAD_CANCELED
     then bind_res (memoryCleanupHandler K buffer) (\<lambda>_. ok PTHREAD_CANCELED)
     else bind_res (pthread K (MutexLock ''mutex'') (\<lambda>err. ''pthread_mutex_lock() failed - '' @ err @ nl)) (\<lambda>_.
     bind_res (cleanup_wait fuel K) (\<lambda>cancelled. do {
       (if cancelled then State_Monad.return reply0
        else printf K (''thread: condition wait loop completed'' @ nl));
       bind_res (mutexCleanupHandler K) (\<lambda>_.
       bind_res (memoryCleanupHandler K buffer) (\<lambda>_.
       ok (if cancelled then PTHREAD_CANCELED else 0))) })) }}"

definition thread_cleanup_main :: "'k os \<Rightarrow> string list \<Rightarrow> ('k, unit) cmd" where
  "thread_cleanup_main K argv = do {
     r \<leftarrow> sys K (Thr (PthreadCreate ''threadFunc'' 0));
     if ret r \<noteq> 0
     then die_num K (ret r) (\<lambda>err. ''pthread_create() failed - '' @ err @ nl)
     else do {
     let thread = rnum 0 r;
     sys K (Proc (Sleep 2));
     bind_res
       (if length argv = 1
        then do {
          printf K (''main:    about to cancel thread'' @ nl);
          pthread K (PthreadCancel thread) (\<lambda>err. ''pthread_cancel() failed - '' @ err @ nl) }
        else do {
          printf K (''main:    about to signal condition variable'' @ nl);
          bind_res (pthread K (MutexLock ''mutex'') (\<lambda>err. ''pthread_mutex_lock() failed - '' @ err @ nl)) (\<lambda>_. do {
            sys K (Thr (SetVar ''glob'' 1));
            bind_res (pthread K (MutexUnlock ''mutex'') (\<lambda>err. ''pthread_mutex_unlock() failed - '' @ err @ nl)) (\<lambda>_.
              pthread K (CondSignal ''cond'') (\<lambda>err. ''pthread_cond_signal() failed - '' @ err @ nl)) }) })
       (\<lambda>_. do {
          j \<leftarrow> sys K (Thr (PthreadJoin thread));
          if ret j \<noteq> 0
          then die_num K (ret j) (\<lambda>err. ''pthread_join() failed - '' @ err @ nl)
          else do {
          printf K (if rnum 0 j = PTHREAD_CANCELED then ''main:    thread was cancelled'' @ nl
                    else ''main:    thread terminated normally'' @ nl);
          halt (Exit EXIT_SUCCESS) }}) }}"

section \<open>threads/thread\_multijoin.c\<close>

datatype ThreadState = TS_ALIVE | TS_TERMINATED | TS_JOINED

text \<open>The values of the enumeration, as the shared variables hold them.\<close>

definition ts_value :: "ThreadState \<Rightarrow> int" where
  "ts_value s = (case s of TS_ALIVE \<Rightarrow> 0 | TS_TERMINATED \<Rightarrow> 1 | TS_JOINED \<Rightarrow> 2)"

definition state_var :: "nat \<Rightarrow> string" where
  "state_var i = ''threads['' @ dec (int i) @ ''].state''"

text \<open>The thread function; \<open>sleepTime\<close> is the field \<open>sleepTime_sec\<close> of its own thread, set before
  the thread was created and never changed.\<close>

definition multijoin_func :: "'k os \<Rightarrow> nat \<Rightarrow> int \<Rightarrow> int \<Rightarrow> ('k, int) cmd" where
  "multijoin_func K index sleepTime p = do {
     sys K (Proc (Sleep (c_uint sleepTime)));
     printf K (''Thread '' @ dec (int index) @ '' terminating'' @ nl);
     bind_res (pthread K (MutexLock ''mutex'') (\<lambda>err. ''Failed to lock mutex - '' @ err @ nl)) (\<lambda>_. do {
       sys K (Thr (SetVar (state_var index) (ts_value TS_TERMINATED)));
       n \<leftarrow> call K (Thr (GetVar ''numUnjoinedThreads''));
       sys K (Thr (SetVar ''numUnjoinedThreads'' (n + 1)));
       bind_res (pthread K (MutexUnlock ''mutex'') (\<lambda>err. ''Failed to unlock mutex - '' @ err @ nl)) (\<lambda>_.
       bind_res (pthread K (CondSignal ''cond'') (\<lambda>err. ''Failed to pthread_cond_signal() - '' @ err @ nl)) (\<lambda>_. do {
         sys K (Proc (Free p));
         ok 0 })) }) }"

text \<open>Creating thread \<open>i\<close>. The index is stored before the result of \<open>malloc\<close> is checked.\<close>

definition multijoin_create :: "'k os \<Rightarrow> nat \<times> string \<Rightarrow> int list \<Rightarrow> ('k, int list) cmd" where
  "multijoin_create K it threads = (case it of (i, t) \<Rightarrow> do {
     sys K (Thr (SetVar (state_var i) (ts_value TS_ALIVE)));
     bind_res (multijoin_getInt K t) (\<lambda>sleepTime. do {
       index \<leftarrow> call K (Proc (Malloc 4));
       if index = 0 then halt Undef
       else do {
       r \<leftarrow> sys K (Thr (PthreadCreate ''func'' (int i)));
       if ret r \<noteq> 0
       then die_num K (ret r) (\<lambda>err. ''Failed to create pthread - '' @ err @ nl)
       else ok (threads @ [rnum 0 r]) }}) })"

primrec multijoin_wait :: "nat \<Rightarrow> 'k os \<Rightarrow> ('k, unit) cmd" where
  "multijoin_wait 0 K = halt Hang"
| "multijoin_wait (Suc fuel) K = do {
     n \<leftarrow> call K (Thr (GetVar ''numUnjoinedThreads''));
     if n = 0
     then bind_res (pthread K (CondWait ''cond'' ''mutex'') (\<lambda>err. ''Failed to pthread_cond_wait() - '' @ err @ nl))
            (\<lambda>_. multijoin_wait fuel K)
     else ok () }"

text \<open>The scan of the table for terminated threads; the number of live threads.\<close>

definition multijoin_reap :: "'k os \<Rightarrow> nat \<times> int \<Rightarrow> int \<Rightarrow> ('k, int) cmd" where
  "multijoin_reap K it numLive = (case it of (i, t) \<Rightarrow> do {
     s \<leftarrow> call K (Thr (GetVar (state_var i)));
     if s = ts_value TS_TERMINATED
     then bind_res (pthread K (PthreadJoin t) (\<lambda>err. ''Failed to join() with thread '' @ dec (int i) @ '' - '' @ err @ nl)) (\<lambda>_. do {
       sys K (Thr (SetVar (state_var i) (ts_value TS_JOINED)));
       n \<leftarrow> call K (Thr (GetVar ''numUnjoinedThreads''));
       sys K (Thr (SetVar ''numUnjoinedThreads'' (n - 1)));
       printf K (''Reaped thread '' @ dec (int i) @ '' (numLiveThreads = '' @ dec (numLive - 1) @ '')'' @ nl);
       ok (numLive - 1) })
     else ok numLive })"

primrec multijoin_loop :: "nat \<Rightarrow> 'k os \<Rightarrow> int list \<Rightarrow> int \<Rightarrow> ('k, unit) cmd" where
  "multijoin_loop 0 K threads numLive = halt Hang"
| "multijoin_loop (Suc fuel) K threads numLive =
     (if 0 < numLive
      then bind_res (pthread K (MutexLock ''mutex'') (\<lambda>err. ''Failed to lock mutex - '' @ err @ nl)) (\<lambda>_.
        bind_res (multijoin_wait fuel K) (\<lambda>_.
        bind_res (fold_each (enumerate 0 threads) (multijoin_reap K) numLive) (\<lambda>numLive.
        bind_res (pthread K (MutexUnlock ''mutex'') (\<lambda>err. ''Failed to unlock mutex - '' @ err @ nl)) (\<lambda>_.
        multijoin_loop fuel K threads numLive))))
      else ok ())"

definition thread_multijoin_main :: "nat \<Rightarrow> 'k os \<Rightarrow> string list \<Rightarrow> ('k, unit) cmd" where
  "thread_multijoin_main fuel K argv =
     (if length argv < 2 \<or> arg argv 1 = ''-h''
      then usage K (''Usage: '' @ arg argv 0 @ '' <nsecs>...'' @ nl)
      else do {
        let numThreads = length argv - 1;
        p \<leftarrow> call K (Proc (Malloc (int numThreads * 16)));
        if p = 0
        then die K (\<lambda>err. ''Failed to malloc() memory for threads - '' @ err @ nl)
        else bind_res (fold_each (enumerate 0 (tl argv)) (multijoin_create K) []) (\<lambda>threads.
          bind_res (multijoin_loop fuel K threads (int numThreads)) (\<lambda>_. do {
            sys K (Proc (Free p));
            halt (Exit EXIT_SUCCESS) })) })"

section \<open>Properties\<close>

lemma wp_pthread:
  "(\<And>r w'. trace w' = trace w @ [(Thr c, r)] \<Longrightarrow> ret r = 0 \<Longrightarrow> Q (Ok ()) w') \<Longrightarrow>
   (\<And>r s q w'. trace w' = trace w @ [(Thr c, r), (Stdio (Fprintf 2 s), q)] \<Longrightarrow> Q (Exit 1) w') \<Longrightarrow>
   wp (pthread K c msg) Q w"
  unfolding pthread_def die_num_def by (auto intro!: wp_call_any wp_tr(6))

lemma wp_cleanup_wait:
  "wp (cleanup_wait fuel K) (\<lambda>r w'. \<exists>d. trace w' = trace w @ d) w"
proof (induction fuel arbitrary: w)
  case (Suc fuel)
  show ?case by (auto intro!: wp_call_any wp_sys_any wp_tr(6) wp_mono [OF Suc.IH] simp: die_num_def)
qed simp

text \<open>The events of a thread that has ended: the buffer that was allocated first is freed last; if the mutex was locked, the
  third event from the end, before the message of the handler that frees the buffer, has unlocked it.\<close>

definition released :: "event list \<Rightarrow> int res \<Rightarrow> bool" where
  "released d r \<longleftrightarrow> fst (hd d) = Proc (Malloc 0x10000) \<and> fst (rev d ! 0) = Proc (Free (ret (snd (hd d)))) \<and>
     (if list_ex (\<lambda>e. fst e = Thr (MutexLock ''mutex'')) d
      then fst (rev d ! 2) = Thr (MutexUnlock ''mutex'') \<and> ret (snd (rev d ! 2)) = 0
      else r = Ok PTHREAD_CANCELED)"

text \<open>
  C33. The thread of \<open>thread_cleanup\<close> leaves nothing behind: whenever its function ends the
  thread, by returning or by cancellation, the mutex has been unlocked successfully and the buffer has been freed, in this order at the very
  end. Only a thread that is cancelled before it has locked the mutex does not unlock it; it frees the buffer as well.
\<close>

theorem cleanup_thread_releases:
  "wp (cleanup_threadFunc fuel K) (\<lambda>r w'. is_ok r \<longrightarrow> (\<exists>d. trace w' = trace w @ d \<and> released d r)) w"
  unfolding cleanup_threadFunc_def mutexCleanupHandler_def memoryCleanupHandler_def
  by (auto intro!: wp_call_any wp_sys_any wp_tr(3-6) wp_pthread wp_mono [OF wp_cleanup_wait]
      simp: and_then_def split: res.splits) (simp_all add: released_def)

text \<open>Cancelled in \<open>pthread_cond_wait\<close>.\<close>

definition cancel_script :: "sysret list" where
  "cancel_script = [returns 8, returns 0, returns 0, (returns 0)\<lparr>rnums := [-1]\<rparr>, returns 0, returns 0]"

lemma cleanup_cancelled:
  "fst (run_state (cleanup_threadFunc 3 script_os) (start cancel_script)) = Ok PTHREAD_CANCELED"
  "list_ex (\<lambda>e. fst e = Thr (MutexLock ''mutex'')) (trace (snd (run_state (cleanup_threadFunc 3 script_os) (start cancel_script))))"
  by code_simp+

theorem cleanup_thread_releases_witness:
  "let d = trace (snd (run_state (cleanup_threadFunc 3 script_os) (start cancel_script))) in
     fst (rev d ! 2) = Thr (MutexUnlock ''mutex'') \<and> fst (rev d ! 0) = Proc (Free (ret (snd (hd d))))"
  using cleanup_thread_releases [of 3 script_os "start cancel_script", THEN wp_run] cleanup_cancelled
  by (simp add: start_def released_def)

end
