(* ===== verification/Thread_Incr.thy ===== *)
theory Thread_Incr
  imports Threads
begin

text \<open>
  The two programs that increment a shared variable, as interleavings of their threads: every
  access to \<open>glob\<close> and every call on the mutex is one step. A thread is the place of its next
  step, its loop counter and its local variable; the state of the program is the shared
  variable, the owner of the mutex and the threads by number. The same record serves both
  programs; \<open>thread_incr.c\<close> never visits the places of the mutex.
\<close>

datatype incr_pc = I_test | I_lock | I_load | I_store | I_unlock | I_done

record thr =
  tpc :: incr_pc
  iter :: nat          \<comment> \<open>the loop counter \<open>i\<close>\<close>
  loc :: int

record incr =
  glob :: int
  owner :: "nat option"
  thrs :: "nat \<Rightarrow> thr"

definition thr_init :: thr where "thr_init = \<lparr>tpc = I_test, iter = 0, loc = 0\<rparr>"

definition incr_init :: incr where
  "incr_init = \<lparr>glob = 0, owner = None, thrs = (\<lambda>_. thr_init)\<rparr>"

text \<open>Thread \<open>i\<close> becomes \<open>t\<close>.\<close>

definition set_thr :: "nat \<Rightarrow> thr \<Rightarrow> incr \<Rightarrow> incr" where
  "set_thr i t s = s\<lparr>thrs := (thrs s)(i := t)\<rparr>"

text \<open>One step of thread \<open>i\<close> of \<open>thread_incr.c\<close> with \<open>n\<close> loops. Signed addition wraps.\<close>

definition incr_step :: "nat \<Rightarrow> nat \<Rightarrow> incr \<Rightarrow> incr option" where
  "incr_step n i s = (if i < NUM_THREADS then let t = thrs s i in (case tpc t of
     I_test \<Rightarrow> Some (set_thr i (t\<lparr>tpc := if iter t < n then I_load else I_done\<rparr>) s)
   | I_load \<Rightarrow> Some (set_thr i (t\<lparr>loc := glob s, tpc := I_store\<rparr>) s)
   | I_store \<Rightarrow> Some (set_thr i (t\<lparr>iter := iter t + 1, tpc := I_test\<rparr>) (s\<lparr>glob := c_int (loc t + 1)\<rparr>))
   | _ \<Rightarrow> None) else None)"

text \<open>One step of thread \<open>i\<close> of \<open>thread_incr_mutex.c\<close>. Locking blocks while the mutex is owned.\<close>

definition mutex_step :: "nat \<Rightarrow> nat \<Rightarrow> incr \<Rightarrow> incr option" where
  "mutex_step n i s = (if i < NUM_THREADS then let t = thrs s i in (case tpc t of
     I_test \<Rightarrow> Some (set_thr i (t\<lparr>tpc := if iter t < n then I_lock else I_done\<rparr>) s)
   | I_lock \<Rightarrow> if owner s = None then Some (set_thr i (t\<lparr>tpc := I_load\<rparr>) (s\<lparr>owner := Some i\<rparr>)) else None
   | I_load \<Rightarrow> Some (set_thr i (t\<lparr>loc := glob s, tpc := I_store\<rparr>) s)
   | I_store \<Rightarrow> Some (set_thr i (t\<lparr>tpc := I_unlock\<rparr>) (s\<lparr>glob := c_int (loc t + 1)\<rparr>))
   | I_unlock \<Rightarrow> Some (set_thr i (t\<lparr>iter := iter t + 1, tpc := I_test\<rparr>) (s\<lparr>owner := None\<rparr>))
   | I_done \<Rightarrow> None) else None)"

text \<open>Runs: any thread takes the next step.\<close>

inductive run :: "(nat \<Rightarrow> 's \<Rightarrow> 's option) \<Rightarrow> 's \<Rightarrow> 's \<Rightarrow> bool" for f s where
  refl: "run f s s"
| more: "run f s t \<Longrightarrow> f i t = Some u \<Longrightarrow> run f s u"

inductive_cases runE: "run f s t"

lemma run_trans: "run f t u \<Longrightarrow> run f s t \<Longrightarrow> run f s u"
  by (induction rule: run.induct) (auto intro: run.more)

text \<open>A schedule is the list of the threads that step; running one is executable.\<close>

fun run_list :: "(nat \<Rightarrow> 's \<Rightarrow> 's option) \<Rightarrow> nat list \<Rightarrow> 's \<Rightarrow> 's option" where
  "run_list f [] s = Some s"
| "run_list f (i # is) s = (case f i s of None \<Rightarrow> None | Some t \<Rightarrow> run_list f is t)"

lemma run_list_run: "run_list f is s = Some t \<Longrightarrow> run f s t"
proof (induction "is" arbitrary: s)
  case (Cons i "is")
  then obtain u where "f i s = Some u" "run f u t" by (auto split: option.splits)
  then show ?case by (blast intro: run_trans run.intros)
qed (auto intro: run.refl)

section \<open>A contract for programs of this kind\<close>

text \<open>An invariant of the state that every step of every thread keeps holds in every run.\<close>

locale thread_program =
  fixes f :: "nat \<Rightarrow> 's \<Rightarrow> 's option" and Inv :: "'s \<Rightarrow> bool" and s0 :: 's
  assumes init: "Inv s0"
    and step: "Inv s \<Longrightarrow> f i s = Some t \<Longrightarrow> Inv t"
begin

lemma reachable: "run f s0 s \<Longrightarrow> Inv s"
  by (induction rule: run.induct) (auto intro: init step)

lemma scheduled: "run_list f is s0 = Some s \<Longrightarrow> Inv s"
  by (rule reachable [OF run_list_run])

end

text \<open>If moreover every step decreases a rank, a run is no longer than the rank of its start.\<close>

locale ending_program = thread_program +
  fixes rank :: "'a \<Rightarrow> nat"
  assumes decreases: "Inv s \<Longrightarrow> f i s = Some t \<Longrightarrow> rank t < rank s"
begin

lemma bounded: "Inv s \<Longrightarrow> run_list f is s = Some t \<Longrightarrow> length is + rank t \<le> rank s"
proof (induction "is" arbitrary: s)
  case (Cons i "is")
  then obtain u where u: "f i s = Some u" "run_list f is u = Some t" by (auto split: option.splits)
  with Cons have "length is + rank t \<le> rank u" by (auto intro: step)
  with decreases [OF Cons.prems(1) u(1)] show ?case by simp
qed simp

lemmas bounded_start = bounded [OF init]

end

section \<open>Counting\<close>

lemma set_thr_simps [simp]:
  "glob (set_thr i t s) = glob s" "owner (set_thr i t s) = owner s" "thrs (set_thr i t s) = (thrs s)(i := t)"
  by (simp_all add: set_thr_def)

text \<open>The number of loops completed by all the threads.\<close>

definition incrs :: "incr \<Rightarrow> nat" where "incrs s = (\<Sum>i<NUM_THREADS. iter (thrs s i))"

lemma sum_fun_upd:
  assumes "i < (n :: nat)"
  shows "(\<Sum>j<n. g ((f(i := y)) j)) + g (f i) = (\<Sum>j<n. g (f j)) + (g y :: nat)"
proof -
  have i: "finite {..<n}" "i \<in> {..<n}" using assms by auto
  show ?thesis
    unfolding sum.remove [OF i, of "\<lambda>j. g ((f(i := y)) j)"] sum.remove [OF i, of "\<lambda>j. g (f j)"] by simp
qed

lemma incrs_update: "i < NUM_THREADS \<Longrightarrow> incrs (set_thr i y s) + iter (thrs s i) = incrs s + iter y"
  using sum_fun_upd [of i NUM_THREADS iter "thrs s" y] by (simp add: incrs_def)

lemma incrs_same: "i < NUM_THREADS \<Longrightarrow> iter y = iter (thrs s i) \<Longrightarrow> incrs (set_thr i y s) = incrs s"
  using incrs_update [of i y s] by simp

lemma incrs_more: "i < NUM_THREADS \<Longrightarrow> iter y = iter (thrs s i) + 1 \<Longrightarrow> incrs (set_thr i y s) = incrs s + 1"
  using incrs_update [of i y s] by simp

lemma incrs_other [simp]: "incrs (s\<lparr>glob := g\<rparr>) = incrs s" "incrs (s\<lparr>owner := w\<rparr>) = incrs s"
  by (simp_all add: incrs_def)

lemma incrs_bound: "(\<And>i. i < NUM_THREADS \<Longrightarrow> iter (thrs s i) \<le> n) \<Longrightarrow> incrs s \<le> NUM_THREADS * n"
  using sum_bounded_above [of "{..<NUM_THREADS}" "\<lambda>i. iter (thrs s i)" n] by (simp add: incrs_def)

lemma incrs_two: "incrs s = iter (thrs s 0) + iter (thrs s 1)"
  by (simp add: incrs_def NUM_THREADS_def lessThan_Suc numeral_2_eq_2)

text \<open>A thread never exceeds its number of loops, and ends after all of them.\<close>

definition thr_ok :: "nat \<Rightarrow> thr \<Rightarrow> bool" where
  "thr_ok n t \<longleftrightarrow> iter t \<le> n \<and> (tpc t \<in> {I_lock, I_load, I_store, I_unlock} \<longrightarrow> iter t < n) \<and> (tpc t = I_done \<longrightarrow> iter t = n)"

lemma c_int_incr: "0 \<le> x \<Longrightarrow> x + 1 \<le> INT_MAX \<Longrightarrow> c_int (x + 1) = x + 1"
  by (simp add: INT_MIN_def)

section \<open>thread\_incr.c\<close>

text \<open>Neither the variable nor a local copy of it is ahead of the completed loops.\<close>

definition incr_inv :: "nat \<Rightarrow> incr \<Rightarrow> bool" where
  "incr_inv n s \<longleftrightarrow> 0 \<le> glob s \<and> glob s \<le> int (incrs s) \<and>
     (\<forall>i < NUM_THREADS. thr_ok n (thrs s i) \<and> 0 \<le> loc (thrs s i) \<and> loc (thrs s i) \<le> int (incrs s))"

lemma incr_inv_init: "incr_inv n incr_init"
  by (simp add: incr_inv_def incr_init_def thr_init_def thr_ok_def)

lemma incr_inv_step:
  assumes inv: "incr_inv n s" and st: "incr_step n i s = Some u" and n: "int (NUM_THREADS * n) \<le> INT_MAX"
  shows "incr_inv n u"
proof -
  have i: "i < NUM_THREADS" using st by (simp add: incr_step_def split: if_splits)
  then have t: "thr_ok n (thrs s i)" "0 \<le> loc (thrs s i)" "loc (thrs s i) \<le> int (incrs s)"
    using inv by (auto simp: incr_inv_def)
  show ?thesis
  proof (cases "tpc (thrs s i)")
    case I_test
    with st i t inv show ?thesis
      by (auto simp: incr_step_def Let_def incr_inv_def incrs_same thr_ok_def split: if_splits)
  next
    case I_load
    with st i t inv show ?thesis
      by (auto simp: incr_step_def Let_def incr_inv_def incrs_same thr_ok_def)
  next
    case I_store
    have "incrs u = incrs s + 1"
      using st i I_store incrs_more [of i "(thrs s i)\<lparr>iter := iter (thrs s i) + 1, tpc := I_test\<rparr>" "s\<lparr>glob := c_int (loc (thrs s i) + 1)\<rparr>"]
      by (auto simp: incr_step_def Let_def)
    moreover have "incrs u \<le> NUM_THREADS * n"
      using st i I_store t(1) inv by (intro incrs_bound) (auto simp: incr_step_def Let_def incr_inv_def thr_ok_def Suc_le_eq)
    ultimately have "int (incrs s + 1) \<le> int (NUM_THREADS * n)" by (simp only: of_nat_le_iff)
    then have "c_int (loc (thrs s i) + 1) = loc (thrs s i) + 1"
      using t n by (intro c_int_incr) auto
    moreover have "iter (thrs s i) < n" using t(1) I_store by (simp add: thr_ok_def)
    moreover have "loc (thrs s j) \<le> 1 + int (incrs s)" if "j < NUM_THREADS" for j
      using inv that by (fastforce simp: incr_inv_def)
    ultimately show ?thesis
      using \<open>incrs u = incrs s + 1\<close> I_store st i inv
      by (auto simp: incr_step_def Let_def incr_inv_def thr_ok_def Suc_le_eq)
  qed (use st i in \<open>simp_all add: incr_step_def\<close>)
qed

text \<open>The threads in lock step: in every round both read the same value.\<close>

definition lock_step :: "nat list" where "lock_step = [0, 1, 0, 1, 0, 1]"

lemma lock_step_round:
  assumes "tpc (thrs s 0) = I_test" "tpc (thrs s 1) = I_test" "iter (thrs s 0) = k" "iter (thrs s 1) = k" "k < n"
  obtains t where "run_list (incr_step n) lock_step s = Some t" "tpc (thrs t 0) = I_test" "tpc (thrs t 1) = I_test"
    "iter (thrs t 0) = Suc k" "iter (thrs t 1) = Suc k" "glob t = c_int (glob s + 1)"
  using assms that by (simp add: lock_step_def incr_step_def NUM_THREADS_def Let_def)

lemma lock_step_rounds:
  assumes "k \<le> n" "int n \<le> INT_MAX"
  shows "\<exists>s. run (incr_step n) incr_init s \<and> tpc (thrs s 0) = I_test \<and> tpc (thrs s 1) = I_test \<and>
     iter (thrs s 0) = k \<and> iter (thrs s 1) = k \<and> glob s = int k"
  using assms
proof (induction k)
  case 0
  have "tpc (thrs incr_init i) = I_test" "iter (thrs incr_init i) = 0" "glob incr_init = 0" for i
    by (simp_all add: incr_init_def thr_init_def)
  then show ?case by (intro exI [of _ incr_init]) (auto intro: run.refl)
next
  case (Suc k)
  then obtain s where s: "run (incr_step n) incr_init s" "tpc (thrs s 0) = I_test" "tpc (thrs s 1) = I_test"
      "iter (thrs s 0) = k" "iter (thrs s 1) = k" "glob s = int k" "k < n"
    by (auto simp: Suc_le_eq)
  obtain t where t: "run_list (incr_step n) lock_step s = Some t" "tpc (thrs t 0) = I_test" "tpc (thrs t 1) = I_test"
      "iter (thrs t 0) = Suc k" "iter (thrs t 1) = Suc k" "glob t = c_int (glob s + 1)"
    by (rule lock_step_round [OF s(2-5,7)])
  have "run (incr_step n) incr_init t" by (rule run_trans [OF run_list_run [OF t(1)] s(1)])
  moreover have "glob t = int (Suc k)"
    using t(6) s(6) Suc.prems c_int_incr [of "int k"] by simp
  ultimately show ?case using t by blast
qed

section \<open>thread\_incr\_mutex.c\<close>

fun inside :: "incr_pc \<Rightarrow> bool" where
  "inside I_load = True" | "inside I_store = True" | "inside I_unlock = True" | "inside _ = False"

text \<open>The variable counts the completed loops and the loop whose owner is about to unlock.\<close>

definition mutex_inv :: "nat \<Rightarrow> incr \<Rightarrow> bool" where
  "mutex_inv n s \<longleftrightarrow>
     (\<forall>i < NUM_THREADS. thr_ok n (thrs s i) \<and> (owner s = Some i \<longleftrightarrow> inside (tpc (thrs s i))) \<and>
        (tpc (thrs s i) = I_store \<longrightarrow> loc (thrs s i) = glob s)) \<and>
     (case owner s of None \<Rightarrow> glob s = int (incrs s)
      | Some i \<Rightarrow> i < NUM_THREADS \<and> glob s = int (incrs s) + of_bool (tpc (thrs s i) = I_unlock))"

definition incr_rank :: "nat \<Rightarrow> incr \<Rightarrow> nat" where
  "incr_rank n s = (\<Sum>i<NUM_THREADS. 6 * (n - iter (thrs s i)) + (case tpc (thrs s i) of
     I_test \<Rightarrow> 5 | I_lock \<Rightarrow> 4 | I_load \<Rightarrow> 3 | I_store \<Rightarrow> 2 | I_unlock \<Rightarrow> 1 | I_done \<Rightarrow> 0))"

lemma mutex_inv_init: "mutex_inv n incr_init"
  by (simp add: mutex_inv_def incr_init_def thr_init_def thr_ok_def incrs_def)

lemma mutex_inv_step:
  assumes inv: "mutex_inv n s" and st: "mutex_step n i s = Some u" and n: "int (NUM_THREADS * n) \<le> INT_MAX"
  shows "mutex_inv n u"
proof -
  have i: "i < NUM_THREADS" using st by (simp add: mutex_step_def split: if_splits)
  then have t: "thr_ok n (thrs s i)" "owner s = Some i \<longleftrightarrow> inside (tpc (thrs s i))"
    using inv by (auto simp: mutex_inv_def)
  have bound: "incrs s + 1 \<le> NUM_THREADS * n" if "iter (thrs s i) < n"
  proof -
    have "incrs (set_thr i ((thrs s i)\<lparr>iter := iter (thrs s i) + 1\<rparr>) s) \<le> NUM_THREADS * n"
      using inv that by (intro incrs_bound) (auto simp: mutex_inv_def thr_ok_def)
    then show ?thesis using i by (simp add: incrs_more)
  qed
  show ?thesis
  proof (cases "tpc (thrs s i)")
    case I_test
    with st i have u: "u = set_thr i ((thrs s i)\<lparr>tpc := if iter (thrs s i) < n then I_lock else I_done\<rparr>) s"
      by (simp add: mutex_step_def Let_def)
    from I_test t have "owner s \<noteq> Some i" by simp
    with I_test i t inv show ?thesis
      unfolding u by (cases "iter (thrs s i) < n") (auto simp: mutex_inv_def incrs_same thr_ok_def split: option.splits)
  next
    case I_lock
    with st i have own: "owner s = None" and u: "u = set_thr i ((thrs s i)\<lparr>tpc := I_load\<rparr>) (s\<lparr>owner := Some i\<rparr>)"
      by (simp_all add: mutex_step_def Let_def split: if_splits)
    with I_lock i t inv show ?thesis
      by (auto simp: mutex_inv_def incrs_same thr_ok_def)
  next
    case I_load
    with st i t have u: "u = set_thr i ((thrs s i)\<lparr>loc := glob s, tpc := I_store\<rparr>) s" and own: "owner s = Some i"
      by (simp_all add: mutex_step_def Let_def)
    with I_load i t inv show ?thesis
      by (auto simp: mutex_inv_def incrs_same thr_ok_def)
  next
    case I_store
    with i t inv have "glob s = int (incrs s)" "iter (thrs s i) < n" "loc (thrs s i) = glob s"
      by (auto simp: mutex_inv_def thr_ok_def)
    moreover from bound [OF this(2)] have "int (incrs s + 1) \<le> int (NUM_THREADS * n)" by (simp only: of_nat_le_iff)
    ultimately have "c_int (loc (thrs s i) + 1) = glob s + 1" using n by (simp add: c_int_incr)
    moreover from I_store t have own: "owner s = Some i" by simp
    ultimately show ?thesis
      using I_store st i t inv by (auto simp: mutex_step_def Let_def mutex_inv_def incrs_same thr_ok_def)
  next
    case I_unlock
    with t have "owner s = Some i" by simp
    with I_unlock st i t inv show ?thesis
      by (auto simp: mutex_step_def Let_def mutex_inv_def incrs_more thr_ok_def)
  qed (use st i in \<open>simp_all add: mutex_step_def\<close>)
qed

lemma mutex_rank_step:
  assumes "mutex_inv n s" "mutex_step n i s = Some u"
  shows "incr_rank n u < incr_rank n s"
proof -
  let ?g = "\<lambda>t. 6 * (n - iter t) + (case tpc t of
     I_test \<Rightarrow> 5 | I_lock \<Rightarrow> 4 | I_load \<Rightarrow> 3 | I_store \<Rightarrow> 2 | I_unlock \<Rightarrow> 1 | I_done \<Rightarrow> 0)"
  have i: "i < NUM_THREADS" using assms(2) by (simp add: mutex_step_def split: if_splits)
  then have "thr_ok n (thrs s i)" using assms(1) by (auto simp: mutex_inv_def)
  with assms(2) i have "?g (thrs u i) < ?g (thrs s i) \<and> thrs u = (thrs s)(i := thrs u i)"
    by (cases "tpc (thrs s i)") (auto simp: mutex_step_def Let_def thr_ok_def split: if_splits)
  moreover from this have "incr_rank n u + ?g (thrs s i) = incr_rank n s + ?g (thrs u i)"
    using sum_fun_upd [OF i, of ?g "thrs s" "thrs u i"] by (simp add: incr_rank_def)
  ultimately show ?thesis by simp
qed

lemma mutex_program:
  assumes "int (NUM_THREADS * n) \<le> INT_MAX"
  shows "ending_program (mutex_step n) (mutex_inv n) incr_init (incr_rank n)"
  by unfold_locales (auto intro: mutex_inv_init mutex_inv_step [OF _ _ assms] mutex_rank_step)

text \<open>Numbers of loops for which the variable does not overflow, and the two programs as
  instances of the contracts.\<close>

typedef loops = "{n :: nat. int (NUM_THREADS * n) \<le> INT_MAX}"
  by (rule exI [of _ 0]) (simp add: INT_MAX_def)

interpretation mutex: ending_program "mutex_step (Rep_loops n)" "mutex_inv (Rep_loops n)" incr_init "incr_rank (Rep_loops n)"
  for n
  by (rule mutex_program) (use Rep_loops in blast)

interpretation unlocked: thread_program "incr_step (Rep_loops n)" "incr_inv (Rep_loops n)" incr_init
  for n
  by unfold_locales (use Rep_loops in \<open>auto intro: incr_inv_init incr_inv_step\<close>)

text \<open>Where no thread can step, all are done.\<close>

lemma mutex_progress:
  assumes "mutex_inv n s" "\<And>i. mutex_step n i s = None" "i < NUM_THREADS"
  shows "tpc (thrs s i) = I_done"
proof -
  have "owner s = None"
  proof (rule ccontr)
    assume "owner s \<noteq> None"
    then obtain j where "owner s = Some j" "j < NUM_THREADS" "inside (tpc (thrs s j))"
      using assms(1) by (auto simp: mutex_inv_def split: option.splits)
    with assms(2) [of j] show False by (cases "tpc (thrs s j)") (auto simp: mutex_step_def Let_def)
  qed
  with assms(2) [of i] assms(3) show ?thesis
    by (cases "tpc (thrs s i)") (auto simp: mutex_step_def Let_def)
qed

section \<open>Properties\<close>

text \<open>
  C4. With the mutex no increment is lost: for every number of loops for which the variable
  does not overflow, and every interleaving of the two threads, the threads are never both
  inside the critical section, no run is longer than 12 steps for each loop and 10 besides,
  and where no thread can go on both are done and the variable is twice the number of loops.
\<close>

theorem thread_incr_mutex_counts:
  assumes "run_list (mutex_step n) is incr_init = Some s" "2 * int n \<le> INT_MAX"
  shows "\<not> (inside (tpc (thrs s 0)) \<and> inside (tpc (thrs s 1))) \<and> length is \<le> 12 * n + 10 \<and>
     ((\<forall>i. mutex_step n i s = None) \<longrightarrow> tpc (thrs s 0) = I_done \<and> tpc (thrs s 1) = I_done \<and> glob s = 2 * int n)"
proof -
  have "n \<in> {n. int (NUM_THREADS * n) \<le> INT_MAX}" using assms(2) by (simp add: NUM_THREADS_def)
  then obtain m where m: "n = Rep_loops m" by (metis Rep_loops_cases)
  have inv: "mutex_inv n s" using mutex.scheduled assms(1) unfolding m by blast
  have len: "length is \<le> incr_rank n incr_init" using mutex.bounded_start assms(1) unfolding m by (metis add_leD1)
  have two: "{..<NUM_THREADS} = {0, 1}" by (auto simp: NUM_THREADS_def)
  have own: "owner s = Some i \<longleftrightarrow> inside (tpc (thrs s i))" "thr_ok n (thrs s i)" if "i < NUM_THREADS" for i
    using inv that by (auto simp: mutex_inv_def)
  have "glob s = 2 * int n" if "tpc (thrs s 0) = I_done" "tpc (thrs s 1) = I_done"
    using inv that own [of 0] own [of 1]
    by (auto simp: mutex_inv_def incrs_two thr_ok_def NUM_THREADS_def less_2_cases_iff split: option.splits)
  moreover have "tpc (thrs s 0) = I_done" "tpc (thrs s 1) = I_done" if "\<forall>i. mutex_step n i s = None"
    using that mutex_progress [OF inv] by (auto simp: NUM_THREADS_def)
  moreover have "\<not> (inside (tpc (thrs s 0)) \<and> inside (tpc (thrs s 1)))"
    using own [of 0] own [of 1] by (auto simp: NUM_THREADS_def)
  ultimately show ?thesis
    using len by (auto simp: incr_rank_def two incr_init_def thr_init_def)
qed

text \<open>
  C40. Without the mutex increments can be lost: the variable never exceeds twice the number of
  loops, but for every positive number of loops there is a run at the end of which it is only
  the number of loops.
\<close>

theorem thread_incr_loses_updates:
  assumes "0 < n" "2 * int n \<le> INT_MAX"
  shows "(\<forall>s. run (incr_step n) incr_init s \<longrightarrow> glob s \<le> 2 * int n) \<and>
     (\<exists>s. run (incr_step n) incr_init s \<and> tpc (thrs s 0) = I_done \<and> tpc (thrs s 1) = I_done \<and> glob s = int n \<and>
        glob s \<noteq> 2 * int n)"
proof
  have "n \<in> {n. int (NUM_THREADS * n) \<le> INT_MAX}" using assms(2) by (simp add: NUM_THREADS_def)
  then obtain m where m: "n = Rep_loops m" by (metis Rep_loops_cases)
  show "\<forall>s. run (incr_step n) incr_init s \<longrightarrow> glob s \<le> 2 * int n"
  proof (intro allI impI)
    fix s
    assume "run (incr_step n) incr_init s"
    then have inv: "incr_inv n s" unfolding m by (rule unlocked.reachable)
    then have "incrs s \<le> NUM_THREADS * n" by (intro incrs_bound) (auto simp: incr_inv_def thr_ok_def)
    with inv show "glob s \<le> 2 * int n" by (simp add: incr_inv_def NUM_THREADS_def)
  qed
  obtain s where s: "run (incr_step n) incr_init s" "tpc (thrs s 0) = I_test" "tpc (thrs s 1) = I_test"
      "iter (thrs s 0) = n" "iter (thrs s 1) = n" "glob s = int n"
    using lock_step_rounds [of n n] assms(2) by auto
  obtain t where t: "run_list (incr_step n) [0, 1] s = Some t" "tpc (thrs t 0) = I_done" "tpc (thrs t 1) = I_done" "glob t = int n"
    using s(2-6) by (simp add: incr_step_def NUM_THREADS_def Let_def)
  then have "run (incr_step n) incr_init t" using run_trans [OF run_list_run [OF t(1)] s(1)] by simp
  with t(2-4) assms(1) show "\<exists>s. run (incr_step n) incr_init s \<and> tpc (thrs s 0) = I_done \<and> tpc (thrs s 1) = I_done \<and>
      glob s = int n \<and> glob s \<noteq> 2 * int n" by auto
qed

theorem thread_incr_mutex_counts_witness:
  "\<exists>s. run_list (mutex_step 1) ([0, 1, 0, 0, 0, 0, 0] @ [1, 1, 1, 1, 1]) incr_init = Some s \<and> glob s = 2"
proof -
  obtain s where s: "run_list (mutex_step 1) ([0, 1, 0, 0, 0, 0, 0] @ [1, 1, 1, 1, 1]) incr_init = Some s"
      "tpc (thrs s 0) = I_done" "tpc (thrs s 1) = I_done"
    by (simp add: incr_init_def thr_init_def mutex_step_def NUM_THREADS_def Let_def)
  then have "\<forall>i. mutex_step 1 i s = None" by (auto simp: mutex_step_def NUM_THREADS_def less_2_cases_iff)
  with thread_incr_mutex_counts [OF s(1)] s(1) show ?thesis by (simp add: INT_MAX_def)
qed

theorem thread_incr_loses_updates_witness:
  "\<exists>s. run (incr_step 5) incr_init s \<and> tpc (thrs s 0) = I_done \<and> tpc (thrs s 1) = I_done \<and> glob s = 5"
  using thread_incr_loses_updates [of 5] by (auto simp: INT_MAX_def)

end
