(* ===== verification/Thread_Join.thy ===== *)
theory Thread_Join
  imports Thread_Incr
begin

text \<open>
  \<open>thread_multijoin.c\<close> as an interleaving of the main thread and the threads it creates. Every
  call on the mutex or the condition variable, and every critical section, is a step of its
  own. \<open>pthread_cond_wait\<close> releases the mutex and waits in one step; a signal wakes the main
  thread if it waits, and is lost if it does not. A wakeup without a signal, which POSIX
  allows, is a separate step.
\<close>

section \<open>The step functions\<close>

datatype func_pc = T_none | T_sleep | T_lock | T_mark | T_unlock | T_signal | T_end

datatype main_pc = M_create nat | M_test | M_lock | M_check | M_wait | M_woken | M_scan nat | M_unlock | M_done

datatype mutex_owner = Free | Main | Thread nat

record join =
  tstate :: "nat \<Rightarrow> ThreadState"      \<comment> \<open>\<open>threads[i].state\<close>\<close>
  unjoined :: int                       \<comment> \<open>\<open>numUnjoinedThreads\<close>\<close>
  live :: int                           \<comment> \<open>\<open>numLiveThreads\<close>\<close>
  holder :: mutex_owner
  mpc :: main_pc
  fpc :: "nat \<Rightarrow> func_pc"
  reaped :: "nat list"                  \<comment> \<open>the threads reported as reaped, in order\<close>

definition join_init :: "nat \<Rightarrow> join" where
  "join_init n = \<lparr>tstate = (\<lambda>_. TS_ALIVE), unjoined = 0, live = int n, holder = Free, mpc = M_create 0,
     fpc = (\<lambda>_. T_none), reaped = []\<rparr>"

text \<open>The main thread, for \<open>n\<close> threads.\<close>

definition main_step :: "nat \<Rightarrow> join \<Rightarrow> join option" where
  "main_step n s = (case mpc s of
     M_create i \<Rightarrow> if i < n then Some (s\<lparr>tstate := (tstate s)(i := TS_ALIVE), fpc := (fpc s)(i := T_sleep), mpc := M_create (Suc i)\<rparr>)
       else Some (s\<lparr>mpc := M_test\<rparr>)
   | M_test \<Rightarrow> Some (s\<lparr>mpc := if 0 < live s then M_lock else M_done\<rparr>)
   | M_lock \<Rightarrow> if holder s = Free then Some (s\<lparr>holder := Main, mpc := M_check\<rparr>) else None
   | M_check \<Rightarrow> if unjoined s = 0 then Some (s\<lparr>holder := Free, mpc := M_wait\<rparr>) else Some (s\<lparr>mpc := M_scan 0\<rparr>)
   | M_wait \<Rightarrow> None
   | M_woken \<Rightarrow> if holder s = Free then Some (s\<lparr>holder := Main, mpc := M_check\<rparr>) else None
   | M_scan i \<Rightarrow>
       if i < n
       then if tstate s i = TS_TERMINATED
         then if fpc s i = T_end
           then Some (s\<lparr>tstate := (tstate s)(i := TS_JOINED), live := live s - 1, unjoined := unjoined s - 1,
                  reaped := reaped s @ [i], mpc := M_scan (Suc i)\<rparr>)
           else None
         else Some (s\<lparr>mpc := M_scan (Suc i)\<rparr>)
       else Some (s\<lparr>mpc := M_unlock\<rparr>)
   | M_unlock \<Rightarrow> Some (s\<lparr>holder := Free, mpc := M_test\<rparr>)
   | M_done \<Rightarrow> None)"

text \<open>The function of thread \<open>i\<close>.\<close>

definition func_step :: "nat \<Rightarrow> join \<Rightarrow> join option" where
  "func_step i s = (case fpc s i of
     T_none \<Rightarrow> None
   | T_sleep \<Rightarrow> Some (s\<lparr>fpc := (fpc s)(i := T_lock)\<rparr>)
   | T_lock \<Rightarrow> if holder s = Free then Some (s\<lparr>holder := Thread i, fpc := (fpc s)(i := T_mark)\<rparr>) else None
   | T_mark \<Rightarrow> Some (s\<lparr>tstate := (tstate s)(i := TS_TERMINATED), unjoined := unjoined s + 1, fpc := (fpc s)(i := T_unlock)\<rparr>)
   | T_unlock \<Rightarrow> Some (s\<lparr>holder := Free, fpc := (fpc s)(i := T_signal)\<rparr>)
   | T_signal \<Rightarrow> Some (s\<lparr>mpc := if mpc s = M_wait then M_woken else mpc s, fpc := (fpc s)(i := T_end)\<rparr>)
   | T_end \<Rightarrow> None)"

text \<open>Agent 0 is the main thread, agent \<open>i + 1\<close> the thread \<open>i\<close>.\<close>

fun join_step :: "nat \<Rightarrow> nat \<Rightarrow> join \<Rightarrow> join option" where
  "join_step n 0 s = main_step n s"
| "join_step n (Suc i) s = (if i < n then func_step i s else None)"

text \<open>The same with wakeups without a signal, by an agent of their own.\<close>

definition spurious_step :: "nat \<Rightarrow> nat \<Rightarrow> join \<Rightarrow> join option" where
  "spurious_step n a s =
     (if a = Suc n then if mpc s = M_wait then Some (s\<lparr>mpc := M_woken\<rparr>) else None
      else join_step n a s)"

section \<open>The order of the states of a thread\<close>

text \<open>The states are ordered as the values of the enumeration.\<close>

instantiation ThreadState :: linorder
begin

definition less_eq_ThreadState :: "ThreadState \<Rightarrow> ThreadState \<Rightarrow> bool" where
  "less_eq_ThreadState s t \<longleftrightarrow> ts_value s \<le> ts_value t"

definition less_ThreadState :: "ThreadState \<Rightarrow> ThreadState \<Rightarrow> bool" where
  "less_ThreadState s t \<longleftrightarrow> ts_value s < ts_value t"

instance
proof
  fix s t :: ThreadState
  show "s \<le> t \<Longrightarrow> t \<le> s \<Longrightarrow> s = t"
    by (cases s; cases t) (simp_all add: less_eq_ThreadState_def ts_value_def)
qed (auto simp: less_eq_ThreadState_def less_ThreadState_def)

end

lemma TS_least [simp]: "TS_ALIVE \<le> t" "s \<le> TS_JOINED"
  by (cases t; simp add: less_eq_ThreadState_def ts_value_def) (cases s; simp add: less_eq_ThreadState_def ts_value_def)

section \<open>The invariant\<close>

definition howmany :: "nat \<Rightarrow> (nat \<Rightarrow> 'a) \<Rightarrow> 'a set \<Rightarrow> nat" where
  "howmany n f A = (\<Sum>i<n. of_bool (f i \<in> A))"

lemma howmany_upd:
  "i < n \<Longrightarrow> howmany n (f(i := y)) A + of_bool (f i \<in> A) = howmany n f A + of_bool (y \<in> A)"
  using sum_fun_upd [of i n "\<lambda>x. of_bool (x \<in> A)" f y] by (simp add: howmany_def)

lemma howmany_zero: "howmany n f A = 0 \<longleftrightarrow> (\<forall>i<n. f i \<notin> A)"
  by (auto simp: howmany_def)

text \<open>How the place of a thread and its entry in the table are related.\<close>

fun func_ok :: "func_pc \<Rightarrow> ThreadState \<Rightarrow> bool" where
  "func_ok T_end s = (s \<noteq> TS_ALIVE)"
| "func_ok T_unlock s = (s = TS_TERMINATED)"
| "func_ok T_signal s = (s = TS_TERMINATED)"
| "func_ok _ s = (s = TS_ALIVE)"

fun func_holds :: "func_pc \<Rightarrow> bool" where
  "func_holds T_mark = True" | "func_holds T_unlock = True" | "func_holds _ = False"

fun main_holds :: "main_pc \<Rightarrow> bool" where
  "main_holds M_check = True" | "main_holds (M_scan i) = True" | "main_holds M_unlock = True" | "main_holds _ = False"

text \<open>The threads created so far, and whether the loop still has threads to join.\<close>

fun created :: "nat \<Rightarrow> main_pc \<Rightarrow> nat" where
  "created n (M_create i) = i" | "created n _ = n"

fun live_at :: "main_pc \<Rightarrow> bool option" where
  "live_at M_lock = Some True" | "live_at M_check = Some True" | "live_at M_wait = Some True"
| "live_at M_woken = Some True" | "live_at M_done = Some False" | "live_at _ = None"

definition join_inv :: "nat \<Rightarrow> join \<Rightarrow> bool" where
  "join_inv n s \<longleftrightarrow>
     created n (mpc s) \<le> n \<and>
     (\<forall>i<n. (fpc s i = T_none \<longleftrightarrow> created n (mpc s) \<le> i) \<and> func_ok (fpc s i) (tstate s i) \<and>
        (holder s = Thread i \<longleftrightarrow> func_holds (fpc s i))) \<and>
     (holder s = Main \<longleftrightarrow> main_holds (mpc s)) \<and> (\<forall>i. holder s = Thread i \<longrightarrow> i < n) \<and>
     int (howmany n (tstate s) {TS_TERMINATED}) = unjoined s \<and>
     int (howmany n (tstate s) {TS_ALIVE, TS_TERMINATED}) = live s \<and>
     distinct (reaped s) \<and> set (reaped s) = {i. i < n \<and> tstate s i = TS_JOINED} \<and>
     live_at (mpc s) \<noteq> Some (live s = 0) \<and>
     (mpc s = M_wait \<longrightarrow> (\<forall>i<n. fpc s i = T_end \<longrightarrow> tstate s i \<noteq> TS_TERMINATED))"

lemma join_inv_init: "join_inv n (join_init n)"
  by (simp add: join_inv_def join_init_def howmany_def)

lemma join_inv_main:
  assumes inv: "join_inv n s" and st: "main_step n s = Some u"
  shows "join_inv n u"
proof (cases "mpc s")
  case (M_create i)
  have "tstate s i = TS_ALIVE" "fpc s i = T_none" if "i < n"
    using inv M_create that by (auto simp: join_inv_def)
  with M_create inv st show ?thesis
    by (cases "i < n") (auto simp: join_inv_def main_step_def fun_upd_idem Suc_le_eq le_less)
next
  case M_test
  with inv st show ?thesis by (cases "0 < live s") (auto simp: join_inv_def main_step_def)
next
  case M_lock
  with inv st show ?thesis by (auto simp: join_inv_def main_step_def split: if_splits)
next
  case M_check
  with inv st show ?thesis by (auto simp: join_inv_def main_step_def howmany_zero split: if_splits)
next
  case M_woken
  with inv st show ?thesis by (auto simp: join_inv_def main_step_def split: if_splits)
next
  case (M_scan i)
  show ?thesis
  proof (cases "i < n \<and> tstate s i = TS_TERMINATED")
    case True
    then have "fpc s i = T_end" using st M_scan by (simp add: main_step_def split: if_splits)
    moreover have "howmany n ((tstate s)(i := TS_JOINED)) {TS_TERMINATED} + 1 = howmany n (tstate s) {TS_TERMINATED}"
      "howmany n ((tstate s)(i := TS_JOINED)) {TS_ALIVE, TS_TERMINATED} + 1 = howmany n (tstate s) {TS_ALIVE, TS_TERMINATED}"
      using True howmany_upd [of i n "tstate s" TS_JOINED "{TS_TERMINATED}"]
        howmany_upd [of i n "tstate s" TS_JOINED "{TS_ALIVE, TS_TERMINATED}"] by simp_all
    ultimately show ?thesis
      using True inv st M_scan by (auto simp: join_inv_def main_step_def)
  next
    case False
    with inv st M_scan show ?thesis by (auto simp: join_inv_def main_step_def split: if_splits)
  qed
next
  case M_unlock
  with inv st show ?thesis by (auto simp: join_inv_def main_step_def)
qed (use st in \<open>simp_all add: main_step_def\<close>)

lemma join_inv_func:
  assumes inv: "join_inv n s" and st: "func_step i s = Some u" and i: "i < n"
  shows "join_inv n u"
proof -
  have th: "(fpc s j = T_none \<longleftrightarrow> created n (mpc s) \<le> j)" "func_ok (fpc s j) (tstate s j)"
      "holder s = Thread j \<longleftrightarrow> func_holds (fpc s j)" if "j < n" for j
    using inv that by (simp_all add: join_inv_def)
  note th_i = th [OF i]
  show ?thesis
  proof (cases "fpc s i")
    case T_sleep
    with st have u: "u = s\<lparr>fpc := (fpc s)(i := T_lock)\<rparr>" by (simp add: func_step_def)
    show ?thesis using inv th_i T_sleep unfolding u join_inv_def by simp
  next
    case T_lock
    with st have u: "u = s\<lparr>holder := Thread i, fpc := (fpc s)(i := T_mark)\<rparr>" and "holder s = Free"
      by (simp_all add: func_step_def split: if_splits)
    then show ?thesis using inv th_i T_lock i unfolding u join_inv_def by simp
  next
    case T_mark
    then have alive: "tstate s i = TS_ALIVE" using th_i by simp
    then have "howmany n ((tstate s)(i := TS_TERMINATED)) {TS_TERMINATED} = howmany n (tstate s) {TS_TERMINATED} + 1"
      "howmany n ((tstate s)(i := TS_TERMINATED)) {TS_ALIVE, TS_TERMINATED} = howmany n (tstate s) {TS_ALIVE, TS_TERMINATED}"
      using i howmany_upd [of i n "tstate s" TS_TERMINATED "{TS_TERMINATED}"]
        howmany_upd [of i n "tstate s" TS_TERMINATED "{TS_ALIVE, TS_TERMINATED}"] by simp_all
    moreover have u: "u = s\<lparr>tstate := (tstate s)(i := TS_TERMINATED), unjoined := unjoined s + 1, fpc := (fpc s)(i := T_unlock)\<rparr>"
      using st T_mark by (simp add: func_step_def)
    moreover have "{j. j < n \<and> ((tstate s)(i := TS_TERMINATED)) j = TS_JOINED} = {j. j < n \<and> tstate s j = TS_JOINED}"
      using alive by auto
    ultimately show ?thesis using inv th_i T_mark unfolding u join_inv_def by simp
  next
    case T_unlock
    with st have u: "u = s\<lparr>holder := Free, fpc := (fpc s)(i := T_signal)\<rparr>" by (simp add: func_step_def)
    have h: "holder s = Thread i" using T_unlock th_i by simp
    have "\<not> func_holds (fpc s j)" if "j < n" "j \<noteq> i" for j
      using th(3) [OF that(1)] that(2) h by simp
    moreover have "\<not> main_holds (mpc s)" using inv h by (simp add: join_inv_def)
    ultimately show ?thesis using inv th_i T_unlock unfolding u join_inv_def by simp
  next
    case T_signal
    with st have u: "u = s\<lparr>mpc := if mpc s = M_wait then M_woken else mpc s, fpc := (fpc s)(i := T_end)\<rparr>"
      by (simp add: func_step_def)
    show ?thesis using inv th_i T_signal unfolding u join_inv_def by (cases "mpc s = M_wait") simp_all
  qed (use st in \<open>simp_all add: func_step_def\<close>)
qed

lemma join_inv_woken: "join_inv n s \<Longrightarrow> mpc s = M_wait \<Longrightarrow> join_inv n (s\<lparr>mpc := M_woken\<rparr>)"
  by (simp add: join_inv_def)

lemma join_inv_step:
  assumes inv: "join_inv n s" and st: "spurious_step n a s = Some u"
  shows "join_inv n u"
proof (cases "a = Suc n")
  case True
  with st inv join_inv_woken show ?thesis by (auto simp: spurious_step_def split: if_splits)
next
  case False
  then have "join_step n a s = Some u" using st by (simp add: spurious_step_def)
  then show ?thesis
    by (cases a) (auto intro: join_inv_main [OF inv] join_inv_func [OF inv] split: if_splits)
qed

section \<open>Progress and termination\<close>

text \<open>A thread that has been created and has not ended can step unless another agent holds the
  mutex; the holder of the mutex, and a thread the main thread waits for, can always step.\<close>

lemma func_moves:
  "fpc s i \<noteq> T_none \<Longrightarrow> fpc s i \<noteq> T_end \<Longrightarrow> fpc s i = T_lock \<longrightarrow> holder s = Free \<Longrightarrow> func_step i s \<noteq> None"
  by (cases "fpc s i") (auto simp: func_step_def)

lemma join_progress:
  assumes inv: "join_inv n s" and stuck: "\<And>a. join_step n a s = None"
  shows "mpc s = M_done \<and> (\<forall>i<n. tstate s i = TS_JOINED)"
proof -
  have main: "main_step n s = None" using stuck [of 0] by simp
  have func: "fpc s i = T_none \<or> fpc s i = T_end \<or> fpc s i = T_lock \<and> holder s \<noteq> Free" if "i < n" for i
    using stuck [of "Suc i"] that func_moves [of s i] by (cases "fpc s i = T_lock") auto
  have "\<not> func_holds (fpc s i)" if "i < n" for i using func [OF that] by auto
  then have no_thread: "holder s \<noteq> Thread i" for i using inv by (auto simp: join_inv_def)
  have "created n (mpc s) = n" using main by (cases "mpc s") (auto simp: main_step_def split: if_splits)
  then have made: "fpc s i \<noteq> T_none" if "i < n" for i using inv that by (auto simp: join_inv_def)
  have "\<not> main_holds (mpc s)"
  proof
    assume "main_holds (mpc s)"
    then obtain i where "mpc s = M_scan i" "i < n" "tstate s i = TS_TERMINATED" "fpc s i \<noteq> T_end"
      using main by (cases "mpc s") (auto simp: main_step_def split: if_splits)
    then have "func_ok (fpc s i) TS_TERMINATED" "fpc s i = T_lock"
      using inv func [of i] made [of i] by (auto simp: join_inv_def)
    then show False by simp
  qed
  then have free: "holder s = Free" using no_thread inv by (cases "holder s") (auto simp: join_inv_def)
  have ended: "fpc s i = T_end" if "i < n" for i using func [OF that] made [OF that] free by simp
  have "mpc s = M_done"
  proof (rule ccontr)
    assume "mpc s \<noteq> M_done"
    with main free \<open>\<not> main_holds (mpc s)\<close> have wait: "mpc s = M_wait"
      by (cases "mpc s") (auto simp: main_step_def split: if_splits)
    then have "tstate s i = TS_JOINED" if "i < n" for i
      using inv ended [OF that] that by (cases "tstate s i") (auto simp: join_inv_def)
    then have "howmany n (tstate s) {TS_ALIVE, TS_TERMINATED} = 0" by (simp add: howmany_zero)
    with wait inv show False by (auto simp: join_inv_def)
  qed
  moreover from this inv have "howmany n (tstate s) {TS_ALIVE, TS_TERMINATED} = 0" by (simp add: join_inv_def)
  then have "tstate s i = TS_JOINED" if "i < n" for i
    using that by (cases "tstate s i") (auto simp: howmany_zero)
  ultimately show ?thesis by blast
qed

text \<open>A rank that every step decreases, except a wakeup without a signal. A scan that starts with
  a terminated thread ahead of it will join it.\<close>

fun func_rank :: "func_pc \<Rightarrow> nat" where
  "func_rank T_none = 6" | "func_rank T_sleep = 5" | "func_rank T_lock = 4" | "func_rank T_mark = 3"
| "func_rank T_unlock = 2" | "func_rank T_signal = 1" | "func_rank T_end = 0"

definition ahead :: "nat \<Rightarrow> join \<Rightarrow> nat \<Rightarrow> bool" where
  "ahead n s j \<longleftrightarrow> (\<exists>k. j \<le> k \<and> k < n \<and> tstate s k = TS_TERMINATED)"

fun main_rank :: "nat \<Rightarrow> (nat \<Rightarrow> bool) \<Rightarrow> main_pc \<Rightarrow> nat" where
  "main_rank n p (M_create i) = (n - i) + n + 7"
| "main_rank n p M_test = n + 6"
| "main_rank n p M_lock = n + 5"
| "main_rank n p M_check = n + 4"
| "main_rank n p M_wait = n + 3"
| "main_rank n p M_woken = n + 5"
| "main_rank n p (M_scan j) = (if p j then (n - j) + 2 else (n - j) + n + 20)"
| "main_rank n p M_unlock = n + 7"
| "main_rank n p M_done = 0"

definition func_ranks :: "nat \<Rightarrow> (nat \<Rightarrow> func_pc) \<Rightarrow> nat" where
  "func_ranks n f = (\<Sum>i<n. func_rank (f i))"

definition join_rank :: "nat \<Rightarrow> join \<Rightarrow> nat" where
  "join_rank n s = (2 * n + 30) * nat (live s) + 5 * func_ranks n (fpc s) + main_rank n (ahead n s) (mpc s)"

lemma func_ranks_upd: "i < n \<Longrightarrow> func_ranks n (f(i := y)) + func_rank (f i) = func_ranks n f + func_rank y"
  using sum_fun_upd [of i n func_rank f y] by (simp add: func_ranks_def)

lemma join_rank_func:
  assumes inv: "join_inv n s" and st: "func_step i s = Some u" and i: "i < n"
  shows "join_rank n u < join_rank n s"
proof -
  have up: "fpc u = (fpc s)(i := fpc u i)" "live u = live s" "func_rank (fpc u i) < func_rank (fpc s i)"
    using st by (cases "fpc s i"; auto simp: func_step_def split: if_splits)+
  have "func_ranks n (fpc u) + func_rank (fpc s i) = func_ranks n (fpc s) + func_rank (fpc u i)"
    using func_ranks_upd [OF i, of "fpc s" "fpc u i"] up(1) by simp
  with up(3) have ranks: "func_ranks n (fpc u) < func_ranks n (fpc s)" by simp
  have "main_rank n (ahead n u) (mpc u) \<le> main_rank n (ahead n s) (mpc s) + 2"
  proof (cases "fpc s i = T_mark")
    case True
    then have "holder s = Thread i" using inv i by (auto simp: join_inv_def)
    then have "\<not> main_holds (mpc s)" using inv by (simp add: join_inv_def)
    moreover have "mpc u = mpc s" using st True by (auto simp: func_step_def)
    ultimately show ?thesis by (cases "mpc s") auto
  next
    case False
    then have "tstate u = tstate s" "mpc u = (if fpc s i = T_signal \<and> mpc s = M_wait then M_woken else mpc s)"
      using st by (cases "fpc s i"; auto simp: func_step_def split: if_splits)+
    moreover from this(1) have "ahead n u = ahead n s" by (simp add: ahead_def fun_eq_iff)
    ultimately show ?thesis by auto
  qed
  with ranks up(2) show ?thesis by (simp add: join_rank_def)
qed

lemma join_rank_main:
  assumes inv: "join_inv n s" and st: "main_step n s = Some u"
  shows "join_rank n u < join_rank n s"
proof (cases "mpc s")
  case (M_create i)
  show ?thesis
  proof (cases "i < n")
    case True
    then have "fpc s i = T_none" using inv M_create by (simp add: join_inv_def)
    with True st M_create func_ranks_upd [OF True, of "fpc s" T_sleep] show ?thesis
      by (auto simp: join_rank_def main_step_def)
  next
    case False
    with st M_create show ?thesis by (auto simp: join_rank_def main_step_def)
  qed
next
  case M_check
  have "ahead n s 0" if "unjoined s \<noteq> 0"
    using inv that howmany_zero [of n "tstate s" "{TS_TERMINATED}"] by (auto simp: join_inv_def ahead_def)
  with st M_check show ?thesis by (auto simp: join_rank_def main_step_def ahead_def split: if_splits)
next
  case (M_scan j)
  show ?thesis
  proof (cases "j < n \<and> tstate s j = TS_TERMINATED")
    case True
    then have "howmany n (tstate s) {TS_ALIVE, TS_TERMINATED} \<noteq> 0" by (auto simp: howmany_zero)
    moreover have "int (howmany n (tstate s) {TS_ALIVE, TS_TERMINATED}) = live s" using inv by (simp add: join_inv_def)
    ultimately obtain l where l: "live s = int (Suc l)" by (metis not0_implies_Suc)
    from True st M_scan have u: "live u = int l" "fpc u = fpc s" "mpc u = M_scan (Suc j)"
      by (auto simp: main_step_def l split: if_splits)
    have "main_rank n (ahead n u) (mpc u) \<le> 2 * n + 20" unfolding u main_rank.simps by auto
    moreover have "(2 * n + 30) * nat (live s) = (2 * n + 30) * nat (live u) + (2 * n + 30)"
      unfolding u(1) l nat_int by simp
    ultimately show ?thesis unfolding join_rank_def u(2) by linarith
  next
    case False
    then have "ahead n s j \<longleftrightarrow> j < n \<and> ahead n s (Suc j)"
      unfolding ahead_def by (metis Suc_leD Suc_leI le_less_trans le_neq_implies_less)
    with False st M_scan show ?thesis
      by (auto simp: join_rank_def main_step_def ahead_def split: if_splits)
  qed
qed (use st in \<open>auto simp: join_rank_def main_step_def ahead_def split: if_splits\<close>)

lemma join_rank_step: "join_inv n s \<Longrightarrow> join_step n a s = Some u \<Longrightarrow> join_rank n u < join_rank n s"
  by (cases a) (auto intro: join_rank_main join_rank_func split: if_splits)

text \<open>The program is an instance of the contracts for interleaved threads: with wakeups without a
  signal it keeps the invariant, and without them every run ends.\<close>

interpretation joining: thread_program "spurious_step n" "join_inv n" "join_init n" for n
  by unfold_locales (auto intro: join_inv_init join_inv_step)

interpretation ending_joins: ending_program "join_step n" "join_inv n" "join_init n" "join_rank n" for n
proof
  fix s a u
  assume inv: "join_inv n s" and st: "join_step n a s = Some u"
  then show "join_inv n u" by (cases a) (auto intro: join_inv_main join_inv_func split: if_splits)
  from inv st show "join_rank n u < join_rank n s" by (rule join_rank_step)
qed (rule join_inv_init)

section \<open>Properties\<close>

lemma states_advance_step:
  assumes inv: "join_inv n s" and st: "spurious_step n a s = Some u"
  shows "tstate s i \<le> tstate u i"
proof -
  have "tstate s j = TS_ALIVE" if "j < n" "mpc s = M_create j \<or> fpc s j = T_mark" for j
    using inv that by (auto simp: join_inv_def)
  then show ?thesis
    using st by (cases a) (auto simp: spurious_step_def main_step_def func_step_def split: if_splits main_pc.splits func_pc.splits)
qed

lemma states_advance:
  "run (spurious_step n) s t \<Longrightarrow> join_inv n s \<Longrightarrow> join_inv n t \<and> tstate s i \<le> tstate t i"
proof (induction rule: run.induct)
  case (more t a u)
  then have "join_inv n t" "tstate s i \<le> tstate t i" by simp_all
  moreover from this have "tstate t i \<le> tstate u i" using more.hyps(2) by (blast intro: states_advance_step)
  ultimately show ?case using more.hyps(2) by (auto intro: join_inv_step)
qed simp

lemma join_done:
  assumes "join_inv n s" "\<And>i. i < n \<Longrightarrow> tstate s i = TS_JOINED"
  shows "distinct (reaped s) \<and> set (reaped s) = {..<n} \<and> unjoined s = 0"
proof -
  have "howmany n (tstate s) {TS_TERMINATED} = 0" using assms(2) by (simp add: howmany_zero)
  with assms show ?thesis by (auto simp: join_inv_def)
qed

text \<open>
  C6. \<open>thread_multijoin\<close> never joins a thread twice and counts correctly, under every
  interleaving and with any number of wakeups without a signal: the threads reported as
  reaped are all different and are exactly those marked as joined; the counter of unjoined
  threads is the number of threads marked as terminated; and when the main thread has left
  its loop it has reaped every thread exactly once. The state of a thread only advances, from
  alive to terminated to joined.
\<close>

theorem multijoin_reaps_once:
  assumes "run (spurious_step n) (join_init n) s"
  shows "distinct (reaped s) \<and> set (reaped s) = {i. i < n \<and> tstate s i = TS_JOINED} \<and>
     unjoined s = int (card {i. i < n \<and> tstate s i = TS_TERMINATED}) \<and>
     (mpc s = M_done \<longrightarrow> set (reaped s) = {..<n}) \<and>
     (\<forall>t i. run (spurious_step n) s t \<longrightarrow> tstate s i \<le> tstate t i)"
proof -
  have inv: "join_inv n s" using assms by (rule joining.reachable)
  have "howmany n (tstate s) {TS_TERMINATED} = card {i. i < n \<and> tstate s i = TS_TERMINATED}"
    by (simp add: howmany_def of_bool_def sum.If_cases Collect_conj_eq lessThan_def Int_commute)
  moreover have "tstate s i = TS_JOINED" if "mpc s = M_done" "i < n" for i
  proof -
    have "howmany n (tstate s) {TS_ALIVE, TS_TERMINATED} = 0" using inv that(1) by (auto simp: join_inv_def)
    with that(2) show ?thesis by (cases "tstate s i") (auto simp: howmany_zero)
  qed
  ultimately show ?thesis
    using inv states_advance [OF _ inv] by (auto simp: join_inv_def)
qed

text \<open>
  C7. \<open>thread_multijoin\<close> ends: without wakeups that have no signal, no run has more than
  \<open>2 n\<^sup>2 + 62 n + 7\<close> steps for \<open>n\<close> threads; and in every state that can be reached, also with
  such wakeups, some thread can go on unless the main thread is done and every thread has
  been reaped. So no signal is lost, and the mutex that the main thread holds while it joins
  cannot block the thread it joins.
\<close>

theorem multijoin_ends:
  assumes "run_list (join_step n) is (join_init n) = Some s" "run (spurious_step n) (join_init n) t"
  shows "length is \<le> 2 * n * n + 62 * n + 7 \<and>
     ((\<forall>a. join_step n a t = None) \<longrightarrow> mpc t = M_done \<and> set (reaped t) = {..<n})"
proof -
  have "length is \<le> join_rank n (join_init n)"
    using ending_joins.bounded_start [OF assms(1)] by simp
  moreover have "join_rank n (join_init n) = 2 * n * n + 62 * n + 7"
    by (simp add: join_rank_def join_init_def func_ranks_def algebra_simps)
  moreover have "join_inv n t" using assms(2) by (rule joining.reachable)
  ultimately show ?thesis
    using join_progress [of n t] join_done [of n t] by auto
qed

text \<open>One thread: the main thread waits before the thread ends.\<close>

definition join_schedule :: "nat list" where
  "join_schedule = [0, 0, 0, 0, 0, 1, 1, 1, 1, 1, 0, 0, 0, 0, 0, 0]"

lemma join_schedule_run:
  obtains s where "run_list (join_step 1) join_schedule (join_init 1) = Some s" "mpc s = M_done" "fpc s 0 = T_end"
  by (simp add: join_schedule_def join_init_def main_step_def func_step_def)

lemma run_spurious: "run_list (join_step n) is s = Some t \<Longrightarrow> \<forall>a \<in> set is. a \<le> n \<Longrightarrow> run (spurious_step n) s t"
proof (induction "is" arbitrary: s)
  case (Cons a "is")
  then obtain u where u: "join_step n a s = Some u" "run (spurious_step n) u t" by (auto split: option.splits)
  moreover have "spurious_step n a s = Some u" using u(1) Cons.prems(2) by (auto simp: spurious_step_def)
  ultimately show ?case by (blast intro: run_trans run.intros)
qed (auto intro: run.refl)

theorem multijoin_reaps_once_witness:
  "\<exists>s. run (spurious_step 1) (join_init 1) s \<and> mpc s = M_done \<and> set (reaped s) = {..<1}"
proof (rule join_schedule_run)
  fix s
  assume s: "run_list (join_step 1) join_schedule (join_init 1) = Some s" "mpc s = M_done"
  have run: "run (spurious_step 1) (join_init 1) s" by (intro run_spurious [OF s(1)]) (simp add: join_schedule_def)
  with multijoin_reaps_once [OF run] s(2) show ?thesis by blast
qed

theorem multijoin_ends_witness:
  "\<exists>s. run (spurious_step 1) (join_init 1) s \<and> length join_schedule \<le> 71 \<and> set (reaped s) = {..<1}"
proof (rule join_schedule_run)
  fix s
  assume s: "run_list (join_step 1) join_schedule (join_init 1) = Some s" "mpc s = M_done" "fpc s 0 = T_end"
  have run: "run (spurious_step 1) (join_init 1) s" by (intro run_spurious [OF s(1)]) (simp add: join_schedule_def)
  have "join_step 1 a s = None" for a using s(2,3) by (cases a) (auto simp: main_step_def func_step_def)
  with multijoin_ends [OF s(1) run] run show ?thesis by auto
qed

end
