(* ===== verification/Posix_Mq.thy ===== *)
theory Posix_Mq
  imports Transfers Servers
begin

text \<open>
  The POSIX message queue programs of \<open>pmsg/\<close>. The answer to \<open>mq_getattr\<close> holds the maximal
  number of messages, the maximal message size and the number of messages; the answer to
  \<open>mq_receive\<close> the message and its priority. A null \<open>attrp\<close> is \<open>None\<close>.
\<close>

section \<open>pmsg/pmsg\_create.c\<close>

record mq_opts =
  mq_oflag :: int
  mq_maxmsg :: int
  mq_msgsize :: int
  mq_attrp :: bool          \<comment> \<open>\<open>attrp\<close> points to \<open>attr\<close>\<close>

definition pmsg_create_printUsage :: "'k os \<Rightarrow> string \<Rightarrow> ('k world, unit) state" where
  "pmsg_create_printUsage K program = do {
     eprintf K (''Usage: '' @ program @ '' [-cx] [-m <max_msgs>] [-s <max_msg_size>] <mq_name> [<octal_perms>]'' @ nl);
     eprintf K (''    -c                - Create queue (O_CREAT)'' @ nl);
     eprintf K (''    -x                - Create exclusively (O_EXCL)'' @ nl);
     eprintf K (''    -m <max_msgs>     - Set max # of msgs'' @ nl);
     eprintf K (''    -s <max_msg_size> - Set max msg size'' @ nl);
     State_Monad.return () }"

definition pmsg_create_opt :: "'k os \<Rightarrow> string \<Rightarrow> getopt_ev \<Rightarrow> mq_opts \<Rightarrow> ('k, mq_opts) cmd" where
  "pmsg_create_opt K prog ev st = (case ev of
     Opt c optarg \<Rightarrow>
       if c = CHR ''c'' then ok (st\<lparr>mq_oflag := mq_oflag st OR O_CREAT\<rparr>)
       else if c = CHR ''x'' then ok (st\<lparr>mq_oflag := mq_oflag st OR O_EXCL\<rparr>)
       else if c = CHR ''m'' then
         bind_res (pmsg_create_getLong K optarg 0) (\<lambda>v. ok (st\<lparr>mq_maxmsg := v, mq_attrp := True\<rparr>))
       else if c = CHR ''s'' then
         bind_res (pmsg_create_getLong K optarg 0) (\<lambda>v. ok (st\<lparr>mq_maxmsg := v, mq_attrp := True\<rparr>))
       else do { pmsg_create_printUsage K prog; halt (Exit EXIT_FAILURE) }
   | _ \<Rightarrow> do {
       eprintf K (getopt_message prog ev);
       pmsg_create_printUsage K prog;
       halt (Exit EXIT_FAILURE) })"

definition pmsg_create_main :: "'k os \<Rightarrow> string list \<Rightarrow> ('k, unit) cmd" where
  "pmsg_create_main K argv = (case getopt ''cxm:s:'' (drop 1 argv) of (evs, operands) \<Rightarrow>
     bind_res (fold_each evs (pmsg_create_opt K (arg argv 0))
         \<lparr>mq_oflag = O_RDWR, mq_maxmsg = 10, mq_msgsize = 2048, mq_attrp = False\<rparr>) (\<lambda>st.
       if operands = []
       then do { pmsg_create_printUsage K (arg argv 0); halt (Exit EXIT_FAILURE) }
       else let mq_name = operands ! 0 in
         bind_res (if length operands \<le> 1 then ok (uint (S_IRUSR OR S_IWUSR))
                   else pmsg_create_getLong K (operands ! 1) 8) (\<lambda>mode. do {
           q \<leftarrow> call K (Ipc (MqOpen mq_name (mq_oflag st) (word_of_int mode)
                  (if mq_attrp st then Some (mq_maxmsg st, mq_msgsize st) else None)));
           if q = -1
           then die K (\<lambda>err. ''Failed to mq_open() '' @ mq_name @ '' - '' @ err @ nl)
           else halt (Exit EXIT_SUCCESS) })))"

section \<open>pmsg/pmsg\_getattr.c\<close>

text \<open>The usage message prints \<open>argv[1]\<close>, not \<open>argv[0]\<close>.\<close>

definition pmsg_getattr_main :: "'k os \<Rightarrow> string list \<Rightarrow> ('k, unit) cmd" where
  "pmsg_getattr_main K argv =
     (if length argv \<noteq> 2 \<or> arg argv 1 = ''-h''
      then usage K (''Usage: '' @ arg argv 1 @ '' <mq_name>'' @ nl)
      else let mqName = arg argv 1 in do {
        mqd \<leftarrow> call K (Ipc (MqOpen mqName O_RDONLY 0 None));
        if mqd = -1
        then die K (\<lambda>err. ''Failed to mq_open() '' @ mqName @ '' - '' @ err @ nl)
        else do {
        attr \<leftarrow> sys K (Ipc (MqGetattr mqd));
        if ret attr = -1
        then die K (\<lambda>err. ''Failed to mq_getattr() '' @ mqName @ '' - '' @ err @ nl)
        else do {
        printf K (''Max # of msgs on queue: '' @ dec (rnum 0 attr) @ nl);
        printf K (''Max msg size:           '' @ dec (rnum 1 attr) @ nl);
        printf K (''# of msgs on queue:     '' @ dec (rnum 2 attr) @ nl);
        c \<leftarrow> call K (Ipc (MqClose mqd));
        if c = -1
        then die K (\<lambda>err. ''Failed to mq_close() '' @ mqName @ '' - '' @ err @ nl)
        else halt (Exit EXIT_SUCCESS) }}})"

section \<open>pmsg/pmsg\_receive.c\<close>

definition pmsg_receive_printUsage :: "'k os \<Rightarrow> string \<Rightarrow> ('k world, unit) state" where
  "pmsg_receive_printUsage K program = do {
     eprintf K (''Usage: '' @ program @ '' [-n] <mq_name>'' @ nl);
     eprintf K (''    -n - Use O_NONBLOCK flag'' @ nl);
     State_Monad.return () }"

text \<open>The result of \<open>getopt\<close> is not stored: with any option on the command line the \<open>switch\<close>
  uses a variable without a value.\<close>

definition pmsg_receive_main :: "'k os \<Rightarrow> string list \<Rightarrow> ('k, unit) cmd" where
  "pmsg_receive_main K argv = (case getopt ''n'' (drop 1 argv) of (evs, operands) \<Rightarrow>
     if evs \<noteq> [] then halt Undef
     else if operands = []
     then do { pmsg_receive_printUsage K (arg argv 0); halt (Exit EXIT_FAILURE) }
     else let mqName = operands ! 0 in do {
       mqd \<leftarrow> call K (Ipc (MqOpen mqName O_RDONLY 0 None));
       if mqd = -1
       then die K (\<lambda>err. ''Failed to mq_open() '' @ mqName @ '' - '' @ err @ nl)
       else do {
       attr \<leftarrow> sys K (Ipc (MqGetattr mqd));
       if ret attr = -1
       then die K (\<lambda>err. ''Failed to mq_getattr() '' @ mqName @ '' - '' @ err @ nl)
       else do {
       buffer \<leftarrow> call K (Proc (Malloc (rnum 1 attr)));
       if buffer = 0
       then die K (\<lambda>err. ''Failed to malloc() '' @ dec (rnum 1 attr) @ '' bytes for msg buffer - '' @ err @ nl)
       else do {
       r \<leftarrow> sys K (Ipc (MqReceive mqd (rnum 1 attr)));
       if ret r = -1
       then die K (\<lambda>err. ''Failed to mq_receive() from '' @ mqName @ '' - '' @ err @ nl)
       else do {
       printf K (''Read '' @ dec (ret r) @ '' bytes; priority = '' @ dec (c_uint (rnum 0 r)) @ nl);
       n \<leftarrow> call K (File (Write STDOUT_FILENO (take (nat (ret r)) (rdata r))));
       if n = -1
       then die K (\<lambda>err. ''Failed to write() '' @ dec (ret r) @ '' bytes - '' @ err @ nl)
       else do {
       call K (File (Write STDOUT_FILENO nl));
       sys K (Proc (Free buffer));
       c \<leftarrow> call K (Ipc (MqClose mqd));
       if c = -1
       then die K (\<lambda>err. ''Failed to mq_close() '' @ mqName @ '' - '' @ err @ nl)
       else halt (Exit EXIT_SUCCESS) }}}}}})"

section \<open>pmsg/pmsg\_send.c\<close>

definition pmsg_send_printUsage :: "'k os \<Rightarrow> string \<Rightarrow> ('k world, unit) state" where
  "pmsg_send_printUsage K program = do {
     eprintf K (''Usage: '' @ program @ '' [-n] <mq_name> <msg> [<priority>]'' @ nl);
     eprintf K (''    -n - Use O_NONBLOCK flag'' @ nl);
     State_Monad.return () }"

definition pmsg_send_opt :: "'k os \<Rightarrow> string \<Rightarrow> getopt_ev \<Rightarrow> int \<Rightarrow> ('k, int) cmd" where
  "pmsg_send_opt K prog ev oflag = (case ev of
     Opt c optarg \<Rightarrow>
       if c = CHR ''n'' then ok (oflag OR O_NONBLOCK)
       else do { pmsg_send_printUsage K prog; halt (Exit EXIT_FAILURE) }
   | _ \<Rightarrow> do {
       eprintf K (getopt_message prog ev);
       pmsg_send_printUsage K prog;
       halt (Exit EXIT_FAILURE) })"

definition pmsg_send_main :: "'k os \<Rightarrow> string list \<Rightarrow> ('k, unit) cmd" where
  "pmsg_send_main K argv = (case getopt ''n'' (drop 1 argv) of (evs, operands) \<Rightarrow>
     bind_res (fold_each evs (pmsg_send_opt K (arg argv 0)) O_WRONLY) (\<lambda>oflag.
       if length operands \<le> 1
       then do { pmsg_send_printUsage K (arg argv 0); halt (Exit EXIT_FAILURE) }
       else let mqName = operands ! 0; msg = operands ! 1 in do {
         mqd \<leftarrow> call K (Ipc (MqOpen mqName oflag 0 None));
         if mqd = -1
         then die K (\<lambda>err. ''Failed to mq_open() '' @ mqName @ '' - '' @ err @ nl)
         else bind_res (if 2 < length operands then pmsg_send_getUnsignedLong K (operands ! 2) else ok 0) (\<lambda>priority. do {
           s \<leftarrow> call K (Ipc (MqSend mqd msg (c_uint priority)));
           if s = -1
           then die K (\<lambda>err. ''Failed to mq_send() '' @ msg @ '' - '' @ err @ nl)
           else halt (Exit EXIT_SUCCESS) }) }))"

section \<open>pmsg/pmsg\_unlink.c\<close>

definition pmsg_unlink_main :: "'k os \<Rightarrow> string list \<Rightarrow> ('k, unit) cmd" where
  "pmsg_unlink_main K argv =
     (if length argv \<noteq> 2 \<or> arg argv 1 = ''-h''
      then usage K (''Usage: '' @ arg argv 0 @ '' <mq_name>'' @ nl)
      else do {
        u \<leftarrow> call K (Ipc (MqUnlink (arg argv 1)));
        if u = -1
        then die K (\<lambda>err. ''Failed to mq_unlink() '' @ arg argv 1 @ '' - '' @ err @ nl)
        else halt (Exit EXIT_SUCCESS) })"

section \<open>pmsg/mq\_notify\_sig.c and pmsg/mq\_notify\_thread.c\<close>

definition NOTIFY_SIG :: int where "NOTIFY_SIG = SIGUSR1"
definition SIGEV_SIGNAL :: int where "SIGEV_SIGNAL = 0"
definition SIGEV_THREAD :: int where "SIGEV_THREAD = 2"

text \<open>The loop that both programs use to empty the queue: print every message and a newline.
  \<open>text\<close> is the beginning of the message for a failed write.\<close>

primrec mq_drain :: "nat \<Rightarrow> string \<Rightarrow> 'k os \<Rightarrow> int \<Rightarrow> int \<Rightarrow> ('k, unit) cmd" where
  "mq_drain 0 msg K mqd msgsize = halt Hang"
| "mq_drain (Suc fuel) msg K mqd msgsize = do {
     r \<leftarrow> sys K (Ipc (MqReceive mqd msgsize));
     if ret r \<noteq> -1
     then do {
       n \<leftarrow> call K (File (Write STDOUT_FILENO (take (nat (ret r)) (rdata r))));
       if n \<noteq> ret r
       then die K (\<lambda>err. msg @ dec (ret r) @ '' bytes - '' @ err @ nl)
       else do {
         call K (File (Write STDOUT_FILENO nl));
         mq_drain fuel msg K mqd msgsize }}
     else ok () }"

text \<open>One iteration of the endless loop of \<open>mq_notify_sig\<close>: wait, register again, empty the queue.\<close>

definition notify_sig_serve :: "nat \<Rightarrow> 'k os \<Rightarrow> int \<Rightarrow> int \<Rightarrow> ('k, unit) cmd" where
  "notify_sig_serve fuel K mqd msgsize = do {
     s \<leftarrow> call K (Proc Sigsuspend);
     e \<leftarrow> get_errno;
     if s = -1 \<and> e \<noteq> EINTR
     then die K (\<lambda>err. ''sigsuspend() failed - '' @ err @ nl)
     else do {
     s \<leftarrow> call K (Ipc (MqNotify mqd SIGEV_SIGNAL));
     if s = -1
     then die K (\<lambda>err. ''mq_notify() failed - '' @ err @ nl)
     else bind_res (mq_drain fuel ''Failed to write '' K mqd msgsize) (\<lambda>_. do {
       e \<leftarrow> get_errno;
       if e \<noteq> EAGAIN
       then die K (\<lambda>err. ''mq_receive() failed - '' @ err @ nl)
       else ok () }) }}"

definition mq_notify_sig_main :: "nat \<Rightarrow> 'k os \<Rightarrow> string list \<Rightarrow> ('k, unit) cmd" where
  "mq_notify_sig_main fuel K argv =
     (if length argv \<noteq> 2 \<or> arg argv 1 = ''-h''
      then usage K (''Usage: '' @ arg argv 0 @ '' <mq_name>'' @ nl)
      else let mqName = arg argv 1 in do {
        mqd \<leftarrow> call K (Ipc (MqOpen mqName (O_RDONLY OR O_NONBLOCK) 0 None));
        if mqd = -1
        then die K (\<lambda>err. ''Failed to mq_open() '' @ mqName @ '' - '' @ err @ nl)
        else do {
        attr \<leftarrow> sys K (Ipc (MqGetattr mqd));
        if ret attr = -1
        then die K (\<lambda>err. ''Failed to mq_getattr() '' @ mqName @ '' - '' @ err @ nl)
        else do {
        buffer \<leftarrow> call K (Proc (Malloc (rnum 1 attr)));
        if buffer = 0
        then die K (\<lambda>err. ''Failed to malloc() '' @ dec (rnum 1 attr) @ '' bytes for msg buffer - '' @ err @ nl)
        else do {
        s \<leftarrow> call K (Proc Sigemptyset);
        if s = -1
        then die K (\<lambda>err. ''Failed to sigemptyset() block mask - '' @ err @ nl)
        else do {
        s \<leftarrow> call K (Sig (Sigaddset NOTIFY_SIG));
        if s = -1
        then die K (\<lambda>err. ''Failed to sigaddset() block mask - '' @ err @ nl)
        else do {
        s \<leftarrow> call K (Proc (Sigprocmask SIG_BLOCK (Some (push_bit (nat (NOTIFY_SIG - 1)) 1))));
        if s = -1
        then die K (\<lambda>err. ''Failed to sigprocmask() block mask - '' @ err @ nl)
        else do {
        s \<leftarrow> call K (Proc Sigemptyset);
        if s = -1
        then die K (\<lambda>err. ''Failed to sigemptyset() notification handler mask - '' @ err @ nl)
        else do {
        s \<leftarrow> call K (Proc (Sigaction NOTIFY_SIG SIG_HANDLER 0));
        if s = -1
        then die K (\<lambda>err. ''Failed to set sigaction() for notification signal - '' @ err @ nl)
        else do {
        s \<leftarrow> call K (Ipc (MqNotify mqd SIGEV_SIGNAL));
        if s = -1
        then die K (\<lambda>err. ''mq_notify() failed - '' @ err @ nl)
        else do {
        s \<leftarrow> call K (Proc Sigemptyset);
        if s = -1
        then die K (\<lambda>err. ''Failed to sigemptyset() suspend mask - '' @ err @ nl)
        else forever fuel (\<lambda>_. notify_sig_serve fuel K mqd (rnum 1 attr)) () }}}}}}}}}})"

definition notifySetup :: "'k os \<Rightarrow> int \<Rightarrow> ('k, unit) cmd" where
  "notifySetup K mqd = do {
     s \<leftarrow> call K (Ipc (MqNotify mqd SIGEV_THREAD));
     if s = -1 then die K (\<lambda>err. ''mq_notify() failed - '' @ err @ nl) else ok () }"

definition notify_threadFunc :: "nat \<Rightarrow> 'k os \<Rightarrow> int \<Rightarrow> ('k, unit) cmd" where
  "notify_threadFunc fuel K mqd = do {
     attr \<leftarrow> sys K (Ipc (MqGetattr mqd));
     if ret attr = -1
     then die K (\<lambda>err. ''mq_getattr() failed - '' @ err @ nl)
     else do {
     buffer \<leftarrow> call K (Proc (Malloc (rnum 1 attr)));
     if buffer = 0
     then die K (\<lambda>err. ''Failed to malloc() '' @ dec (rnum 1 attr) @ '' bytes - '' @ err @ nl)
     else bind_res (notifySetup K mqd) (\<lambda>_.
       bind_res (mq_drain fuel ''Failed to write() '' K mqd (rnum 1 attr)) (\<lambda>_. do {
         e \<leftarrow> get_errno;
         if e \<noteq> EAGAIN
         then die K (\<lambda>err. ''mq_receive() failed - '' @ err @ nl)
         else do { sys K (Proc (Free buffer)); ok () } })) }}"

definition mq_notify_thread_main :: "'k os \<Rightarrow> string list \<Rightarrow> ('k, unit) cmd" where
  "mq_notify_thread_main K argv =
     (if length argv \<noteq> 2 \<or> arg argv 1 = ''-h''
      then usage K (''Usage '' @ arg argv 0 @ '' <mq_name>'' @ nl)
      else let mqName = arg argv 1 in do {
        mqd \<leftarrow> call K (Ipc (MqOpen mqName (O_RDONLY OR O_NONBLOCK) 0 None));
        if mqd = -1
        then die K (\<lambda>err. ''Failed to mq_open() '' @ mqName @ '' - '' @ err @ nl)
        else bind_res (notifySetup K mqd) (\<lambda>_. do {
          call K (Sig Pause);
          halt (Exit EXIT_SUCCESS) }) })"

section \<open>Messages and registrations in a trace\<close>

fun ev_mq_received :: "event \<Rightarrow> string list" where
  "ev_mq_received (Ipc (MqReceive q n), r) = (if ret r \<noteq> -1 then [take (nat (ret r)) (rdata r)] else [])"
| "ev_mq_received e = []"

definition mq_received :: "event list \<Rightarrow> string list" where
  "mq_received tr = concat (map ev_mq_received tr)"

text \<open>Whether the process is registered for the next notification: it is after \<open>mq_notify\<close>, and
  no longer after it was woken up.\<close>

fun registers :: "bool \<Rightarrow> event \<Rightarrow> bool" where
  "registers a (Ipc (MqNotify q k), r) = True"
| "registers a (Proc Sigsuspend, r) = False"
| "registers a e = a"

fun is_receive :: "event \<Rightarrow> bool" where
  "is_receive (Ipc (MqReceive q n), r) = True"
| "is_receive e = False"

primrec registered :: "bool \<Rightarrow> event list \<Rightarrow> bool" where
  "registered a [] = True"
| "registered a (e # tr) \<longleftrightarrow> (is_receive e \<longrightarrow> a) \<and> registered (registers a e) tr"

lemma mq_trace_simps [simp]:
  "mq_received [] = []" "mq_received (e # tr) = ev_mq_received e @ mq_received tr"
  "mq_received (tr @ tr') = mq_received tr @ mq_received tr'"
  by (simp_all add: mq_received_def)

lemma registered_append [simp]: "registered a (tr @ tr') \<longleftrightarrow> registered a tr \<and> registered (foldl registers a tr) tr'"
  by (induction tr arbitrary: a) auto

text \<open>Every message received so far has been written, with a newline.\<close>

definition relayed :: "event list \<Rightarrow> bool" where
  "relayed d \<longleftrightarrow> written STDOUT_FILENO d = concat (map (\<lambda>m. m @ nl) (mq_received d))"

section \<open>Properties\<close>

lemma wp_write_all:
  assumes "takes_all K fd"
    and "\<And>r w'. ret r = int (length bs) \<Longrightarrow> trace w' = trace w @ [(File (Write fd bs), r)] \<Longrightarrow> Q (int (length bs)) w'"
  shows "wp (call K (File (Write fd bs))) Q w"
proof (rule wp_call_step)
  fix r and w' :: "'a world"
  assume st: "step K (kern w) (File (Write fd bs)) = (kern w', r)" and af: "after (File (Write fd bs), r) w w'"
  from takes_allD [OF assms(1) st] assms(2) [of r w'] af show "Q (ret r) w'" by simp
qed

lemma wp_mq_drain:
  assumes "posix K" "takes_all K STDOUT_FILENO"
  shows "wp (mq_drain fuel msg K q n) (\<lambda>r w'. (r = Ok () \<or> r = Hang) \<and>
     (\<exists>d. trace w' = trace w @ d \<and> relayed d \<and> registered True d \<and> foldl registers True d)) w"
proof (induction fuel arbitrary: w)
  case 0
  show ?case by (simp add: relayed_def)
next
  case (Suc fuel)
  show ?case
    unfolding mq_drain.simps wp_bind
  proof (rule wp_tr(1) [OF assms(1)])
    fix r and w1 :: "'a world"
    assume r: "ret_ok (Ipc (MqReceive q n)) r" "trace w1 = trace w @ [(Ipc (MqReceive q n), r)]"
    then show "wp (if ret r \<noteq> -1 then call K (File (Write STDOUT_FILENO (take (nat (ret r)) (rdata r)))) \<bind>
         (\<lambda>n'. if n' \<noteq> ret r then die K (\<lambda>err. msg @ dec (ret r) @ '' bytes - '' @ err @ nl)
           else call K (File (Write STDOUT_FILENO nl)) \<bind> (\<lambda>_. mq_drain fuel msg K q n)) else ok ())
       (\<lambda>r w'. (r = Ok () \<or> r = Hang) \<and> (\<exists>d. trace w' = trace w @ d \<and> relayed d \<and> registered True d \<and> foldl registers True d)) w1"
      by (auto simp: transfer_ok_def relayed_def intro!: wp_write_all [OF assms(2)] wp_mono [OF Suc.IH])
  qed
qed

text \<open>
  C26. \<open>mq_notify_sig\<close> relays the queue: if standard output takes what it is given, then after
  any number of iterations, and when the program ends with an error, it has written every
  message it has received, each followed by a newline, in order; and it never receives from
  the queue without having registered for the next notification since it was last woken up,
  so that a message that arrives while it empties the queue is not missed.
\<close>

theorem mq_notify_sig_relays:
  assumes "posix K" "takes_all K STDOUT_FILENO"
  shows "wp (mq_notify_sig_main fuel K argv) (\<lambda>r w'. (r = Exit 1 \<or> r = Hang) \<and>
     (\<exists>d. trace w' = trace w @ d \<and> relayed d \<and> registered False d)) w"
proof -
  have serve: "wp (notify_sig_serve fuel K q n) (\<lambda>r w'. (r = Ok () \<or> r = Exit 1 \<or> r = Hang) \<and>
      (\<exists>d. trace w' = trace w1 @ d \<and> relayed d \<and> (\<forall>a. registered a d))) w1" for fuel q n and w1 :: "'a world"
    unfolding notify_sig_serve_def using assms(1)
    by (auto intro!: wp_tr wp_mono [OF wp_mq_drain [OF assms]] simp: relayed_def)
  have loop: "wp (forever m (\<lambda>_. notify_sig_serve fuel K q n) () :: ('a, unit) cmd) (\<lambda>r w'. (r = Exit 1 \<or> r = Hang) \<and>
      (\<exists>d. trace w' = trace w1 @ d \<and> relayed d \<and> registered a d)) w1" for m fuel q n a and w1 :: "'a world"
  proof (rule wp_forever_and_then [where I = "\<lambda>_ w'. \<exists>d. trace w' = trace w1 @ d \<and> relayed d \<and> registered a d"])
    fix x and w2 :: "'a world"
    assume "\<exists>d. trace w2 = trace w1 @ d \<and> relayed d \<and> registered a d"
    then show "wp (notify_sig_serve fuel K q n)
        (and_then (\<lambda>_ w'. \<exists>d. trace w' = trace w1 @ d \<and> relayed d \<and> registered a d)
          (\<lambda>r w'. (r = Exit 1 \<or> r = Hang) \<and> (\<exists>d. trace w' = trace w1 @ d \<and> relayed d \<and> registered a d))) w2"
      by (auto intro!: wp_mono [OF serve] simp: relayed_def)
  qed (auto simp: relayed_def)
  show ?thesis
    unfolding mq_notify_sig_main_def using assms(1)
    by (auto intro!: wp_tr wp_mono [OF loop] simp: Let_def relayed_def)
qed

text \<open>A queue with some messages, for messages of at most 20 bytes.\<close>

fun queue_step :: "string list \<Rightarrow> syscall \<Rightarrow> string list \<times> sysret" where
  "queue_step k (File (Write fd bs)) = (k, returns (int (length bs)))"
| "queue_step k (Ipc (MqReceive q n)) = (case k of
     [] \<Rightarrow> (k, fails_with EAGAIN)
   | m # ms \<Rightarrow> if length m \<le> nat n then (ms, gives m) else (k, fails_with 90))"
| "queue_step k (Ipc (MqGetattr q)) = (k, (returns 0)\<lparr>rnums := [10, 20, int (length k)]\<rparr>)"
| "queue_step k (Proc (Malloc n)) = (k, returns 4096)"
| "queue_step k c = (k, returns 0)"

definition queue_os :: "string list os" where
  "queue_os = \<lparr>step = queue_step, strerror = (\<lambda>e. ''error ''), strsignal = (\<lambda>s. ''signal ''),
               gai_strerror = (\<lambda>s. ''error '')\<rparr>"

lemma queue_posix: "posix queue_os"
proof -
  have "ret_ok c (snd (queue_step k c))" for k c
    by (rule queue_step.cases [of "(k, c)"])
       (auto simp: gives_def returns_def fails_with_def reply0_def transfer_ok_def count_ok_def ok_zero split: list.splits)
  then show ?thesis by (simp add: posix_def queue_os_def)
qed

lemma queue_takes_all: "takes_all queue_os fd"
  by (simp add: takes_all_def queue_os_def returns_def reply0_def)

theorem mq_notify_sig_relays_witness:
  "mq_received (trace (snd (run_state (mq_notify_sig_main 3 queue_os [''mq'', ''/q'']) (start [''hello'', ''world''])))) =
     [''hello'', ''world''] \<and>
   written 1 (trace (snd (run_state (mq_notify_sig_main 3 queue_os [''mq'', ''/q'']) (start [''hello'', ''world''])))) =
     ''hello'' @ nl @ ''world'' @ nl"
proof -
  let ?run = "run_state (mq_notify_sig_main 3 queue_os [''mq'', ''/q'']) (start [''hello'', ''world''])"
  have st: "step queue_os = queue_step" by (simp add: queue_os_def)
  have "mq_received (trace (snd ?run)) = [''hello'', ''world'']"
    by (simp add: mq_notify_sig_main_def notify_sig_serve_def run_calls st Let_def start_def arg_def numeral_3_eq_3
        reply0_def returns_def gives_def fails_with_def rnum_def EAGAIN_def EINTR_def)
  then show ?thesis
    using mq_notify_sig_relays [OF queue_posix queue_takes_all, of 3 "[''mq'', ''/q'']" "start [''hello'', ''world'']", THEN wp_run]
    by (auto simp: start_def relayed_def)
qed

text \<open>
  The option \<open>-s\<close> of \<open>pmsg_create\<close> sets the maximal number of messages, not the maximal
  message size: a queue created with \<open>-s n\<close> is opened with \<open>n\<close> as its number of messages
  and with the default size of 2048 bytes.
\<close>

theorem pmsg_create_size_sets_maxmsg:
  assumes "posix K" "LONG_MIN \<le> n" "n \<le> LONG_MAX"
  shows "wp (pmsg_create_main K [prog, ''-c'', ''-s'', dec n, ''/'' @ name]) (\<lambda>r w'. (r = Exit 0 \<or> r = Exit 1) \<and>
     (\<exists>d x m. trace w' = trace w @ d \<and> (Ipc (MqOpen (''/'' @ name) (O_RDWR OR O_CREAT) m (Some (n, 2048))), x) \<in> set d)) w"
proof -
  have num: "wp (pmsg_create_getLong K (dec n) 0) (\<lambda>r w'. r = Ok n \<and> quiet w1 w') w1" for w1
    using assms(2,3) by (rule pmsg_create_getLong.accepts)
  show ?thesis
    unfolding pmsg_create_main_def using assms(1)
    by (auto simp: pmsg_create_opt_def Let_def intro!: wp_tr wp_mono [OF num])
qed

theorem pmsg_create_size_sets_maxmsg_witness:
  "\<exists>d x m. trace (snd (run_state (pmsg_create_main script_os [''pmsg_create'', ''-c'', ''-s'', ''512'', ''/q'']) (start [returns 42, returns 3]))) = d \<and>
     (Ipc (MqOpen ''/q'' (O_RDWR OR O_CREAT) m (Some (512, 2048))), x) \<in> set d"
proof -
  have args: "[''pmsg_create'', ''-c'', ''-s'', dec 512, ''/'' @ ''q''] = [''pmsg_create'', ''-c'', ''-s'', ''512'', ''/q'']"
    by code_simp
  show ?thesis
    using pmsg_create_size_sets_maxmsg [OF script_posix, of 512 "''pmsg_create''" "''q''" "start [returns 42, returns 3]",
        unfolded args, THEN wp_run]
    by (auto simp: start_def LONG_MIN_def LONG_MAX_def)
qed

end
