(* ===== verification/Mapped_Memory.thy ===== *)
theory Mapped_Memory
  imports Num_Args
begin

text \<open>
  The programs that reach a file or a shared memory object through a memory mapping:
  \<open>mmap/mmcat.c\<close>, \<open>mmap/t_mmap.c\<close>, \<open>mmap/anon_mmap.c\<close> and the POSIX shared memory tools of
  \<open>pshm/\<close>. Reading and writing the mapped bytes are the calls \<open>Load\<close> and \<open>Store\<close>, because other
  processes see them; \<open>MAP_FAILED\<close> is -1.
\<close>

definition PROT_READ :: int where "PROT_READ = 1"
definition PROT_WRITE :: int where "PROT_WRITE = 2"
definition MAP_SHARED :: int where "MAP_SHARED = 1"
definition MAP_PRIVATE :: int where "MAP_PRIVATE = 2"
definition MAP_ANONYMOUS :: int where "MAP_ANONYMOUS = 32"
definition MS_SYNC :: int where "MS_SYNC = 4"

abbreviation (input) MAP_FAILED :: int where "MAP_FAILED \<equiv> -1"

text \<open>\<open>open\<close> with two arguments, \<open>fstat\<close> and \<open>mmap\<close> of the whole file, \<open>close\<close>: what \<open>mmcat\<close>,
  \<open>t_mmap\<close> and \<open>pshm_read\<close> do first. The result is the address and the size.\<close>

definition map_whole :: "'k os \<Rightarrow> syscall \<Rightarrow> string \<Rightarrow> int \<Rightarrow> int \<Rightarrow> string \<Rightarrow> ('k, int \<times> int) cmd" where
  "map_whole K opening opener prot flags name = do {
     fd \<leftarrow> call K opening;
     if fd = -1
     then die K (\<lambda>err. ''Failed to '' @ opener @ '' '' @ name @ '' - '' @ err @ nl)
     else do {
     statbuf \<leftarrow> sys K (File (Fstat fd));
     if ret statbuf = -1
     then die K (\<lambda>err. ''Failed to fstat() '' @ name @ '' - '' @ err @ nl)
     else do {
     addr \<leftarrow> call K (File (Mmap (st_size (rstat statbuf)) prot flags fd));
     if addr = MAP_FAILED
     then die K (\<lambda>err. ''Failed to mmap() '' @ name @ '' - '' @ err @ nl)
     else do {
     c \<leftarrow> call K (File (Close fd));
     if c = -1
     then die K (\<lambda>err. ''Failed to close() '' @ name @ '' - '' @ err @ nl)
     else ok (addr, st_size (rstat statbuf)) }}}}"

section \<open>mmap/mmcat.c\<close>

definition mmcat_main :: "'k os \<Rightarrow> string list \<Rightarrow> ('k, unit) cmd" where
  "mmcat_main K argv =
     (if length argv \<noteq> 2 \<or> arg argv 1 = ''-h''
      then usage K (''Usage: '' @ arg argv 0 @ '' <pathname>'' @ nl)
      else let pathname = arg argv 1 in
        bind_res (map_whole K (File (Open pathname O_RDONLY 0)) ''open()'' PROT_READ MAP_PRIVATE pathname) (\<lambda>(addr, len). do {
          bs \<leftarrow> load_bytes K addr 0 (nat len);
          n \<leftarrow> call K (File (Write STDOUT_FILENO bs));
          if n \<noteq> len
          then die K (\<lambda>err. ''Failed to write() - '' @ err @ nl)
          else do {
          m \<leftarrow> call K (File (Munmap addr len));
          if m = -1
          then die K (\<lambda>err. ''Failed to munmap() '' @ pathname @ '' - '' @ err @ nl)
          else halt (Exit EXIT_SUCCESS) }}))"

section \<open>mmap/t_mmap.c\<close>

text \<open>\<open>printf("%.*s", (int) size, addr)\<close> reads the mapped bytes up to the first NUL, at most
  \<open>(int) size\<close>; a negative precision counts as none, and then a NUL must follow.\<close>

definition print_mapped :: "'k os \<Rightarrow> string \<Rightarrow> int \<Rightarrow> int \<Rightarrow> ('k, unit) cmd" where
  "print_mapped K prefix addr len =
     (if 0 \<le> c_int len
      then do { bs \<leftarrow> load_bytes K addr 0 (nat (c_int len)); printf K (prefix @ cstr bs @ nl); ok () }
      else do {
        bs \<leftarrow> load_bytes K addr 0 (nat len);
        if NUL \<in> set bs then do { printf K (prefix @ cstr bs @ nl); ok () } else halt Undef })"

definition t_mmap_replace :: "'k os \<Rightarrow> string \<Rightarrow> int \<Rightarrow> int \<Rightarrow> string \<Rightarrow> ('k, unit) cmd" where
  "t_mmap_replace K pathname addr len newValue =
     (if len \<le> 0 then halt Undef
      else do {
        sys K (File (Store addr 0 (replicate (nat len) NUL)));
        sys K (File (Store addr 0 (strncpy [] newValue (nat (len - 1)))));
        m \<leftarrow> call K (File (Msync addr len MS_SYNC));
        if m = -1
        then die K (\<lambda>err. ''Failed to msync() '' @ pathname @ '' - '' @ err @ nl)
        else do {
        printf K (''Copied '' @ dq @ newValue @ dq @ '' to shared memory'' @ nl);
        ok () }})"

definition t_mmap_main :: "'k os \<Rightarrow> string list \<Rightarrow> ('k, unit) cmd" where
  "t_mmap_main K argv =
     (if length argv < 2 \<or> arg argv 1 = ''-h''
      then usage K (''Usage: '' @ arg argv 0 @ '' <pathname> [<new-value>]'' @ nl)
      else let pathname = arg argv 1 in
        bind_res (map_whole K (File (Open pathname O_RDWR 0)) ''open()'' (PROT_READ OR PROT_WRITE) MAP_SHARED pathname) (\<lambda>(addr, len).
          bind_res (print_mapped K ''Current string='' addr len) (\<lambda>_.
            bind_res (if 2 < length argv then t_mmap_replace K pathname addr len (arg argv 2) else ok ()) (\<lambda>_. do {
              m \<leftarrow> call K (File (Munmap addr len));
              if m = -1
              then die K (\<lambda>err. ''Failed to munmap() '' @ pathname @ '' - '' @ err @ nl)
              else halt (Exit EXIT_SUCCESS) }))))"

section \<open>mmap/anon_mmap.c\<close>

text \<open>\<open>addr\<close> is a \<open>char *\<close>: one byte is shared.\<close>

definition load_char :: "'k os \<Rightarrow> int \<Rightarrow> ('k world, int) state" where
  "load_char K addr = do { bs \<leftarrow> load_bytes K addr 0 1; State_Monad.return (char_value (bs ! 0)) }"

definition store_char :: "'k os \<Rightarrow> int \<Rightarrow> int \<Rightarrow> ('k world, sysret) state" where
  "store_char K addr v = sys K (File (Store addr 0 [chr (nat (v mod 256))]))"

definition anon_mmap_child :: "'k os \<Rightarrow> int \<Rightarrow> ('k, unit) cmd" where
  "anon_mmap_child K addr = do {
     v \<leftarrow> load_char K addr;
     printf K (''Child started, value = '' @ dec v @ nl);
     v \<leftarrow> load_char K addr;
     store_char K addr (v + 1);
     m \<leftarrow> call K (File (Munmap addr 4));
     if m = -1
     then do { e \<leftarrow> get_errno; eprintf K (''Failed to munmap() - '' @ strerror K e @ nl); halt (ExitNow EXIT_FAILURE) }
     else halt (ExitNow EXIT_SUCCESS) }"

definition anon_mmap_parent :: "'k os \<Rightarrow> int \<Rightarrow> ('k, unit) cmd" where
  "anon_mmap_parent K addr = do {
     x \<leftarrow> call K (Proc Wait);
     if x = -1
     then die K (\<lambda>err. ''Failed to wait() on child process - '' @ err @ nl)
     else do {
     v \<leftarrow> load_char K addr;
     printf K (''In parent, value = '' @ dec v @ nl);
     m \<leftarrow> call K (File (Munmap addr 4));
     if m = -1
     then do { e \<leftarrow> get_errno; eprintf K (''Failed to munmap() - '' @ strerror K e @ nl); halt (ExitNow EXIT_FAILURE) }
     else halt (Exit EXIT_SUCCESS) }}"

definition anon_mmap_main :: "'k os \<Rightarrow> string list \<Rightarrow> ('k, unit) cmd" where
  "anon_mmap_main K argv = do {
     addr \<leftarrow> call K (File (Mmap 4 (PROT_READ OR PROT_WRITE) (MAP_SHARED OR MAP_ANONYMOUS) (-1)));
     if addr = MAP_FAILED
     then die K (\<lambda>err. ''Anonymous mmap() failed - '' @ err @ nl)
     else do {
     store_char K addr 1;
     p \<leftarrow> call K (Proc Fork);
     if p = -1
     then die K (\<lambda>err. ''Failed to fork() child process - '' @ err @ nl)
     else if p = 0 then anon_mmap_child K addr
     else anon_mmap_parent K addr }}"

section \<open>pshm/pshm\_create.c\<close>

definition pshm_create_printUsage :: "'k os \<Rightarrow> string \<Rightarrow> ('k world, unit) state" where
  "pshm_create_printUsage K program = do {
     eprintf K (''Usage: '' @ program @ '' [-cx] <shm_name> [<size>] [<octal_perms>]'' @ nl);
     eprintf K (''    -c - Create shared memory (O_CREAT)'' @ nl);
     eprintf K (''    -x - Create exclusively (O_EXCL)'' @ nl);
     State_Monad.return () }"

definition pshm_create_opt :: "'k os \<Rightarrow> string \<Rightarrow> getopt_ev \<Rightarrow> int \<Rightarrow> ('k, int) cmd" where
  "pshm_create_opt K prog ev oflag = (case ev of
     Opt c optarg \<Rightarrow>
       if c = CHR ''c'' then ok (oflag OR O_CREAT)
       else if c = CHR ''x'' then ok (oflag OR O_EXCL)
       else do { pshm_create_printUsage K prog; halt (Exit EXIT_FAILURE) }
   | _ \<Rightarrow> do {
       eprintf K (getopt_message prog ev);
       pshm_create_printUsage K prog;
       halt (Exit EXIT_FAILURE) })"

definition pshm_create_main :: "'k os \<Rightarrow> string list \<Rightarrow> ('k, unit) cmd" where
  "pshm_create_main K argv = (case getopt ''cx'' (drop 1 argv) of (evs, operands) \<Rightarrow>
     bind_res (fold_each evs (pshm_create_opt K (arg argv 0)) O_RDWR) (\<lambda>oflag.
       if operands = []
       then do { pshm_create_printUsage K (arg argv 0); halt (Exit EXIT_FAILURE) }
       else let shmName = operands ! 0 in
         bind_res (if length operands \<le> 2 then ok (uint (S_IRUSR OR S_IWUSR))
                   else pshm_create_getUnsignedLong K (operands ! 2) 8) (\<lambda>mode. do {
           shmFd \<leftarrow> call K (Ipc (ShmOpen shmName oflag (word_of_int mode)));
           if shmFd = -1
           then die K (\<lambda>err. ''Failed to shm_open() '' @ shmName @ '' - '' @ err @ nl)
           else bind_res (if length operands \<le> 1 then ok 0 else pshm_create_getUnsignedLong K (operands ! 1) 0) (\<lambda>len. do {
             t \<leftarrow> call K (File (Ftruncate shmFd (c_long len)));
             if t = -1
             then die K (\<lambda>err. ''Failed to ftruncate() '' @ shmName @ '' to '' @ dec len @ '' bytes - '' @ err @ nl)
             else halt (Exit EXIT_SUCCESS) }) })))"

section \<open>pshm/pshm\_write.c, pshm/pshm\_read.c, pshm/pshm\_unlink.c\<close>

definition pshm_write_main :: "'k os \<Rightarrow> string list \<Rightarrow> ('k, unit) cmd" where
  "pshm_write_main K argv =
     (if length argv \<noteq> 3 \<or> arg argv 1 = ''-h''
      then usage K (''Usage: '' @ arg argv 0 @ '' <shm_name> <msg>'' @ nl)
      else let shmName = arg argv 1 in do {
        shmFd \<leftarrow> call K (Ipc (ShmOpen shmName O_RDWR 0));
        if shmFd = -1
        then die K (\<lambda>err. ''Failed to shm_open() '' @ shmName @ '' - '' @ err)
        else let msg = arg argv 2; msgLength = int (length msg) in do {
        t \<leftarrow> call K (File (Ftruncate shmFd (c_long msgLength)));
        if t = -1
        then die K (\<lambda>err. ''Failed to ftruncate() '' @ shmName @ '' to '' @ dec (c_long msgLength) @ '' bytes - '' @ err)
        else do {
        printf K (''Resized '' @ shmName @ '' to '' @ dec (c_long msgLength) @ '' bytes'' @ nl);
        addr \<leftarrow> call K (File (Mmap msgLength (PROT_READ OR PROT_WRITE) MAP_SHARED shmFd));
        if addr = MAP_FAILED
        then die K (\<lambda>err. ''Failed to mmap() '' @ shmName @ '' - '' @ err @ nl)
        else do {
        c \<leftarrow> call K (File (Close shmFd));
        if c = -1
        then die K (\<lambda>err. ''Failed to close() '' @ shmName @ '' - '' @ err)
        else do {
        printf K (''Copying '' @ dec (c_long msgLength) @ '' bytes'' @ nl);
        sys K (File (Store addr 0 msg));
        halt (Exit EXIT_SUCCESS) }}}}})"

definition pshm_read_main :: "'k os \<Rightarrow> string list \<Rightarrow> ('k, unit) cmd" where
  "pshm_read_main K argv =
     (if length argv \<noteq> 2 \<or> arg argv 1 = ''-h''
      then usage K (''Usage: '' @ arg argv 0 @ '' <shm_name>'' @ nl)
      else let shmName = arg argv 1 in
        bind_res (map_whole K (Ipc (ShmOpen shmName O_RDONLY 0)) ''shm_open()'' PROT_READ MAP_SHARED shmName) (\<lambda>(addr, len). do {
          bs \<leftarrow> load_bytes K addr 0 (nat len);
          n \<leftarrow> call K (File (Write STDOUT_FILENO bs));
          if n \<noteq> len
          then die K (\<lambda>err. ''Failed to write() '' @ dec len @ '' bytes - '' @ err @ nl)
          else do {
          call K (File (Write STDOUT_FILENO nl));
          halt (Exit EXIT_SUCCESS) }}))"

definition pshm_unlink_main :: "'k os \<Rightarrow> string list \<Rightarrow> ('k, unit) cmd" where
  "pshm_unlink_main K argv =
     (if length argv \<noteq> 2 \<or> arg argv 1 = ''-h''
      then usage K (''Usage: '' @ arg argv 0 @ '' <shm_name>'' @ nl)
      else let shmName = arg argv 1 in do {
        u \<leftarrow> call K (Ipc (ShmUnlink shmName));
        if u = -1
        then usage K (''Failed to shm_unlink() '' @ shmName)
        else halt (Exit EXIT_SUCCESS) })"

section \<open>A system with one object\<close>

text \<open>The documented effect of the calls above on the contents of the one object they all name:
  \<open>ftruncate\<close> cuts it or extends it with zeros, stores and loads through a mapping act on its
  bytes, \<open>fstat\<close> tells its size, and no other call changes it. None of the calls fails, except
  that a mapping needs a positive length.\<close>

definition obj_ok :: "syscall \<Rightarrow> sysret \<Rightarrow> string \<Rightarrow> string \<Rightarrow> bool" where
  "obj_ok c r x y = (case c of
     Ipc (ShmOpen p fl m) \<Rightarrow> ret r \<noteq> -1 \<and> y = x
   | Proc Wait \<Rightarrow> ret r \<noteq> -1 \<and> y = x
   | File fc \<Rightarrow> (case fc of
       Ftruncate fd n \<Rightarrow> ret r \<noteq> -1 \<and> (0 \<le> n \<longrightarrow> y = take (nat n) (x @ replicate (nat n) NUL))
     | Store a off bs \<Rightarrow> off + length bs \<le> length x \<longrightarrow> y = take off x @ bs @ drop (off + length bs) x
     | Load a off n \<Rightarrow> y = x \<and> (off + n \<le> length x \<longrightarrow> rdata r = take n (drop off x))
     | Fstat fd \<Rightarrow> ret r \<noteq> -1 \<and> st_size (rstat r) = int (length x) \<and> y = x
     | Mmap n p fl fd \<Rightarrow> (0 < n \<longrightarrow> ret r \<noteq> -1) \<and> y = x
     | Write fd bs \<Rightarrow> ret r = int (length bs) \<and> y = x
     | _ \<Rightarrow> ret r \<noteq> -1 \<and> y = x)
   | _ \<Rightarrow> y = x)"

definition one_object :: "'k os \<Rightarrow> ('k \<Rightarrow> string) \<Rightarrow> bool" where
  "one_object K obj \<longleftrightarrow> (\<forall>k c. obj_ok c (snd (step K k c)) (obj k) (obj (fst (step K k c))))"

text \<open>A system whose state is the object, and in which every mapping is at address 4096.\<close>

definition store_at :: "nat \<Rightarrow> string \<Rightarrow> string \<Rightarrow> string" where
  "store_at off bs x = take off x @ bs @ drop (off + length bs) x"

definition obj_step :: "string \<Rightarrow> syscall \<Rightarrow> string \<times> sysret" where
  "obj_step x c = (case c of
     File (Ftruncate fd n) \<Rightarrow> (take (nat n) (x @ replicate (nat n) NUL), returns 0)
   | File (Store a off bs) \<Rightarrow> (store_at off bs x, returns 0)
   | File (Load a off n) \<Rightarrow> (x, gives (take n (drop off x)))
   | File (Fstat fd) \<Rightarrow> (x, reply0\<lparr>rstat := stat0\<lparr>st_size := int (length x)\<rparr>\<rparr>)
   | File (Mmap n p fl fd) \<Rightarrow> (x, returns 4096)
   | File (Write fd bs) \<Rightarrow> (x, returns (int (length bs)))
   | _ \<Rightarrow> (x, returns 0))"

definition obj_os :: "string os" where
  "obj_os = \<lparr>step = obj_step, strerror = (\<lambda>e. ''error ''), strsignal = (\<lambda>s. ''signal ''),
             gai_strerror = (\<lambda>s. ''error '')\<rparr>"

lemma one_object_obj_os: "one_object obj_os (\<lambda>x. x)"
  by (auto simp: one_object_def obj_os_def obj_step_def obj_ok_def returns_def gives_def reply0_def stat0_def store_at_def
      split: syscall.splits file_call.splits ipc_call.splits proc_call.splits)

lemma wp_obj:
  assumes "one_object K obj"
  shows "(\<And>r w'. obj_ok c r (obj (kern w)) (obj (kern w')) \<Longrightarrow> trace w' = trace w @ [(c, r)] \<Longrightarrow> Q r w') \<Longrightarrow> wp (sys K c) Q w"
    and "(\<And>r w'. obj_ok c r (obj (kern w)) (obj (kern w')) \<Longrightarrow> trace w' = trace w @ [(c, r)] \<Longrightarrow> P (ret r) w') \<Longrightarrow> wp (call K c) P w"
    and "(\<And>r w'. obj (kern w') = obj (kern w) \<Longrightarrow> trace w' = trace w @ [(Stdio (Fprintf 1 s), r)] \<Longrightarrow> Q r w') \<Longrightarrow> wp (printf K s) Q w"
    and "(\<And>r w'. obj (kern w') = obj (kern w) \<Longrightarrow> trace w' = trace w @ [(File (Load a 0 n), r)] \<Longrightarrow>
           n \<le> length (obj (kern w)) \<Longrightarrow> R (take n (obj (kern w))) w') \<Longrightarrow> n \<le> length (obj (kern w)) \<Longrightarrow> wp (load_bytes K a 0 n) R w"
proof -
  have ok: "obj_ok c r (obj k) (obj k')" if "step K k c = (k', r)" for k k' c r
    using assms that unfolding one_object_def by (metis fst_conv snd_conv)
  show "wp (sys K c) Q w" if "\<And>r w'. obj_ok c r (obj (kern w)) (obj (kern w')) \<Longrightarrow> trace w' = trace w @ [(c, r)] \<Longrightarrow> Q r w'"
    by (rule wp_sys_step) (auto intro: that ok)
  show "wp (call K c) P w" if "\<And>r w'. obj_ok c r (obj (kern w)) (obj (kern w')) \<Longrightarrow> trace w' = trace w @ [(c, r)] \<Longrightarrow> P (ret r) w'"
    by (rule wp_call_step) (auto intro: that ok)
  show "wp (printf K s) Q w" if "\<And>r w'. obj (kern w') = obj (kern w) \<Longrightarrow> trace w' = trace w @ [(Stdio (Fprintf 1 s), r)] \<Longrightarrow> Q r w'"
    unfolding printf_def by (rule wp_sys_step) (auto intro!: that dest: ok simp: obj_ok_def)
  show "wp (load_bytes K a 0 n) R w"
    if "\<And>r w'. obj (kern w') = obj (kern w) \<Longrightarrow> trace w' = trace w @ [(File (Load a 0 n), r)] \<Longrightarrow>
           n \<le> length (obj (kern w)) \<Longrightarrow> R (take n (obj (kern w))) w'" "n \<le> length (obj (kern w))"
    unfolding load_bytes_def wp_bind
  proof (rule wp_sys_step)
    fix r and w' :: "'a world"
    assume "step K (kern w) (File (Load a 0 n)) = (kern w', r)" "after (File (Load a 0 n), r) w w'"
    with ok [of "kern w"] that show "wp (State_Monad.return (take n (rdata r @ replicate n NUL))) R w'"
      by (fastforce simp: obj_ok_def)
  qed
qed

lemma wp_map_whole:
  assumes "one_object K obj" "obj (kern w) \<noteq> []" "opening = File (Open p fl m) \<or> opening = Ipc (ShmOpen p fl m)"
    and "\<And>addr w'. obj (kern w') = obj (kern w) \<Longrightarrow> written 1 (trace w') = written 1 (trace w) \<Longrightarrow>
      printed 1 (trace w') = printed 1 (trace w) \<Longrightarrow> Q (Ok (addr, int (length (obj (kern w))))) w'"
  shows "wp (map_whole K opening opener prot flags name) Q w"
  unfolding map_whole_def using assms(2,3)
  by (auto intro!: wp_obj [OF assms(1)] assms(4) simp: obj_ok_def)

section \<open>Properties\<close>



text \<open>
  \<open>t_mmap\<close> with a new value replaces the contents of a file in place: the file keeps its
  size, it then holds the new value, cut to one byte less than the size, and zeros up to the end; the
  program has printed what the file held before up to its first NUL, and ends with status 0.
\<close>

theorem t_mmap_replaces:
  assumes "one_object K obj" "obj (kern w) \<noteq> []" "int (length (obj (kern w))) \<le> INT_MAX" "name \<noteq> ''-h''"
  shows "wp (t_mmap_main K [prog, name, v]) (\<lambda>r w'. r = Exit 0 \<and>
     obj (kern w') = take (length (obj (kern w)) - 1) v @
       replicate (length (obj (kern w)) - min (length v) (length (obj (kern w)) - 1)) NUL \<and>
     printed 1 (trace w') = printed 1 (trace w) @ ''Current string='' @ cstr (obj (kern w)) @ nl @
       ''Copied '' @ dq @ v @ dq @ '' to shared memory'' @ nl) w"
proof -
  define n where "n = length (obj (kern w))"
  have int: "c_int (int n) = int n"
    using assms(3) by (intro c_int_id) (simp_all add: INT_MIN_def n_def)
  have n: "length (obj (kern w)) = n" "0 < n" "nat (int n - 1) = n - 1" using assms(2) by (auto simp: n_def)
  have fill: "replicate (m - Suc (length v)) NUL @ replicate (m - (min (length v) (m - Suc 0) + (m - Suc (length v)))) NUL =
      replicate (m - min (length v) (m - Suc 0)) NUL" if "0 < m" for m
    using that by (simp add: min_def flip: replicate_add)
  show ?thesis
    unfolding t_mmap_main_def n using assms(2,4) n int fill [of n]
    by (auto intro!: wp_map_whole [OF assms(1)] wp_obj [OF assms(1)]
        simp: Let_def arg_def obj_ok_def print_mapped_def t_mmap_replace_def strncpy_def)
qed

theorem t_mmap_replaces_witness:
  "wp (t_mmap_main obj_os [''t_mmap'', ''file'', ''new'']) (\<lambda>r w'. r = Exit 0 \<and> kern w' = ''new'' @ replicate 5 NUL) (start ''old text'')"
  by (rule wp_mono [OF t_mmap_replaces [OF one_object_obj_os, of "start ''old text''" "''file''" "''t_mmap''" "''new''"]])
     (auto simp: start_def INT_MAX_def numeral_eq_Suc)

text \<open>
  The parent of \<open>anon_mmap\<close> sees what the child stored: run from the state in which the
  main program forks, the child prints the value 1, and a parent that goes on after it
  prints the value 2.
\<close>

theorem anon_mmap_shares:
  assumes "one_object K obj" "obj (kern w) = [CHR 0x01] @ rest"
  shows "wp (anon_mmap_child K addr) (\<lambda>r w1. r = ExitNow 0 \<and>
     printed 1 (trace w1) = printed 1 (trace w) @ ''Child started, value = 1'' @ nl \<and>
     wp (anon_mmap_parent K addr) (\<lambda>r w2. r = Exit 0 \<and>
       printed 1 (trace w2) = printed 1 (trace w1) @ ''In parent, value = 2'' @ nl) w1) w"
proof -
  have v: "char_value (CHR 0x01) = 1" "char_value (CHR 0x02) = 2" "(chr 2 :: char) = CHR 0x02" "dec 1 = ''1''" "dec 2 = ''2''"
    by code_simp+
  show ?thesis
    unfolding anon_mmap_child_def anon_mmap_parent_def load_char_def store_char_def using assms(2)
    by (auto intro!: wp_obj [OF assms(1)] simp: obj_ok_def v)
qed

theorem anon_mmap_shares_witness:
  "wp (anon_mmap_child obj_os 4096) (\<lambda>r w1. r = ExitNow 0 \<and> printed 1 (trace w1) = ''Child started, value = 1'' @ nl \<and>
     wp (anon_mmap_parent obj_os 4096) (\<lambda>r w2. r = Exit 0 \<and> printed 1 (trace w2) = printed 1 (trace w1) @ ''In parent, value = 2'' @ nl) w1)
   (start [CHR 0x01, NUL, NUL, NUL])"
  using anon_mmap_shares [OF one_object_obj_os, of "start [CHR 0x01, NUL, NUL, NUL]" "[NUL, NUL, NUL]" 4096]
  by (simp add: start_def)

end
