(* ===== verification/Posix_Sem.thy ===== *)
theory Posix_Sem
  imports Num_Args
begin

text \<open>
  The POSIX semaphore tools of \<open>psem/\<close>. A null pointer (0) is \<open>SEM_FAILED\<close>; \<open>sem_open\<close> with two
  arguments has mode and value 0. The answer to \<open>sem_getvalue\<close> holds the value.
\<close>

abbreviation (input) SEM_FAILED :: int where "SEM_FAILED \<equiv> 0"

definition psem_create_printUsage :: "'k os \<Rightarrow> string \<Rightarrow> ('k world, unit) state" where
  "psem_create_printUsage K program = do {
     eprintf K (''Usage: '' @ program @ '' [-cx] <sem_name> [<octal-perms> [<value>]]'' @ nl);
     eprintf K (''    -c - Create semaphore (O_CREAT)'' @ nl);
     eprintf K (''    -x - Create exclusively (O_EXCL)'' @ nl);
     State_Monad.return () }"

definition psem_create_opt :: "'k os \<Rightarrow> string \<Rightarrow> getopt_ev \<Rightarrow> int \<Rightarrow> ('k, int) cmd" where
  "psem_create_opt K prog ev oflag = (case ev of
     Opt c optarg \<Rightarrow>
       if c = CHR ''c'' then ok (oflag OR O_CREAT)
       else if c = CHR ''x'' then ok (oflag OR O_EXCL)
       else do { psem_create_printUsage K prog; halt (Exit EXIT_FAILURE) }
   | _ \<Rightarrow> do {
       eprintf K (getopt_message prog ev);
       psem_create_printUsage K prog;
       halt (Exit EXIT_FAILURE) })"

definition psem_create_main :: "'k os \<Rightarrow> string list \<Rightarrow> ('k, unit) cmd" where
  "psem_create_main K argv = (case getopt ''cx'' (drop 1 argv) of (evs, operands) \<Rightarrow>
     bind_res (fold_each evs (psem_create_opt K (arg argv 0)) 0) (\<lambda>oflag.
       if operands = []
       then do { psem_create_printUsage K (arg argv 0); halt (Exit EXIT_FAILURE) }
       else let semName = operands ! 0 in
         bind_res (if length operands \<le> 1 then ok (uint (S_IRUSR OR S_IWUSR))
                   else psem_create_getLong K (operands ! 1) 8) (\<lambda>mode.
         bind_res (if length operands \<le> 2 then ok 0 else psem_create_getLong K (operands ! 2) 0) (\<lambda>v. do {
           sem \<leftarrow> call K (Ipc (SemOpen semName oflag (word_of_int mode) (c_uint v)));
           if sem = SEM_FAILED
           then die K (\<lambda>err. ''Failed to sem_open() '' @ semName @ '' - '' @ err @ nl)
           else halt (Exit EXIT_SUCCESS) }))))"

definition psem_getvalue_main :: "'k os \<Rightarrow> string list \<Rightarrow> ('k, unit) cmd" where
  "psem_getvalue_main K argv =
     (if length argv \<noteq> 2 \<or> arg argv 1 = ''-h''
      then usage K (''Usage: '' @ arg argv 0 @ '' <sem_name>'' @ nl)
      else let semName = arg argv 1 in do {
        sem \<leftarrow> call K (Ipc (SemOpen semName 0 0 0));
        if sem = SEM_FAILED
        then die K (\<lambda>err. ''Failed to sem_open() '' @ semName @ '' - '' @ err @ nl)
        else do {
        r \<leftarrow> sys K (Ipc (SemGetvalue sem));
        if ret r = -1
        then die K (\<lambda>err. ''Failed to sem_getvalue() on '' @ semName @ ''- '' @ err @ nl)
        else do {
        printf K (dec (c_int (rnum 0 r)) @ nl);
        halt (Exit EXIT_SUCCESS) }}})"

definition psem_post_main :: "'k os \<Rightarrow> string list \<Rightarrow> ('k, unit) cmd" where
  "psem_post_main K argv =
     (if length argv \<noteq> 2 \<or> arg argv 1 = ''-h''
      then usage K (''Usage: '' @ arg argv 0 @ '' <sem_name>'' @ nl)
      else let semName = arg argv 1 in do {
        sem \<leftarrow> call K (Ipc (SemOpen semName 0 0 0));
        if sem = SEM_FAILED
        then die K (\<lambda>err. ''Failed to sem_open() '' @ semName @ '' - '' @ err @ nl)
        else do {
        p \<leftarrow> call K (Ipc (SemPost sem));
        if p = -1
        then die K (\<lambda>err. ''Failed to sem_post() to '' @ semName @ '' - '' @ err @ nl)
        else halt (Exit EXIT_SUCCESS) }})"

definition psem_unlink_main :: "'k os \<Rightarrow> string list \<Rightarrow> ('k, unit) cmd" where
  "psem_unlink_main K argv =
     (if length argv \<noteq> 2 \<or> arg argv 1 = ''-h''
      then usage K (''Usage: '' @ arg argv 0 @ '' <sem_name>'' @ nl)
      else do {
        u \<leftarrow> call K (Ipc (SemUnlink (arg argv 1)));
        if u = -1
        then die K (\<lambda>err. ''Failed to sem_unlink '' @ arg argv 1 @ '' - '' @ err @ nl)
        else halt (Exit EXIT_SUCCESS) })"

text \<open>The message of \<open>psem_wait\<close> shows \<open>(long) getpid\<close>, the address of the library function,
  which is a parameter.\<close>

definition psem_wait_main :: "int \<Rightarrow> 'k os \<Rightarrow> string list \<Rightarrow> ('k, unit) cmd" where
  "psem_wait_main getpid_addr K argv =
     (if length argv \<noteq> 2 \<or> arg argv 1 = ''-h''
      then usage K (''Usage: '' @ arg argv 0 @ '' <sem_name>'' @ nl)
      else let semName = arg argv 1 in do {
        sem \<leftarrow> call K (Ipc (SemOpen semName 0 0 0));
        if sem = SEM_FAILED
        then die K (\<lambda>err. ''Failed to sem_open() '' @ semName @ '' - '' @ err @ nl)
        else do {
        s \<leftarrow> call K (Ipc (SemWait sem));
        if s = -1
        then die K (\<lambda>err. ''Failed to sem_wait() on '' @ semName @ '' - '' @ err @ nl)
        else do {
        printf K (dec getpid_addr @ '' sem_wait() on '' @ semName @ '' succeeeded'' @ nl);
        halt (Exit EXIT_SUCCESS) }}})"

section \<open>A semaphore\<close>

text \<open>The documented effect of the calls on the value of the one semaphore they name (\<open>None\<close>: it
  does not exist). A value is at most \<open>SEM_VALUE_MAX\<close>: \<open>sem_post\<close> fails at this value (EOVERFLOW), and
  no semaphore is created with a larger one (EINVAL; whether the value is looked at when the semaphore
  exists is left open). \<open>sem_wait\<close> is only claimed to return when the value is positive.\<close>

definition SEM_VALUE_MAX :: int where
  "SEM_VALUE_MAX = 2147483647"

definition sem_range :: "int option \<Rightarrow> bool" where
  "sem_range x \<longleftrightarrow> (case x of None \<Rightarrow> True | Some u \<Rightarrow> 0 \<le> u \<and> u \<le> SEM_VALUE_MAX)"

definition sem_ok :: "syscall \<Rightarrow> sysret \<Rightarrow> int option \<Rightarrow> int option \<Rightarrow> bool" where
  "sem_ok c r x y = (case c of
     Ipc ic \<Rightarrow> (case ic of
       SemOpen name fl m v \<Rightarrow>
         (case x of
            Some u \<Rightarrow> y = x \<and>
              (fl AND O_CREAT \<noteq> 0 \<and> fl AND O_EXCL \<noteq> 0 \<longrightarrow> ret r = SEM_FAILED) \<and>
              (fl AND O_CREAT = 0 \<or> fl AND O_EXCL = 0 \<and> v \<le> SEM_VALUE_MAX \<longrightarrow> ret r \<noteq> SEM_FAILED)
          | None \<Rightarrow>
              if fl AND O_CREAT \<noteq> 0 \<and> v \<le> SEM_VALUE_MAX then ret r \<noteq> SEM_FAILED \<and> y = Some v
              else ret r = SEM_FAILED \<and> y = None)
     | SemGetvalue s \<Rightarrow> y = x \<and> (\<forall>u. x = Some u \<longrightarrow> ret r = 0 \<and> rnum 0 r = u)
     | SemPost s \<Rightarrow> (\<forall>u. x = Some u \<longrightarrow>
         (if u < SEM_VALUE_MAX then ret r = 0 \<and> y = Some (u + 1) else ret r = -1 \<and> y = Some u))
     | SemWait s \<Rightarrow> (\<forall>u. x = Some u \<longrightarrow> 0 < u \<longrightarrow> ret r = 0 \<and> y = Some (u - 1))
     | SemUnlink name \<Rightarrow> (if x = None then ret r = -1 else ret r = 0) \<and> y = None
     | _ \<Rightarrow> y = x)
   | _ \<Rightarrow> y = x)"

definition semaphore :: "'k os \<Rightarrow> ('k \<Rightarrow> int option) \<Rightarrow> bool" where
  "semaphore K sem \<longleftrightarrow> (\<forall>k c. sem_ok c (snd (step K k c)) (sem k) (sem (fst (step K k c))))"

definition sem_step :: "int option \<Rightarrow> syscall \<Rightarrow> int option \<times> sysret" where
  "sem_step x c = (case c of
     Ipc ic \<Rightarrow> (case ic of
       SemOpen name fl m v \<Rightarrow>
         (if x = None then if fl AND O_CREAT \<noteq> 0 \<and> v \<le> SEM_VALUE_MAX then (Some v, returns 4096) else (None, returns SEM_FAILED)
          else (x, returns (if fl AND O_CREAT \<noteq> 0 \<and> fl AND O_EXCL \<noteq> 0 then SEM_FAILED else 4096)))
     | SemGetvalue s \<Rightarrow> (x, reply0\<lparr>rnums := [the x]\<rparr>)
     | SemPost s \<Rightarrow> (case x of
         Some u \<Rightarrow> if u < SEM_VALUE_MAX then (Some (u + 1), returns 0) else (x, returns (-1))
       | None \<Rightarrow> (x, returns (-1)))
     | SemWait s \<Rightarrow> (map_option (\<lambda>u. u - 1) x, returns 0)
     | SemUnlink name \<Rightarrow> (None, returns (if x = None then -1 else 0))
     | _ \<Rightarrow> (x, returns 0))
   | _ \<Rightarrow> (x, returns 0))"

definition sem_os :: "int option os" where
  "sem_os = \<lparr>step = sem_step, strerror = (\<lambda>e. ''error ''), strsignal = (\<lambda>s. ''signal ''),
             gai_strerror = (\<lambda>s. ''error '')\<rparr>"

lemma semaphore_sem_os: "semaphore sem_os (\<lambda>x. x)"
  by (auto simp: semaphore_def sem_os_def sem_step_def sem_ok_def returns_def reply0_def rnum_def
      split: syscall.splits ipc_call.splits option.splits)

lemma wp_sem:
  assumes "semaphore K sem"
  shows "(\<And>r w'. sem_ok c r (sem (kern w)) (sem (kern w')) \<Longrightarrow> trace w' = trace w @ [(c, r)] \<Longrightarrow> Q r w') \<Longrightarrow> wp (sys K c) Q w"
    and "(\<And>r w'. sem_ok c r (sem (kern w)) (sem (kern w')) \<Longrightarrow> trace w' = trace w @ [(c, r)] \<Longrightarrow> P (ret r) w') \<Longrightarrow> wp (call K c) P w"
    and "(\<And>r w'. sem (kern w') = sem (kern w) \<Longrightarrow> trace w' = trace w @ [(Stdio (Fprintf 1 s), r)] \<Longrightarrow> Q r w') \<Longrightarrow> wp (printf K s) Q w"
    and "(\<And>s r w'. sem (kern w') = sem (kern w) \<Longrightarrow> trace w' = trace w @ [(Stdio (Fprintf 2 s), r)] \<Longrightarrow> R (Exit 1) w') \<Longrightarrow> wp (die K msg) R w"
proof -
  have ok: "sem_ok c r (sem k) (sem k')" if "step K k c = (k', r)" for k k' c r
    using assms that unfolding semaphore_def by (metis fst_conv snd_conv)
  show "wp (sys K c) Q w" if "\<And>r w'. sem_ok c r (sem (kern w)) (sem (kern w')) \<Longrightarrow> trace w' = trace w @ [(c, r)] \<Longrightarrow> Q r w'"
    by (rule wp_sys_step) (auto intro: that ok)
  show "wp (call K c) P w" if "\<And>r w'. sem_ok c r (sem (kern w)) (sem (kern w')) \<Longrightarrow> trace w' = trace w @ [(c, r)] \<Longrightarrow> P (ret r) w'"
    by (rule wp_call_step) (auto intro: that ok)
  show "wp (printf K s) Q w" if "\<And>r w'. sem (kern w') = sem (kern w) \<Longrightarrow> trace w' = trace w @ [(Stdio (Fprintf 1 s), r)] \<Longrightarrow> Q r w'"
    unfolding printf_def by (rule wp_sys_step) (auto intro!: that dest: ok simp: sem_ok_def)
  show "wp (die K msg) R w" if "\<And>s r w'. sem (kern w') = sem (kern w) \<Longrightarrow> trace w' = trace w @ [(Stdio (Fprintf 2 s), r)] \<Longrightarrow> R (Exit 1) w'"
    unfolding die_def eprintf_def wp_bind wp_get_errno by (rule wp_sys_step) (auto intro!: that dest: ok simp: sem_ok_def)
qed

section \<open>The tools refine an abstract semaphore\<close>

text \<open>The commands a user gives, and the program and the arguments that each stands for.\<close>

datatype psem_cmd = Create int | Getvalue | Post | Wait_sem | Unlink_sem

primrec psem_run :: "int \<Rightarrow> 'k os \<Rightarrow> string \<Rightarrow> psem_cmd \<Rightarrow> ('k, unit) cmd" where
  "psem_run a K name (Create v) = psem_create_main K [''psem_create'', ''-cx'', name, ''600'', dec v]"
| "psem_run a K name Getvalue = psem_getvalue_main K [''psem_getvalue'', name]"
| "psem_run a K name Post = psem_post_main K [''psem_post'', name]"
| "psem_run a K name Wait_sem = psem_wait_main a K [''psem_wait'', name]"
| "psem_run a K name Unlink_sem = psem_unlink_main K [''psem_unlink'', name]"

primrec psem_session :: "int \<Rightarrow> 'k os \<Rightarrow> string \<Rightarrow> psem_cmd list \<Rightarrow> ('k world, unit res list) state" where
  "psem_session a K name [] = State_Monad.return []"
| "psem_session a K name (c # cs) = do {
     r \<leftarrow> psem_run a K name c;
     rs \<leftarrow> psem_session a K name cs;
     State_Monad.return (r # rs) }"

text \<open>The specification: exit status, value afterwards and output, for a value or no semaphore
  before; no result where \<open>sem_wait\<close> would block.\<close>

fun psem_spec :: "int \<Rightarrow> string \<Rightarrow> psem_cmd \<Rightarrow> int option \<Rightarrow> (int \<times> int option \<times> string) option" where
  "psem_spec a name (Create v) None =
     Some (if v \<le> SEM_VALUE_MAX then (0, Some v, []) else (1, None, []))"
| "psem_spec a name (Create v) (Some u) = Some (1, Some u, [])"
| "psem_spec a name c None = Some (1, None, [])"
| "psem_spec a name Getvalue (Some u) = Some (0, Some u, dec u @ nl)"
| "psem_spec a name Post (Some u) =
     Some (if u < SEM_VALUE_MAX then (0, Some (u + 1), []) else (1, Some u, []))"
| "psem_spec a name Wait_sem (Some u) =
     (if 0 < u then Some (0, Some (u - 1), dec a @ '' sem_wait() on '' @ name @ '' succeeeded'' @ nl) else None)"
| "psem_spec a name Unlink_sem (Some u) = Some (0, None, [])"

primrec psem_specs :: "int \<Rightarrow> string \<Rightarrow> psem_cmd list \<Rightarrow> int option \<Rightarrow> (int list \<times> int option \<times> string) option" where
  "psem_specs a name [] x = Some ([], x, [])"
| "psem_specs a name (c # cs) x = (case psem_spec a name c x of
     None \<Rightarrow> None
   | Some (n, y, out) \<Rightarrow> (case psem_specs a name cs y of
       None \<Rightarrow> None
     | Some (ns, z, outs) \<Rightarrow> Some (n # ns, z, out @ outs)))"

fun cmd_ok :: "psem_cmd \<Rightarrow> bool" where
  "cmd_ok (Create v) \<longleftrightarrow> 0 \<le> v \<and> v < 2 ^ 32"
| "cmd_ok c = True"

lemma psem_spec_range: "psem_spec a name c x = Some (n, y, out) \<Longrightarrow> cmd_ok c \<Longrightarrow> sem_range x \<Longrightarrow> sem_range y"
  by (cases c; cases x) (auto simp: sem_range_def split: if_splits)

lemma sem_range_c_int: "sem_range (Some u) \<Longrightarrow> c_int u = u"
  by (simp add: sem_range_def SEM_VALUE_MAX_def INT_MIN_def INT_MAX_def)

lemma open_flags:
  "(O_CREAT OR O_EXCL) AND O_CREAT \<noteq> 0" "(O_CREAT OR O_EXCL) AND O_EXCL \<noteq> 0" "(0 :: int) AND O_CREAT = 0"
  by (simp_all add: O_CREAT_def O_EXCL_def)

lemma wp_psem_create:
  assumes "semaphore K sem" "name = ''/'' @ n" "0 \<le> v" "v < 2 ^ 32"
    and "\<And>w'. sem (kern w) = None \<Longrightarrow> v \<le> SEM_VALUE_MAX \<Longrightarrow> sem (kern w') = Some v \<Longrightarrow> printed 1 (trace w') = printed 1 (trace w) \<Longrightarrow> Q (Exit 0) w'"
    and "\<And>w'. sem (kern w) \<noteq> None \<or> SEM_VALUE_MAX < v \<Longrightarrow> sem (kern w') = sem (kern w) \<Longrightarrow> printed 1 (trace w') = printed 1 (trace w) \<Longrightarrow> Q (Exit 1) w'"
  shows "wp (psem_create_main K [prog, ''-cx'', name, ''600'', dec v]) Q w"
proof -
  have perms: "wp (psem_create_getLong K ''600'' 8) (\<lambda>r w'. r = Ok 384 \<and> quiet w1 w') w1" for w1
  proof -
    have "strtol 8 ''600'' = (384, [], 0)" by code_simp
    then show ?thesis unfolding psem_create_getLong_def by (intro wp_get_number) simp_all
  qed
  have num: "wp (psem_create_getLong K (dec v) 0) (\<lambda>r w'. r = Ok v \<and> quiet w1 w') w1" for w1
    using assms(3,4) by (intro psem_create_getLong.accepts) (simp_all add: LONG_MIN_def LONG_MAX_def)
  have opts: "getopt ''cx'' [''-cx'', name, ''600'', dec v] = ([Opt CHR ''c'' [], Opt CHR ''x'' []], [name, ''600'', dec v])"
    using dec_operand [OF assms(3)] assms(2) by simp
  have "c_uint v = v" using assms(3,4) by simp
  then show ?thesis
    unfolding psem_create_main_def
    by (auto simp: opts psem_create_opt_def Let_def sem_ok_def open_flags simp del: getopt.simps
        intro!: wp_mono [OF perms] wp_mono [OF num] wp_sem [OF assms(1)] assms(5,6) split: option.splits if_splits)
qed

lemma psem_run_refines:
  assumes "semaphore K sem" "name = ''/'' @ n" "cmd_ok c" "psem_spec a name c (sem (kern w)) = Some t"
    and "sem_range (sem (kern w))"
  shows "wp (psem_run a K name c) (\<lambda>r w'. r = Exit (fst t) \<and> sem (kern w') = fst (snd t) \<and> printed 1 (trace w') = printed 1 (trace w) @ snd (snd t)) w"
proof (cases c)
  case (Create v)
  with assms show ?thesis by (cases "sem (kern w)") (auto intro!: wp_psem_create [OF assms(1)])
next
  case Getvalue
  with assms(2,4,5) show ?thesis
    by (cases "sem (kern w)") (auto intro!: wp_sem [OF assms(1)] simp: sem_range_c_int psem_getvalue_main_def Let_def arg_def sem_ok_def open_flags)
next
  case Post
  with assms(2,4) show ?thesis
    by (cases "sem (kern w)") (auto intro!: wp_sem [OF assms(1)] simp: psem_post_main_def Let_def arg_def sem_ok_def open_flags)
next
  case Wait_sem
  with assms(2,4) show ?thesis
    by (cases "sem (kern w)") (auto intro!: wp_sem [OF assms(1)] simp: psem_wait_main_def Let_def arg_def sem_ok_def open_flags split: if_splits)
next
  case Unlink_sem
  with assms(2,4) show ?thesis
    by (cases "sem (kern w)") (auto intro!: wp_sem [OF assms(1)] simp: psem_unlink_main_def Let_def arg_def sem_ok_def open_flags)
qed

text \<open>
  C15. The semaphore tools refine an abstract semaphore: any sequence of commands run one
  after the other, on a system whose calls act on one named semaphore as documented, gives the exit
  statuses, the output and the final value that the specification computes. Creating
  exclusively fails when the semaphore exists and leaves it alone, or when the value is above
  \<open>SEM_VALUE_MAX\<close>; the other tools fail when the semaphore does not exist;
  \<open>psem_post\<close> adds one, or fails at \<open>SEM_VALUE_MAX\<close> and leaves the value alone, \<open>psem_wait\<close> takes one
  away, and \<open>psem_getvalue\<close> prints the value.
\<close>

theorem psem_tools_refine:
  assumes "semaphore K sem" "list_all cmd_ok cs" "sem_range (sem (kern w))" "psem_specs a (''/'' @ n) cs (sem (kern w)) = Some (ns, z, out)"
  shows "wp (psem_session a K (''/'' @ n) cs) (\<lambda>rs w'. rs = map Exit ns \<and> sem (kern w') = z \<and>
     printed 1 (trace w') = printed 1 (trace w) @ out) w"
  using assms(2-4)
proof (induction cs arbitrary: w ns out)
  case Nil
  then show ?case by simp
next
  case (Cons c cs)
  from Cons.prems obtain m y o1 ms o2 where
    c: "psem_spec a (''/'' @ n) c (sem (kern w)) = Some (m, y, o1)" and
    cs: "psem_specs a (''/'' @ n) cs y = Some (ms, z, o2)" "ns = m # ms" "out = o1 @ o2"
    by (auto split: option.splits prod.splits)
  have range_y: "sem_range y" using psem_spec_range [OF c] Cons.prems(1,2) by simp
  show ?case
    unfolding psem_session.simps wp_bind
  proof (rule wp_mono [OF psem_run_refines [OF assms(1) refl _ c Cons.prems(2)]])
    fix r :: "unit res" and w' :: "'a world"
    assume "r = Exit (fst (m, y, o1)) \<and> sem (kern w') = fst (snd (m, y, o1)) \<and>
      printed 1 (trace w') = printed 1 (trace w) @ snd (snd (m, y, o1))"
    then have r: "r = Exit m" "sem (kern w') = y" "printed 1 (trace w') = printed 1 (trace w) @ o1" by simp_all
    show "wp (psem_session a K (''/'' @ n) cs) (\<lambda>rs. wp (State_Monad.return (r # rs)) (\<lambda>rs w'. rs = map Exit ns \<and>
        sem (kern w') = z \<and> printed 1 (trace w') = printed 1 (trace w) @ out)) w'"
      by (rule wp_mono [OF Cons.IH [of w' ms o2]]) (use Cons.prems(1) range_y r cs in auto)
  qed (use Cons.prems(1) in simp)
qed

theorem psem_tools_refine_witness:
  "wp (psem_session 7 sem_os ''/sem'' [Create 1, Create 4, Wait_sem, Post, Post, Getvalue, Unlink_sem, Post,
       Create 2147483648, Create 2147483647, Post, Getvalue]) (\<lambda>rs w'.
     rs = map Exit [0, 1, 0, 0, 0, 0, 0, 1, 1, 0, 1, 0] \<and> kern w' = Some 2147483647 \<and>
     printed 1 (trace w') = ''7 sem_wait() on /sem succeeeded'' @ nl @ ''2'' @ nl @ dec 2147483647 @ nl) (start None)"
proof -
  have dec: "dec 7 = ''7''" "dec 2 = ''2''" by code_simp+
  let ?cs = "[Create 1, Create 4, Wait_sem, Post, Post, Getvalue, Unlink_sem, Post,
      Create 2147483648, Create 2147483647, Post, Getvalue]"
  have spec: "psem_specs 7 (''/'' @ ''sem'') ?cs None =
      Some ([0, 1, 0, 0, 0, 0, 0, 1, 1, 0, 1, 0], Some 2147483647, ''7 sem_wait() on /sem succeeeded'' @ nl @ ''2'' @ nl @ dec 2147483647 @ nl)"
    by (simp add: dec SEM_VALUE_MAX_def)
  then show ?thesis
    using psem_tools_refine [OF semaphore_sem_os, of ?cs "start None" 7 "''sem''"]
    by (simp add: start_def sem_range_def del: psem_session.simps psem_specs.simps)
qed

end
