(* ===== verification/File_Locks.thy ===== *)
theory File_Locks
  imports Num_Args
begin

text \<open>
  The programs of \<open>filelock/\<close>: \<open>t_flock.c\<close>, which holds a \<open>flock\<close> lock for some seconds, and the
  interactive \<open>i_fcntl_locking.c\<close>, whose commands place and test record locks. The answer to
  \<open>fcntl\<close> with \<open>F_GETLK\<close> holds the type, start, length and owner of the lock it found.
\<close>

section \<open>filelock/t\_flock.c\<close>

definition LOCK_SH :: int where "LOCK_SH = 1"
definition LOCK_EX :: int where "LOCK_EX = 2"
definition LOCK_NB :: int where "LOCK_NB = 4"
definition LOCK_UN :: int where "LOCK_UN = 8"

definition t_flock_printUsage :: "'k os \<Rightarrow> string \<Rightarrow> ('k world, unit) state" where
  "t_flock_printUsage K program = do {
     eprintf K (''Usage: '' @ program @ '' <file> <lock> [<secs>]'' @ nl);
     eprintf K (''    <lock> - 's' (shared) or 'x' (exclusive)'' @ nl);
     eprintf K (''             optionally followed by 'n' (nonblocking)'' @ nl);
     eprintf K (''    <secs> - seconds to hold the lock'' @ nl);
     State_Monad.return () }"

text \<open>The operation that the second argument names; \<open>None\<close>: the usage message is printed.\<close>

definition t_flock_op :: "string \<Rightarrow> int option" where
  "t_flock_op a =
     (let op = (if a = [] then None else if a ! 0 = CHR ''s'' then Some LOCK_SH
                else if a ! 0 = CHR ''x'' then Some LOCK_EX else None)
      in case op of None \<Rightarrow> None
         | Some v \<Rightarrow>
             if length a = 2 then if a ! 1 = CHR ''n'' then Some (v OR LOCK_NB) else None
             else if 2 < length a then None
             else Some v)"

definition t_flock_main :: "'k os \<Rightarrow> string list \<Rightarrow> ('k, unit) cmd" where
  "t_flock_main K argv =
     (if length argv < 3 \<or> arg argv 1 = ''-h''
      then do { t_flock_printUsage K (arg argv 0); halt (Exit EXIT_FAILURE) }
      else let pathname = arg argv 1 in (case t_flock_op (arg argv 2) of
        None \<Rightarrow> do { t_flock_printUsage K (arg argv 0); halt (Exit EXIT_FAILURE) }
      | Some op \<Rightarrow> do {
        fd \<leftarrow> call K (File (Open pathname O_RDONLY 0));
        if fd = -1
        then die K (\<lambda>err. ''Failed to open() '' @ pathname @ '' - '' @ err @ nl)
        else let lockName = (if op AND LOCK_SH \<noteq> 0 then ''LOCK_SH'' else ''LOCK_EX'') in do {
        p \<leftarrow> call K (Proc Getpid);
        printf K (''PID '' @ dec p @ '': requesting '' @ lockName @ '' at '' @ pathname @ nl);
        f \<leftarrow> call K (File (Flock fd op));
        if f = -1
        then do {
          e \<leftarrow> get_errno;
          if e = EWOULDBLOCK
          then do {
            p \<leftarrow> call K (Proc Getpid);
            eprintf K (''PID '' @ dec p @ '': already locked - bye!'' @ nl);
            halt (Exit EXIT_FAILURE) }
          else die K (\<lambda>err. ''Failed to flock() '' @ lockName @ '' at '' @ pathname @ '' - '' @ err @ nl) }
        else do {
        p \<leftarrow> call K (Proc Getpid);
        printf K (''PID '' @ dec p @ '': granted '' @ lockName @ '' at '' @ pathname @ nl);
        bind_res (if 3 < length argv then t_flock_getLong K (arg argv 3) else ok 10) (\<lambda>secs. do {
        sys K (Proc (Sleep (c_uint secs)));
        p \<leftarrow> call K (Proc Getpid);
        printf K (''PID '' @ dec p @ '': releasing '' @ lockName @ '' at '' @ pathname @ nl);
        u \<leftarrow> call K (File (Flock fd LOCK_UN));
        if u = -1
        then die K (\<lambda>err. ''Failed to unlock flock() at '' @ pathname @ '' - '' @ err @ nl)
        else halt (Exit EXIT_SUCCESS) }) }}}))"

section \<open>filelock/i\_fcntl\_locking.c\<close>

definition MAX_LINE :: nat where "MAX_LINE = 100"

definition F_GETLK :: int where "F_GETLK = 5"
definition F_SETLK :: int where "F_SETLK = 6"
definition F_SETLKW :: int where "F_SETLKW = 7"
definition F_RDLCK :: int where "F_RDLCK = 0"
definition F_WRLCK :: int where "F_WRLCK = 1"
definition F_UNLCK :: int where "F_UNLCK = 2"

definition printCmdFormat :: "'k os \<Rightarrow> ('k world, unit) state" where
  "printCmdFormat K = do {
     printf K (nl @ ''    Format: <cmd> <lock> <start> <length> [<whence>]'' @ nl);
     printf K (''    <cmd>    - g (GETLK) | s (SETLK) | w (SETLKW)'' @ nl);
     printf K (''    <lock>   - r (READ) | w (WRITE) | u (UNLOCK)'' @ nl);
     printf K (''    <whence> - s (SEEK_SET, default) | c (SEEK_CUR) | e (SEEK_END)'' @ nl @ nl);
     State_Monad.return () }"

text \<open>
  \<open>sscanf(line, "%c %c %lld %lld %c", ...)\<close> as far as the caller looks: the values when at
  least four conversions succeeded, the last one if there was a fifth. A blank in the
  format skips any blanks, and \<open>%lld\<close> reads like \<open>strtoll\<close> with base 10.
\<close>

definition scan_lld :: "string \<Rightarrow> (int \<times> string) option" where
  "scan_lld s = (case strto_scan 10 s of None \<Rightarrow> None | Some _ \<Rightarrow> (case strtol 10 s of (v, rest, e) \<Rightarrow> Some (v, rest)))"

definition scan_char :: "string \<Rightarrow> (char \<times> string) option" where
  "scan_char s = (case dropWhile isspace s of [] \<Rightarrow> None | c # cs \<Rightarrow> Some (c, cs))"

definition scan_command :: "string \<Rightarrow> (char \<times> char \<times> int \<times> int \<times> char option) option" where
  "scan_command line = (case line of
     [] \<Rightarrow> None
   | cmdCh # s1 \<Rightarrow> (case scan_char s1 of None \<Rightarrow> None
     | Some (lock, s2) \<Rightarrow> (case scan_lld s2 of None \<Rightarrow> None
       | Some (l_start, s3) \<Rightarrow> (case scan_lld s3 of None \<Rightarrow> None
         | Some (len, s4) \<Rightarrow> Some (cmdCh, lock, l_start, len, map_option fst (scan_char s4))))))"

definition lock_cmd :: "char \<Rightarrow> int" where
  "lock_cmd c = (if c = CHR ''g'' then F_GETLK else if c = CHR ''s'' then F_SETLK else F_SETLKW)"

definition lock_type :: "char \<Rightarrow> int" where
  "lock_type c = (if c = CHR ''r'' then F_RDLCK else if c = CHR ''w'' then F_WRLCK else F_UNLCK)"

definition lock_whence :: "char \<Rightarrow> int" where
  "lock_whence c = (if c = CHR ''s'' then SEEK_SET else if c = CHR ''c'' then SEEK_CUR else SEEK_END)"

text \<open>The call to \<open>fcntl\<close> and the report on it.\<close>

definition lock_request :: "'k os \<Rightarrow> int \<Rightarrow> int \<Rightarrow> int \<Rightarrow> int \<Rightarrow> int \<Rightarrow> int \<Rightarrow> ('k, unit) cmd" where
  "lock_request K fd cmd l_type l_whence l_start len = do {
     status \<leftarrow> sys K (File (FcntlLock fd cmd l_type l_whence l_start len));
     e \<leftarrow> get_errno;
     if cmd = F_GETLK
     then
       if ret status = -1
       then die K (\<lambda>err. ''Failed to fcntl() F_GETLK - '' @ err @ nl)
       else do {
         p \<leftarrow> call K (Proc Getpid);
         (if rnum 0 status = F_UNLCK
          then printf K (''[PID='' @ dec p @ ''] Lock can be placed'' @ nl)
          else printf K (''[PID='' @ dec p @ ''] Denied by '' @ (if rnum 0 status = F_RDLCK then ''READ'' else ''WRITE'') @ '' lock on '' @
            dec (rnum 1 status) @ '':'' @ dec (rnum 2 status) @ '' (held by PID '' @ dec (rnum 3 status) @ '')'' @ nl));
         ok () }
     else if ret status = 0
     then do {
       p \<leftarrow> call K (Proc Getpid);
       printf K (''[PID='' @ dec p @ ''] '' @ (if l_type = F_UNLCK then ''unlocked'' else ''got lock'') @ nl);
       ok () }
     else if e = EAGAIN \<or> e = EACCES
     then do { p \<leftarrow> call K (Proc Getpid); printf K (''[PID='' @ dec p @ ''] failed (incompatible lock)'' @ nl); ok () }
     else if e = EDEADLK
     then do { p \<leftarrow> call K (Proc Getpid); printf K (''[PID='' @ dec p @ ''] failed (deadlock)'' @ nl); ok () }
     else die K (\<lambda>err. ''Failed to fcntl() F_SETLK(W) - '' @ err @ nl) }"

text \<open>What the loop does with a line, from which the last character has been removed.\<close>

definition lock_line :: "'k os \<Rightarrow> int \<Rightarrow> string \<Rightarrow> ('k, unit) cmd" where
  "lock_line K fd line =
     (if line = [] then ok ()
      else if line ! 0 = CHR ''?'' then do { printCmdFormat K; ok () }
      else (case scan_command line of
        None \<Rightarrow> do { printf K (''Invalid command!'' @ nl); ok () }
      | Some (cmdCh, lock, l_start, len, wh) \<Rightarrow>
          let whence = (case wh of None \<Rightarrow> CHR ''s'' | Some c \<Rightarrow> c) in
          if \<not> strchr_found ''gsw'' cmdCh \<or> \<not> strchr_found ''rwu'' lock \<or> \<not> strchr_found ''sce'' whence
          then do { printf K (''Invalid command!'' @ nl); ok () }
          else lock_request K fd (lock_cmd cmdCh) (lock_type lock) (lock_whence whence) l_start len))"

primrec lock_loop :: "nat \<Rightarrow> 'k os \<Rightarrow> int \<Rightarrow> ('k, unit) cmd" where
  "lock_loop 0 K fd = halt Hang"
| "lock_loop (Suc fuel) K fd = do {
     p \<leftarrow> call K (Proc Getpid);
     printf K (''PID='' @ dec p @ ''> '');
     sys K (Stdio (Fflush 1));
     r \<leftarrow> sys K (Stdio (Fgets MAX_LINE));
     if ret r \<le> 0 then ok ()
     else if cstr (rdata r) = [] then halt Undef
     else bind_res (lock_line K fd (butlast (cstr (rdata r)))) (\<lambda>_. lock_loop fuel K fd) }"

definition i_fcntl_locking_main :: "nat \<Rightarrow> 'k os \<Rightarrow> string list \<Rightarrow> ('k, unit) cmd" where
  "i_fcntl_locking_main fuel K argv =
     (if length argv \<noteq> 2 \<or> arg argv 1 = ''-h''
      then usage K (''Usage: '' @ arg argv 0 @ '' <pathname>'' @ nl)
      else let pathname = arg argv 1 in do {
        fd \<leftarrow> call K (File (Open pathname O_RDWR 0));
        if fd = -1
        then die K (\<lambda>err. ''Failed to open() '' @ pathname @ '' - '' @ err @ nl)
        else do {
        printf K (''Enter ? for help'' @ nl);
        bind_res (lock_loop fuel K fd) (\<lambda>_. halt (Exit EXIT_SUCCESS)) }})"

section \<open>Properties\<close>

lemma scan_base_10: "scan_base 10 s = (10, s)"
  by (simp add: scan_base_def)

lemma strto_scan_dec_rest:
  assumes "rest = [] \<or> \<not> is_digit_of 10 (hd rest)"
  shows "strto_scan 10 (dec n @ rest) = Some (n < 0, nat \<bar>n\<bar>, rest)"
proof -
  let ?ds = "radix_nat 10 (nat \<bar>n\<bar>)"
  have dig: "is_digit_of 10 c" if "c \<in> set ?ds" for c using that radix_nat_digits [of 10 c] by simp
  obtain c cs where ds: "?ds = c # cs" by (cases ?ds) auto
  then have c: "is_digit_of 36 c" using dig [of c] is_digit_of_mono [of 10 c 36] by simp
  have sg: "scan_sign (dropWhile isspace (dec n @ rest)) = (n < 0, ?ds @ rest)"
    using c ds digit_not_space [OF c]
    by (auto simp: dec_def scan_sign_digits) (simp_all add: scan_sign_def)
  have "takeWhile (is_digit_of 10) rest = []" "dropWhile (is_digit_of 10) rest = rest"
    using assms by (cases rest; simp)+
  with dig have "takeWhile (is_digit_of 10) (?ds @ rest) = ?ds" "dropWhile (is_digit_of 10) (?ds @ rest) = rest"
    by (simp_all add: takeWhile_append2 dropWhile_append2)
  with sg show ?thesis
    by (simp add: strto_scan_def scan_base_10 Let_def num_of_radix_nat del: takeWhile_eq_Nil_iff)
qed

lemma scan_lld_dec:
  assumes "LONG_MIN \<le> n" "n \<le> LONG_MAX" "rest = [] \<or> \<not> is_digit_of 10 (hd rest)"
  shows "scan_lld (CHR '' '' # dec n @ rest) = Some (n, rest)"
proof -
  have "isspace CHR '' ''" by (simp add: isspace_def)
  then have "strto_scan 10 (CHR '' '' # dec n @ rest) = strto_scan 10 (dec n @ rest)" by (simp add: strto_scan_def)
  with strto_scan_dec_rest [OF assms(3)] assms(1,2) show ?thesis by (simp add: scan_lld_def strtol_def Let_def)
qed

lemma scan_char_blank: "\<not> isspace c \<Longrightarrow> scan_char (CHR '' '' # c # s) = Some (c, s)"
proof -
  have "isspace CHR '' ''" by (simp add: isspace_def)
  moreover assume "\<not> isspace c"
  ultimately show ?thesis by (simp add: scan_char_def)
qed

text \<open>The call that a request makes, and no other call of \<open>fcntl\<close> after it.\<close>

abbreviation (input) lock_call :: "int \<Rightarrow> int \<Rightarrow> int \<Rightarrow> int \<Rightarrow> int \<Rightarrow> int \<Rightarrow> syscall" where
  "lock_call fd cmd ty wh from n \<equiv> File (FcntlLock fd cmd ty wh from n)"

definition no_lock_call :: "event \<Rightarrow> bool" where
  "no_lock_call e \<longleftrightarrow> (\<forall>fd cmd ty wh from n. fst e \<noteq> lock_call fd cmd ty wh from n)"

lemma no_lock_call_simps [simp]: "no_lock_call (Proc c, r)" "no_lock_call (Stdio i, r)"
  by (simp_all add: no_lock_call_def)

lemma wp_lock_request:
  "wp (lock_request K fd cmd ty wh from n) (\<lambda>r w'. (r = Ok () \<or> r = Exit 1) \<and>
     (\<exists>x d. trace w' = trace w @ (lock_call fd cmd ty wh from n, x) # d \<and> list_all no_lock_call d \<and>
        (r = Exit 1 \<longrightarrow> ret x \<noteq> 0) \<and>
        (cmd \<noteq> F_GETLK \<and> ret x = 0 \<longrightarrow> (\<exists>p. printed 1 d = ''[PID='' @ dec p @ ''] '' @
           (if ty = F_UNLCK then ''unlocked'' else ''got lock'') @ nl)))) w"
  unfolding lock_request_def by (auto intro!: wp_sys_any wp_call_any wp_tr(4,5))

text \<open>
  C35. A command line means what the help text says: a line made of a command letter, a lock
  letter, two numbers in the range of \<open>long long\<close> and a letter for the origin makes exactly one
  \<open>fcntl\<close> call. Its command is \<open>F_GETLK\<close>, \<open>F_SETLK\<close> or \<open>F_SETLKW\<close> for the letters g, s and w, its
  lock type \<open>F_RDLCK\<close>, \<open>F_WRLCK\<close> or \<open>F_UNLCK\<close> for r, w and u, and its origin \<open>SEEK_SET\<close>, \<open>SEEK_CUR\<close> or
  \<open>SEEK_END\<close> for s, c and e, or \<open>SEEK_SET\<close> without the last letter; the start and the length are
  the two numbers. A lock that was set is reported as such, and one that was removed as unlocked. The
  program ends only if the call failed.
\<close>

theorem lock_line_requests:
  assumes "(c, cmd) \<in> {(CHR ''g'', F_GETLK), (CHR ''s'', F_SETLK), (CHR ''w'', F_SETLKW)}"
    and "(t, ty) \<in> {(CHR ''r'', F_RDLCK), (CHR ''w'', F_WRLCK), (CHR ''u'', F_UNLCK)}"
    and "(tail, wh) \<in> {([], SEEK_SET), ('' s'', SEEK_SET), ('' c'', SEEK_CUR), ('' e'', SEEK_END)}"
    and "LONG_MIN \<le> from" "from \<le> LONG_MAX" "LONG_MIN \<le> n" "n \<le> LONG_MAX"
  shows "wp (lock_line K fd ([c] @ '' '' @ [t] @ '' '' @ dec from @ '' '' @ dec n @ tail)) (\<lambda>r w'. (r = Ok () \<or> r = Exit 1) \<and>
     (\<exists>x d. trace w' = trace w @ (File (FcntlLock fd cmd ty wh from n), x) # d \<and> list_all no_lock_call d \<and>
        (r = Exit 1 \<longrightarrow> ret x \<noteq> 0) \<and>
        (c \<noteq> CHR ''g'' \<and> ret x = 0 \<longrightarrow> (\<exists>p. printed 1 d = ''[PID='' @ dec p @ ''] '' @
           (if t = CHR ''u'' then ''unlocked'' else ''got lock'') @ nl)))) w"
proof -
  define h where "h = (if tail = [] then None else Some (tail ! 1))"
  have sp: "\<not> is_digit_of 10 CHR '' ''" by (simp add: is_digit_of_def digit_val_def)
  have "scan_lld (CHR '' '' # dec n @ tail) = Some (n, tail)"
    using assms(3,6,7) sp by (intro scan_lld_dec) auto
  moreover have "scan_lld (CHR '' '' # dec from @ '' '' @ dec n @ tail) = Some (from, '' '' @ dec n @ tail)"
    using assms(4,5) sp by (intro scan_lld_dec) auto
  moreover have "map_option fst (scan_char tail) = h"
    using assms(3) by (auto simp: h_def scan_char_def isspace_def)
  moreover have "scan_char (CHR '' '' # t # s) = Some (t, s)" for s
    using assms(2) by (intro scan_char_blank) (auto simp: isspace_def)
  ultimately have scan: "scan_command ([c] @ '' '' @ [t] @ '' '' @ dec from @ '' '' @ dec n @ tail) = Some (c, t, from, n, h)"
    by (simp add: scan_command_def)
  have "lock_cmd c = cmd" "strchr_found ''gsw'' c" "c \<noteq> CHR ''?''" "c = CHR ''g'' \<longleftrightarrow> cmd = F_GETLK"
    using assms(1) by (auto simp: lock_cmd_def strchr_found_def F_GETLK_def F_SETLK_def F_SETLKW_def)
  moreover have "lock_type t = ty" "strchr_found ''rwu'' t" "t = CHR ''u'' \<longleftrightarrow> ty = F_UNLCK"
    using assms(2) by (auto simp: lock_type_def strchr_found_def F_RDLCK_def F_WRLCK_def F_UNLCK_def)
  moreover have "lock_whence (case h of None \<Rightarrow> CHR ''s'' | Some c \<Rightarrow> c) = wh" "strchr_found ''sce'' (case h of None \<Rightarrow> CHR ''s'' | Some c \<Rightarrow> c)"
    using assms(3) by (auto simp: h_def lock_whence_def strchr_found_def)
  ultimately show ?thesis
    unfolding lock_line_def using scan wp_lock_request [of K fd cmd ty wh "from" n w]
    by (auto simp: Let_def)
qed

theorem lock_line_requests_witness:
  "wp (lock_line script_os 3 ''s w 0 10 e'') (\<lambda>r w'. (r = Ok () \<or> r = Exit 1) \<and>
     (\<exists>x d. trace w' = (File (FcntlLock 3 F_SETLK F_WRLCK SEEK_END 0 10), x) # d \<and> list_all no_lock_call d)) (start [])"
proof -
  have dec: "dec 0 = ''0''" "dec 10 = ''10''" by code_simp+
  show ?thesis
    by (rule wp_mono [OF lock_line_requests [of "CHR ''s''" F_SETLK "CHR ''w''" F_WRLCK "'' e''" SEEK_END 0 10 script_os 3 "start []",
            unfolded dec append_Cons append_Nil]])
       (auto simp: LONG_MIN_def LONG_MAX_def start_def)
qed

end
