(* ===== verification/Signals.thy ===== *)
theory Signals
  imports Lpi_Library Num_Args
begin

text \<open>
  The programs of \<open>signals/\<close>. A handler is a function on the static variables it shares with
  the main program. Signals arrive where the programs wait and where they look at the shared
  variables: there \<open>deliver\<close> runs the handler for every signal that the system delivers. A
  handler is not interrupted by another one.
\<close>

text \<open>The handler gets the answer that names the signal; the first argument bounds the number of
  signals delivered at one point.\<close>

primrec deliver :: "nat \<Rightarrow> 'k os \<Rightarrow> (sysret \<Rightarrow> 's \<Rightarrow> ('k, 's) cmd) \<Rightarrow> 's \<Rightarrow> ('k, 's) cmd" where
  "deliver 0 K handler st = halt Hang"
| "deliver (Suc fuel) K handler st = do {
     r \<leftarrow> sys K (Sig Delivered);
     if ret r = 0 then ok st else bind_res (handler r st) (deliver fuel K handler) }"

definition SIGTERM :: int where "SIGTERM = 15"
definition SIGTSTP :: int where "SIGTSTP = 20"
definition SIGSEGV :: int where "SIGSEGV = 11"
definition SA_SIGINFO :: int where "SA_SIGINFO = 4"

section \<open>signals/src/ouch.c and signals/src/intquit.c\<close>

definition ouch_sigHandler :: "'k os \<Rightarrow> sysret \<Rightarrow> unit \<Rightarrow> ('k, unit) cmd" where
  "ouch_sigHandler K sig st = do { printf K (''Ouch'' @ nl); ok () }"

definition ouch_main :: "nat \<Rightarrow> 'k os \<Rightarrow> string list \<Rightarrow> ('k, unit) cmd" where
  "ouch_main fuel K argv = do {
     s \<leftarrow> call K (Proc (Signal SIGINT SIG_HANDLER));
     if s = SIG_ERR
     then die K (\<lambda>err. ''Failed to set SIGINT handler - '' @ err @ nl)
     else forever fuel (\<lambda>i. do {
       printf K (dec i @ nl);
       sys K (Proc (Sleep 3));
       bind_res (deliver fuel K (ouch_sigHandler K) ()) (\<lambda>_.
         if i = INT_MAX then halt Undef else ok (i + 1)) }) 0 }"

text \<open>The state of the handler is its static counter.\<close>

definition intquit_sigHandler :: "'k os \<Rightarrow> sysret \<Rightarrow> int \<Rightarrow> ('k, int) cmd" where
  "intquit_sigHandler K sig count =
     (if ret sig = SIGINT
      then if count = INT_MAX then halt Undef
        else do { printf K (''Caught SIGINT - ('' @ dec (count + 1) @ '')'' @ nl); ok (count + 1) }
      else if ret sig = SIGQUIT
      then do { printf K (''Caught SIGQUIT - that's all folks!'' @ nl); halt (Exit EXIT_SUCCESS) }
      else usage K (''Caught unhandled signal '' @ dec (ret sig) @ nl))"

definition intquit_main :: "nat \<Rightarrow> 'k os \<Rightarrow> string list \<Rightarrow> ('k, unit) cmd" where
  "intquit_main fuel K argv = do {
     s \<leftarrow> call K (Proc (Signal SIGINT SIG_HANDLER));
     if s = SIG_ERR
     then die K (\<lambda>err. ''Failed to set signal handler for SIGINT - '' @ err @ nl)
     else do {
     s \<leftarrow> call K (Proc (Signal SIGQUIT SIG_HANDLER));
     if s = SIG_ERR
     then die K (\<lambda>err. ''Failed to set signal handler for SIGQUIT - '' @ err @ nl)
     else forever fuel (\<lambda>count. do {
       sys K (Sig Pause);
       deliver fuel K (intquit_sigHandler K) count }) 0 }}"

section \<open>signals/src/nonreentrant.c\<close>

text \<open>The static variables, and the static buffer of \<open>crypt\<close>, which a call in the handler
  overwrites. A null result of \<open>crypt\<close> is passed to \<open>strdup\<close> or \<open>strcmp\<close> unchecked.\<close>

record nonreentrant =
  handled :: int
  crypt_buf :: string

definition nonreentrant_sigHandler :: "'k os \<Rightarrow> string \<Rightarrow> sysret \<Rightarrow> nonreentrant \<Rightarrow> ('k, nonreentrant) cmd" where
  "nonreentrant_sigHandler K str2 sig st = do {
     r \<leftarrow> sys K (Sig (Crypt str2 ''xx''));
     ok (st\<lparr>handled := handled st + 1, crypt_buf := (if ret r = 0 then crypt_buf st else rdata r)\<rparr>) }"

definition nonreentrant_round ::
  "nat \<Rightarrow> 'k os \<Rightarrow> string \<Rightarrow> string \<Rightarrow> string \<Rightarrow> int \<times> int \<times> nonreentrant \<Rightarrow> ('k, int \<times> int \<times> nonreentrant) cmd" where
  "nonreentrant_round fuel K str1 str2 expectedHash = (\<lambda>(i, numMismatch, st). do {
     r \<leftarrow> sys K (Sig (Crypt str1 ''xx''));
     if ret r = 0 then halt Undef
     else bind_res (deliver fuel K (nonreentrant_sigHandler K str2) (st\<lparr>crypt_buf := rdata r\<rparr>)) (\<lambda>st.
       if crypt_buf st \<noteq> expectedHash
       then do {
         printf K (''Mismatch on call '' @ dec i @ '' (mismatch='' @ dec (numMismatch + 1) @ '' handled='' @ dec (handled st) @ '')'' @ nl);
         ok (i + 1, numMismatch + 1, st) }
       else ok (i + 1, numMismatch, st)) })"

definition nonreentrant_main :: "nat \<Rightarrow> 'k os \<Rightarrow> string list \<Rightarrow> ('k, unit) cmd" where
  "nonreentrant_main fuel K argv =
     (if length argv \<noteq> 3 \<or> arg argv 1 = ''-h''
      then usage K (''Usage: '' @ arg argv 0 @ '' <str1> <str2>'' @ nl)
      else let str1 = arg argv 1; str2 = arg argv 2 in do {
        h \<leftarrow> sys K (Sig (Crypt str1 ''xx''));
        if ret h = 0 then halt Undef
        else do {
        p \<leftarrow> call K (Proc (Malloc (int (length (rdata h)) + 1)));
        if p = 0
        then die K (\<lambda>err. ''Failed to strdup() '' @ str1 @ '' - '' @ err @ nl)
        else do {
        s \<leftarrow> call K (Proc Sigemptyset);
        if s = -1
        then die K (\<lambda>err. ''Failed to sigemtpyset() signal mask - '' @ err @ nl)
        else do {
        s \<leftarrow> call K (Proc (Sigaction SIGINT SIG_HANDLER 0));
        if s = -1
        then die K (\<lambda>err. ''Failed to set sigaction() for INTQUIT - '' @ err @ nl)
        else forever fuel (nonreentrant_round fuel K str1 str2 (rdata h))
               (0, 0, \<lparr>handled = 0, crypt_buf = rdata h\<rparr>) }}}})"

section \<open>signals/src/sig\_receiver.c\<close>

record sig_counts =
  sigCount :: "int \<Rightarrow> int"
  gotSigInt :: bool

definition sig_receiver_sigHandler :: "sysret \<Rightarrow> sig_counts \<Rightarrow> ('k, sig_counts) cmd" where
  "sig_receiver_sigHandler r st = (let sig = ret r in
     if sig = SIGINT then ok (st\<lparr>gotSigInt := True\<rparr>)
     else if sig < 0 \<or> NSIG \<le> sig \<or> sigCount st sig = LONG_MAX then halt Undef
     else ok (st\<lparr>sigCount := (sigCount st)(sig := sigCount st sig + 1)\<rparr>))"

text \<open>\<open>while (!gotSigInt);\<close>\<close>

primrec sig_receiver_spin :: "nat \<Rightarrow> nat \<Rightarrow> 'k os \<Rightarrow> sig_counts \<Rightarrow> ('k, sig_counts) cmd" where
  "sig_receiver_spin 0 n K st = halt Hang"
| "sig_receiver_spin (Suc fuel) n K st =
     bind_res (deliver n K sig_receiver_sigHandler st) (\<lambda>st.
       if gotSigInt st then ok st else sig_receiver_spin fuel n K st)"

text \<open>The report on one signal reads \<open>sigCount[i]\<close> three times: for the test, for the number and for the plural; signals may
  arrive before each of them. C does not specify in which order the arguments of \<open>printf\<close> are evaluated:
  \<open>plural_first\<close> is the choice of the compiler.\<close>

definition count_line :: "string \<Rightarrow> int \<Rightarrow> int \<Rightarrow> int \<Rightarrow> string" where
  "count_line prog i n m = prog @ '': signal '' @ dec i @ '' caught '' @ dec n @ '' time'' @ (if m = 1 then '''' else ''s'') @ nl"

definition sig_receiver_report :: "bool \<Rightarrow> nat \<Rightarrow> 'k os \<Rightarrow> string \<Rightarrow> int \<Rightarrow> sig_counts \<Rightarrow> ('k, sig_counts) cmd" where
  "sig_receiver_report plural_first n K prog i st =
     bind_res (deliver n K sig_receiver_sigHandler st) (\<lambda>st.
       if sigCount st i \<noteq> 0
       then
         bind_res (deliver n K sig_receiver_sigHandler st) (\<lambda>st1.
         bind_res (deliver n K sig_receiver_sigHandler st1) (\<lambda>st2. do {
           printf K (if plural_first then count_line prog i (sigCount st2 i) (sigCount st1 i)
                     else count_line prog i (sigCount st1 i) (sigCount st2 i));
           ok st2 }))
       else ok st)"

definition sig_receiver_wait :: "'k os \<Rightarrow> string \<Rightarrow> string \<Rightarrow> ('k, unit) cmd" where
  "sig_receiver_wait K prog secs =
     bind_res (sig_receiver_getUnsignedInt K secs) (\<lambda>sec. do {
       s \<leftarrow> call K (Sig Sigfillset);
       if s = -1
       then die K (\<lambda>err. ''Failed to sigfillset() - '' @ err @ nl)
       else do {
       s \<leftarrow> call K (Proc (Sigprocmask SIG_BLOCK (Some (-1))));
       if s = -1
       then die K (\<lambda>err. ''Failed to block signals - '' @ err @ nl)
       else do {
       printf K (prog @ '': Sleeping for '' @ dec sec @ '' secs'' @ nl);
       sys K (Proc (Sleep sec));
       p \<leftarrow> sys K (Proc Sigpending);
       if ret p = -1
       then die K (\<lambda>err. ''Failed to get pending signals - '' @ err @ nl)
       else do {
       printf K (prog @ '': pending signals are: '' @ nl);
       bind_res (printSigSet K 1 (tab @ tab) (word_of_int (rnum 0 p))) (\<lambda>_. do {
       s \<leftarrow> call K (Proc Sigemptyset);
       if s = -1
       then die K (\<lambda>err. ''Failed to sigemptyset() - '' @ err @ nl)
       else do {
       s \<leftarrow> call K (Proc (Sigprocmask SIG_SETMASK (Some 0)));
       if s = -1
       then die K (\<lambda>err. ''Failed to set signal mask - '' @ err @ nl)
       else ok () }}) }}}})"

definition sig_receiver_main :: "bool \<Rightarrow> nat \<Rightarrow> 'k os \<Rightarrow> string list \<Rightarrow> ('k, unit) cmd" where
  "sig_receiver_main plural_first fuel K argv = do {
     p \<leftarrow> call K (Proc Getpid);
     printf K (arg argv 0 @ '': PID is '' @ dec p @ nl);
     bind_res (for_each [1..NSIG - 1] (\<lambda>i. do { call K (Proc (Signal i SIG_HANDLER)); ok () })) (\<lambda>_.
     bind_res (if 1 < length argv then sig_receiver_wait K (arg argv 0) (arg argv 1) else ok ()) (\<lambda>_.
     bind_res (sig_receiver_spin fuel fuel K \<lparr>sigCount = (\<lambda>_. 0), gotSigInt = False\<rparr>) (\<lambda>st.
     bind_res (fold_each [1..NSIG - 1] (sig_receiver_report plural_first fuel K (arg argv 0)) st) (\<lambda>_.
     halt (Exit EXIT_SUCCESS))))) }"

section \<open>signals/src/sig\_sender.c\<close>

definition sig_sender_kill :: "'k os \<Rightarrow> int \<Rightarrow> int \<Rightarrow> ('k, unit) cmd" where
  "sig_sender_kill K pid sig = do {
     k \<leftarrow> call K (Proc (Kill pid sig));
     if k = -1
     then die K (\<lambda>err. ''Failed to send signal '' @ dec sig @ '' to process '' @ dec pid @ '' - '' @ err @ nl)
     else ok () }"

definition sig_sender_main :: "'k os \<Rightarrow> string list \<Rightarrow> ('k, unit) cmd" where
  "sig_sender_main K argv =
     (if length argv < 4 \<or> arg argv 1 = ''-h''
      then usage K (''Usage: '' @ arg argv 0 @ '' <pid> <num sigs> <sig1> [<sig2>]'' @ nl)
      else bind_res (sig_sender_getLong K (arg argv 1)) (\<lambda>p. let pid = c_int p in
        bind_res (sig_sender_getLong K (arg argv 2)) (\<lambda>numSigs.
        bind_res (sig_sender_getLong K (arg argv 3)) (\<lambda>s. let sig = c_int s in do {
          printf K (arg argv 0 @ '': sending signal '' @ dec sig @ '' to process '' @ dec pid @ '' '' @ dec numSigs @ '' times'' @ nl);
          bind_res (for_each (replicate (nat numSigs) ()) (\<lambda>_. sig_sender_kill K pid sig)) (\<lambda>_.
          bind_res (if 4 < length argv
                    then bind_res (sig_sender_getLong K (arg argv 4)) (\<lambda>s. sig_sender_kill K pid (c_int s))
                    else ok ()) (\<lambda>_. do {
          printf K (arg argv 0 @ '': exiting'' @ nl);
          halt (Exit EXIT_SUCCESS) })) }))))"

section \<open>signals/src/t\_kill.c\<close>

definition t_kill_main :: "'k os \<Rightarrow> string list \<Rightarrow> ('k, unit) cmd" where
  "t_kill_main K argv =
     (if length argv \<noteq> 3 \<or> arg argv 1 = ''-h''
      then usage K (''Usage: '' @ arg argv 0 @ '' <pid> <sig-num>'' @ nl)
      else bind_res (t_kill_getInt K (arg argv 1)) (\<lambda>pid.
        bind_res (t_kill_getInt K (arg argv 2)) (\<lambda>sig. do {
          result \<leftarrow> call K (Proc (Kill pid sig));
          e \<leftarrow> get_errno;
          if sig = 0
          then
            if result = 0
            then do { printf K (''Process exists and we can send it a signal'' @ nl); halt (Exit EXIT_SUCCESS) }
            else if e = EPERM
            then do {
              printf K (''Process '' @ dec pid @ '' exists, but we don't have permission to send signal '' @ dec sig @ nl);
              halt (Exit EXIT_SUCCESS) }
            else if e = ESRCH
            then do { printf K (''Process '' @ dec pid @ '' does not exist'' @ nl); halt (Exit EXIT_SUCCESS) }
            else usage K (''Failed to kill() '' @ dec pid @ '' with signal '' @ dec sig @ nl)
          else if result = -1
          then usage K (''Failed to kill() '' @ dec pid @ '' with signal '' @ dec sig @ nl)
          else halt (Exit EXIT_SUCCESS) })))"

section \<open>signals/src/t\_sigqueue.c\<close>

text \<open>\<open>data + i\<close> is an addition of \<open>int\<close>s.\<close>

definition t_sigqueue_send :: "'k os \<Rightarrow> int \<Rightarrow> int \<Rightarrow> int \<Rightarrow> int \<Rightarrow> ('k, unit) cmd" where
  "t_sigqueue_send K pid sig dat i =
     (if INT_MAX < dat + i then halt Undef
      else do {
        q \<leftarrow> call K (Sig (Sigqueue pid sig (dat + i)));
        if q = -1 then die K (\<lambda>err. ''Failed to sigqueue() - '' @ err @ nl) else ok () })"

definition t_sigqueue_main :: "'k os \<Rightarrow> string list \<Rightarrow> ('k, unit) cmd" where
  "t_sigqueue_main K argv =
     (if length argv < 4 \<or> arg argv 1 = ''-h''
      then usage K (''Usage: '' @ arg argv 0 @ '' <pid> <sig> <data> [<num sigs>]'' @ nl)
      else do {
        p \<leftarrow> call K (Proc Getpid);
        u \<leftarrow> call K (Info Getuid);
        printf K (arg argv 0 @ '': PID is '' @ dec p @ '', UID is '' @ dec u @ nl);
        bind_res (t_sigqueue_getLong K (arg argv 1)) (\<lambda>pid.
        bind_res (t_sigqueue_getLong K (arg argv 2)) (\<lambda>sig.
        bind_res (t_sigqueue_getLong K (arg argv 3)) (\<lambda>dat.
        bind_res (if 4 < length argv then t_sigqueue_getLong K (arg argv 4) else ok 1) (\<lambda>numSigs.
        bind_res (for_each [0..c_int numSigs - 1] (t_sigqueue_send K (c_int pid) (c_int sig) (c_int dat))) (\<lambda>_.
        halt (Exit EXIT_SUCCESS)))))) })"

section \<open>signals/src/catch\_rtsigs.c\<close>

record rtsigs =
  handlerSleepTime :: int
  numSigsCaught :: int
  isDone :: bool

definition SI_USER :: int where "SI_USER = 0"
definition SI_QUEUE :: int where "SI_QUEUE = -1"

text \<open>The members \<open>si_code\<close>, \<open>si_value\<close>, \<open>si_pid\<close> and \<open>si_uid\<close> are the numbers of the answer.\<close>

definition catch_rtsigs_sigHandler :: "'k os \<Rightarrow> sysret \<Rightarrow> rtsigs \<Rightarrow> ('k, rtsigs) cmd" where
  "catch_rtsigs_sigHandler K r st =
     (if ret r = SIGINT \<or> ret r = SIGTERM then ok (st\<lparr>isDone := True\<rparr>)
      else do {
        printf K (''Caught signal '' @ dec (ret r) @ nl);
        printf K (tab @ ''si_signo='' @ dec (ret r) @ '', si_code='' @ dec (rnum 0 r) @ '' ('' @
          (if rnum 0 r = SI_USER then ''SI_USER'' else if rnum 0 r = SI_QUEUE then ''SI_QUEUE'' else ''other'') @
          ''), si_value='' @ dec (rnum 1 r) @ nl);
        printf K (tab @ ''si_pid='' @ dec (rnum 2 r) @ '', si_uid='' @ dec (rnum 3 r) @ nl @ nl);
        sys K (Proc (Sleep (c_uint (handlerSleepTime st))));
        ok (st\<lparr>numSigsCaught := c_ulong (numSigsCaught st + 1)\<rparr>) })"

text \<open>\<open>while (!isDone) pause();\<close> A signal may arrive between the test and the call.\<close>

primrec catch_rtsigs_loop :: "nat \<Rightarrow> nat \<Rightarrow> 'k os \<Rightarrow> rtsigs \<Rightarrow> ('k, rtsigs) cmd" where
  "catch_rtsigs_loop 0 n K st = halt Hang"
| "catch_rtsigs_loop (Suc fuel) n K st =
     (if isDone st then ok st
      else bind_res (deliver n K (catch_rtsigs_sigHandler K) st) (\<lambda>st. do {
        sys K (Sig Pause);
        bind_res (deliver n K (catch_rtsigs_sigHandler K) st) (catch_rtsigs_loop fuel n K) }))"

text \<open>All signals but \<open>SIGINT\<close> and \<open>SIGQUIT\<close>.\<close>

definition blocked_mask :: "64 word" where
  "blocked_mask = NOT (push_bit (nat (SIGINT - 1)) 1 OR push_bit (nat (SIGQUIT - 1)) 1)"

definition catch_rtsigs_block :: "nat \<Rightarrow> 'k os \<Rightarrow> string \<Rightarrow> string \<Rightarrow> rtsigs \<Rightarrow> ('k, rtsigs) cmd" where
  "catch_rtsigs_block fuel K prog secs st = do {
     s \<leftarrow> call K (Sig Sigfillset);
     if s = -1
     then die K (\<lambda>err. ''Failed to sigfillset() process mask - '' @ err @ nl)
     else bind_res (for_each [SIGINT, SIGQUIT] (\<lambda>sig. do {
         s \<leftarrow> call K (Sig (Sigdelset sig));
         if s = -1
         then die K (\<lambda>err. ''Failed to sigdelset() '' @ strsignal K sig @ '' from process mask - '' @ err)
         else ok () })) (\<lambda>_. do {
       prev \<leftarrow> sys K (Proc (Sigprocmask SIG_SETMASK (Some blocked_mask)));
       if ret prev = -1
       then die K (\<lambda>err. ''Failed to set sigprocmask() - '' @ err @ nl)
       else bind_res (catch_rtsigs_getUnsignedLong K secs) (\<lambda>blockTime. do {
         printf K (prog @ '': signals blocked - sleeping '' @ dec blockTime @ '' seconds'' @ nl);
         sys K (Proc (Sleep (c_uint blockTime)));
         bind_res (deliver fuel K (catch_rtsigs_sigHandler K) st) (\<lambda>st. do {
           printf K (prog @ '': sleep complete'' @ nl);
           s \<leftarrow> call K (Proc (Sigprocmask SIG_SETMASK (Some (word_of_int (rnum 0 prev)))));
           if s = -1
           then die K (\<lambda>err. ''Failed to restore sigprocmask() - '' @ err @ nl)
           else deliver fuel K (catch_rtsigs_sigHandler K) st }) }) }) }"

definition catch_rtsigs_main :: "nat \<Rightarrow> 'k os \<Rightarrow> string list \<Rightarrow> ('k, unit) cmd" where
  "catch_rtsigs_main fuel K argv =
     (if 1 < length argv \<and> arg argv 1 = ''-h''
      then usage K (''Usage: '' @ arg argv 0 @ '' [<block time> [<handler sleep time>]]'' @ nl)
      else do {
        p \<leftarrow> call K (Proc Getpid);
        printf K (arg argv 0 @ '': PID is '' @ dec p @ nl);
        bind_res (if 2 < length argv then catch_rtsigs_getUnsignedLong K (arg argv 2) else ok 1) (\<lambda>sleepTime. do {
          s \<leftarrow> call K (Proc Sigemptyset);
          if s = -1
          then die K (\<lambda>err. ''Failed to set empty signal handler mask - '' @ err @ nl)
          else bind_res (for_each [1..NSIG - 1] (\<lambda>i.
              if i \<noteq> SIGTSTP \<and> i \<noteq> SIGQUIT
              then do { call K (Proc (Sigaction i SIG_HANDLER SA_SIGINFO)); ok () }
              else ok ())) (\<lambda>_.
            let st = \<lparr>handlerSleepTime = sleepTime, numSigsCaught = 0, isDone = False\<rparr> in
            bind_res (if 1 < length argv then catch_rtsigs_block fuel K (arg argv 0) (arg argv 1) st else ok st) (\<lambda>st.
            bind_res (catch_rtsigs_loop fuel fuel K st) (\<lambda>st. do {
              printf K (''Caught '' @ dec (numSigsCaught st) @ '' signals'' @ nl);
              halt (Exit EXIT_SUCCESS) }))) }) })"

section \<open>signals/src/sigmask\_longjmp.c\<close>

text \<open>The handler either returns or jumps: \<open>Ok True\<close> stands for the jump. The static variable
  \<open>canJump\<close> is the state; after the jump \<open>main\<close> goes on in the \<open>else\<close> branch of \<open>setjmp\<close> and
  calls \<open>pause\<close> again. This is the program built without \<open>USE_SIGSETJUMP\<close>.\<close>

definition sigmask_handler :: "'k os \<Rightarrow> bool \<Rightarrow> int \<Rightarrow> ('k, bool) cmd" where
  "sigmask_handler K canJump sig = do {
     printf K (''Received signal '' @ dec sig @ '' ('' @ strsignal K sig @ ''), signal mask is:'' @ nl);
     bind_res (printSigMask K 1 None) (\<lambda>_.
       if \<not> canJump
       then do { printf K ([CHR 0x27] @ ''env'' @ [CHR 0x27] @ '' buffer not yet set, doing a simple return'' @ nl); ok False }
       else ok True) }"

primrec sigmask_loop :: "nat \<Rightarrow> 'k os \<Rightarrow> ('k, unit) cmd" where
  "sigmask_loop 0 K = halt Hang"
| "sigmask_loop (Suc fuel) K = do {
     sys K (Sig Pause);
     r \<leftarrow> sys K (Sig Delivered);
     if ret r = 0 then sigmask_loop fuel K
     else bind_res (sigmask_handler K True (ret r)) (\<lambda>jumped.
       if jumped
       then bind_res (printSigMask K 1 (Some (''After jump from handler, signal mask is:'' @ nl))) (\<lambda>_. sigmask_loop fuel K)
       else sigmask_loop fuel K) }"

definition sigmask_longjmp_main :: "nat \<Rightarrow> 'k os \<Rightarrow> string list \<Rightarrow> ('k, unit) cmd" where
  "sigmask_longjmp_main fuel K argv = do {
     s \<leftarrow> call K (Proc Sigemptyset);
     if s = -1
     then die K (\<lambda>err. ''Failed to set mask to sigemptyset() - '' @ err @ nl)
     else do {
     s \<leftarrow> call K (Proc (Sigaction SIGINT SIG_HANDLER 0));
     if s = -1
     then die K (\<lambda>err. ''Failed to set sigaction() for SIGINT - '' @ err @ nl)
     else do {
     printf K (''Calling setjmp()'' @ nl);
     bind_res (deliver fuel K (\<lambda>r st. bind_res (sigmask_handler K False (ret r)) (\<lambda>_. ok st)) ()) (\<lambda>_.
     sigmask_loop fuel K) }}}"

section \<open>signals/src/t\_sigaltstack.c\<close>

definition SIGSTKSZ :: int where "SIGSTKSZ = 8192"

definition SA_ONSTACK :: "32 word" where "SA_ONSTACK = 0x08000000"

text \<open>\<open>%10p\<close>. The addresses of the local variables are parameters: \<open>j\<close> of \<open>main\<close>, \<open>hj\<close> of \<open>handler\<close>,
  \<open>tmp i\<close> of the call \<open>i\<close> of \<open>overflowStack\<close>. The member \<open>sa_flags\<close> is never assigned: the value that
  \<open>sigaction\<close> finds there is the parameter \<open>sa_flags\<close>. So is the number of calls for which the stack
  has room, \<open>depth\<close>; the next one raises \<open>SIGSEGV\<close>. The handler runs if it may use the
  alternate stack; otherwise the signal kills the process. The stream 0 is all streams.\<close>

definition ptr10 :: "int \<Rightarrow> string" where
  "ptr10 a = pad_left 10 CHR '' '' (''0x'' @ hex a)"

definition altstack_handler :: "int \<Rightarrow> 'k os \<Rightarrow> int \<Rightarrow> ('k, unit) cmd" where
  "altstack_handler hj K sig = do {
     printf K (''Caught signal '' @ dec sig @ '' ('' @ strsignal K sig @ '')'' @ nl);
     printf K (''Top of handler stack is near '' @ ptr10 hj @ nl);
     sys K (Stdio (Fflush 0));
     halt (ExitNow 1) }"

primrec overflowStack :: "nat \<Rightarrow> (int \<Rightarrow> int) \<Rightarrow> int \<Rightarrow> 32 word \<Rightarrow> 'k os \<Rightarrow> int \<Rightarrow> ('k, unit) cmd" where
  "overflowStack 0 tmp hj sa_flags K i =
     (if sa_flags AND SA_ONSTACK \<noteq> 0 then altstack_handler hj K SIGSEGV else halt Abort)"
| "overflowStack (Suc depth) tmp hj sa_flags K i = do {
     printf K (''Call '' @ pad_left 4 CHR '' '' (dec i) @ '' - top of stack near '' @ ptr10 (tmp i) @ nl);
     if i < INT_MAX then overflowStack depth tmp hj sa_flags K (i + 1) else halt Undef }"

definition t_sigaltstack_main :: "nat \<Rightarrow> int \<Rightarrow> (int \<Rightarrow> int) \<Rightarrow> int \<Rightarrow> 32 word \<Rightarrow> 'k os \<Rightarrow> string list \<Rightarrow> ('k, unit) cmd" where
  "t_sigaltstack_main depth j tmp hj sa_flags K argv = do {
     printf K (''Top of std stack is near '' @ ptr10 j @ nl);
     ss_sp \<leftarrow> call K (Proc (Malloc SIGSTKSZ));
     if ss_sp = 0
     then die K (\<lambda>err. ''Failed to malloc() '' @ dec SIGSTKSZ @ '' bytes for sigaltstack - '' @ err @ nl)
     else do {
     s \<leftarrow> call K (Sig (Sigaltstack ss_sp SIGSTKSZ));
     if s = -1
     then die K (\<lambda>err. ''Failed to set sigaltstack() - '' @ err @ nl)
     else do {
     b \<leftarrow> call K (Sig (Sbrk 0));
     printf K (''Alternate stack is at    '' @ ptr10 ss_sp @ ''-0x'' @ hex (b - 1) @ nl);
     s \<leftarrow> call K (Proc Sigemptyset);
     if s = -1
     then die K (\<lambda>err. ''Failed to set sigaction mask to emptysigset() - '' @ err @ nl)
     else do {
     s \<leftarrow> call K (Proc (Sigaction SIGSEGV SIG_HANDLER (sint sa_flags)));
     if s = -1
     then die K (\<lambda>err. ''Failed to set sigaction() for SIGSEGV - '' @ err @ nl)
     else bind_res (overflowStack depth tmp hj sa_flags K 1) (\<lambda>_. halt (Exit 0)) }}}}"

section \<open>Properties\<close>

text \<open>How often a signal was delivered in a trace.\<close>

fun delivers :: "int \<Rightarrow> event \<Rightarrow> bool" where
  "delivers i (Sig Delivered, r) \<longleftrightarrow> ret r = i"
| "delivers i e = False"

definition count_sig :: "int \<Rightarrow> event list \<Rightarrow> int" where
  "count_sig i tr = int (length (filter (delivers i) tr))"

lemma count_sig_simps [simp]:
  "count_sig i [] = 0" "count_sig i (e # tr) = of_bool (delivers i e) + count_sig i tr"
  "count_sig i (tr @ tr') = count_sig i tr + count_sig i tr'"
  by (simp_all add: count_sig_def)

lemma count_sig_nonneg [simp]: "0 \<le> count_sig i tr"
  by (simp add: count_sig_def)

definition is_delivery :: "event \<Rightarrow> bool" where
  "is_delivery e \<longleftrightarrow> fst e = Sig Delivered"

lemma is_delivery [simp]: "is_delivery (Sig Delivered, r)"
  by (simp add: is_delivery_def)

text \<open>One turn of the last loop, after the events \<open>tr\<close>: the line it prints, if any. More signals may arrive before the number
  and the plural are read; each of the two is determined by the count at the moment of its reading.\<close>

definition report_line :: "string \<Rightarrow> int \<Rightarrow> event list \<Rightarrow> event list \<Rightarrow> bool" where
  "report_line prog i tr ps \<longleftrightarrow> (if i = SIGINT \<or> count_sig i tr = 0 then ps = []
     else \<exists>ds1 ds2 n m x. ps = ds1 @ ds2 @ [(Stdio (Fprintf 1 (count_line prog i n m)), x)] \<and>
       list_all is_delivery ds1 \<and> list_all is_delivery ds2 \<and>
       (n = count_sig i (tr @ ds1) \<and> m = count_sig i (tr @ ds1 @ ds2) \<or>
        m = count_sig i (tr @ ds1) \<and> n = count_sig i (tr @ ds1 @ ds2)))"

text \<open>The lines that \<open>sig_receiver\<close> prints at the end, after the events \<open>tr\<close>: between them more
  signals may arrive.\<close>

primrec report_ok :: "string \<Rightarrow> int list \<Rightarrow> event list \<Rightarrow> event list \<Rightarrow> bool" where
  "report_ok prog [] tr d \<longleftrightarrow> d = []"
| "report_ok prog (i # is) tr d \<longleftrightarrow> (\<exists>ds ps rest. d = ds @ ps @ rest \<and> list_all is_delivery ds \<and>
     report_line prog i (tr @ ds) ps \<and> report_ok prog is (tr @ ds @ ps) rest)"

text \<open>The static variables agree with the deliveries so far.\<close>

definition counts_ok :: "event list \<Rightarrow> sig_counts \<Rightarrow> bool" where
  "counts_ok tr st \<longleftrightarrow> (gotSigInt st \<longleftrightarrow> 0 < count_sig SIGINT tr) \<and> sigCount st SIGINT = 0 \<and>
     (\<forall>i. i \<noteq> SIGINT \<longrightarrow> i \<noteq> 0 \<longrightarrow> sigCount st i = count_sig i tr)"

lemma counts_ok_step:
  "counts_ok tr st \<Longrightarrow> wp (sig_receiver_sigHandler r st) (\<lambda>res w'. w' = w \<and>
     (res = Undef \<or> (\<exists>st'. res = Ok st' \<and> (ret r \<noteq> 0 \<longrightarrow> counts_ok (tr @ [(Sig Delivered, r)]) st')))) w"
  by (auto simp: sig_receiver_sigHandler_def Let_def counts_ok_def SIGINT_def)

lemma wp_sig_deliver:
  assumes "counts_ok tr st"
    and "\<And>st' d w'. trace w' = trace w @ d \<Longrightarrow> list_all is_delivery d \<Longrightarrow> counts_ok (tr @ d) st' \<Longrightarrow> Q (Ok st') w'"
    and "\<And>w'. Q Undef w'" "\<And>w'. Q Hang w'"
  shows "wp (deliver n K sig_receiver_sigHandler st) Q w"
  using assms
proof (induction n arbitrary: st tr w)
  case (Suc n)
  show ?case
    unfolding deliver.simps wp_bind
  proof (rule wp_sys_any)
    fix r and w1 :: "'a world"
    assume w1: "after (Sig Delivered, r) w w1"
    show "wp (if ret r = 0 then ok st else bind_res (sig_receiver_sigHandler r st) (deliver n K sig_receiver_sigHandler)) Q w1"
    proof (cases "ret r = 0")
      case True
      with Suc.prems(1) have "counts_ok (tr @ [(Sig Delivered, r)]) st" by (auto simp: counts_ok_def SIGINT_def)
      with True w1 Suc.prems(2) [of w1 "[(Sig Delivered, r)]" st] show ?thesis by simp
    next
      case False
      have more: "wp (deliver n K sig_receiver_sigHandler st') Q w1" if "counts_ok (tr @ [(Sig Delivered, r)]) st'" for st'
      proof (rule Suc.IH [OF that])
        fix st2 d and w2 :: "'a world"
        assume "trace w2 = trace w1 @ d" "list_all is_delivery d" "counts_ok ((tr @ [(Sig Delivered, r)]) @ d) st2"
        with w1 show "Q (Ok st2) w2" by (intro Suc.prems(2) [of _ "(Sig Delivered, r) # d"]) auto
      qed (use Suc.prems in auto)
      show ?thesis
        using False more Suc.prems(3) by (auto intro!: wp_mono [OF counts_ok_step [OF Suc.prems(1)]])
    qed
  qed
qed simp

lemma wp_sig_spin:
  assumes "counts_ok tr st"
    and "\<And>st' d w'. trace w' = trace w @ d \<Longrightarrow> counts_ok (tr @ d) st' \<Longrightarrow> gotSigInt st' \<Longrightarrow> Q (Ok st') w'"
    and "\<And>w'. Q Undef w'" "\<And>w'. Q Hang w'"
  shows "wp (sig_receiver_spin m n K st) Q w"
  using assms
proof (induction m arbitrary: st tr w)
  case (Suc m)
  show ?case
    unfolding sig_receiver_spin.simps wp_bind_res
  proof (rule wp_sig_deliver [OF Suc.prems(1)])
    fix st' d and w1 :: "'a world"
    assume d: "trace w1 = trace w @ d" "counts_ok (tr @ d) st'"
    then show "and_then (\<lambda>st. wp (if gotSigInt st then ok st else sig_receiver_spin m n K st) Q) Q (Ok st') w1"
      using Suc.prems(2) [of w1 d st'] Suc.prems(3,4) by (auto intro!: Suc.IH [of "tr @ d"] Suc.prems(2))
  qed (use Suc.prems in auto)
qed simp

lemma counts_ok_read: "counts_ok tr st \<Longrightarrow> i \<noteq> 0 \<Longrightarrow> sigCount st i = (if i = SIGINT then 0 else count_sig i tr)"
  by (simp add: counts_ok_def)

lemma counts_ok_out: "counts_ok tr st \<Longrightarrow> counts_ok (tr @ [(Stdio c, x)]) st"
  by (simp add: counts_ok_def)

text \<open>The two readings for the line, with signals before each of them, and the output.\<close>

lemma wp_two_reads:
  assumes "counts_ok tr st"
    and fin: "\<And>st1 st2 ds1 ds2 x w'. trace w' = trace w @ ds1 @ ds2 @ [(Stdio (Fprintf 1 (line st1 st2)), x)] \<Longrightarrow>
      list_all is_delivery ds1 \<Longrightarrow> list_all is_delivery ds2 \<Longrightarrow> counts_ok (tr @ ds1) st1 \<Longrightarrow> counts_ok (tr @ ds1 @ ds2) st2 \<Longrightarrow>
      Q (Ok st2) w'"
    and stop: "\<And>w'. Q Undef w'" "\<And>w'. Q Hang w'"
  shows "wp (bind_res (deliver n K sig_receiver_sigHandler st) (\<lambda>st1.
      bind_res (deliver n K sig_receiver_sigHandler st1) (\<lambda>st2. printf K (line st1 st2) \<bind> (\<lambda>_. ok st2)))) Q w"
  unfolding wp_bind_res
proof (rule wp_sig_deliver [OF assms(1)])
  fix st1 ds1 and w1 :: "'a world"
  assume 1: "trace w1 = trace w @ ds1" "list_all is_delivery ds1" "counts_ok (tr @ ds1) st1"
  have "wp (deliver n K sig_receiver_sigHandler st1) (and_then (\<lambda>st2. wp (printf K (line st1 st2) \<bind> (\<lambda>_. ok st2)) Q) Q) w1"
  proof (rule wp_sig_deliver [OF 1(3)])
    fix st2 ds2 and w2 :: "'a world"
    assume "trace w2 = trace w1 @ ds2" "list_all is_delivery ds2" "counts_ok ((tr @ ds1) @ ds2) st2"
    with 1 fin [of _ ds1 ds2 st1 st2] show "and_then (\<lambda>st2. wp (printf K (line st1 st2) \<bind> (\<lambda>_. ok st2)) Q) Q (Ok st2) w2"
      by (auto intro!: wp_tr(4))
  qed (use stop in auto)
  then show "and_then (\<lambda>st1. wp (deliver n K sig_receiver_sigHandler st1)
      (and_then (\<lambda>st2. wp (printf K (line st1 st2) \<bind> (\<lambda>_. ok st2)) Q) Q)) Q (Ok st1) w1" by simp
qed (use stop in auto)

lemma wp_report_one:
  assumes "counts_ok tr st" "i \<noteq> 0"
    and fine: "\<And>st' ds ps w'. trace w' = trace w @ ds @ ps \<Longrightarrow> list_all is_delivery ds \<Longrightarrow>
      report_line prog i (tr @ ds) ps \<Longrightarrow> counts_ok (tr @ ds @ ps) st' \<Longrightarrow> Q (Ok st') w'"
    and stop: "\<And>w'. Q Undef w'" "\<And>w'. Q Hang w'"
  shows "wp (sig_receiver_report pf n K prog i st) Q w"
proof -
  define line where "line st1 st2 = (if pf then count_line prog i (sigCount st2 i) (sigCount st1 i)
    else count_line prog i (sigCount st1 i) (sigCount st2 i))" for st1 st2 :: sig_counts
  show ?thesis
    unfolding sig_receiver_report_def wp_bind_res [of "deliver n K sig_receiver_sigHandler st"] line_def [symmetric]
  proof (rule wp_sig_deliver [OF assms(1)], unfold and_then_simps)
    fix st0 ds and w0 :: "'a world"
    assume d: "trace w0 = trace w @ ds" "list_all is_delivery ds" "counts_ok (tr @ ds) st0"
    note read = counts_ok_read [OF d(3) assms(2)]
    show "wp (if sigCount st0 i \<noteq> 0 then bind_res (deliver n K sig_receiver_sigHandler st0) (\<lambda>st1.
        bind_res (deliver n K sig_receiver_sigHandler st1) (\<lambda>st2. printf K (line st1 st2) \<bind> (\<lambda>_. ok st2)))
      else ok st0) Q w0"
    proof (cases "sigCount st0 i = 0")
      case True
      with read have "report_line prog i (tr @ ds) []" by (simp add: report_line_def split: if_splits)
      with fine [of w0 ds "[]" st0] d True show ?thesis by simp
    next
      case False
      with read have i: "i \<noteq> SIGINT" "count_sig i (tr @ ds) \<noteq> 0" by (auto split: if_splits)
      have "wp (bind_res (deliver n K sig_receiver_sigHandler st0) (\<lambda>st1.
          bind_res (deliver n K sig_receiver_sigHandler st1) (\<lambda>st2. printf K (line st1 st2) \<bind> (\<lambda>_. ok st2)))) Q w0"
      proof (rule wp_two_reads [OF d(3)])
        fix st1 st2 ds1 ds2 x and w' :: "'a world"
        assume w': "trace w' = trace w0 @ ds1 @ ds2 @ [(Stdio (Fprintf 1 (line st1 st2)), x)]"
          and 1: "list_all is_delivery ds1" "list_all is_delivery ds2"
          and 2: "counts_ok ((tr @ ds) @ ds1) st1" "counts_ok ((tr @ ds) @ ds1 @ ds2) st2"
        have "report_line prog i (tr @ ds) (ds1 @ ds2 @ [(Stdio (Fprintf 1 (line st1 st2)), x)])"
          using i 1 counts_ok_read [OF 2(1) assms(2)] counts_ok_read [OF 2(2) assms(2)]
          unfolding report_line_def line_def by (cases pf) auto
        then show "Q (Ok st2) w'"
          by (rule fine [rotated 2]) (use w' d counts_ok_out [OF 2(2)] in auto)
      qed (use stop in auto)
      with False show ?thesis by simp
    qed
  qed (use stop in auto)
qed

lemma wp_sig_report:
  assumes "counts_ok tr st" "0 \<notin> set is"
  shows "wp (fold_each is (sig_receiver_report pf n K prog) st)
     (\<lambda>r w'. r \<noteq> Exit 0 \<and> (is_ok r \<longrightarrow> (\<exists>d. trace w' = trace w @ d \<and> report_ok prog is tr d))) w"
  using assms
proof (induction "is" arbitrary: st tr w)
  case (Cons i "is")
  have more: "wp (fold_each is (sig_receiver_report pf n K prog) st')
      (\<lambda>r w'. r \<noteq> Exit 0 \<and> (is_ok r \<longrightarrow> (\<exists>d. trace w' = trace w @ d \<and> report_ok prog (i # is) tr d))) w1"
    if "trace w1 = trace w @ ds @ ps" "list_all is_delivery ds" "report_line prog i (tr @ ds) ps" "counts_ok (tr @ ds @ ps) st'"
    for st' ds ps and w1 :: "'a world"
  proof (rule wp_mono [OF Cons.IH [OF that(4)]])
    fix r :: "sig_counts res" and w2 :: "'a world"
    assume r: "r \<noteq> Exit 0 \<and> (is_ok r \<longrightarrow> (\<exists>d. trace w2 = trace w1 @ d \<and> report_ok prog is (tr @ ds @ ps) d))"
    have "report_ok prog (i # is) tr (ds @ ps @ d)" if "report_ok prog is (tr @ ds @ ps) d" for d
      using that \<open>list_all is_delivery ds\<close> \<open>report_line prog i (tr @ ds) ps\<close> unfolding report_ok.simps by blast
    with r that(1) show "r \<noteq> Exit 0 \<and> (is_ok r \<longrightarrow> (\<exists>d. trace w2 = trace w @ d \<and> report_ok prog (i # is) tr d))"
      by (auto simp del: report_ok.simps)
  qed (use Cons.prems in auto)
  show ?case
    unfolding fold_each.simps wp_bind_res
    by (rule wp_report_one [OF Cons.prems(1)]) (use Cons.prems(2) more in \<open>auto simp del: report_ok.simps\<close>)
qed simp

text \<open>Until \<open>sig_receiver\<close> waits for \<open>SIGINT\<close> it makes no call at which a signal arrives.\<close>

abbreviation no_signal :: "'k world \<Rightarrow> 'k world \<Rightarrow> bool" where
  "no_signal w w' \<equiv> \<exists>d. trace w' = trace w @ d \<and> (\<forall>i. count_sig i d = 0)"

lemma printSigSet_no_signal: "wp (printSigSet K file prefix S) (\<lambda>r w'. r = Ok () \<and> no_signal w w') w"
  unfolding printSigSet_def wp_bind_res
  by (rule wp_fold_each [where I = "\<lambda>done count w'. no_signal w w'"]) (auto intro!: wp_sys_any)

lemma sig_receiver_wait_no_signal:
  "wp (sig_receiver_wait K prog secs) (\<lambda>r w'. r \<noteq> Exit 0 \<and> (is_ok r \<longrightarrow> no_signal w w')) w"
  unfolding sig_receiver_wait_def
  by (auto intro!: sig_receiver_getUnsignedInt.outcome wp_sys_any wp_call_any wp_tr(4,5) wp_mono [OF printSigSet_no_signal])

lemma handlers_no_signal:
  "wp (for_each is (\<lambda>i. call K (Proc (Signal i SIG_HANDLER)) \<bind> (\<lambda>_. ok ())) :: ('k, unit) cmd) (\<lambda>r w'. r = Ok () \<and> no_signal w w') w"
  by (rule wp_for_each [where I = "\<lambda>done w'. no_signal w w'"]) (auto intro!: wp_call_any)

lemma wp_spin_and_report:
  assumes d: "trace w1 = trace w @ d" "\<forall>i. count_sig i d = 0"
  shows "wp (bind_res (sig_receiver_spin fuel fuel K \<lparr>sigCount = (\<lambda>_. 0), gotSigInt = False\<rparr>) (\<lambda>st.
        bind_res (fold_each [1..NSIG - 1] (sig_receiver_report pf fuel K pn) st) (\<lambda>_. halt (Exit 0))))
     (\<lambda>r w'. r = Exit 0 \<longrightarrow> (\<exists>d1 d2. trace w' = trace w @ d1 @ d2 \<and>
        0 < count_sig SIGINT d1 \<and> report_ok pn [1..NSIG - 1] d1 d2)) w1"
    (is "wp _ ?Q w1")
  unfolding wp_bind_res
proof (rule wp_sig_spin [where tr = d])
  show "counts_ok d \<lparr>sigCount = (\<lambda>_. 0), gotSigInt = False\<rparr>"
    using d(2) by (simp add: counts_ok_def)
next
  fix st' e and w2 :: "'a world"
  assume st: "trace w2 = trace w1 @ e" "counts_ok (d @ e) st'" "gotSigInt st'"
  then have "0 < count_sig SIGINT (d @ e)" by (simp add: counts_ok_def)
  then have fin: "?Q (Exit 0) w3" if "trace w3 = trace w2 @ da" "report_ok pn [1..NSIG - 1] (d @ e) da" for w3 da
  proof -
    have "trace w3 = trace w @ (d @ e) @ da" using that(1) st(1) d(1) by simp
    with that(2) \<open>0 < count_sig SIGINT (d @ e)\<close> show ?thesis by blast
  qed
  show "and_then (\<lambda>v. wp (fold_each [1..NSIG - 1] (sig_receiver_report pf fuel K pn) v)
      (and_then (\<lambda>v. wp (halt (Exit 0)) ?Q) ?Q)) ?Q (Ok st') w2"
    unfolding and_then_simps
  proof (rule wp_mono [OF wp_sig_report [OF st(2)]])
    fix r :: "sig_counts res" and w3 :: "'a world"
    assume "r \<noteq> Exit 0 \<and> (is_ok r \<longrightarrow> (\<exists>da. trace w3 = trace w2 @ da \<and> report_ok pn [1..NSIG - 1] (d @ e) da))"
    then show "and_then (\<lambda>v. wp (halt (Exit 0)) ?Q) ?Q r w3"
      using fin [of w3] by (cases r) (auto simp del: report_ok.simps)
  qed simp
qed auto

text \<open>
  C17. \<open>sig_receiver\<close> counts signals exactly: if it ends with status 0 then \<open>SIGINT\<close> was
  delivered, and at the end it has gone through the signals 1 to 64 in order and printed
  for each of them, other than \<open>SIGINT\<close>, that was delivered at all, a line with the number of
  times it had been delivered up to that moment. Signals may arrive at any time, also while it prints
  and between the readings of one counter, and whatever the order of these readings.
\<close>

theorem sig_receiver_counts:
  "wp (sig_receiver_main pf fuel K argv) (\<lambda>r w'. r = Exit 0 \<longrightarrow> (\<exists>d1 d2. trace w' = trace w @ d1 @ d2 \<and>
     0 < count_sig SIGINT d1 \<and> report_ok (arg argv 0) [1..NSIG - 1] d1 d2)) w"
    (is "wp _ ?Q w")
proof -
  let ?tail = "bind_res (sig_receiver_spin fuel fuel K \<lparr>sigCount = (\<lambda>_. 0), gotSigInt = False\<rparr>) (\<lambda>st.
        bind_res (fold_each [1..NSIG - 1] (sig_receiver_report pf fuel K (arg argv 0)) st) (\<lambda>_. halt (Exit 0)))"
  have tail: "wp ?tail ?Q w1" if "trace w1 = trace w @ d" "\<forall>i. count_sig i d = 0" for w1 d
    using that by (rule wp_spin_and_report)
  have waited: "wp (bind_res (if 1 < length argv then sig_receiver_wait K (arg argv 0) (arg argv 1) else ok ()) (\<lambda>_. ?tail)) ?Q w1"
    if d: "no_signal w w1" for w1
  proof (subst wp_bind_res, rule wp_mono [where P = "\<lambda>r w2. r \<noteq> Exit 0 \<and> (is_ok r \<longrightarrow> no_signal w1 w2)"])
    show "wp (if 1 < length argv then sig_receiver_wait K (arg argv 0) (arg argv 1) else ok ()) (\<lambda>r w2. r \<noteq> Exit 0 \<and> (is_ok r \<longrightarrow> no_signal w1 w2)) w1"
      using sig_receiver_wait_no_signal [of K _ _ w1] by auto
  next
    fix r :: "unit res" and w2 :: "'a world"
    assume "r \<noteq> Exit 0 \<and> (is_ok r \<longrightarrow> no_signal w1 w2)"
    with d tail show "and_then (\<lambda>_. wp ?tail ?Q) ?Q r w2" by (cases r) auto
  qed
  show ?thesis
    unfolding sig_receiver_main_def wp_bind
    by (rule wp_call_any, rule wp_tr(4), subst wp_bind_res, rule wp_mono [OF handlers_no_signal],
        erule conjE, simp only: and_then_simps, rule waited) auto
qed

text \<open>A system with a list of pending signals, delivered in order; every other call succeeds.\<close>

definition pending_os :: "int list os" where
  "pending_os = \<lparr>step = (\<lambda>k c. case c of
       Sig x \<Rightarrow> (case k of [] \<Rightarrow> ([], reply0) | i # is \<Rightarrow> (is, returns i))
     | _ \<Rightarrow> (k, reply0)),
     strerror = (\<lambda>e. ''error''), strsignal = (\<lambda>s. ''signal''), gai_strerror = (\<lambda>s. ''error'')\<rparr>"

lemma pending_step [simp]:
  "step pending_os k (Stdio s) = (k, reply0)" "step pending_os k (Proc p) = (k, reply0)"
  "step pending_os (i # is) (Sig x) = (is, returns i)" "step pending_os [] (Sig x) = ([], reply0)"
  by (simp_all add: pending_os_def)

lemma pending_handlers:
  "kern w = k \<Longrightarrow> wp (for_each is (\<lambda>i. call pending_os (Proc (Signal i SIG_HANDLER)) \<bind> (\<lambda>_. ok ()))) (\<lambda>r w'. r = Ok () \<and> kern w' = k) w"
  by (rule wp_for_each [where I = "\<lambda>done w. kern w = k"]) (auto intro!: wp_call_step)

lemma pending_report:
  "kern w = [] \<Longrightarrow> wp (fold_each is (sig_receiver_report pf (Suc n) pending_os prog) st) (\<lambda>r w'. is_ok r) w"
  by (rule wp_fold_each [where I = "\<lambda>done st w. kern w = []"])
     (auto intro!: wp_sys_step simp: sig_receiver_report_def printf_def reply0_def)

lemma pending_spin:
  "kern w = [5, SIGINT] \<Longrightarrow> wp (sig_receiver_spin 4 4 pending_os \<lparr>sigCount = (\<lambda>_. 0), gotSigInt = False\<rparr>)
     (\<lambda>r w'. is_ok r \<and> kern w' = []) w"
  by (simp add: wp_def run_sys eval_nat_numeral sig_receiver_sigHandler_def Let_def returns_def reply0_def SIGINT_def NSIG_def LONG_MAX_def
      del: wp_bind wp_bind_res)

lemma pending_run:
  "wp (sig_receiver_main False 4 pending_os [''p'']) (\<lambda>r w'. r = Exit 0) (start [5, SIGINT])"
  unfolding sig_receiver_main_def printf_def
  by (auto intro!: wp_call_step wp_sys_step wp_mono [OF pending_handlers] wp_mono [OF pending_spin] wp_mono [OF pending_report [where n = 3, simplified]]
      simp: start_def and_then_def split: res.splits)

theorem sig_receiver_counts_witness:
  "\<exists>w'. run_state (sig_receiver_main False 4 pending_os [''p'']) (start [5, SIGINT]) = (Exit 0, w') \<and>
     (\<exists>d1 d2. trace w' = d1 @ d2 \<and> 0 < count_sig SIGINT d1 \<and> report_ok ''p'' [1..NSIG - 1] d1 d2)"
  using wp_run [OF sig_receiver_counts [of False 4 pending_os "[''p'']" "start [5, SIGINT]"]] wp_run [OF pending_run]
  by (simp add: start_def arg_def prod_eq_iff del: report_ok.simps)

end
