(* ===== verification/Proc_Exec.thy ===== *)
theory Proc_Exec
  imports Num_Args
begin

text \<open>
  The process programs of \<open>procexec/\<close> and the non-local jump demonstration \<open>proc/src/longjmp.c\<close>.
  A program that forks is one definition: the answer to \<open>Fork\<close> decides which of the two
  processes the run describes. Standard output is unbuffered (\<open>setbuf\<close>), as every output of the model is.
\<close>

definition O_APPEND :: int where "O_APPEND = 1024"

abbreviation on_off :: "bool \<Rightarrow> string" where "on_off b \<equiv> if b then ''on'' else ''off''"

section \<open>procexec/fork\_file\_sharing.c\<close>

definition sharing_child :: "'k os \<Rightarrow> int \<Rightarrow> string \<Rightarrow> ('k, unit) cmd" where
  "sharing_child K fd filepath = do {
     s \<leftarrow> call K (File (Lseek fd 1000 SEEK_SET));
     if s = -1
     then die K (\<lambda>err. ''Failed to lseek() '' @ filepath @ '' - '' @ err @ nl)
     else do {
     flags \<leftarrow> call K (Dir (FcntlGetfd fd));
     if flags = -1
     then die K (\<lambda>err. ''Failed to get file flags from '' @ filepath @ '' - '' @ err @ nl)
     else do {
     s \<leftarrow> call K (Dir (FcntlSetfd fd (flags OR O_APPEND)));
     if s = -1
     then die K (\<lambda>err. ''Failed to set O_APPEND flag on fd via fcntl() - '' @ err @ nl)
     else ok () }}}"

definition sharing_parent :: "'k os \<Rightarrow> int \<Rightarrow> string \<Rightarrow> ('k, unit) cmd" where
  "sharing_parent K fd filepath = do {
     s \<leftarrow> call K (Proc Wait);
     if s = -1
     then die K (\<lambda>err. ''Failed to wait() on child process - '' @ err @ nl)
     else do {
     printf K (''Child process has exited'' @ nl);
     offset \<leftarrow> call K (File (Lseek fd 0 SEEK_CUR));
     if offset = -1
     then die K (\<lambda>err. ''Failed to lseek() '' @ filepath @ '' - '' @ err @ nl)
     else do {
     printf K (''File offset in parent: '' @ dec offset @ nl);
     flags \<leftarrow> call K (Dir (FcntlGetfd fd));
     if flags = -1
     then die K (\<lambda>err. ''Failed to get file flags from '' @ filepath @ '' - '' @ err @ nl)
     else do {
     printf K (''O_APPEND flag in parent is: '' @ on_off (flags AND O_APPEND \<noteq> 0) @ nl);
     u \<leftarrow> call K (File (Unlink filepath));
     if u = -1
     then do {
       e \<leftarrow> get_errno;
       eprintf K (''Failed to unlink() '' @ filepath @ '' - '' @ strerror K e @ nl);
       ok () }
     else ok () }}}}"

definition fork_file_sharing_main :: "'k os \<Rightarrow> string list \<Rightarrow> ('k, unit) cmd" where
  "fork_file_sharing_main K argv = do {
     r \<leftarrow> sys K (Dir (Mkstemp ''test_XXXXXX''));
     if ret r = -1
     then die K (\<lambda>err. ''Failed to mkstemp() - '' @ err @ nl)
     else let fd = ret r; filepath = rdata r in do {
     off \<leftarrow> call K (File (Lseek fd 0 SEEK_CUR));
     printf K (''File offset before fork(): '' @ dec off @ nl);
     flags \<leftarrow> call K (Dir (FcntlGetfd fd));
     if flags = -1
     then die K (\<lambda>err. ''Failed to get file flags from '' @ filepath @ '' - '' @ err @ nl)
     else do {
     printf K (''O_APPEND flag before fork() is: '' @ on_off (flags AND O_APPEND \<noteq> 0) @ nl);
     pid \<leftarrow> call K (Proc Fork);
     bind_res
       (if pid = -1
        then do {
          e \<leftarrow> get_errno;
          eprintf K (''Failed to fork() child process - '' @ strerror K e @ nl);
          ok () }
        else if pid = 0 then sharing_child K fd filepath
        else sharing_parent K fd filepath)
       (\<lambda>_. halt (Exit EXIT_SUCCESS)) }}}"

section \<open>procexec/multi\_wait.c\<close>

definition TIME_STR_BUFFER_SIZE :: nat where "TIME_STR_BUFFER_SIZE = 500"

text \<open>\<open>None\<close> stands for the result -1. The fields of \<open>struct tm\<close> are the numbers of the answer to
  \<open>localtime\<close>.\<close>

definition getCurrTimeStr :: "'k os \<Rightarrow> nat \<Rightarrow> ('k world, string option) state" where
  "getCurrTimeStr K bufferSize = do {
     currTime \<leftarrow> call K (Proc Time);
     tm \<leftarrow> sys K (Info (Localtime currTime));
     if ret tm = 0
     then State_Monad.return None
     else do {
     r \<leftarrow> sys K (Info (Strftime bufferSize ''%T'' (rnums tm)));
     State_Monad.return (if ret r = 0 then None else Some (rdata r)) }}"

definition time_failed :: "'k os \<Rightarrow> ('k, 'a) cmd" where
  "time_failed K = do {
     e \<leftarrow> get_errno;
     eprintf K (''Failed to get current time - '' @ strerror K e);
     halt (ExitNow EXIT_FAILURE) }"

definition multi_wait_child :: "'k os \<Rightarrow> string list \<Rightarrow> nat \<Rightarrow> ('k, unit) cmd" where
  "multi_wait_child K argv i = do {
     t \<leftarrow> getCurrTimeStr K TIME_STR_BUFFER_SIZE;
     case t of
       None \<Rightarrow> time_failed K
     | Some timeStr \<Rightarrow> do {
         pid \<leftarrow> call K (Proc Getpid);
         printf K (''['' @ timeStr @ ''] child '' @ dec (int i) @ '' started with PID '' @ dec pid @
           '', sleeping '' @ arg argv i @ '' seconds'' @ nl);
         bind_res (multi_wait_getUint K (arg argv i)) (\<lambda>n. do {
           sys K (Proc (Sleep n));
           halt (ExitNow EXIT_SUCCESS) }) }}"

definition multi_wait_fork :: "'k os \<Rightarrow> string list \<Rightarrow> nat \<Rightarrow> ('k, unit) cmd" where
  "multi_wait_fork K argv i = do {
     pid \<leftarrow> call K (Proc Fork);
     if pid = -1
     then die K (\<lambda>err. ''Failed to fork() child process - '' @ err @ nl)
     else if pid = 0 then multi_wait_child K argv i
     else ok () }"

text \<open>The loop that waits for the children; the first argument bounds the number of them.\<close>

definition dead_line :: "string \<Rightarrow> int \<Rightarrow> int \<Rightarrow> string" where
  "dead_line timeStr childPid i =
     ''['' @ timeStr @ ''] wait() returned child PID '' @ dec childPid @ '' (numDead='' @ dec i @ '')'' @ nl"

primrec multi_wait_loop :: "nat \<Rightarrow> 'k os \<Rightarrow> int \<Rightarrow> ('k, unit) cmd" where
  "multi_wait_loop 0 K i = halt Hang"
| "multi_wait_loop (Suc fuel) K i = do {
     childPid \<leftarrow> call K (Proc Wait);
     if childPid = -1 then ok ()
     else do {
       t \<leftarrow> getCurrTimeStr K TIME_STR_BUFFER_SIZE;
       case t of
         None \<Rightarrow> time_failed K
       | Some timeStr \<Rightarrow> do {
           printf K (dead_line timeStr childPid i);
           if i = INT_MAX then halt Undef else multi_wait_loop fuel K (i + 1) } } }"

definition multi_wait_main :: "nat \<Rightarrow> 'k os \<Rightarrow> string list \<Rightarrow> ('k, unit) cmd" where
  "multi_wait_main fuel K argv =
     (if length argv < 2 \<or> arg argv 1 = ''-h''
      then usage K (''Usage: '' @ arg argv 0 @ '' <sleep-time>...'' @ nl)
      else bind_res (for_each [1..<length argv] (multi_wait_fork K argv)) (\<lambda>_.
        bind_res (multi_wait_loop fuel K 1) (\<lambda>_. do {
          errno \<leftarrow> get_errno;
          if errno \<noteq> ECHILD
          then die K (\<lambda>err. ''Failed to wait() for child process - '' @ err @ nl)
          else halt (Exit EXIT_SUCCESS) })))"

section \<open>procexec/t\_acct\_on.c and procexec/t\_fork.c\<close>

definition t_acct_on_main :: "'k os \<Rightarrow> string list \<Rightarrow> ('k, unit) cmd" where
  "t_acct_on_main K argv =
     (if 2 < length argv \<or> (1 < length argv \<and> arg argv 1 = ''-h'')
      then usage K (''Usage: '' @ arg argv 0 @ '' [<file>]'' @ nl)
      else let file = (if 1 < length argv then Some (arg argv 1) else None) in do {
        s \<leftarrow> call K (Info (Acct file));
        if s = -1
        then die K (\<lambda>err. ''Failed to turn accounting '' @ on_off (file \<noteq> None) @ '' - '' @ err @ nl)
        else do {
          printf K (''Turned accounting '' @ on_off (file \<noteq> None) @ nl);
          halt (Exit EXIT_SUCCESS) }})"

definition t_fork_main :: "'k os \<Rightarrow> string list \<Rightarrow> ('k, unit) cmd" where
  "t_fork_main K argv = (let iData = 111; iStack = 222 in do {
     pid \<leftarrow> call K (Proc Fork);
     v \<leftarrow> (if pid = -1
          then do {
            e \<leftarrow> get_errno;
            eprintf K (''Failed to fork() child process - '' @ strerror K e @ nl);
            State_Monad.return (iData, iStack) }
          else if pid = 0 then State_Monad.return (c_int (iData * 3), c_int (iStack * 3))
          else do { sys K (Proc (Sleep 3)); State_Monad.return (iData, iStack) });
     p \<leftarrow> call K (Proc Getpid);
     printf K (''PID='' @ dec p @ '' ('' @ (if pid = 0 then ''child'' else ''parent'') @
       '') iData='' @ dec (fst v) @ '' iStack='' @ dec (snd v) @ nl);
     halt (Exit EXIT_SUCCESS) })"

section \<open>proc/src/longjmp.c\<close>

text \<open>A function either returns (\<open>Inr\<close>) or jumps to the one \<open>setjmp\<close> with a value (\<open>Inl\<close>).\<close>

definition longjmp_f2 :: "int + unit" where
  "longjmp_f2 = Inl 2"

definition longjmp_f1 :: "int \<Rightarrow> int + unit" where
  "longjmp_f1 argc = (if argc = 1 then Inl 1 else longjmp_f2)"

definition longjmp_main :: "'k os \<Rightarrow> string list \<Rightarrow> ('k, unit) cmd" where
  "longjmp_main K argv = (case longjmp_f1 (int (length argv)) of
     Inr _ \<Rightarrow> halt (Exit 0)
   | Inl v \<Rightarrow>
       if v = 1 then do { printf K (''Jumped from f1'' @ nl); halt (Exit 0) }
       else if v = 2 then do { printf K (''Jumped from f2'' @ nl); halt (Exit 0) }
       else halt (Exit 0))"

section \<open>Properties\<close>

text \<open>The results of the forks and of the successful waits in a trace, and the lines about dead
  children, numbered from \<open>i\<close>.\<close>

fun fork_result :: "event \<Rightarrow> int list" where
  "fork_result (Proc Fork, r) = [ret r]"
| "fork_result _ = []"

fun wait_result :: "event \<Rightarrow> int list" where
  "wait_result (Proc Wait, r) = (if ret r = -1 then [] else [ret r])"
| "wait_result _ = []"

definition forks :: "event list \<Rightarrow> int list" where
  "forks tr = concat (map fork_result tr)"

definition waits :: "event list \<Rightarrow> int list" where
  "waits tr = concat (map wait_result tr)"

primrec dead_lines :: "int \<Rightarrow> (string \<times> int) list \<Rightarrow> string" where
  "dead_lines i [] = []"
| "dead_lines i (x # xs) = dead_line (fst x) (snd x) i @ dead_lines (i + 1) xs"

lemma forks_simps [simp]: "forks [] = []" "forks (e # tr) = fork_result e @ forks tr" "forks (tr @ tr') = forks tr @ forks tr'"
  by (simp_all add: forks_def)

lemma waits_simps [simp]: "waits [] = []" "waits (e # tr) = wait_result e @ waits tr" "waits (tr @ tr') = waits tr @ waits tr'"
  by (simp_all add: waits_def)

text \<open>Reading the clock prints nothing and creates no process.\<close>

abbreviation silent :: "'k world \<Rightarrow> 'k world \<Rightarrow> bool" where
  "silent w w' \<equiv> \<exists>d. trace w' = trace w @ d \<and> printed 1 d = [] \<and> forks d = [] \<and> waits d = []"

lemma wp_getCurrTimeStr:
  "(\<And>t w'. silent w w' \<Longrightarrow> Q t w') \<Longrightarrow> wp (getCurrTimeStr K n) Q w"
  unfolding getCurrTimeStr_def by (auto intro!: wp_call_any wp_sys_any)

lemma wp_time_failed: "(\<And>w'. Q (ExitNow 1) w') \<Longrightarrow> wp (time_failed K) Q w"
  unfolding time_failed_def by (auto intro!: wp_tr(3))

definition reaped :: "int \<Rightarrow> 'k world \<Rightarrow> 'k world \<Rightarrow> bool" where
  "reaped i w w' \<longleftrightarrow> (\<exists>d ps x. trace w' = trace w @ d @ [(Proc Wait, x)] \<and> ret x = -1 \<and> forks d = [] \<and>
     map snd ps = waits d \<and> printed 1 d = dead_lines i ps)"

lemma reaped_more:
  assumes "reaped (i + 1) w2 w'" "ret x \<noteq> -1" "trace w1 = trace w @ (Proc Wait, x) # d"
    "printed 1 d = []" "forks d = []" "waits d = []" "trace w2 = trace w1 @ [(Stdio (Fprintf 1 (dead_line t (ret x) i)), y)]"
  shows "reaped i w w'"
proof -
  obtain e ps z where e: "trace w' = trace w2 @ e @ [(Proc Wait, z)]" "ret z = -1" "forks e = []" "map snd ps = waits e"
      "printed 1 e = dead_lines (i + 1) ps"
    using assms(1) by (auto simp: reaped_def)
  let ?d = "(Proc Wait, x) # d @ (Stdio (Fprintf 1 (dead_line t (ret x) i)), y) # e"
  have "trace w' = trace w @ ?d @ [(Proc Wait, z)]" "map snd ((t, ret x) # ps) = waits ?d"
    "printed 1 ?d = dead_lines i ((t, ret x) # ps)" "forks ?d = []"
    using e assms(2-) by simp_all
  with e(2) show ?thesis unfolding reaped_def by blast
qed

lemma wp_multi_wait_loop:
  "wp (multi_wait_loop fuel K i) (\<lambda>r w'. r \<noteq> Exit 0 \<and> (is_ok r \<longrightarrow> reaped i w w')) w"
proof (induction fuel arbitrary: i w)
  case (Suc fuel)
  show ?case
    unfolding multi_wait_loop.simps wp_bind
  proof (rule wp_call_any)
    fix x and w1 :: "'a world"
    assume w1: "after (Proc Wait, x) w w1"
    show "wp (if ret x = -1 then ok () else do {
         t \<leftarrow> getCurrTimeStr K TIME_STR_BUFFER_SIZE;
         case t of None \<Rightarrow> time_failed K
         | Some timeStr \<Rightarrow> do { printf K (dead_line timeStr (ret x) i);
             if i = INT_MAX then halt Undef else multi_wait_loop fuel K (i + 1) } })
        (\<lambda>r w'. r \<noteq> Exit 0 \<and> (is_ok r \<longrightarrow> reaped i w w')) w1"
    proof (cases "ret x = -1")
      case True
      have "reaped i w w1"
        unfolding reaped_def by (rule exI [of _ "[]"], rule exI [of _ "[]"]) (use w1 True in auto)
      with True show ?thesis by simp
    next
      case False
      have "wp (multi_wait_loop fuel K (i + 1)) (\<lambda>r w'. r \<noteq> Exit 0 \<and> (is_ok r \<longrightarrow> reaped i w w')) w3"
        if "trace w2 = trace w1 @ d" "printed 1 d = []" "forks d = []" "waits d = []"
          "trace w3 = trace w2 @ [(Stdio (Fprintf 1 (dead_line t (ret x) i)), y)]" for d t y and w2 w3 :: "'a world"
        by (rule wp_mono [OF Suc.IH]) (use that w1 False in \<open>auto intro!: reaped_more [of i w3 _ x w2 w d t y]\<close>)
      with False show ?thesis
        by (auto intro!: wp_getCurrTimeStr wp_time_failed wp_tr(4) split: option.splits)
    qed
  qed
qed simp

lemma wp_multi_wait_child: "wp (multi_wait_child K argv i) (\<lambda>r w'. r \<noteq> Exit 0 \<and> \<not> is_ok r) w"
  unfolding multi_wait_child_def
  by (auto intro!: wp_getCurrTimeStr wp_time_failed wp_call_any wp_sys_any wp_tr(4) multi_wait_getUint.outcome split: option.splits)

lemma wp_multi_wait_fork:
  "wp (multi_wait_fork K argv i) (\<lambda>r w'. r \<noteq> Exit 0 \<and> (is_ok r \<longrightarrow>
     (\<exists>x. trace w' = trace w @ [(Proc Fork, x)] \<and> ret x \<noteq> 0 \<and> ret x \<noteq> -1))) w"
  unfolding multi_wait_fork_def
  by (auto intro!: wp_call_any wp_tr(5) wp_mono [OF wp_multi_wait_child])

definition forked :: "nat \<Rightarrow> 'k world \<Rightarrow> 'k world \<Rightarrow> bool" where
  "forked n w w' \<longleftrightarrow> (\<exists>d. trace w' = trace w @ d \<and> length (forks d) = n \<and> 0 \<notin> set (forks d) \<and> -1 \<notin> set (forks d) \<and>
     printed 1 d = [] \<and> waits d = [])"

lemma wp_multi_wait_forks:
  "wp (for_each is (multi_wait_fork K argv)) (\<lambda>r w'. r \<noteq> Exit 0 \<and> (is_ok r \<longrightarrow> forked (length is) w w')) w"
proof (rule wp_for_each [where I = "\<lambda>done w'. forked (length done) w w'"])
  fix "done" todo :: "nat list" and i and w1 :: "'a world"
  assume "forked (length done) w w1"
  then have "forked (length (done @ [i])) w w2"
    if "trace w2 = trace w1 @ [(Proc Fork, x)]" "ret x \<noteq> 0" "ret x \<noteq> -1" for w2 x
    using that unfolding forked_def by auto
  then show "wp (multi_wait_fork K argv i) (and_then (\<lambda>_. forked (length (done @ [i])) w)
      (\<lambda>r w'. r \<noteq> Exit 0 \<and> (is_ok r \<longrightarrow> forked (length is) w w'))) w1"
    by (intro wp_mono [OF wp_multi_wait_fork]) (auto simp: and_then_def split: res.splits)
qed (auto simp: forked_def)

text \<open>
  C31. \<open>multi_wait\<close> creates one child per argument and reports every death once: if the parent
  ends with status 0, then there was one successful \<open>fork\<close> per argument, every \<open>wait\<close> that
  returned a child gave one line with its process id, the lines are numbered 1, 2, 3 and so on,
  nothing else was printed, and the last \<open>wait\<close> failed because no child was left.
\<close>

theorem multi_wait_reports:
  "wp (multi_wait_main fuel K argv) (\<lambda>r w'. r = Exit 0 \<longrightarrow> (\<exists>d ps x. trace w' = trace w @ d @ [(Proc Wait, x)] \<and>
     ret x = -1 \<and> errno w' = ECHILD \<and> length (forks d) = length argv - 1 \<and> 0 \<notin> set (forks d) \<and> -1 \<notin> set (forks d) \<and>
     map snd ps = waits d \<and> printed 1 d = dead_lines 1 ps)) w"
    (is "wp _ ?Q w")
proof -
  have fin: "?Q (Exit 0) w2" if a: "forked (length argv - 1) w w1" "reaped 1 w1 w2" "errno w2 = ECHILD" for w1 w2
  proof -
    obtain d where d: "trace w1 = trace w @ d" "length (forks d) = length argv - 1" "0 \<notin> set (forks d)" "-1 \<notin> set (forks d)"
        "printed 1 d = []" "waits d = []"
      using a(1) by (auto simp: forked_def)
    obtain e ps x where "trace w2 = trace w1 @ e @ [(Proc Wait, x)]" "ret x = -1" "forks e = []" "map snd ps = waits e"
        "printed 1 e = dead_lines 1 ps"
      using a(2) by (auto simp: reaped_def)
    with d a(3) show ?thesis by (intro impI exI [of _ "d @ e"] exI [of _ ps] exI [of _ x]) simp
  qed
  show ?thesis
    unfolding multi_wait_main_def
    using fin
    by (auto intro!: wp_tr(5,6) wp_mono [OF wp_multi_wait_forks] wp_mono [OF wp_multi_wait_loop]
        simp: and_then_def split: res.splits)
qed

lemma multi_wait_script:
  "fst (run_state (multi_wait_main 3 script_os [''p'', ''1''])
     (start [returns 7, returns 7, returns 0, returns 1, gives ''12:00:00'', fails_with ECHILD])) = Exit 0"
  by (simp add: multi_wait_main_def multi_wait_fork_def getCurrTimeStr_def arg_def run_calls script_os_def script_step_def INT_MAX_def
      start_def returns_def gives_def fails_with_def reply0_def ECHILD_def eval_nat_numeral)

theorem multi_wait_reports_witness:
  "\<exists>w'. run_state (multi_wait_main 3 script_os [''p'', ''1''])
       (start [returns 7, returns 7, returns 0, returns 1, gives ''12:00:00'', fails_with ECHILD]) = (Exit 0, w') \<and>
     (\<exists>d ps x. trace w' = d @ [(Proc Wait, x)] \<and> ret x = -1 \<and> errno w' = ECHILD \<and> length (forks d) = 1 \<and>
       0 \<notin> set (forks d) \<and> -1 \<notin> set (forks d) \<and> map snd ps = waits d \<and> printed 1 d = dead_lines 1 ps)"
  using wp_run [OF multi_wait_reports [of 3 script_os "[''p'', ''1'']"
      "start [returns 7, returns 7, returns 0, returns 1, gives ''12:00:00'', fails_with ECHILD]"]] multi_wait_script
  by (simp add: prod_eq_iff start_def)

end
