(* ===== verification/Proc_Env.thy ===== *)
theory Proc_Env
  imports Unix_Calls
begin

text \<open>
  The environment programs of \<open>proc/src/\<close>: \<open>display_env\<close> prints the environment, \<open>modify_env\<close>
  replaces it first. \<open>Environ i\<close> reads \<open>environ[i]\<close>; the answer 0 is the null pointer at the end
  of the array. The environment itself belongs to the C library, and what the programs rely on of it
  is the predicate \<open>environment\<close>.
\<close>

section \<open>proc/src/display\_env.c and proc/src/modify\_env.c\<close>

text \<open>\<open>for (char **p = environ; *p != NULL; ++p) puts(*p)\<close>, from index \<open>i\<close> on; the first argument
  bounds the number of entries.\<close>

primrec puts_environ :: "nat \<Rightarrow> 'k os \<Rightarrow> nat \<Rightarrow> ('k, unit) cmd" where
  "puts_environ 0 K i = halt Hang"
| "puts_environ (Suc fuel) K i = do {
     p \<leftarrow> sys K (Info (Environ i));
     if ret p = 0 then ok ()
     else do {
       printf K (rdata p @ nl);
       puts_environ fuel K (i + 1) } }"

definition display_env_main :: "nat \<Rightarrow> 'k os \<Rightarrow> string list \<Rightarrow> ('k, unit) cmd" where
  "display_env_main fuel K argv = bind_res (puts_environ fuel K 0) (\<lambda>_. halt (Exit 0))"

definition modify_env_put :: "'k os \<Rightarrow> string \<Rightarrow> ('k, unit) cmd" where
  "modify_env_put K a = do {
     s \<leftarrow> call K (Info (Putenv a));
     if s \<noteq> 0
     then die K (\<lambda>err. ''Failed to put env '' @ a @ '' - '' @ err @ nl)
     else ok () }"

definition modify_env_main :: "nat \<Rightarrow> 'k os \<Rightarrow> string list \<Rightarrow> ('k, unit) cmd" where
  "modify_env_main fuel K argv = do {
     s \<leftarrow> call K (Info Clearenv);
     if s \<noteq> 0
     then die K (\<lambda>err. ''Failed to clear env - '' @ err @ nl)
     else bind_res (for_each (drop 1 argv) (modify_env_put K)) (\<lambda>_. do {
     s \<leftarrow> call K (Info (Setenv ''GREET'' ''Hello World'' 0));
     if s = -1
     then die K (\<lambda>err. ''Failed to put env '' @ ''GREET'' @ '' - '' @ err @ nl)
     else do {
     s \<leftarrow> call K (Info (Unsetenv ''BYE''));
     if s = -1
     then die K (\<lambda>err. ''Failed to unset env '' @ ''BYE'' @ '' - '' @ err @ nl)
     else bind_res (puts_environ fuel K 0) (\<lambda>_. halt (Exit 0)) }}) }"

section \<open>The environment\<close>

text \<open>An entry \<open>NAME=value\<close>, and the environment that a list of entries denotes.\<close>

definition env_entry :: "string \<Rightarrow> string \<times> string" where
  "env_entry s = (takeWhile (\<lambda>c. c \<noteq> CHR ''='') s, tl (dropWhile (\<lambda>c. c \<noteq> CHR ''='') s))"

definition env_map :: "string list \<Rightarrow> string \<Rightarrow> string option" where
  "env_map es = map_of (map env_entry es)"

text \<open>The abstract operations: \<open>putenv\<close> of a string without \<open>=\<close> removes the variable, \<open>setenv\<close> with
  \<open>overwrite\<close> 0 keeps a variable that exists.\<close>

definition env_put :: "string \<Rightarrow> (string \<Rightarrow> string option) \<Rightarrow> string \<Rightarrow> string option" where
  "env_put s m = (if CHR ''='' \<in> set s then m(fst (env_entry s) \<mapsto> snd (env_entry s)) else m(s := None))"

definition env_set :: "string \<Rightarrow> string \<Rightarrow> int \<Rightarrow> (string \<Rightarrow> string option) \<Rightarrow> string \<Rightarrow> string option" where
  "env_set n v overwrite m = (if m n \<noteq> None \<and> overwrite = 0 then m else m(n \<mapsto> v))"

text \<open>The documented effect of the calls on the entries of \<open>environ\<close>, which keep having different names:
  the map that the entries denote changes as above when the call succeeds. Their order is not documented.\<close>

abbreviation env_names :: "string list \<Rightarrow> string list" where
  "env_names es \<equiv> map (\<lambda>e. fst (env_entry e)) es"

definition env_ok :: "info_call \<Rightarrow> sysret \<Rightarrow> string list \<Rightarrow> string list \<Rightarrow> bool" where
  "env_ok c r es es' = (case c of
     Clearenv \<Rightarrow> ret r = 0 \<longrightarrow> es' = []
   | Putenv s \<Rightarrow> ret r = 0 \<longrightarrow> env_map es' = env_put s (env_map es)
   | Setenv n v ov \<Rightarrow> ret r = -1 \<or> ret r = 0 \<and> env_map es' = env_set n v ov (env_map es)
   | Unsetenv n \<Rightarrow> ret r = -1 \<or> ret r = 0 \<and> env_map es' = (env_map es)(n := None)
   | Environ i \<Rightarrow> es' = es \<and> (if i < length es then ret r \<noteq> 0 \<and> rdata r = es ! i else ret r = 0)
   | _ \<Rightarrow> es' = es)"

definition environment :: "'k os \<Rightarrow> ('k \<Rightarrow> string list) \<Rightarrow> bool" where
  "environment K env \<longleftrightarrow> (\<forall>k c. let es = env k; es' = env (fst (step K k c)) in
     (distinct (env_names es) \<longrightarrow> distinct (env_names es')) \<and>
     (case c of Info i \<Rightarrow> env_ok i (snd (step K k c)) es es' | _ \<Rightarrow> es' = es))"

text \<open>An environment that does this: a list of entries, new ones in front.\<close>

definition env_without :: "string \<Rightarrow> string list \<Rightarrow> string list" where
  "env_without n es = filter (\<lambda>e. fst (env_entry e) \<noteq> n) es"

definition env_step :: "string list \<Rightarrow> syscall \<Rightarrow> string list \<times> sysret" where
  "env_step es c = (case c of
     Info ic \<Rightarrow> (case ic of
       Clearenv \<Rightarrow> ([], returns 0)
     | Putenv s \<Rightarrow> (if CHR ''='' \<in> set s then s # env_without (fst (env_entry s)) es else env_without s es, returns 0)
     | Setenv n v ov \<Rightarrow>
         if CHR ''='' \<in> set n then (es, returns (-1))
         else (if env_map es n \<noteq> None \<and> ov = 0 then es else (n @ ''='' @ v) # env_without n es, returns 0)
     | Unsetenv n \<Rightarrow> (env_without n es, returns 0)
     | Environ i \<Rightarrow> (es, if i < length es then reply0\<lparr>ret := 1, rdata := es ! i\<rparr> else returns 0)
     | _ \<Rightarrow> (es, returns 0))
   | _ \<Rightarrow> (es, returns 0))"

definition env_os :: "string list os" where
  "env_os = \<lparr>step = env_step, strerror = (\<lambda>e. ''error''), strsignal = (\<lambda>s. ''signal''), gai_strerror = (\<lambda>s. ''error'')\<rparr>"

lemma env_map_simps [simp]:
  "env_map [] = Map.empty"
  "env_map (e # es) = (env_map es)(fst (env_entry e) \<mapsto> snd (env_entry e))"
  by (simp_all add: env_map_def split_beta flip: prod.collapse)

lemma env_map_without [simp]: "env_map (env_without n es) = (env_map es)(n := None)"
  by (induction es) (auto simp: env_without_def fun_eq_iff)

lemma distinct_without [simp]:
  "distinct (env_names es) \<Longrightarrow> distinct (env_names (env_without n es))" "e \<in> set (env_without n es) \<longleftrightarrow> e \<in> set es \<and> fst (env_entry e) \<noteq> n"
  by (auto simp: env_without_def distinct_map intro: inj_on_subset)

lemma env_entry_set [simp]: "CHR ''='' \<notin> set n \<Longrightarrow> env_entry (n @ CHR ''='' # v) = (n, v)"
  by (auto simp: env_entry_def takeWhile_append dropWhile_append)

lemma env_os_environment: "environment env_os (\<lambda>es. es)"
  unfolding environment_def
  by (auto simp: env_os_def env_step_def env_ok_def env_put_def env_set_def returns_def reply0_def Let_def
      split: syscall.splits info_call.splits)

section \<open>Properties\<close>

text \<open>The environment that \<open>modify_env\<close> builds from its arguments.\<close>

definition modify_env_spec :: "string list \<Rightarrow> string \<Rightarrow> string option" where
  "modify_env_spec args = (env_set ''GREET'' ''Hello World'' 0 (fold env_put args Map.empty))(''BYE'' := None)"

lemma env_length: "distinct (env_names es) \<Longrightarrow> length es = card (dom (env_map es))"
proof -
  assume "distinct (env_names es)"
  moreover have "dom (env_map es) = set (env_names es)"
    by (induction es) (auto simp: dom_def)
  ultimately show ?thesis by (metis distinct_card length_map)
qed

lemma env_puts_dom: "dom (fold env_put args m) \<subseteq> dom m \<union> (\<lambda>a. fst (env_entry a)) ` set args"
proof (induction args arbitrary: m)
  case (Cons a args)
  have "dom (env_put a m) \<subseteq> insert (fst (env_entry a)) (dom m)" by (auto simp: env_put_def split: if_splits)
  with Cons.IH [of "env_put a m"] show ?case by auto
qed simp

lemma modify_env_spec_card: "card (dom (modify_env_spec args)) \<le> Suc (length args)"
proof -
  have "dom (modify_env_spec args) \<subseteq> insert ''GREET'' ((\<lambda>a. fst (env_entry a)) ` set args)" (is "_ \<subseteq> insert _ ?S")
    using env_puts_dom [of args Map.empty] by (auto simp: modify_env_spec_def env_set_def split: if_splits)
  then have "card (dom (modify_env_spec args)) \<le> card (insert ''GREET'' ?S)" by (intro card_mono) auto
  also have "\<dots> \<le> Suc (card ?S)" by (rule card_insert_le_m1) auto
  also have "card ?S \<le> length args" by (meson card_image_le card_length finite_set le_trans)
  finally show ?thesis by simp
qed

lemma wp_env:
  assumes "environment K env"
  shows "(\<And>r w'. env_ok c r (env (kern w)) (env (kern w')) \<Longrightarrow> (distinct (env_names (env (kern w))) \<longrightarrow> distinct (env_names (env (kern w')))) \<Longrightarrow>
      trace w' = trace w @ [(Info c, r)] \<Longrightarrow> Q r w') \<Longrightarrow> wp (sys K (Info c)) Q w"
    and "(\<And>r w'. env_ok c r (env (kern w)) (env (kern w')) \<Longrightarrow> (distinct (env_names (env (kern w))) \<longrightarrow> distinct (env_names (env (kern w')))) \<Longrightarrow>
      trace w' = trace w @ [(Info c, r)] \<Longrightarrow> P (ret r) w') \<Longrightarrow> wp (call K (Info c)) P w"
    and "(\<And>r w'. env (kern w') = env (kern w) \<Longrightarrow> trace w' = trace w @ [(Stdio (Fprintf 1 s), r)] \<Longrightarrow> Q r w') \<Longrightarrow> wp (printf K s) Q w"
proof -
  have ok: "env_ok c r (env k) (env k') \<and> (distinct (env_names (env k)) \<longrightarrow> distinct (env_names (env k')))" if "step K k (Info c) = (k', r)" for k k' c r
    using assms [unfolded environment_def Let_def, rule_format, of k "Info c"] that by simp
  have pr: "env k' = env k" if "step K k (Stdio c) = (k', r)" for k k' c r
    using assms [unfolded environment_def Let_def, rule_format, of k "Stdio c"] that by simp
  show "wp (sys K (Info c)) Q w" if "\<And>r w'. env_ok c r (env (kern w)) (env (kern w')) \<Longrightarrow>
      (distinct (env_names (env (kern w))) \<longrightarrow> distinct (env_names (env (kern w')))) \<Longrightarrow> trace w' = trace w @ [(Info c, r)] \<Longrightarrow> Q r w'"
    by (rule wp_sys_step) (use ok that in blast)
  show "wp (call K (Info c)) P w" if "\<And>r w'. env_ok c r (env (kern w)) (env (kern w')) \<Longrightarrow>
      (distinct (env_names (env (kern w))) \<longrightarrow> distinct (env_names (env (kern w')))) \<Longrightarrow> trace w' = trace w @ [(Info c, r)] \<Longrightarrow> P (ret r) w'"
    by (rule wp_call_step) (use ok that in blast)
  show "wp (printf K s) Q w" if "\<And>r w'. env (kern w') = env (kern w) \<Longrightarrow> trace w' = trace w @ [(Stdio (Fprintf 1 s), r)] \<Longrightarrow> Q r w'"
    unfolding printf_def by (rule wp_sys_step) (use pr that in blast)
qed

lemma wp_puts_environ:
  assumes K: "environment K env" and "i \<le> length (env (kern w))" "length (env (kern w)) < i + fuel"
  shows "wp (puts_environ fuel K i) (\<lambda>r w'. r = Ok () \<and> (\<exists>d. trace w' = trace w @ d \<and>
     printed 1 d = concat (map (\<lambda>e. e @ nl) (drop i (env (kern w)))))) w"
  using assms(2,3)
proof (induction fuel arbitrary: i w)
  case (Suc fuel)
  show ?case
    unfolding puts_environ.simps wp_bind
  proof (rule wp_env(1) [OF K])
    fix r and w1 :: "'a world"
    assume r: "env_ok (Environ i) r (env (kern w)) (env (kern w1))" and t1: "trace w1 = trace w @ [(Info (Environ i), r)]"
    show "wp (if ret r = 0 then ok () else printf K (rdata r @ nl) \<bind> (\<lambda>_. puts_environ fuel K (i + 1)))
        (\<lambda>r w'. r = Ok () \<and> (\<exists>d. trace w' = trace w @ d \<and> printed 1 d = concat (map (\<lambda>e. e @ nl) (drop i (env (kern w)))))) w1"
    proof (cases "i < length (env (kern w))")
      case True
      with r have ne: "ret r \<noteq> 0" "rdata r = env (kern w) ! i" "env (kern w1) = env (kern w)" by (auto simp: env_ok_def)
      have "wp (puts_environ fuel K (i + 1)) (\<lambda>r w'. r = Ok () \<and> (\<exists>d. trace w' = trace w @ d \<and>
          printed 1 d = concat (map (\<lambda>e. e @ nl) (drop i (env (kern w)))))) w2"
        if "env (kern w2) = env (kern w1)" "trace w2 = trace w1 @ [(Stdio (Fprintf 1 (rdata r @ nl)), x)]" for w2 x
        using Suc.IH [of "i + 1" w2] Suc.prems that ne t1 True
        by (auto elim!: wp_mono simp: Cons_nth_drop_Suc [symmetric])
      with ne show ?thesis by (auto intro!: wp_env(3) [OF K])
    next
      case False
      with r t1 show ?thesis by (auto simp: env_ok_def)
    qed
  qed
qed simp

lemma wp_modify_env_puts:
  assumes K: "environment K env" and "distinct (env_names (env (kern w)))"
  shows "wp (for_each args (modify_env_put K)) (\<lambda>r w'. r = Exit 1 \<or> r = Ok () \<and>
     env_map (env (kern w')) = fold env_put args (env_map (env (kern w))) \<and> distinct (env_names (env (kern w'))) \<and>
     (\<exists>d. trace w' = trace w @ d \<and> printed 1 d = [])) w"
  by (rule wp_for_each [where I = "\<lambda>done w'. env_map (env (kern w')) = fold env_put done (env_map (env (kern w))) \<and>
        distinct (env_names (env (kern w'))) \<and> (\<exists>d. trace w' = trace w @ d \<and> printed 1 d = [])"])
     (auto simp: modify_env_put_def env_ok_def assms(2) intro!: wp_env(2) [OF K] wp_tr(5))

text \<open>
  C16. \<open>modify_env\<close> implements the environment operations of its arguments: on a system
  whose environment behaves as documented, whatever the environment was before, the program
  ends with status 0 or 1, and with status 0 it has printed one line per variable of the map that
  results from storing the arguments one after the other in an empty environment, adding
  \<open>GREET\<close> unless it is there and removing \<open>BYE\<close>.
\<close>

theorem modify_env_refines:
  assumes "environment K env" "length argv + 1 < fuel"
  shows "wp (modify_env_main fuel K argv) (\<lambda>r w'. (r = Exit 0 \<or> r = Exit 1) \<and> (r = Exit 0 \<longrightarrow>
     (\<exists>d es. trace w' = trace w @ d \<and> printed 1 d = concat (map (\<lambda>e. e @ nl) es) \<and> distinct (env_names es) \<and>
       env_map es = modify_env_spec (drop 1 argv)))) w"
proof -
  have fin: "wp (puts_environ fuel K 0) (\<lambda>r w'. r = Ok () \<and> (\<exists>d es. trace w' = trace w @ d \<and>
      printed 1 d = concat (map (\<lambda>e. e @ nl) es) \<and> distinct (env_names es) \<and> env_map es = modify_env_spec (drop 1 argv))) w1"
    if a: "env_map (env (kern w1)) = modify_env_spec (drop 1 argv)" "distinct (env_names (env (kern w1)))"
      "\<exists>d. trace w1 = trace w @ d \<and> printed 1 d = []" for w1
  proof -
    have "length (env (kern w1)) < 0 + fuel"
      using env_length [OF a(2)] modify_env_spec_card [of "drop 1 argv"] assms(2) by (simp add: a(1))
    from wp_puts_environ [OF assms(1) le0 this] show ?thesis
      using a by (auto elim!: wp_mono)
  qed
  show ?thesis
    unfolding modify_env_main_def
    by (auto intro!: wp_env(2) [OF assms(1)] wp_tr(5) wp_mono [OF wp_modify_env_puts [OF assms(1)]] wp_mono [OF fin]
        simp: and_then_def env_ok_def modify_env_spec_def split: res.splits) blast+
qed

lemma modify_env_run:
  "fst (run_state (modify_env_main 9 env_os [''p'', ''A=1'', ''BYE=2'']) (start [''PATH=bin''])) = Exit 0"
  by (simp add: modify_env_main_def modify_env_put_def run_calls env_os_def env_step_def env_without_def env_entry_def
      start_def returns_def reply0_def eval_nat_numeral)

theorem modify_env_refines_witness:
  "\<exists>w'. run_state (modify_env_main 9 env_os [''p'', ''A=1'', ''BYE=2'']) (start [''PATH=bin'']) = (Exit 0, w') \<and>
     (\<exists>es. printed 1 (trace w') = concat (map (\<lambda>e. e @ nl) es) \<and> distinct (env_names es) \<and>
       env_map es = modify_env_spec [''A=1'', ''BYE=2''])"
  using wp_run [OF modify_env_refines [OF env_os_environment, of "[''p'', ''A=1'', ''BYE=2'']" 9 "start [''PATH=bin'']"]] modify_env_run
  by (simp add: start_def prod_eq_iff)

end
