(* ===== verification/Directories.thy ===== *)
theory Directories
  imports Num_Args
begin

text \<open>
  The programs of \<open>dirs_links/src/\<close>. The answer to \<open>Readdir\<close> holds the name of the entry, 0
  being the null pointer. \<open>nftw\<close> is a function of the C library that calls back into the program:
  every answer 1 to \<open>Nftw\<close> is one call of \<open>dirTree\<close> (path, \<open>struct stat\<close>, and the numbers type,
  level and base); any other answer is the result of \<open>nftw\<close>.
\<close>

section \<open>dirs\_links/src/list\_files.c\<close>

definition list_entry :: "'k os \<Rightarrow> string \<Rightarrow> string \<Rightarrow> ('k, unit) cmd" where
  "list_entry K dirpath d_name =
     (if d_name = ''.'' \<or> d_name = ''..'' then ok ()
      else do {
        (if dirpath \<noteq> ''.'' then do { printf K (dirpath @ ''/''); State_Monad.return () } else State_Monad.return ());
        printf K (d_name @ nl);
        ok () })"

text \<open>The loop over the entries; the first argument bounds their number.\<close>

primrec list_entries :: "nat \<Rightarrow> 'k os \<Rightarrow> string \<Rightarrow> int \<Rightarrow> ('k, unit) cmd" where
  "list_entries 0 K dirpath dir = halt Hang"
| "list_entries (Suc fuel) K dirpath dir = do {
     dirEntry \<leftarrow> sys K (Dir (Readdir dir));
     if ret dirEntry = 0 then ok ()
     else bind_res (list_entry K dirpath (rdata dirEntry)) (\<lambda>_. list_entries fuel K dirpath dir) }"

definition listFiles :: "nat \<Rightarrow> 'k os \<Rightarrow> string \<Rightarrow> ('k, unit) cmd" where
  "listFiles fuel K dirpath = do {
     dir \<leftarrow> call K (Dir (Opendir dirpath));
     if dir = 0
     then die K (\<lambda>err. ''Failed to open dir '' @ dirpath @ '' - '' @ err @ nl)
     else do {
     set_errno 0;
     bind_res (list_entries fuel K dirpath dir) (\<lambda>_. do {
     errno \<leftarrow> get_errno;
     if errno \<noteq> 0
     then die K (\<lambda>err. ''Failed to read dir entry in '' @ dirpath @ '' - '' @ err @ nl)
     else do {
     c \<leftarrow> call K (Dir (Closedir dir));
     if c = -1
     then die K (\<lambda>err. ''Failed to close dir '' @ dirpath @ '' - '' @ err @ nl)
     else ok () }}) }}"

definition list_files_main :: "nat \<Rightarrow> 'k os \<Rightarrow> string list \<Rightarrow> ('k, unit) cmd" where
  "list_files_main fuel K argv =
     (if 1 < length argv \<and> arg argv 1 = ''-h''
      then do {
        eprintf K (''Usage: '' @ arg argv 0 @ '' [<dir>]...'' @ nl);
        halt (Exit EXIT_SUCCESS) }
      else bind_res
        (if length argv = 1 then listFiles fuel K ''.''
         else for_each (drop 1 argv) (listFiles fuel K))
        (\<lambda>_. halt (Exit EXIT_SUCCESS)))"

section \<open>dirs\_links/src/nftw\_dir\_tree.c\<close>

definition FTW_F :: int where "FTW_F = 0"
definition FTW_D :: int where "FTW_D = 1"
definition FTW_DNR :: int where "FTW_DNR = 2"
definition FTW_NS :: int where "FTW_NS = 3"
definition FTW_SL :: int where "FTW_SL = 4"
definition FTW_DP :: int where "FTW_DP = 5"
definition FTW_SLN :: int where "FTW_SLN = 6"
definition FTW_PHYS :: int where "FTW_PHYS = 1"
definition FTW_MOUNT :: int where "FTW_MOUNT = 2"

definition S_IFMT :: "32 word" where "S_IFMT = 61440"
definition S_IFSOCK :: "32 word" where "S_IFSOCK = 49152"
definition S_IFLNK :: "32 word" where "S_IFLNK = 40960"
definition S_IFREG :: "32 word" where "S_IFREG = 32768"
definition S_IFBLK :: "32 word" where "S_IFBLK = 24576"
definition S_IFDIR :: "32 word" where "S_IFDIR = 16384"
definition S_IFCHR :: "32 word" where "S_IFCHR = 8192"
definition S_IFIFO :: "32 word" where "S_IFIFO = 4096"

definition printUsageError :: "'k os \<Rightarrow> string \<Rightarrow> ('k world, unit) state" where
  "printUsageError K program = do {
     eprintf K (''Usage: '' @ program @ '' [-d] [-m] [-p] [<file>]'' @ nl);
     State_Monad.return () }"

definition mode_char :: "32 word \<Rightarrow> string" where
  "mode_char mode = (let t = mode AND S_IFMT in
     if t = S_IFBLK then ''b''
     else if t = S_IFCHR then ''c''
     else if t = S_IFDIR then ''d''
     else if t = S_IFIFO then ''p''
     else if t = S_IFLNK then ''l''
     else if t = S_IFREG then ''-''
     else if t = S_IFSOCK then ''s''
     else ''?'')"

definition type_name :: "int \<Rightarrow> string" where
  "type_name ty =
     (if ty = FTW_F then ''F''
      else if ty = FTW_D then ''D''
      else if ty = FTW_DNR then ''DNR''
      else if ty = FTW_DP then ''DP''
      else if ty = FTW_NS then ''NS''
      else if ty = FTW_SL then ''SL''
      else if ty = FTW_SLN then ''SLN''
      else ''?'')"

definition dirTree :: "'k os \<Rightarrow> string \<Rightarrow> stat \<Rightarrow> int \<Rightarrow> int \<Rightarrow> int \<Rightarrow> ('k world, int) state" where
  "dirTree K pathname statBuffer type_ftw level base = do {
     (if type_ftw = FTW_NS then printf K ''?'' else printf K (mode_char (st_mode statBuffer)));
     printf K '' '';
     printf K (type_name type_ftw);
     printf K ''   '';
     (if type_ftw \<noteq> FTW_NS
      then printf K (pad_left 7 (CHR '' '') (dec (st_ino statBuffer)) @ '' '')
      else printf K (pad_left 7 (CHR '' '') ''''));
     printf K ('' '' @ pad_left (nat (4 * level)) (CHR '' '') '''');
     printf K (drop (nat base) pathname @ nl);
     State_Monad.return 0 }"

text \<open>\<open>nftw(pathname, dirTree, 10, flags)\<close>: \<open>dirTree\<close> always returns 0, so the walk is not cut short.\<close>

primrec nftw_dirTree :: "nat \<Rightarrow> 'k os \<Rightarrow> string \<Rightarrow> int \<Rightarrow> ('k, int) cmd" where
  "nftw_dirTree 0 K pathname flags = halt Hang"
| "nftw_dirTree (Suc fuel) K pathname flags = do {
     r \<leftarrow> sys K (Dir (Nftw pathname 10 flags));
     if ret r = 1
     then do {
       s \<leftarrow> dirTree K (rdata r) (rstat r) (rnum 0 r) (rnum 1 r) (rnum 2 r);
       if s \<noteq> 0 then ok s else nftw_dirTree fuel K pathname flags }
     else ok (ret r) }"

definition nftw_opt :: "'k os \<Rightarrow> string \<Rightarrow> getopt_ev \<Rightarrow> int \<Rightarrow> ('k, int) cmd" where
  "nftw_opt K prog ev flags = (case ev of
     Opt c optarg \<Rightarrow>
       if c = CHR ''d'' then ok (flags OR FTW_D)
       else if c = CHR ''m'' then ok (flags OR FTW_MOUNT)
       else if c = CHR ''p'' then ok (flags OR FTW_PHYS)
       else do { printUsageError K prog; halt (Exit EXIT_FAILURE) }
   | _ \<Rightarrow> do {
       eprintf K (getopt_message prog ev);
       printUsageError K prog;
       halt (Exit EXIT_FAILURE) })"

text \<open>\<open>optind\<close> is the number of arguments before the operands, so \<open>optind > argc\<close> compares a
  number of arguments with at least as many.\<close>

definition nftw_dir_tree_main :: "nat \<Rightarrow> 'k os \<Rightarrow> string list \<Rightarrow> ('k, unit) cmd" where
  "nftw_dir_tree_main fuel K argv = (case getopt ''dmp'' (drop 1 argv) of (evs, operands) \<Rightarrow>
     bind_res (fold_each evs (nftw_opt K (arg argv 0)) 0) (\<lambda>flags.
       let argc = length argv; optind = argc - length operands in
       if optind + 1 < argc
       then do { printUsageError K (arg argv 0); halt (Exit EXIT_FAILURE) }
       else let pathname = (if argc < optind then operands ! 0 else ''.'') in
         bind_res (nftw_dirTree fuel K pathname flags) (\<lambda>s.
           if s = -1 then do { eprintf K (''nftw failed'' @ nl); halt (Exit EXIT_FAILURE) }
           else halt (Exit EXIT_SUCCESS))))"

section \<open>dirs\_links/src/t\_dirbasename.c\<close>

text \<open>\<open>dirname\<close> and \<open>basename\<close> of \<open>libgen.h\<close>: trailing slashes do not count; glibc keeps a
  leading pair of slashes.\<close>

definition strip_slashes :: "string \<Rightarrow> string" where
  "strip_slashes s = rev (dropWhile (\<lambda>c. c = CHR ''/'') (rev s))"

definition root_of :: "string \<Rightarrow> string" where
  "root_of slashes = (if length slashes = 2 then ''//'' else ''/'')"

definition dirname :: "string \<Rightarrow> string" where
  "dirname s = (let t = strip_slashes s in
     if t = [] then (if s = [] then ''.'' else root_of s)
     else if CHR ''/'' \<notin> set t then ''.''
     else let d = rev (dropWhile (\<lambda>c. c \<noteq> CHR ''/'') (rev t)) in
       if strip_slashes d = [] then root_of d else strip_slashes d)"

definition basename :: "string \<Rightarrow> string" where
  "basename s = (let t = strip_slashes s in
     if s = [] then ''.''
     else if t = [] then ''/''
     else rev (takeWhile (\<lambda>c. c \<noteq> CHR ''/'') (rev t)))"

definition strdup2 :: "'k os \<Rightarrow> string \<Rightarrow> ('k, int \<times> int) cmd" where
  "strdup2 K s = do {
     p0 \<leftarrow> call K (Proc (Malloc (int (length s) + 1)));
     if p0 = 0
     then die K (\<lambda>err. ''Failed to strdup '' @ s @ '' - '' @ err @ nl)
     else do {
     p1 \<leftarrow> call K (Proc (Malloc (int (length s) + 1)));
     if p1 = 0
     then die K (\<lambda>err. ''Failed to strdup '' @ s @ '' - '' @ err @ nl)
     else ok (p0, p1) }}"

definition split_path :: "'k os \<Rightarrow> string \<Rightarrow> ('k, unit) cmd" where
  "split_path K a = bind_res (strdup2 K a) (\<lambda>filepath. do {
     printf K (a @ '' ==> '' @ dirname a @ '' + '' @ basename a @ nl);
     sys K (Proc (Free (fst filepath)));
     sys K (Proc (Free (snd filepath)));
     ok () })"

definition t_dirbasename_main :: "'k os \<Rightarrow> string list \<Rightarrow> ('k, unit) cmd" where
  "t_dirbasename_main K argv =
     (if length argv = 1 \<or> arg argv 1 = ''-h''
      then usage K (''Usage: '' @ arg argv 0 @ '' <filepath>...'' @ nl)
      else bind_res (for_each (drop 1 argv) (split_path K)) (\<lambda>_. halt (Exit EXIT_SUCCESS)))"

section \<open>dirs\_links/src/t\_unlink.c\<close>

definition t_unlink_BUFFER_SIZE :: nat where "t_unlink_BUFFER_SIZE = 1024"
definition CMD_SIZE :: nat where "CMD_SIZE = 1024"

text \<open>The array \<open>buffer\<close> is never assigned: its contents are a parameter, of which \<open>BUFFER_SIZE\<close>
  bytes are written.\<close>

definition t_unlink_block :: "'k os \<Rightarrow> string \<Rightarrow> string \<Rightarrow> int \<Rightarrow> ('k, unit) cmd" where
  "t_unlink_block K buffer filepath fd = do {
     n \<leftarrow> call K (File (Write fd (take t_unlink_BUFFER_SIZE buffer)));
     if n = -1
     then die K (\<lambda>err. ''Failed to write 1k block to file '' @ filepath @ '' - '' @ err @ nl)
     else ok () }"

definition t_unlink_main :: "string \<Rightarrow> 'k os \<Rightarrow> string list \<Rightarrow> ('k, unit) cmd" where
  "t_unlink_main buffer K argv =
     (if length argv = 1 \<or> 3 < length argv
      then usage K (''Usage: '' @ arg argv 0 @ '' <file> [num-1kB-blocks]'' @ nl)
      else let filepath = arg argv 1 in
        bind_res (if length argv = 3 then t_unlink_getUnsignedLong K (arg argv 2) else ok 100000) (\<lambda>numBlocks. do {
        fd \<leftarrow> call K (File (Open filepath (O_WRONLY OR O_CREAT OR O_EXCL) (S_IRUSR OR S_IWUSR)));
        if fd = -1
        then die K (\<lambda>err. ''Failed to create file '' @ filepath @ '' - '' @ err @ nl)
        else do {
        u \<leftarrow> call K (File (Unlink filepath));
        if u = -1
        then die K (\<lambda>err. ''Failed to unlink file '' @ filepath @ '' - '' @ err @ nl)
        else bind_res (for_each [0..<nat numBlocks] (\<lambda>_. t_unlink_block K buffer filepath fd)) (\<lambda>_.
        let cmd = snprintf CMD_SIZE (''df -kT $(dirname '' @ filepath @ '')'') in do {
        sys K (Dir (System cmd));
        c \<leftarrow> call K (File (Close fd));
        if c = -1
        then die K (\<lambda>err. ''Failed to close file '' @ filepath @ '' - '' @ err @ nl)
        else do {
        sys K (Dir (System cmd));
        halt (Exit EXIT_SUCCESS) }}) }}))"

section \<open>dirs\_links/src/view\_symlink.c\<close>

definition PATH_MAX :: nat where "PATH_MAX = 4096"

definition view_symlink_main :: "'k os \<Rightarrow> string list \<Rightarrow> ('k, unit) cmd" where
  "view_symlink_main K argv =
     (if length argv \<noteq> 2 \<or> arg argv 1 = ''-h''
      then usage K (''Usage: '' @ arg argv 0 @ '' <link>'' @ nl)
      else let filepath = arg argv 1 in do {
        st \<leftarrow> sys K (File (Lstat filepath));
        if ret st = -1
        then die K (\<lambda>err. ''Failed to get lstat of '' @ filepath @ '' - '' @ err @ nl)
        else if st_mode (rstat st) AND S_IFMT \<noteq> S_IFLNK
        then usage K (filepath @ '' is not a symbolic link'' @ nl)
        else do {
        r \<leftarrow> sys K (Dir (Readlink filepath (PATH_MAX - 1)));
        if ret r = -1
        then die K (\<lambda>err. ''Failed to readlink '' @ filepath @ '' - '' @ err @ nl)
        else do {
        printf K (''readlink: '' @ filepath @ '' --> '' @ cstr (take (nat (ret r)) (rdata r)) @ nl);
        p \<leftarrow> sys K (Dir (Realpath filepath));
        if ret p = 0
        then die K (\<lambda>err. ''Failed to get realpath of '' @ filepath @ '' - '' @ err @ nl)
        else do {
        printf K (''realpath: '' @ filepath @ '' --> '' @ rdata p @ nl);
        halt (Exit EXIT_SUCCESS) }}}})"

section \<open>Reading directories\<close>

text \<open>What \<open>list_files\<close> prints for a directory with the given entries.\<close>

definition listing :: "string \<Rightarrow> string list \<Rightarrow> string" where
  "listing dirpath names = concat (map (\<lambda>n. (if dirpath = ''.'' then [] else dirpath @ ''/'') @ n @ nl)
     (filter (\<lambda>n. n \<noteq> ''.'' \<and> n \<noteq> ''..'') names))"

lemma listing_simps [simp]:
  "listing p [] = []"
  "listing p (n # ns) = (if n = ''.'' \<or> n = ''..'' then [] else (if p = ''.'' then [] else p @ ''/'') @ n @ nl) @ listing p ns"
  by (auto simp: listing_def)

text \<open>The contract of the directory stream of the C library: \<open>fs\<close> gives the entries of every
  directory, \<open>left\<close> the entries that a stream has still to return. At the end of the stream \<open>errno\<close> is left
  alone; otherwise nothing is assumed about \<open>errno\<close>, which any successful call may change. Output leaves the streams
  alone.\<close>

definition directory_stream :: "'k os \<Rightarrow> (string \<Rightarrow> string list) \<Rightarrow> ('k \<Rightarrow> int \<Rightarrow> string list) \<Rightarrow> bool" where
  "directory_stream K fs left \<longleftrightarrow>
     (\<forall>k p k' r. step K k (Dir (Opendir p)) = (k', r) \<longrightarrow> ret r \<noteq> 0 \<and> left k' (ret r) = fs p) \<and>
     (\<forall>k h k' r. step K k (Dir (Readdir h)) = (k', r) \<longrightarrow>
        (case left k h of [] \<Rightarrow> ret r = 0 \<and> err r = 0 | n # ns \<Rightarrow> ret r \<noteq> 0 \<and> rdata r = n \<and> left k' h = ns)) \<and>
     (\<forall>k h k' r. step K k (Dir (Closedir h)) = (k', r) \<longrightarrow> ret r = 0) \<and>
     (\<forall>k f s k' r. step K k (Stdio (Fprintf f s)) = (k', r) \<longrightarrow> left k' = left k)"

lemma directory_streamD:
  assumes "directory_stream K fs left"
  shows "step K k (Dir (Opendir p)) = (k', r) \<Longrightarrow> ret r \<noteq> 0 \<and> left k' (ret r) = fs p"
    and "step K k (Dir (Readdir h)) = (k', r) \<Longrightarrow> left k h = [] \<Longrightarrow> ret r = 0 \<and> err r = 0"
    and "step K k (Dir (Readdir h)) = (k', r) \<Longrightarrow> left k h = n # ns \<Longrightarrow> ret r \<noteq> 0 \<and> rdata r = n \<and> left k' h = ns"
    and "step K k (Dir (Closedir h)) = (k', r) \<Longrightarrow> ret r = 0"
    and "step K k (Stdio (Fprintf f s)) = (k', r) \<Longrightarrow> left k' = left k"
  using assms unfolding directory_stream_def by (blast, fastforce, fastforce, blast, blast)

text \<open>A call of \<open>readdir\<close>, or output, that has set \<open>errno\<close>.\<close>

fun disturbs :: "event \<Rightarrow> bool" where
  "disturbs (Dir (Readdir h), r) \<longleftrightarrow> err r \<noteq> 0"
| "disturbs (Stdio (Fprintf f s), r) \<longleftrightarrow> f = 1 \<and> err r \<noteq> 0"
| "disturbs _ \<longleftrightarrow> False"

text \<open>From \<open>w\<close> to \<open>w'\<close> the text \<open>s\<close> was printed, and \<open>errno\<close>, if it was 0, still is, unless some event has set it.\<close>

definition shown :: "string \<Rightarrow> 'k world \<Rightarrow> 'k world \<Rightarrow> bool" where
  "shown s w w' \<longleftrightarrow> (\<exists>d. trace w' = trace w @ d \<and> printed 1 d = s \<and>
     (errno w' = 0 \<longleftrightarrow> errno w = 0 \<and> \<not> list_ex disturbs d))"

lemma shown_simps [simp]: "shown [] w w"
  by (simp add: shown_def)

lemma shown_trans: "shown s w w1 \<Longrightarrow> shown t w1 w2 \<Longrightarrow> shown (s @ t) w w2"
  by (fastforce simp: shown_def)

lemma wp_out:
  assumes "directory_stream K fs left"
    and out: "\<And>w'. left (kern w') = left (kern w) \<Longrightarrow> shown s w w' \<Longrightarrow> Q x w'"
  shows "wp (printf K s \<bind> (\<lambda>_. State_Monad.return x)) Q w"
  unfolding printf_def wp_bind
proof (rule wp_sys_step)
  fix r and w' :: "'a world"
  assume st: "step K (kern w) (Stdio (Fprintf STDOUT_FILENO s)) = (kern w', r)"
    and w': "after (Stdio (Fprintf STDOUT_FILENO s), r) w w'"
  then have "shown s w w'" by (auto simp: shown_def)
  with directory_streamD(5) [OF assms(1) st] show "wp (State_Monad.return x) Q w'" by (simp add: out)
qed

lemma entry_lists:
  assumes D: "directory_stream K fs left"
  shows "wp (list_entry K p n) (\<lambda>r w'. r = Ok () \<and> left (kern w') = left (kern w) \<and> shown (listing p [n]) w w') w"
proof (cases "n = ''.'' \<or> n = ''..''")
  case True
  then show ?thesis by (auto simp: list_entry_def)
next
  case False
  then show ?thesis
    unfolding list_entry_def
    by (auto intro!: wp_out [OF D] simp del: wp_bind simp: wp_bind [of "if _ then _ else _"] dest: shown_trans)
qed

lemma entries_listed:
  assumes D: "directory_stream K fs left" and "length (left (kern w) h) < fuel"
  shows "wp (list_entries fuel K p h) (\<lambda>r w'. r = Ok () \<and> shown (listing p (left (kern w) h)) w w') w"
  using assms(2)
proof (induction fuel arbitrary: w)
  case (Suc fuel)
  show ?case
    unfolding list_entries.simps wp_bind
  proof (rule wp_sys_step)
    fix r and w1 :: "'a world"
    assume st: "step K (kern w) (Dir (Readdir h)) = (kern w1, r)" and w1: "after (Dir (Readdir h), r) w w1"
    then have sh: "shown [] w w1" by (auto simp: shown_def)
    show "wp (if ret r = 0 then ok () else bind_res (list_entry K p (rdata r)) (\<lambda>_. list_entries fuel K p h))
       (\<lambda>r w'. r = Ok () \<and> shown (listing p (left (kern w) h)) w w') w1"
    proof (cases "left (kern w) h")
      case Nil
      with directory_streamD(2) [OF D st] sh show ?thesis by simp
    next
      case (Cons n ns)
      with directory_streamD(3) [OF D st] have r: "ret r \<noteq> 0" "rdata r = n" "left (kern w1) h = ns" by auto
      have "wp (list_entries fuel K p h) (\<lambda>r w'. r = Ok () \<and> shown (listing p (left (kern w) h)) w w') w2"
        if w2: "left (kern w2) = left (kern w1)" "shown (listing p [n]) w1 w2" for w2
      proof (rule wp_mono [OF Suc.IH])
        show "length (left (kern w2) h) < fuel" using Suc.prems Cons r w2 by simp
        fix x w3
        assume "x = Ok () \<and> shown (listing p (left (kern w2) h)) w2 w3"
        with shown_trans [OF shown_trans [OF sh w2(2)], of _ w3] show "x = Ok () \<and> shown (listing p (left (kern w) h)) w w3"
          using r w2(1) Cons by simp
      qed
      with r show ?thesis by (auto intro!: wp_mono [OF entry_lists [OF D]])
    qed
  qed
qed simp

abbreviation listings :: "(string \<Rightarrow> string list) \<Rightarrow> string list \<Rightarrow> string" where
  "listings fs ps \<equiv> concat (map (\<lambda>p. listing p (fs p)) ps)"

text \<open>How listing the directories \<open>ps\<close> ends, given the events: if \<open>errno\<close> was left alone, all of them were printed and the result is
  \<open>fin\<close>; otherwise those up to the one at hand were printed, and the program has ended.\<close>

definition listed :: "(string \<Rightarrow> string list) \<Rightarrow> string list \<Rightarrow> unit res \<Rightarrow> event list \<Rightarrow> unit res \<Rightarrow> bool" where
  "listed fs ps fin d r \<longleftrightarrow> (if list_ex disturbs d
     then r = Exit 1 \<and> (\<exists>ps1 p ps2. ps = ps1 @ p # ps2 \<and> printed 1 d = listings fs (ps1 @ [p]))
     else r = fin \<and> printed 1 d = listings fs ps)"

lemma dir_listed:
  assumes D: "directory_stream K fs left" and "length (fs p) < fuel"
  shows "wp (listFiles fuel K p) (\<lambda>r w'. \<exists>d. trace w' = trace w @ d \<and> listed fs [p] (Ok ()) d r) w"
  unfolding listFiles_def wp_bind
proof (rule wp_call_step)
  fix r and w1 :: "'a world"
  assume st: "step K (kern w) (Dir (Opendir p)) = (kern w1, r)" and w1: "after (Dir (Opendir p), r) w w1"
  let ?w = "w1\<lparr>errno := 0\<rparr>"
  have "wp (list_entries fuel K p (ret r)) (\<lambda>r w'. r = Ok () \<and> shown (listing p (fs p)) ?w w') ?w"
    using entries_listed [OF D, of ?w "ret r" fuel p] directory_streamD(1) [OF D st] assms(2) by simp
  then have loop: "wp (list_entries fuel K p (ret r)) (\<lambda>x w'. x = Ok () \<and> (\<exists>d. trace w' = trace w @ (Dir (Opendir p), r) # d \<and>
      printed 1 d = listing p (fs p) \<and> (errno w' = 0 \<longleftrightarrow> \<not> list_ex disturbs d))) ?w"
    by (rule wp_mono) (use w1 in \<open>auto simp: shown_def\<close>)
  have failed: "listed fs [p] (Ok ()) ((Dir (Opendir p), r) # d @ [(Stdio (Fprintf 2 t), y)]) (Exit 1)"
    if "printed 1 d = listing p (fs p)" "list_ex disturbs d" for d t y
    using that by (fastforce simp: listed_def)
  have fine: "listed fs [p] (Ok ()) ((Dir (Opendir p), r) # d @ [(Dir (Closedir h), y)]) (Ok ())"
    if "printed 1 d = listing p (fs p)" "\<not> list_ex disturbs d" for d h y
    using that by (simp add: listed_def)
  show "wp (if ret r = 0 then die K (\<lambda>err. ''Failed to open dir '' @ p @ '' - '' @ err @ nl)
      else do { set_errno 0;
        bind_res (list_entries fuel K p (ret r)) (\<lambda>_. do {
          errno \<leftarrow> get_errno;
          if errno \<noteq> 0 then die K (\<lambda>err. ''Failed to read dir entry in '' @ p @ '' - '' @ err @ nl)
          else do {
            c \<leftarrow> call K (Dir (Closedir (ret r)));
            if c = -1 then die K (\<lambda>err. ''Failed to close dir '' @ p @ '' - '' @ err @ nl) else ok () }}) })
      (\<lambda>r w'. \<exists>d. trace w' = trace w @ d \<and> listed fs [p] (Ok ()) d r) w1"
    using directory_streamD(1) [OF D st] loop
    by (auto elim!: wp_mono intro!: wp_call_step wp_tr(5) failed fine dest!: directory_streamD(4) [OF D])
qed

lemma listed_snoc:
  assumes "ps = done @ x # todo" "\<not> list_ex disturbs d" "printed 1 d = listings fs done" "listed fs [x] (Ok ()) e r"
  shows "r = Ok () \<and> \<not> list_ex disturbs (d @ e) \<and> printed 1 (d @ e) = listings fs (done @ [x]) \<or>
     r = Exit 1 \<and> listed fs ps fin (d @ e) (Exit 1)"
  using assms by (cases "list_ex disturbs e") (fastforce simp: listed_def Cons_eq_append_conv)+

lemma dirs_listed:
  assumes D: "directory_stream K fs left" and len: "\<And>p. length (fs p) < fuel"
  shows "wp (for_each ps (listFiles fuel K)) (\<lambda>r w'. \<exists>d. trace w' = trace w @ d \<and> listed fs ps (Ok ()) d r) w"
proof (rule wp_for_each [where I = "\<lambda>done w'. \<exists>d. trace w' = trace w @ d \<and> \<not> list_ex disturbs d \<and> printed 1 d = listings fs done"])
  fix "done" x todo and w1 :: "'a world"
  assume ps: "ps = done @ x # todo" and "\<exists>d. trace w1 = trace w @ d \<and> \<not> list_ex disturbs d \<and> printed 1 d = listings fs done"
  then obtain d where d: "trace w1 = trace w @ d" "\<not> list_ex disturbs d" "printed 1 d = listings fs done" by blast
  show "wp (listFiles fuel K x) (and_then (\<lambda>_ w'. \<exists>d. trace w' = trace w @ d \<and> \<not> list_ex disturbs d \<and> printed 1 d = listings fs (done @ [x]))
      (\<lambda>r w'. \<exists>d. trace w' = trace w @ d \<and> listed fs ps (Ok ()) d r)) w1"
  proof (rule wp_mono [OF dir_listed [OF D len]])
    fix r and w2 :: "'a world"
    assume "\<exists>e. trace w2 = trace w1 @ e \<and> listed fs [x] (Ok ()) e r"
    then obtain e where e: "trace w2 = trace w @ d @ e" "listed fs [x] (Ok ()) e r" using d(1) by auto
    from listed_snoc [OF ps d(2,3) e(2), of "Ok ()"] e(1)
    show "and_then (\<lambda>_ w'. \<exists>d. trace w' = trace w @ d \<and> \<not> list_ex disturbs d \<and> printed 1 d = listings fs (done @ [x]))
        (\<lambda>r w'. \<exists>d. trace w' = trace w @ d \<and> listed fs ps (Ok ()) d r) r w2"
      by (auto simp: and_then_def)
  qed
qed (auto simp: listed_def)

text \<open>A system with one open stream over directories that all have the same entries; output leaves \<open>e\<close> in \<open>errno\<close>, as
  the first output to a file that is not a terminal does in some C libraries, or leaves it alone if \<open>e\<close> is 0.\<close>

definition ls_step :: "int \<Rightarrow> string list \<Rightarrow> string list \<Rightarrow> syscall \<Rightarrow> string list \<times> sysret" where
  "ls_step e es k c = (case c of
     Dir (Opendir p) \<Rightarrow> (es, returns 1)
   | Dir (Readdir h) \<Rightarrow> (case k of [] \<Rightarrow> ([], returns 0) | n # ns \<Rightarrow> (ns, reply0\<lparr>ret := 1, rdata := n\<rparr>))
   | Stdio (Fprintf f s) \<Rightarrow> (k, reply0\<lparr>ret := int (length s), err := e\<rparr>)
   | _ \<Rightarrow> (k, returns 0))"

definition ls_os :: "int \<Rightarrow> string list \<Rightarrow> string list os" where
  "ls_os e es = \<lparr>step = ls_step e es, strerror = (\<lambda>e. ''error''), strsignal = (\<lambda>s. ''signal''), gai_strerror = (\<lambda>s. ''error'')\<rparr>"

lemma ls_os_stream: "directory_stream (ls_os e es) (\<lambda>_. es) (\<lambda>k _. k)"
  by (auto simp: directory_stream_def ls_os_def ls_step_def returns_def reply0_def split: list.splits)

text \<open>
  C23. \<open>list_files\<close> lists directories completely: on a system whose directory streams behave as
  documented it prints, for the directories named on the command line (the current one by default), in order, one line
  for each entry except \<open>.\<close> and \<open>..\<close>, with the directory in front unless it is the current one. When no
  call of \<open>readdir\<close> and no output sets \<open>errno\<close>, all directories are listed and the status is 0. When one of them
  does, which successful calls may do, the program takes it for a failure of \<open>readdir\<close>: the
  directory at hand is still listed completely, then the program ends with status 1.
\<close>

theorem list_files_lists:
  assumes "directory_stream K fs left" "\<And>p. length (fs p) < fuel" "length argv \<noteq> 0" "arg argv 1 \<noteq> ''-h''"
    and "dirs = (if length argv = 1 then [''.''] else drop 1 argv)"
  shows "wp (list_files_main fuel K argv) (\<lambda>r w'. \<exists>d. trace w' = trace w @ d \<and>
     (if list_ex disturbs d
      then r = Exit 1 \<and> (\<exists>ps p qs. dirs = ps @ p # qs \<and> printed 1 d = concat (map (\<lambda>p. listing p (fs p)) (ps @ [p])))
      else r = Exit 0 \<and> printed 1 d = concat (map (\<lambda>p. listing p (fs p)) dirs))) w"
proof -
  have fin: "listed fs ps (Exit 0) d (case r of Ok x \<Rightarrow> Exit 0 | _ \<Rightarrow> r)" if "listed fs ps (Ok ()) d r" for ps d r
    using that by (auto simp: listed_def split: if_splits)
  have "wp (list_files_main fuel K argv) (\<lambda>r w'. \<exists>d. trace w' = trace w @ d \<and> listed fs dirs (Exit 0) d r) w"
    unfolding list_files_main_def using assms(3-5)
    by (auto intro!: wp_mono [OF dir_listed [OF assms(1,2)]] wp_mono [OF dirs_listed [OF assms(1,2)]]
        simp: and_then_def dest: fin split: res.splits)
  then show ?thesis by (simp only: listed_def)
qed

theorem list_files_lists_witness:
  "wp (list_files_main 4 (ls_os 0 [''.'', ''..'', ''a'']) [''ls'', ''bin'']) (\<lambda>r w'. \<exists>d. trace w' = d \<and>
     (if list_ex disturbs d then r = Exit 1 else r = Exit 0) \<and> printed 1 d = ''bin/a'' @ nl) (start [])"
  by (rule wp_mono [OF list_files_lists [OF ls_os_stream, of "[''.'', ''..'', ''a'']" 4 "[''ls'', ''bin'']" "[''bin'']"]])
     (auto simp: start_def arg_def Cons_eq_append_conv split: if_splits)

text \<open>Both cases occur: with the same directory, status 0 when output leaves \<open>errno\<close> alone, and status 1 when it
  does not.\<close>

lemma list_files_errno:
  "fst (run_state (list_files_main 4 (ls_os 0 [''.'', ''..'', ''a'']) [''ls'', ''bin'']) (start [])) = Exit 0"
  "fst (run_state (list_files_main 4 (ls_os 25 [''.'', ''..'', ''a'']) [''ls'', ''bin'']) (start [])) = Exit 1"
  by code_simp+

section \<open>The walk of \<open>nftw_dir_tree\<close>\<close>

text \<open>The flag of \<open>nftw\<close> that asks for a walk in post-order, which the option \<open>-d\<close> of the program is
  meant to set.\<close>

definition FTW_DEPTH :: int where "FTW_DEPTH = 8"

fun walks_here :: "event \<Rightarrow> bool" where
  "walks_here (Dir (Nftw p n flags), r) \<longleftrightarrow> p = ''.'' \<and> flags AND FTW_DEPTH = 0"
| "walks_here e \<longleftrightarrow> True"

abbreviation walked :: "'k world \<Rightarrow> 'k world \<Rightarrow> bool" where
  "walked w w' \<equiv> \<exists>d. trace w' = trace w @ d \<and> list_all walks_here d"

lemma wp_dirTree: "wp (dirTree K p st ty lev base) (\<lambda>r w'. r = 0 \<and> walked w w') w"
  unfolding dirTree_def by (auto intro!: wp_tr(4))

lemma wp_nftw_dirTree:
  assumes "flags AND FTW_DEPTH = 0"
  shows "wp (nftw_dirTree fuel K ''.'' flags) (\<lambda>r w'. walked w w') w"
proof (induction fuel arbitrary: w)
  case (Suc fuel)
  have more: "wp (nftw_dirTree fuel K ''.'' flags) (\<lambda>r w'. walked w w') w1" if "walked w w1" for w1
    by (rule wp_mono [OF Suc.IH]) (use that in fastforce)
  show ?case
    unfolding nftw_dirTree.simps wp_bind
    by (rule wp_sys_any) (auto intro!: wp_mono [OF wp_dirTree] more simp: assms)
qed simp

lemma wp_nftw_opts:
  "wp (fold_each evs (nftw_opt K prog) 0) (\<lambda>r w'. walked w w' \<and> (\<forall>f. r = Ok f \<longrightarrow> f AND FTW_DEPTH = 0)) w"
  by (rule wp_fold_each [where I = "\<lambda>done f w'. walked w w' \<and> f AND FTW_DEPTH = 0"])
     (auto intro!: wp_tr(3) simp: nftw_opt_def printUsageError_def bit.conj_disj_distrib2 FTW_D_def FTW_MOUNT_def FTW_PHYS_def FTW_DEPTH_def
       split: getopt_ev.splits)

text \<open>
  \<open>nftw_dir_tree\<close> ignores its operand and its option \<open>-d\<close> does not ask for a post-order walk:
  whatever the command line is, every walk starts at the current directory, and the flag
  \<open>FTW_DEPTH\<close> is never passed.
\<close>

theorem nftw_dir_tree_ignores_operand:
  "wp (nftw_dir_tree_main fuel K argv) (\<lambda>r w'. \<exists>d. trace w' = trace w @ d \<and> list_all walks_here d) w"
proof -
  have tail: "wp (bind_res (nftw_dirTree fuel K ''.'' flags) (\<lambda>s.
       if s = -1 then do { eprintf K (''nftw failed'' @ nl); halt (Exit EXIT_FAILURE) } else halt (Exit EXIT_SUCCESS)))
      (\<lambda>r w'. walked w w') w1" if "walked w w1" "flags AND FTW_DEPTH = 0" for flags w1
    unfolding wp_bind_res
    by (rule wp_mono [OF wp_nftw_dirTree [OF that(2)]])
       (use that(1) in \<open>fastforce intro!: wp_tr(3) simp: and_then_def split: res.splits\<close>)
  obtain evs ops where ops: "getopt ''dmp'' (drop 1 argv) = (evs, ops)" by fastforce
  show ?thesis
    unfolding nftw_dir_tree_main_def Let_def ops prod.case
    by (subst wp_bind_res, rule wp_mono [OF wp_nftw_opts])
       (auto simp: and_then_def printUsageError_def simp del: wp_bind_res intro!: wp_tr(3) tail split: res.splits)
qed

section \<open>Splitting paths\<close>

lemma for_each_map: "for_each (map f xs) body = for_each xs (\<lambda>x. body (f x))"
  by (induction xs) simp_all

lemma strip_slashes_id: "s \<noteq> [] \<Longrightarrow> last s \<noteq> CHR ''/'' \<Longrightarrow> strip_slashes s = s"
  by (cases s rule: rev_cases) (simp_all add: strip_slashes_def)

lemma strip_slashes_snoc [simp]: "strip_slashes (s @ ''/'') = strip_slashes s"
  by (simp add: strip_slashes_def)

lemma split_parts:
  assumes "d \<noteq> []" "last d \<noteq> CHR ''/''" "b \<noteq> []" "CHR ''/'' \<notin> set b"
  shows "dirname (d @ ''/'' @ b) = d" "basename (d @ ''/'' @ b) = b"
proof -
  have last: "last b \<noteq> CHR ''/''" using assms(3,4) last_in_set by metis
  then have strip: "strip_slashes (d @ ''/'' @ b) = d @ ''/'' @ b"
    using assms(3) by (intro strip_slashes_id) simp_all
  have "dropWhile (\<lambda>c. c \<noteq> CHR ''/'') (rev (d @ ''/'' @ b)) = CHR ''/'' # rev d"
    "takeWhile (\<lambda>c. c \<noteq> CHR ''/'') (rev (d @ ''/'' @ b)) = rev b"
    using assms(4) by (simp_all add: dropWhile_append takeWhile_append)
  then show "dirname (d @ ''/'' @ b) = d" "basename (d @ ''/'' @ b) = b"
    using strip strip_slashes_id [OF assms(1,2)] assms(1,3)
    by (simp_all add: dirname_def basename_def Let_def del: rev_append)
qed

text \<open>
  \<open>t_dirbasename\<close> takes paths apart correctly: for paths that consist of a directory without trailing
  slash, a slash and a name without slashes, a successful run has printed every path with exactly
  these two parts, in order.
\<close>

theorem t_dirbasename_splits:
  assumes "ps \<noteq> []" "\<And>d b. (d, b) \<in> set ps \<Longrightarrow> d \<noteq> [] \<and> last d \<noteq> CHR ''/'' \<and> b \<noteq> [] \<and> CHR ''/'' \<notin> set b"
  shows "wp (t_dirbasename_main K (prog # map (\<lambda>(d, b). d @ ''/'' @ b) ps)) (\<lambda>r w'. (r = Exit 0 \<or> r = Exit 1) \<and> (r = Exit 0 \<longrightarrow>
     (\<exists>t. trace w' = trace w @ t \<and> printed 1 t = concat (map (\<lambda>(d, b). d @ ''/'' @ b @ '' ==> '' @ d @ '' + '' @ b @ nl) ps)))) w"
proof -
  let ?out = "\<lambda>ps. concat (map (\<lambda>(d, b). d @ ''/'' @ b @ '' ==> '' @ d @ '' + '' @ b @ nl) ps)"
  have line: "wp (split_path K (d @ ''/'' @ b)) (\<lambda>r w'. r = Exit 1 \<or> r = Ok () \<and> (\<exists>t. trace w' = trace w1 @ t \<and>
      printed 1 t = d @ ''/'' @ b @ '' ==> '' @ d @ '' + '' @ b @ nl)) w1" if "(d, b) \<in> set ps" for d b w1
    using split_parts [of d b] assms(2) [OF that] unfolding split_path_def strdup2_def
    by (auto intro!: wp_call_any wp_sys_any wp_tr(4,5))
  have loop: "wp (for_each (map (\<lambda>(d, b). d @ ''/'' @ b) ps) (split_path K)) (\<lambda>r w'. r = Exit 1 \<or> r = Ok () \<and>
      (\<exists>t. trace w' = trace w @ t \<and> printed 1 t = ?out ps)) w"
    unfolding for_each_map
    by (rule wp_for_each [where I = "\<lambda>done w'. \<exists>t. trace w' = trace w @ t \<and> printed 1 t = ?out done"])
       (auto intro!: wp_mono [OF line [simplified]])
  have "arg (prog # map (\<lambda>(d, b). d @ ''/'' @ b) ps) 1 \<noteq> ''-h''"
  proof -
    obtain d b qs where ps: "ps = (d, b) # qs" using assms(1) by (cases ps) auto
    then have "CHR ''/'' \<in> set (arg (prog # map (\<lambda>(d, b). d @ ''/'' @ b) ps) 1)" by (simp add: arg_def)
    then show ?thesis by auto
  qed
  with assms(1) loop show ?thesis
    unfolding t_dirbasename_main_def by (auto elim!: wp_mono)
qed

lemma t_dirbasename_script:
  "fst (run_state (t_dirbasename_main script_os [''p'', ''usr/bin/ls'']) (start [returns 1, returns 2, returns 0, returns 0])) = Exit 0"
  by (simp add: t_dirbasename_main_def split_path_def strdup2_def arg_def run_calls script_os_def script_step_def
      start_def returns_def reply0_def)

theorem t_dirbasename_splits_witness:
  "\<exists>w'. run_state (t_dirbasename_main script_os [''p'', ''usr/bin/ls'']) (start [returns 1, returns 2, returns 0, returns 0]) = (Exit 0, w') \<and>
     printed 1 (trace w') = ''usr/bin/ls ==> usr/bin + ls'' @ nl"
  using wp_run [OF t_dirbasename_splits [of "[(''usr/bin'', ''ls'')]" script_os "''p''" "start [returns 1, returns 2, returns 0, returns 0]"]]
    t_dirbasename_script
  by (simp add: start_def prod_eq_iff)

end
