(* ===== verification/Xattr_Inotify.thy ===== *)
theory Xattr_Inotify
  imports Unix_Calls
begin

text \<open>
  Two programs that take apart a buffer filled by the kernel: \<open>xattr/src/xattr_view.c\<close> walks over a
  list of NUL-terminated names, \<open>inotify/src/demo_inotify.c\<close> over a sequence of event structures of
  varying length. A walk that leaves the bytes the kernel stored is undefined.
\<close>

section \<open>xattr/src/xattr\_view.c\<close>

definition XATTR_SIZE :: nat where "XATTR_SIZE = 10000"

definition printUsageMsg :: "'k os \<Rightarrow> string \<Rightarrow> ('k world, unit) state" where
  "printUsageMsg K program = do {
     eprintf K (''Usage: '' @ program @ '' [-x] <file>...'' @ nl);
     State_Monad.return () }"

text \<open>The value is an array of bytes; \<open>%.*s\<close> stops at a NUL.\<close>

definition printValueStr :: "'k os \<Rightarrow> string \<Rightarrow> ('k world, unit) state" where
  "printValueStr K val = do { printf K (cstr val @ nl); State_Monad.return () }"

primrec print_hex_bytes :: "'k os \<Rightarrow> string \<Rightarrow> ('k world, unit) state" where
  "print_hex_bytes K [] = State_Monad.return ()"
| "print_hex_bytes K (c # cs) = do {
     printf K (pad_left 2 (CHR ''0'') (hex (int (ord c))) @ '' '');
     print_hex_bytes K cs }"

definition printValueHex :: "'k os \<Rightarrow> string \<Rightarrow> ('k world, unit) state" where
  "printValueHex K val = do {
     print_hex_bytes K val;
     printf K nl;
     State_Monad.return () }"

definition xattr_one :: "'k os \<Rightarrow> bool \<Rightarrow> string \<Rightarrow> string \<Rightarrow> ('k world, unit) state" where
  "xattr_one K hexa filepath xattrName = do {
     r \<leftarrow> sys K (Dir (Getxattr filepath xattrName XATTR_SIZE));
     if ret r = -1
     then do {
       e \<leftarrow> get_errno;
       eprintf K (''Failed to get xattr value for: '' @ xattrName @ '' - '' @ strerror K e @ nl);
       State_Monad.return () }
     else do {
       printf K (tab @ ''name='' @ xattrName @ ''; value='');
       (if hexa then printValueHex K (take (nat (ret r)) (rdata r)) else printValueStr K (take (nat (ret r)) (rdata r))) } }"

text \<open>The loop over the names: \<open>bs\<close> are the bytes of the list from \<open>xattrName\<close> on. A last name
  without NUL makes \<open>strlen\<close> read past them.\<close>

function (sequential) xattr_names :: "'k os \<Rightarrow> bool \<Rightarrow> string \<Rightarrow> string \<Rightarrow> ('k, unit) cmd" where
  "xattr_names K hexa filepath [] = ok ()"
| "xattr_names K hexa filepath bs =
     (if NUL \<notin> set bs then halt Undef
      else do {
        xattr_one K hexa filepath (cstr bs);
        xattr_names K hexa filepath (drop (length (cstr bs) + 1) bs) })"
  by pat_completeness auto
termination
  by (relation "measure (\<lambda>(K, hexa, f, bs). length bs)") simp_all

definition xattr_file :: "'k os \<Rightarrow> bool \<Rightarrow> string \<Rightarrow> ('k, unit) cmd" where
  "xattr_file K hexa filepath = do {
     r \<leftarrow> sys K (Dir (Listxattr filepath XATTR_SIZE));
     if ret r = -1
     then die K (\<lambda>err. ''Failed to get xattr name list of '' @ filepath @ '' - '' @ err @ nl)
     else do {
     printf K (filepath @ '':'' @ nl);
     xattr_names K hexa filepath (take (nat (ret r)) (rdata r)) }}"

definition xattr_opt :: "'k os \<Rightarrow> string \<Rightarrow> getopt_ev \<Rightarrow> bool \<Rightarrow> ('k, bool) cmd" where
  "xattr_opt K prog ev hexa = (case ev of
     Opt c optarg \<Rightarrow> if c = CHR ''x'' then ok True else do { printUsageMsg K prog; halt (Exit EXIT_FAILURE) }
   | _ \<Rightarrow> do {
       eprintf K (getopt_message prog ev);
       printUsageMsg K prog;
       halt (Exit EXIT_FAILURE) })"

definition xattr_view_main :: "'k os \<Rightarrow> string list \<Rightarrow> ('k, unit) cmd" where
  "xattr_view_main K argv = (case getopt ''x'' (drop 1 argv) of (evs, operands) \<Rightarrow>
     bind_res (fold_each evs (xattr_opt K (arg argv 0)) False) (\<lambda>hexa.
     bind_res (for_each operands (xattr_file K hexa)) (\<lambda>_. halt (Exit EXIT_SUCCESS))))"

section \<open>inotify/src/demo\_inotify.c\<close>

text \<open>\<open>sizeof(struct inotify_event)\<close> is 16: a signed \<open>wd\<close> and the unsigned \<open>mask\<close>, \<open>cookie\<close> and
  \<open>len\<close>; \<open>NAME_MAX\<close> is 255.\<close>

record inotify_event =
  wd :: int
  mask_ev :: "32 word"
  cookie :: int
  len :: int
  name :: string

definition EVENT_SIZE :: nat where "EVENT_SIZE = 16"
definition BUFFER_LENGTH :: nat where "BUFFER_LENGTH = 10 * (EVENT_SIZE + 255 + 1)"

text \<open>The structure at the start of a block of at least \<open>EVENT_SIZE\<close> bytes.\<close>

definition event_at :: "string \<Rightarrow> inotify_event" where
  "event_at bs = \<lparr>wd = int_at 0 bs, mask_ev = word_of_int (int_at 4 bs), cookie = c_uint (int_at 8 bs), len = c_uint (int_at 12 bs),
     name = take (nat (c_uint (int_at 12 bs))) (drop EVENT_SIZE bs)\<rparr>"

definition inotify_masks :: "(32 word \<times> string) list" where
  "inotify_masks = [
     (1, ''IN_ACCESS ''), (4, ''IN_ATTRIB ''), (16, ''IN_CLOSE_NOWRITE ''), (8, ''IN_CLOSE_WRITE ''),
     (256, ''IN_CREATE ''), (512, ''IN_DELETE ''), (1024, ''IN_DELETE_SELF ''), (32768, ''IN_IGNORED ''),
     (1073741824, ''IN_ISDIR ''), (2, ''IN_MODIFY ''), (2048, ''IN_MOVE_SELF ''), (64, ''IN_MOVED_FROM ''),
     (128, ''IN_MOVED_TO ''), (32, ''IN_OPEN ''), (16384, ''IN_Q_OVERFLOW ''), (8192, ''IN_UNMOUNT '')]"

definition print_if :: "'k os \<Rightarrow> bool \<Rightarrow> string \<Rightarrow> ('k world, unit) state" where
  "print_if K b s = (if b then do { printf K s; State_Monad.return () } else State_Monad.return ())"

primrec print_masks :: "'k os \<Rightarrow> 32 word \<Rightarrow> (32 word \<times> string) list \<Rightarrow> ('k world, unit) state" where
  "print_masks K m [] = State_Monad.return ()"
| "print_masks K m (x # xs) = do {
     print_if K (m AND fst x \<noteq> 0) (snd x);
     print_masks K m xs }"

text \<open>The conversion \<open>%d\<close> shows the unsigned cookie as a signed number.\<close>

definition printInotifyEvent :: "'k os \<Rightarrow> inotify_event \<Rightarrow> ('k world, unit) state" where
  "printInotifyEvent K ev = do {
     printf K (''    wd = '' @ dec (wd ev) @ ''; '');
     print_if K (0 < len ev) (''name = '' @ cstr (name ev) @ ''; '');
     print_if K (0 < cookie ev) (''cookie = '' @ dec (c_int (cookie ev)) @ ''; '');
     print_masks K (mask_ev ev) inotify_masks;
     printf K nl;
     State_Monad.return () }"

text \<open>The loop over the events in the bytes read, from \<open>p\<close> on: a structure that is not complete, or a
  name without NUL, is read from bytes that were not stored.\<close>

function (sequential) inotify_events :: "'k os \<Rightarrow> string \<Rightarrow> ('k, unit) cmd" where
  "inotify_events K [] = ok ()"
| "inotify_events K bs =
     (let ev = event_at bs in
      if length bs < EVENT_SIZE \<or> length bs < EVENT_SIZE + nat (len ev) \<or> (0 < len ev \<and> NUL \<notin> set (name ev)) then halt Undef
      else do {
        printInotifyEvent K ev;
        inotify_events K (drop (EVENT_SIZE + nat (len ev)) bs) })"
  by pat_completeness auto
termination
  by (relation "measure (\<lambda>(K, bs). length bs)") (simp_all add: EVENT_SIZE_def)

definition IN_ALL_EVENTS :: int where "IN_ALL_EVENTS = 4095"

definition add_watch :: "'k os \<Rightarrow> int \<Rightarrow> string \<Rightarrow> ('k, unit) cmd" where
  "add_watch K inotifyFd filepath = do {
     wd \<leftarrow> call K (Dir (InotifyAddWatch inotifyFd filepath IN_ALL_EVENTS));
     if wd = -1
     then die K (\<lambda>err. ''Failed to add inotify watch to file '' @ filepath @ '' - '' @ err @ nl)
     else do {
       printf K (''Watching '' @ filepath @ '' using wd '' @ dec wd @ nl);
       ok () }}"

definition inotify_read :: "'k os \<Rightarrow> int \<Rightarrow> ('k, unit) cmd" where
  "inotify_read K inotifyFd = do {
     r \<leftarrow> sys K (File (Read inotifyFd BUFFER_LENGTH));
     if ret r \<le> 0
     then die K (\<lambda>err. ''Failed to read() inotify fd '' @ dec inotifyFd @ '' - '' @ err @ nl)
     else do {
       printf K (''Read '' @ dec (ret r) @ '' bytes from inotify fd'' @ nl);
       inotify_events K (take (nat (ret r)) (rdata r)) }}"

definition demo_inotify_main :: "nat \<Rightarrow> 'k os \<Rightarrow> string list \<Rightarrow> ('k, unit) cmd" where
  "demo_inotify_main fuel K argv =
     (if length argv < 2 \<or> arg argv 1 = ''-h''
      then usage K (''Usage: '' @ arg argv 0 @ '' <file>...'' @ nl)
      else do {
        inotifyFd \<leftarrow> call K (Dir InotifyInit);
        if inotifyFd = -1
        then die K (\<lambda>err. ''Failed to initialize inotify instance - '' @ err @ nl)
        else bind_res (for_each (drop 1 argv) (add_watch K inotifyFd)) (\<lambda>_.
          forever fuel (\<lambda>_. inotify_read K inotifyFd) ()) })"

section \<open>Properties\<close>

lemma cstr_NUL [simp]: "NUL \<notin> set s \<Longrightarrow> cstr (s @ NUL # t) = s"
  by (auto simp: cstr_def takeWhile_append)

lemma xattr_names_step:
  assumes "NUL \<notin> set n"
  shows "xattr_names K hexa filepath (n @ NUL # rest) = do {
    xattr_one K hexa filepath n; xattr_names K hexa filepath rest }"
proof -
  obtain c cs where "n @ NUL # rest = c # cs" by (cases "n @ NUL # rest") auto
  moreover have "NUL \<in> set (n @ NUL # rest)" by simp
  ultimately show ?thesis
    using cstr_NUL [OF assms, of rest] xattr_names.simps(2) [of K hexa filepath c cs] by (metis Suc_eq_plus1 append_Cons append_Nil append_assoc append_eq_conv_conj length_append_singleton)
qed

text \<open>
  \<open>xattr_view\<close> visits exactly the attributes that the kernel lists: on a list of names that are each
  terminated by NUL, the loop over the buffer is the loop over the names.
\<close>

theorem xattr_names_walk:
  assumes "\<And>n. n \<in> set ns \<Longrightarrow> NUL \<notin> set n"
  shows "xattr_names K hexa filepath (concat (map (\<lambda>n. n @ [NUL]) ns)) =
     for_each ns (\<lambda>n. do { xattr_one K hexa filepath n; ok () })"
  using assms
proof (induction ns)
  case (Cons n ns)
  then show ?case by (auto simp: xattr_names_step intro!: state_ext split: prod.splits)
qed simp

theorem xattr_names_walk_witness:
  "xattr_names script_os True ''f'' (concat (map (\<lambda>n. n @ [NUL]) [''user.a'', ''user.b''])) =
     for_each [''user.a'', ''user.b''] (\<lambda>n. do { xattr_one script_os True ''f'' n; ok () })"
  by (rule xattr_names_walk) auto

text \<open>The bytes of an event as the kernel stores it, and the line that shows it.\<close>

definition event_bytes :: "inotify_event \<Rightarrow> string" where
  "event_bytes ev = int_bytes (wd ev) @ int_bytes (uint (mask_ev ev)) @ int_bytes (cookie ev) @ int_bytes (len ev) @ name ev"

definition event_ok :: "inotify_event \<Rightarrow> bool" where
  "event_ok ev \<longleftrightarrow> INT_MIN \<le> wd ev \<and> wd ev \<le> INT_MAX \<and> 0 \<le> cookie ev \<and> cookie ev < 2 ^ 32 \<and>
     len ev = int (length (name ev)) \<and> len ev < 2 ^ 32 \<and> (name ev = [] \<or> NUL \<in> set (name ev))"

definition event_text :: "inotify_event \<Rightarrow> string" where
  "event_text ev = ''    wd = '' @ dec (wd ev) @ ''; '' @
     (if name ev = [] then [] else ''name = '' @ cstr (name ev) @ ''; '') @
     (if cookie ev = 0 then [] else ''cookie = '' @ dec (c_int (cookie ev)) @ ''; '') @
     concat (map snd (filter (\<lambda>x. mask_ev ev AND fst x \<noteq> 0) inotify_masks)) @ nl"

abbreviation says :: "string \<Rightarrow> 'k world \<Rightarrow> 'k world \<Rightarrow> bool" where
  "says s w w' \<equiv> \<exists>d. trace w' = trace w @ d \<and> printed 1 d = s"

lemma wp_print_if: "wp (print_if K b s) (\<lambda>_ w'. says (if b then s else []) w w') w"
  unfolding print_if_def by (auto intro!: wp_tr(4))

lemma wp_print_masks:
  "wp (print_masks K m xs) (\<lambda>_ w'. says (concat (map snd (filter (\<lambda>x. m AND fst x \<noteq> 0) xs))) w w') w"
proof (induction xs arbitrary: w)
  case (Cons x xs)
  show ?case
    unfolding print_masks.simps wp_bind
    by (rule wp_mono [OF wp_print_if]) (auto intro!: wp_mono [OF Cons.IH])
qed simp

lemma wp_printInotifyEvent:
  assumes "event_ok ev"
  shows "wp (printInotifyEvent K ev) (\<lambda>_ w'. says (event_text ev) w w') w"
  unfolding printInotifyEvent_def
  by (auto intro!: wp_tr(4) wp_mono [OF wp_print_if] wp_mono [OF wp_print_masks])
     (use assms in \<open>auto simp: event_text_def event_ok_def split: if_splits\<close>)

lemma c_uint_c_int: "0 \<le> x \<Longrightarrow> x < 2 ^ 32 \<Longrightarrow> c_uint (c_int x) = x"
  by (simp add: c_uint_def c_int_def take_bit_signed_take_bit take_bit_int_eq_self)

lemma event_at_bytes:
  assumes "event_ok ev"
  shows "event_at (event_bytes ev @ rest) = ev"
proof -
  have at: "int_at 0 (event_bytes ev @ rest) = c_int (wd ev)"
    "int_at 4 (event_bytes ev @ rest) = c_int (uint (mask_ev ev))"
    "int_at 8 (event_bytes ev @ rest) = c_int (cookie ev)"
    "int_at 12 (event_bytes ev @ rest) = c_int (len ev)"
    using int_at_append [of "[]" "wd ev"] int_at_append [of "int_bytes (wd ev)" "uint (mask_ev ev)"]
      int_at_append [of "int_bytes (wd ev) @ int_bytes (uint (mask_ev ev))" "cookie ev"]
      int_at_append [of "int_bytes (wd ev) @ int_bytes (uint (mask_ev ev)) @ int_bytes (cookie ev)" "len ev"]
    by (simp_all add: event_bytes_def)
  have "word_of_int (c_int x) = (word_of_int x :: 32 word)" for x
    by (simp add: c_int_def word_of_int_eq_iff take_bit_signed_take_bit)
  then have "word_of_int (c_int (uint (mask_ev ev))) = mask_ev ev" by simp
  with at assms show ?thesis
    by (simp add: event_at_def event_ok_def c_uint_c_int c_int_id) (simp add: event_bytes_def EVENT_SIZE_def)
qed

lemma inotify_events_step:
  assumes "event_ok ev"
  shows "inotify_events K (event_bytes ev @ rest) = do { printInotifyEvent K ev; inotify_events K rest }"
proof -
  have len: "length (event_bytes ev) = EVENT_SIZE + nat (len ev)"
    using assms by (simp add: event_bytes_def EVENT_SIZE_def event_ok_def)
  then have "event_bytes ev @ rest \<noteq> []" by (auto simp: EVENT_SIZE_def)
  then obtain c cs where cs: "event_bytes ev @ rest = c # cs" by (cases "event_bytes ev @ rest") auto
  have "inotify_events K (c # cs) = do { printInotifyEvent K ev; inotify_events K (drop (EVENT_SIZE + nat (len ev)) (c # cs)) }"
  proof -
    have "event_at (c # cs) = ev" using event_at_bytes [OF assms, of rest] by (simp add: cs)
    moreover have "EVENT_SIZE + nat (len ev) \<le> length (c # cs)" unfolding cs [symmetric] by (simp add: len)
    ultimately show ?thesis
      using assms unfolding inotify_events.simps(2) by (auto simp: Let_def event_ok_def simp del: drop_Suc_Cons)
  qed
  with len show ?thesis unfolding cs [symmetric] by simp
qed

text \<open>
  C22. \<open>demo_inotify\<close> decodes what the kernel encodes: on a buffer that holds any number of events as the
  kernel stores them, with names of any length, the loop ends and prints exactly one line per event,
  in order, with the watch descriptor, the name, the cookie and all the bits of the mask.
\<close>

theorem inotify_prints_events:
  assumes "\<And>ev. ev \<in> set evs \<Longrightarrow> event_ok ev"
  shows "wp (inotify_events K (concat (map event_bytes evs))) (\<lambda>r w'. r = Ok () \<and>
     (\<exists>d. trace w' = trace w @ d \<and> printed 1 d = concat (map event_text evs))) w"
  using assms
proof (induction evs arbitrary: w)
  case (Cons ev evs)
  then have ok: "event_ok ev" by simp
  show ?case
    unfolding list.map concat.simps inotify_events_step [OF ok] wp_bind
    by (rule wp_mono [OF wp_printInotifyEvent [OF ok]]) (auto intro!: wp_mono [OF Cons.IH] Cons.prems)
qed simp

definition sample_event :: "string \<Rightarrow> inotify_event" where
  "sample_event n = \<lparr>wd = 1, mask_ev = 256, cookie = 0, len = int (length n), name = n\<rparr>"

theorem inotify_prints_events_witness:
  "wp (inotify_events script_os (concat (map event_bytes [sample_event [], sample_event [CHR ''f'', NUL]]))) (\<lambda>r w'. r = Ok () \<and>
     (\<exists>d. trace w' = d \<and> printed 1 d = ''    wd = 1; IN_CREATE '' @ nl @ ''    wd = 1; name = f; IN_CREATE '' @ nl)) (start [])"
proof -
  have "event_ok (sample_event [])" "event_ok (sample_event [CHR ''f'', NUL])"
    by (simp_all add: event_ok_def sample_event_def INT_MIN_def INT_MAX_def)
  moreover have "event_text (sample_event []) = ''    wd = 1; IN_CREATE '' @ nl"
    "event_text (sample_event [CHR ''f'', NUL]) = ''    wd = 1; name = f; IN_CREATE '' @ nl"
    by (simp_all add: event_text_def sample_event_def inotify_masks_def cstr_def dec_def radix_nat.simps digit_char_def char_of_def bit_0)
  ultimately show ?thesis
    using inotify_prints_events [of "[sample_event [], sample_event [CHR ''f'', NUL]]" script_os "start []"]
    by (auto simp: start_def)
qed

end
