(* ===== verification/File_Attrs.thy ===== *)
theory File_Attrs
  imports Lpi_Library Directories
begin

text \<open>
  Programs about file attributes and command lines: \<open>files/src/\<close> (owner, mode and times of a
  file), \<open>filesys/src/t_mount.c\<close> and \<open>getopt/src/t_getopt.c\<close>.
\<close>

section \<open>files/src/t\_chown.c\<close>

text \<open>\<open>-\<close> leaves an id alone: the id -1, which the unsigned type turns into \<open>2 ^ 32 - 1\<close>. The number of the
  answer to \<open>getpwnam\<close> and \<open>getgrnam\<close> is the id.\<close>

definition owner_id :: "'k os \<Rightarrow> string \<Rightarrow> ('k, int) cmd" where
  "owner_id K owner =
     (if owner = ''-'' then ok (c_uint (-1))
      else do {
        r \<leftarrow> sys K (Info (Getpwnam owner));
        if ret r = 0
        then die K (\<lambda>err. ''Failed to find UID for '' @ owner @ '' - '' @ err @ nl)
        else ok (rnum 0 r) })"

definition group_id :: "'k os \<Rightarrow> string \<Rightarrow> ('k, int) cmd" where
  "group_id K owningGroup =
     (if owningGroup = ''-'' then ok (c_uint (-1))
      else do {
        r \<leftarrow> sys K (Info (Getgrnam owningGroup));
        if ret r = 0
        then die K (\<lambda>err. ''Failed to find GID for '' @ owningGroup @ '' - '' @ err @ nl)
        else ok (rnum 0 r) })"

definition chown_one :: "'k os \<Rightarrow> int \<Rightarrow> int \<Rightarrow> string \<Rightarrow> ('k, unit) cmd" where
  "chown_one K ownerId owningGroupId pathname = do {
     c \<leftarrow> call K (Dir (Chown pathname ownerId owningGroupId));
     if c = -1
     then die K (\<lambda>err. ''Failed to chown '' @ pathname @ '' - '' @ err @ nl)
     else do {
       printf K (''Successfully chown'' @ [CHR 0x27] @ ''d '' @ pathname @ nl);
       ok () }}"

definition t_chown_main :: "'k os \<Rightarrow> string list \<Rightarrow> ('k, unit) cmd" where
  "t_chown_main K argv =
     (if length argv < 4 \<or> arg argv 1 = ''-h''
      then usage K (''Usage: '' @ arg argv 0 @ '' <owner> <group> <file>...'' @ nl)
      else bind_res (owner_id K (arg argv 1)) (\<lambda>ownerId.
        bind_res (group_id K (arg argv 2)) (\<lambda>owningGroupId.
        bind_res (for_each (drop 3 argv) (chown_one K ownerId owningGroupId)) (\<lambda>_. halt (Exit 0)))))"

section \<open>files/src/t\_stat.c\<close>

definition t_stat_printUsageMsg :: "'k os \<Rightarrow> string \<Rightarrow> ('k world, unit) state" where
  "t_stat_printUsageMsg K program = do {
     eprintf K (''Usage: '' @ program @ '' [-l] <file>'' @ nl);
     State_Monad.return () }"

definition file_type :: "32 word \<Rightarrow> string" where
  "file_type mode = (let t = mode AND S_IFMT in
     if t = S_IFREG then ''regular file''
     else if t = S_IFDIR then ''directory''
     else if t = S_IFCHR then ''character device''
     else if t = S_IFBLK then ''block device''
     else if t = S_IFIFO then ''FIFO or pipe''
     else if t = S_IFSOCK then ''socket''
     else if t = S_IFLNK then ''symbolic link''
     else ''unrecognized file type'')"

text \<open>\<open>major\<close> and \<open>minor\<close> of \<open>sys/sysmacros.h\<close>, on a 64-bit device number.\<close>

definition dev_major :: "int \<Rightarrow> int" where
  "dev_major dev = c_uint ((drop_bit 8 dev AND 0xFFF) OR (drop_bit 32 dev AND NOT 0xFFF))"

definition dev_minor :: "int \<Rightarrow> int" where
  "dev_minor dev = c_uint ((dev AND 0xFF) OR (drop_bit 12 dev AND NOT 0xFF))"

definition printStat :: "'k os \<Rightarrow> stat \<Rightarrow> ('k world, unit) state" where
  "printStat K statBuffer = do {
     printf K ''File type: '';
     printf K (file_type (st_mode statBuffer));
     printf K (nl @ ''Device containing i-node: major='' @ dec (dev_major (st_rdev statBuffer)) @
       '' minor='' @ dec (dev_minor (st_rdev statBuffer)) @ nl);
     printf K (''I-node number: '' @ dec (st_ino statBuffer) @ nl);
     printf K (''Mode: '' @ oct (uint (st_mode statBuffer)) @ nl);
     printf K (''Number of (hard) links: '' @ dec (st_nlink statBuffer) @ nl);
     printf K (''Ownership: UID='' @ dec (st_uid statBuffer) @ '' GID='' @ dec (st_gid statBuffer) @ nl);
     printf K (''File size: '' @ dec (st_size statBuffer) @ '' bytes'' @ nl);
     printf K (''Optimal I/O block size: '' @ dec (st_blksize statBuffer) @ '' bytes'' @ nl);
     printf K (''512B blocks allocated: '' @ dec (st_blocks statBuffer) @ nl);
     t \<leftarrow> ctime_text K (st_atime statBuffer);
     printf K (''Last file access: '' @ t);
     t \<leftarrow> ctime_text K (st_mtime statBuffer);
     printf K (''Last file modification: '' @ t);
     t \<leftarrow> ctime_text K (st_ctime statBuffer);
     printf K (''Last status change: '' @ t);
     State_Monad.return () }"

definition t_stat_main :: "'k os \<Rightarrow> string list \<Rightarrow> ('k, unit) cmd" where
  "t_stat_main K argv =
     (let argc = length argv in
      if argc = 2 then do {
        r \<leftarrow> sys K (File (Stat (arg argv 1)));
        if ret r = -1
        then die K (\<lambda>err. ''Failed to call stat() on '' @ arg argv 1 @ '' - '' @ err @ nl)
        else do { printStat K (rstat r); halt (Exit 0) }}
      else if argc = 3 then
        if arg argv 1 \<noteq> ''-l''
        then do { t_stat_printUsageMsg K (arg argv 0); halt (Exit EXIT_FAILURE) }
        else do {
        r \<leftarrow> sys K (File (Lstat (arg argv 2)));
        if ret r = -1
        then die K (\<lambda>err. ''Failed to call lstat() on '' @ arg argv 2 @ '' - '' @ err @ nl)
        else do { printStat K (rstat r); halt (Exit 0) }}
      else do { t_stat_printUsageMsg K (arg argv 0); halt (Exit EXIT_FAILURE) })"

section \<open>files/src/t\_umask.c\<close>

definition REQUESTED_FILE_PERMS :: "32 word" where
  "REQUESTED_FILE_PERMS = S_IRUSR OR S_IWUSR OR S_IRGRP OR S_IWGRP"

definition REQUESTED_DIR_PERMS :: "32 word" where
  "REQUESTED_DIR_PERMS = (S_IRUSR OR S_IWUSR OR S_IXUSR) OR (S_IRGRP OR S_IWGRP OR S_IXGRP) OR (S_IROTH OR S_IWOTH OR S_IXOTH)"

definition PROCESS_UMASK :: "32 word" where
  "PROCESS_UMASK = S_IWGRP OR S_IXGRP OR S_IWOTH OR S_IXOTH"

definition umask_report :: "'k os \<Rightarrow> 32 word \<Rightarrow> stat \<Rightarrow> stat \<Rightarrow> ('k world, unit) state" where
  "umask_report K processUmask fileStat dirStat = do {
     printf K (''Requested file perms: '' @ filePermStr REQUESTED_FILE_PERMS @ nl);
     printf K (''Process umask: '' @ filePermStr processUmask @ nl);
     printf K (''Actual file perms: '' @ filePermStr (st_mode fileStat) @ nl @ nl);
     printf K (''Requested dir perms: '' @ filePermStr REQUESTED_DIR_PERMS @ nl);
     printf K (''Process umask: '' @ filePermStr processUmask @ nl);
     printf K (''Actual dir perms: '' @ filePermStr (st_mode dirStat) @ nl);
     State_Monad.return () }"

definition umask_cleanup :: "'k os \<Rightarrow> ('k, unit) cmd" where
  "umask_cleanup K = do {
     u \<leftarrow> call K (File (Unlink ''myfile''));
     if u = -1
     then die K (\<lambda>err. ''Failed to unlink '' @ ''myfile'' @ '' - '' @ err @ nl)
     else do {
     r \<leftarrow> call K (Dir (Rmdir ''mydir''));
     if r = -1
     then die K (\<lambda>err. ''Failed to rmdir '' @ ''mydir'' @ '' - '' @ err @ nl)
     else halt (Exit 0) }}"

definition t_umask_main :: "'k os \<Rightarrow> string list \<Rightarrow> ('k, unit) cmd" where
  "t_umask_main K argv = do {
     sys K (File (Umask PROCESS_UMASK));
     fd \<leftarrow> call K (File (Open ''myfile'' (O_RDWR OR O_CREAT OR O_EXCL) REQUESTED_FILE_PERMS));
     if fd = -1
     then die K (\<lambda>err. ''Failed to open '' @ ''myfile'' @ '' - '' @ err @ nl)
     else do {
     m \<leftarrow> call K (Dir (Mkdir ''mydir'' REQUESTED_DIR_PERMS));
     if m = -1
     then die K (\<lambda>err. ''Failed to mkdir '' @ ''mydir'' @ '' - '' @ err @ nl)
     else do {
     u \<leftarrow> call K (File (Umask 0));
     f \<leftarrow> sys K (File (Stat ''myfile''));
     if ret f = -1
     then die K (\<lambda>err. ''Failed to stat '' @ ''myfile'' @ '' - '' @ err @ nl)
     else do {
     d \<leftarrow> sys K (File (Stat ''mydir''));
     if ret d = -1
     then die K (\<lambda>err. ''Failed to stat '' @ ''mydir'' @ '' - '' @ err @ nl)
     else do {
     umask_report K (word_of_int u) (rstat f) (rstat d);
     umask_cleanup K }}}}}"

section \<open>filesys/src/t\_mount.c\<close>

definition mount_flags :: "(char \<times> int) list" where
  "mount_flags = [
     (CHR ''b'', 4096), (CHR ''d'', 128), (CHR ''l'', 64), (CHR ''m'', 8192), (CHR ''A'', 1024), (CHR ''V'', 4),
     (CHR ''D'', 2048), (CHR ''E'', 8), (CHR ''S'', 2), (CHR ''r'', 1), (CHR ''c'', 16384), (CHR ''R'', 32), (CHR ''s'', 16)]"

definition mount_flag :: "'k os \<Rightarrow> char \<Rightarrow> int \<Rightarrow> ('k, int) cmd" where
  "mount_flag K c flags = (case map_of mount_flags c of
     Some b \<Rightarrow> ok (flags OR b)
   | None \<Rightarrow> usage K (''Unrecognized flag: '' @ [c] @ nl))"

record mount_opts =
  fsType :: "string option"
  options :: "string option"
  flags :: int

definition t_mount_opt :: "'k os \<Rightarrow> string \<Rightarrow> getopt_ev \<Rightarrow> mount_opts \<Rightarrow> ('k, mount_opts) cmd" where
  "t_mount_opt K prog ev st = (case ev of
     Opt c optarg \<Rightarrow>
       if c = CHR ''t'' then ok (st\<lparr>fsType := Some optarg\<rparr>)
       else if c = CHR ''o'' then ok (st\<lparr>options := Some optarg\<rparr>)
       else if c = CHR ''f'' then bind_res (fold_each optarg (mount_flag K) (flags st)) (\<lambda>fl. ok (st\<lparr>flags := fl\<rparr>))
       else halt (Exit EXIT_FAILURE)
   | _ \<Rightarrow> do { eprintf K (getopt_message prog ev); halt (Exit EXIT_FAILURE) })"

definition t_mount_main :: "'k os \<Rightarrow> string list \<Rightarrow> ('k, unit) cmd" where
  "t_mount_main K argv = (case getopt ''t:o:f:'' (drop 1 argv) of (evs, operands) \<Rightarrow>
     bind_res (fold_each evs (t_mount_opt K (arg argv 0)) \<lparr>fsType = None, options = None, flags = 0\<rparr>) (\<lambda>st.
       if length operands \<noteq> 2
       then usage K (''Wrong number of arguments provided.'' @ nl)
       else let source = operands ! 0; target = operands ! 1 in do {
         m \<leftarrow> call K (Dir (Mount source target (fsType st) (flags st) (options st)));
         if m = -1
         then die K (\<lambda>err. ''Failed to mount '' @ source @ '' on '' @ target @ '' - '' @ err @ nl)
         else halt (Exit 0) }))"

section \<open>getopt/src/t\_getopt.c\<close>

definition t_getopt_opt :: "'k os \<Rightarrow> string \<Rightarrow> getopt_ev \<Rightarrow> ('k, unit) cmd" where
  "t_getopt_opt K prog ev = (case ev of
     Opt c optarg \<Rightarrow>
       if c = CHR ''p'' then do { printf K (''-p was specified with argument: '' @ optarg @ nl); ok () }
       else if c = CHR ''x'' then do { printf K (''-x was specified'' @ nl); ok () }
       else halt (Exit EXIT_FAILURE)
   | _ \<Rightarrow> do { eprintf K (getopt_message prog ev); halt (Exit EXIT_FAILURE) })"

definition t_getopt_main :: "'k os \<Rightarrow> string list \<Rightarrow> ('k, unit) cmd" where
  "t_getopt_main K argv = (case getopt ''xp:'' (drop 1 argv) of (evs, operands) \<Rightarrow>
     bind_res (for_each evs (t_getopt_opt K (arg argv 0))) (\<lambda>_.
       if operands \<noteq> []
       then do { printf K (''Non-option arg: '' @ operands ! 0 @ nl); halt (Exit 0) }
       else halt (Exit 0)))"

section \<open>The effect of the umask\<close>

text \<open>The documented contract of the calls that create files: \<open>um\<close> is the umask of the process and \<open>mode\<close>
  gives the mode of every file. A new file gets the requested permissions less those of the umask.\<close>

definition umask_files :: "'k os \<Rightarrow> ('k \<Rightarrow> 32 word) \<Rightarrow> ('k \<Rightarrow> string \<Rightarrow> 32 word option) \<Rightarrow> bool" where
  "umask_files K um mode \<longleftrightarrow>
     (\<forall>k m k' r. step K k (File (Umask m)) = (k', r) \<longrightarrow> um k' = m AND 0x1FF \<and> mode k' = mode k \<and> ret r = uint (um k)) \<and>
     (\<forall>k p fl m k' r. step K k (File (Open p fl m)) = (k', r) \<longrightarrow> fl AND O_CREAT \<noteq> 0 \<longrightarrow> fl AND O_EXCL \<noteq> 0 \<longrightarrow> ret r \<noteq> -1 \<longrightarrow>
        um k' = um k \<and> mode k' = (mode k)(p \<mapsto> S_IFREG OR (m AND NOT (um k)))) \<and>
     (\<forall>k p m k' r. step K k (Dir (Mkdir p m)) = (k', r) \<longrightarrow> ret r \<noteq> -1 \<longrightarrow>
        um k' = um k \<and> mode k' = (mode k)(p \<mapsto> S_IFDIR OR (m AND NOT (um k)))) \<and>
     (\<forall>k p k' r. step K k (File (Stat p)) = (k', r) \<longrightarrow> um k' = um k \<and> mode k' = mode k \<and>
        (ret r \<noteq> -1 \<longrightarrow> mode k p = Some (st_mode (rstat r))))"

lemma umask_filesD:
  assumes "umask_files K um mode"
  shows "step K k (File (Umask m)) = (k', r) \<Longrightarrow> um k' = m AND 0x1FF \<and> mode k' = mode k \<and> ret r = uint (um k)"
    and "step K k (File (Open p fl m)) = (k', r) \<Longrightarrow> fl AND O_CREAT \<noteq> 0 \<Longrightarrow> fl AND O_EXCL \<noteq> 0 \<Longrightarrow> ret r \<noteq> -1 \<Longrightarrow>
      um k' = um k \<and> mode k' = (mode k)(p \<mapsto> S_IFREG OR (m AND NOT (um k)))"
    and "step K k (Dir (Mkdir p m)) = (k', r) \<Longrightarrow> ret r \<noteq> -1 \<Longrightarrow>
      um k' = um k \<and> mode k' = (mode k)(p \<mapsto> S_IFDIR OR (m AND NOT (um k)))"
    and "step K k (File (Stat p)) = (k', r) \<Longrightarrow>
      um k' = um k \<and> mode k' = mode k \<and> (ret r \<noteq> -1 \<longrightarrow> mode k p = Some (st_mode (rstat r)))"
  using assms unfolding umask_files_def by blast+

lemma wp_umask:
  assumes "umask_files K um mode"
    and "\<And>r w'. um (kern w') = m AND 0x1FF \<Longrightarrow> mode (kern w') = mode (kern w) \<Longrightarrow> ret r = uint (um (kern w)) \<Longrightarrow>
      trace w' = trace w @ [(File (Umask m), r)] \<Longrightarrow> Q r w'"
  shows "wp (sys K (File (Umask m))) Q w"
  using umask_filesD(1) [OF assms(1)] by (auto intro!: wp_sys_step assms(2))

lemma wp_umask_old:
  assumes "umask_files K um mode"
    and "\<And>r w'. mode (kern w') = mode (kern w) \<Longrightarrow> trace w' = trace w @ [(File (Umask m), r)] \<Longrightarrow> P (uint (um (kern w))) w'"
  shows "wp (call K (File (Umask m))) P w"
  using umask_filesD(1) [OF assms(1)] by (auto intro!: wp_call_step assms(2) dest!: umask_filesD(1) [OF assms(1)])

lemma wp_creat:
  assumes "umask_files K um mode" "fl AND O_CREAT \<noteq> 0" "fl AND O_EXCL \<noteq> 0"
    and "\<And>r w'. (ret r \<noteq> -1 \<Longrightarrow> um (kern w') = um (kern w) \<and> mode (kern w') = (mode (kern w))(p \<mapsto> S_IFREG OR (m AND NOT (um (kern w))))) \<Longrightarrow>
      trace w' = trace w @ [(File (Open p fl m), r)] \<Longrightarrow> P (ret r) w'"
  shows "wp (call K (File (Open p fl m))) P w"
  by (rule wp_call_step, rule assms(4)) (use umask_filesD(2) [OF assms(1) _ assms(2,3)] in auto)

lemma wp_mkdir:
  assumes "umask_files K um mode"
    and "\<And>r w'. (ret r \<noteq> -1 \<Longrightarrow> um (kern w') = um (kern w) \<and> mode (kern w') = (mode (kern w))(p \<mapsto> S_IFDIR OR (m AND NOT (um (kern w))))) \<Longrightarrow>
      trace w' = trace w @ [(Dir (Mkdir p m), r)] \<Longrightarrow> P (ret r) w'"
  shows "wp (call K (Dir (Mkdir p m))) P w"
  by (rule wp_call_step, rule assms(2)) (use umask_filesD(3) [OF assms(1)] in auto)

lemma wp_stat:
  assumes "umask_files K um mode"
    and "\<And>r w'. um (kern w') = um (kern w) \<Longrightarrow> mode (kern w') = mode (kern w) \<Longrightarrow> (ret r \<noteq> -1 \<Longrightarrow> mode (kern w) p = Some (st_mode (rstat r))) \<Longrightarrow>
      trace w' = trace w @ [(File (Stat p), r)] \<Longrightarrow> Q r w'"
  shows "wp (sys K (File (Stat p))) Q w"
  by (rule wp_sys_step, rule assms(2)) (use umask_filesD(4) [OF assms(1)] in auto)

definition umask_text :: "32 word \<Rightarrow> 32 word \<Rightarrow> 32 word \<Rightarrow> string" where
  "umask_text um file dir =
     ''Requested file perms: rw-rw----'' @ nl @ ''Process umask: '' @ filePermStr um @ nl @
     ''Actual file perms: '' @ filePermStr file @ nl @ nl @
     ''Requested dir perms: rwxrwxrwx'' @ nl @ ''Process umask: '' @ filePermStr um @ nl @
     ''Actual dir perms: '' @ filePermStr dir @ nl"

lemmas perm_bits = S_IRUSR_def S_IWUSR_def S_IXUSR_def S_IRGRP_def S_IWGRP_def S_IXGRP_def S_IROTH_def S_IWOTH_def S_IXOTH_def
  S_ISUID_def S_ISGID_def S_ISVTX_def S_IFREG_def S_IFDIR_def

lemma requested_perms:
  "filePermStr REQUESTED_FILE_PERMS = ''rw-rw----''" "filePermStr REQUESTED_DIR_PERMS = ''rwxrwxrwx''"
  "filePermStr (PROCESS_UMASK AND 0x1FF) = ''----wx-wx''"
  "filePermStr (S_IFREG OR (REQUESTED_FILE_PERMS AND NOT (PROCESS_UMASK AND 0x1FF))) = ''rw-r-----''"
  "filePermStr (S_IFDIR OR (REQUESTED_DIR_PERMS AND NOT (PROCESS_UMASK AND 0x1FF))) = ''rwxr--r--''"
  by (simp_all add: filePermStr_def REQUESTED_FILE_PERMS_def REQUESTED_DIR_PERMS_def PROCESS_UMASK_def perm_bits snprintf_def FILE_PERM_STR_SIZE_def)

lemma wp_umask_report:
  "wp (umask_report K u f d) (\<lambda>_ w'. \<exists>t. trace w' = trace w @ t \<and> printed 1 t = umask_text u (st_mode f) (st_mode d)) w"
  unfolding umask_report_def by (auto intro!: wp_tr(4) simp: umask_text_def requested_perms)

lemma wp_umask_cleanup:
  "wp (umask_cleanup K) (\<lambda>r w'. (r = Exit 0 \<or> r = Exit 1) \<and> (\<exists>t. trace w' = trace w @ t \<and> printed 1 t = [])) w"
  unfolding umask_cleanup_def by (auto intro!: wp_call_any wp_tr(5))

text \<open>
  C37. \<open>t_umask\<close> shows the effect of the umask: on a system that creates files as documented
  the program ends with status 0 or 1, and with status 0 it has printed the requested permissions
  \<open>rw-rw----\<close> and \<open>rwxrwxrwx\<close>, the umask \<open>----wx-wx\<close> and the permissions the new file and directory
  got, \<open>rw-r-----\<close> and \<open>rwxr--r--\<close>.
\<close>

theorem t_umask_shows:
  assumes "umask_files K um mode"
  shows "wp (t_umask_main K argv) (\<lambda>r w'. (r = Exit 0 \<or> r = Exit 1) \<and> (r = Exit 0 \<longrightarrow>
     (\<exists>d. trace w' = trace w @ d \<and> printed 1 d =
        ''Requested file perms: rw-rw----'' @ nl @ ''Process umask: ----wx-wx'' @ nl @ ''Actual file perms: rw-r-----'' @ nl @ nl @
        ''Requested dir perms: rwxrwxrwx'' @ nl @ ''Process umask: ----wx-wx'' @ nl @ ''Actual dir perms: rwxr--r--'' @ nl))) w"
    (is "wp _ (\<lambda>r w'. ?A r \<and> (?B r \<longrightarrow> (\<exists>d. ?C d w' \<and> printed 1 d = ?out))) w")
proof -
  obtain out where out: "out = ?out" by simp
  let ?Q = "\<lambda>r w'. ?A r \<and> (?B r \<longrightarrow> (\<exists>d. ?C d w' \<and> printed 1 d = out))"
  note rules = wp_umask [OF assms] wp_umask_old [OF assms] wp_creat [OF assms] wp_mkdir [OF assms] wp_stat [OF assms]
  have fl: "(O_RDWR OR O_CREAT OR O_EXCL) AND O_CREAT \<noteq> 0" "(O_RDWR OR O_CREAT OR O_EXCL) AND O_EXCL \<noteq> 0"
    by (simp_all add: O_RDWR_def O_CREAT_def O_EXCL_def)
  have fin: "wp (umask_report K u f d \<bind> (\<lambda>_. umask_cleanup K)) ?Q w1"
    if "\<exists>t. trace w1 = trace w @ t \<and> printed 1 t = []" "u = PROCESS_UMASK AND 0x1FF"
      "st_mode f = S_IFREG OR (REQUESTED_FILE_PERMS AND NOT (PROCESS_UMASK AND 0x1FF))"
      "st_mode d = S_IFDIR OR (REQUESTED_DIR_PERMS AND NOT (PROCESS_UMASK AND 0x1FF))" for u f d w1
    unfolding wp_bind using that
    by (auto intro!: wp_mono [OF wp_umask_report] wp_mono [OF wp_umask_cleanup] simp: out umask_text_def requested_perms requested_perms [simplified])
  show ?thesis
    unfolding t_umask_main_def out [symmetric]
    by (auto intro!: rules fl fin wp_tr(5) simp del: wp_bind simp: wp_bind [of "sys _ _"] wp_bind [of "call _ _"])
qed

text \<open>A system that keeps the umask and the modes of files, which meets that contract.\<close>

definition um_step :: "32 word \<times> (string \<Rightarrow> 32 word option) \<Rightarrow> syscall \<Rightarrow> (32 word \<times> (string \<Rightarrow> 32 word option)) \<times> sysret" where
  "um_step k c = (case k of (u, m) \<Rightarrow> (case c of
     File (Umask v) \<Rightarrow> ((v AND 0x1FF, m), returns (uint u))
   | File (Open p fl v) \<Rightarrow> ((u, m(p \<mapsto> S_IFREG OR (v AND NOT u))), returns 3)
   | Dir (Mkdir p v) \<Rightarrow> ((u, m(p \<mapsto> S_IFDIR OR (v AND NOT u))), returns 0)
   | File (Stat p) \<Rightarrow> (k, case m p of None \<Rightarrow> returns (-1) | Some v \<Rightarrow> reply0\<lparr>rstat := stat0\<lparr>st_mode := v\<rparr>\<rparr>)
   | _ \<Rightarrow> (k, returns 0)))"

definition um_os :: "(32 word \<times> (string \<Rightarrow> 32 word option)) os" where
  "um_os = \<lparr>step = um_step, strerror = (\<lambda>e. ''error''), strsignal = (\<lambda>s. ''signal''), gai_strerror = (\<lambda>s. ''error'')\<rparr>"

lemma um_os_umask: "umask_files um_os fst snd"
  by (auto simp: umask_files_def um_os_def um_step_def returns_def reply0_def stat0_def split: option.splits prod.splits)

lemma t_umask_run: "fst (run_state (t_umask_main um_os []) (start (0, Map.empty))) = Exit 0"
  by (simp add: t_umask_main_def umask_report_def umask_cleanup_def run_calls um_os_def um_step_def start_def returns_def reply0_def stat0_def)

theorem t_umask_shows_witness:
  "\<exists>w'. run_state (t_umask_main um_os []) (start (0, Map.empty)) = (Exit 0, w') \<and> printed 1 (trace w') =
     ''Requested file perms: rw-rw----'' @ nl @ ''Process umask: ----wx-wx'' @ nl @ ''Actual file perms: rw-r-----'' @ nl @ nl @
     ''Requested dir perms: rwxrwxrwx'' @ nl @ ''Process umask: ----wx-wx'' @ nl @ ''Actual dir perms: rwxr--r--'' @ nl"
  using wp_run [OF t_umask_shows [OF um_os_umask, of "[]" "start (0, Map.empty)"]] t_umask_run
  by (simp add: start_def prod_eq_iff)

end
