(* ===== verification/Sys_Info.thy ===== *)
theory Sys_Info
  imports Num_Args
begin

text \<open>
  Programs that print what the system says about itself: \<open>proccred/src/idshow.c\<close>, \<open>sysinfo/src/\<close>,
  \<open>syslim/src/\<close> and \<open>time/src/\<close>. The numbers of the answers to \<open>gmtime\<close> and \<open>localtime\<close> are the
  fields of \<open>struct tm\<close> in the order \<open>tm_year\<close>, \<open>tm_mon\<close>, \<open>tm_mday\<close>, \<open>tm_hour\<close>, \<open>tm_min\<close>,
  \<open>tm_sec\<close>, \<open>tm_wday\<close>, \<open>tm_yday\<close>, \<open>tm_isdst\<close>.
\<close>

section \<open>proccred/src/idshow.c\<close>

definition getUsernameFromUID :: "'k os \<Rightarrow> int \<Rightarrow> ('k, string) cmd" where
  "getUsernameFromUID K uid = do {
     r \<leftarrow> sys K (Info (Getpwuid uid));
     if ret r = 0
     then die K (\<lambda>err. ''Failed to get user from UID '' @ dec uid @ '' - '' @ err @ nl)
     else ok (rdata r) }"

definition getGroupnameFromGID :: "'k os \<Rightarrow> int \<Rightarrow> ('k, string) cmd" where
  "getGroupnameFromGID K gid = do {
     r \<leftarrow> sys K (Info (Getgrgid gid));
     if ret r = 0
     then die K (\<lambda>err. ''Failed to get group from GID '' @ dec gid @ '' - '' @ err @ nl)
     else ok (rdata r) }"

text \<open>The four lookups among the arguments of one \<open>printf\<close>. The names they return are pointers into
  one static area that every lookup overwrites, so what is printed for each is the name stored
  last. In which order the arguments are evaluated is not specified: \<open>order\<close> permutes them.\<close>

definition lookups :: "(int \<Rightarrow> ('k, string) cmd) \<Rightarrow> int list \<Rightarrow> ('k, string) cmd" where
  "lookups lookup ids = fold_each ids (\<lambda>i _. lookup i) ''''"

definition id_text :: "string \<Rightarrow> string \<Rightarrow> int \<Rightarrow> string" where
  "id_text label nm i = label @ ''='' @ nm @ '' ('' @ dec i @ '')''"

text \<open>The line of the real, effective, saved and file system ids of a kind (\<open>UID\<close> or \<open>GID\<close>).\<close>

definition ids_line :: "string \<Rightarrow> string \<Rightarrow> int \<Rightarrow> int \<Rightarrow> int \<Rightarrow> int \<Rightarrow> string" where
  "ids_line k nm r e s fs = id_text (''R'' @ k) nm r @ ''; '' @ id_text (''E'' @ k) nm e @ ''; '' @
     id_text (''S'' @ k) nm s @ ''; '' @ id_text (''FS'' @ k) nm fs @ nl"

definition group_line :: "'k os \<Rightarrow> int \<Rightarrow> ('k, unit) cmd" where
  "group_line K gid = bind_res (getGroupnameFromGID K gid) (\<lambda>nm. do {
     printf K (nm @ ''('' @ dec gid @ '')'' @ nl);
     ok () })"

definition idshow_groups :: "'k os \<Rightarrow> ('k, unit) cmd" where
  "idshow_groups K = do {
     r \<leftarrow> sys K (Info (Getgroups 65537));
     if ret r = -1
     then die K (\<lambda>err. ''Failed to get supplementary groups - '' @ err @ nl)
     else do {
     printf K (''Supplementary groups ('' @ dec (ret r) @ ''):'' @ nl);
     bind_res (for_each [0..<nat (ret r)] (\<lambda>i. group_line K (rnum i r))) (\<lambda>_. do {
     printf K nl;
     halt (Exit 0) }) }}"

definition idshow_main :: "(int list \<Rightarrow> int list) \<Rightarrow> 'k os \<Rightarrow> string list \<Rightarrow> ('k, unit) cmd" where
  "idshow_main order K argv = do {
     u \<leftarrow> sys K (Info Getresuid);
     if ret u = -1
     then die K (\<lambda>err. ''Failed to get uids - '' @ err @ nl)
     else do {
     g \<leftarrow> sys K (Info Getresgid);
     if ret g = -1
     then die K (\<lambda>err. ''Failed to get gids - '' @ err @ nl)
     else do {
     fsuid \<leftarrow> call K (Info (Setfsuid 0));
     fsgid \<leftarrow> call K (Info (Setfsgid 0));
     bind_res (lookups (getUsernameFromUID K) (order [rnum 0 u, rnum 1 u, rnum 2 u, fsuid])) (\<lambda>nm. do {
     printf K (ids_line ''UID'' nm (rnum 0 u) (rnum 1 u) (rnum 2 u) fsuid);
     bind_res (lookups (getGroupnameFromGID K) (order [rnum 0 g, rnum 1 g, rnum 2 g, fsgid])) (\<lambda>nm. do {
     printf K (ids_line ''GID'' nm (rnum 0 g) (rnum 1 g) (rnum 2 g) fsgid);
     idshow_groups K }) }) }}}"

section \<open>sysinfo/src/procfs\_pidmax.c and sysinfo/src/t\_uname.c\<close>

definition pidmax_BUFFER_LENGTH :: nat where "pidmax_BUFFER_LENGTH = 100"

text \<open>Nothing terminates the bytes read: printing a buffer without a NUL among them uses bytes that were
  never assigned.\<close>

definition procfs_pidmax_main :: "'k os \<Rightarrow> string list \<Rightarrow> ('k, unit) cmd" where
  "procfs_pidmax_main K argv = do {
     fd \<leftarrow> call K (File (Open ''/proc/sys/kernel/pid_max'' O_RDONLY 0));
     if fd = -1
     then die K (\<lambda>err. ''Failed to open file - '' @ err @ nl)
     else do {
     r \<leftarrow> sys K (File (Read fd pidmax_BUFFER_LENGTH));
     if ret r = -1
     then die K (\<lambda>err. ''Failed to read file - '' @ err @ nl)
     else let buffer = take (nat (ret r)) (rdata r) in
       if NUL \<notin> set buffer then halt Undef
       else do {
       printf K (''Value: '' @ cstr buffer @ nl);
       c \<leftarrow> call K (File (Close fd));
       if c = -1
       then die K (\<lambda>err. ''Failed to close file - '' @ err @ nl)
       else halt (Exit 0) }}}"

text \<open>The five strings of \<open>struct utsname\<close> are stored one after the other, each terminated by NUL.\<close>

primrec utsname_field :: "nat \<Rightarrow> string \<Rightarrow> string" where
  "utsname_field 0 bs = cstr bs"
| "utsname_field (Suc i) bs = utsname_field i (drop (length (cstr bs) + 1) bs)"

definition t_uname_main :: "'k os \<Rightarrow> string list \<Rightarrow> ('k, unit) cmd" where
  "t_uname_main K argv = do {
     r \<leftarrow> sys K (Info Uname);
     if ret r = -1
     then die K (\<lambda>err. ''Failed to get uname() - '' @ err @ nl)
     else do {
     printf K (''OS name: '' @ utsname_field 0 (rdata r) @ nl);
     printf K (''Hostname: '' @ utsname_field 1 (rdata r) @ nl);
     printf K (''OS release: '' @ utsname_field 2 (rdata r) @ nl);
     printf K (''OS version: '' @ utsname_field 3 (rdata r) @ nl);
     printf K (''Hardware: '' @ utsname_field 4 (rdata r) @ nl);
     halt (Exit 0) }}"

section \<open>syslim/src/t\_fpathconf.c and syslim/src/t\_sysconf.c\<close>

definition printFpathconf :: "'k os \<Rightarrow> string \<Rightarrow> int \<Rightarrow> int \<Rightarrow> ('k, unit) cmd" where
  "printFpathconf K msg fd name = do {
     set_errno 0;
     limit \<leftarrow> call K (Info (Fpathconf fd name));
     errno \<leftarrow> get_errno;
     if limit = -1 then
       (if errno = 0 then do { eprintf K (msg @ '': indeterminate'' @ nl); ok () }
        else die K (\<lambda>err. ''Failed to get limit for '' @ msg @ '' - '' @ err @ nl))
     else do { printf K (msg @ '': '' @ dec limit @ nl); ok () } }"

definition t_fpathconf_main :: "'k os \<Rightarrow> string list \<Rightarrow> ('k, unit) cmd" where
  "t_fpathconf_main K argv =
     bind_res (printFpathconf K ''_PC_NAME_MAX'' STDIN_FILENO 3) (\<lambda>_.
     bind_res (printFpathconf K ''_PC_PATH_MAX'' STDIN_FILENO 4) (\<lambda>_.
     bind_res (printFpathconf K ''_PC_PIPE_BUF'' STDIN_FILENO 5) (\<lambda>_. halt (Exit 0))))"

definition printSysconf :: "'k os \<Rightarrow> string \<Rightarrow> int \<Rightarrow> ('k, unit) cmd" where
  "printSysconf K msg name = do {
     set_errno 0;
     limit \<leftarrow> call K (Info (Sysconf name));
     errno \<leftarrow> get_errno;
     if limit = -1 then
       (if errno = 0 then do { printf K (msg @ '': indeterminate'' @ nl); ok () }
        else die K (\<lambda>err. ''Failed to get limit for '' @ msg @ '' - '' @ err @ nl))
     else do { printf K (msg @ '': '' @ dec limit @ nl); ok () } }"

definition sysconf_names :: "(string \<times> int) list" where
  "sysconf_names = [(''_SC_ARG_MAX'', 0), (''_SC_LOGIN_NAME_MAX'', 71), (''_SC_OPEN_MAX'', 4),
     (''_SC_NGROUPS_MAX'', 3), (''_SC_PAGESIZE'', 30), (''_SC_RTSIG_MAX'', 31)]"

definition t_sysconf_main :: "'k os \<Rightarrow> string list \<Rightarrow> ('k, unit) cmd" where
  "t_sysconf_main K argv =
     bind_res (for_each sysconf_names (\<lambda>(msg, name). printSysconf K msg name)) (\<lambda>_. halt (Exit 0))"

section \<open>time/src/calendar\_time.c and time/src/show\_time.c\<close>

definition tm_text :: "sysret \<Rightarrow> string" where
  "tm_text tm = ''  year='' @ dec (rnum 0 tm) @ '' mon='' @ dec (rnum 1 tm) @ '' mday='' @ dec (rnum 2 tm) @
     '' hour='' @ dec (rnum 3 tm) @ '' min='' @ dec (rnum 4 tm) @ '' sec='' @ dec (rnum 5 tm) @
     '' wday='' @ dec (rnum 6 tm) @ '' yday='' @ dec (rnum 7 tm) @ '' isdst='' @ dec (rnum 8 tm) @ nl"

definition print_mktime :: "'k os \<Rightarrow> string \<Rightarrow> sysret \<Rightarrow> ('k, unit) cmd" where
  "print_mktime K fn tm = do {
     t \<leftarrow> call K (Info (Mktime (rnums tm)));
     if t = -1
     then usage K (''Failed to mktime'' @ nl)
     else do {
       printf K (''mktime() of '' @ fn @ '' value: '' @ dec t @ '' secs'' @ nl);
       ok () }}"

definition calendar_time_main :: "'k os \<Rightarrow> string list \<Rightarrow> ('k, unit) cmd" where
  "calendar_time_main K argv = do {
     time_sec \<leftarrow> call K (Proc Time);
     printf K (''Seconds since the Epoch (1 Jan 1970): '' @ dec time_sec @ nl);
     tv \<leftarrow> sys K (Info Gettimeofday);
     if ret tv = -1
     then die K (\<lambda>err. ''Failed to get time of day - '' @ err @ nl)
     else do {
     printf K (''  gettimeofday() returned '' @ dec (rnum 0 tv) @ '' secs, '' @ dec (rnum 1 tv) @ '' microsecs'' @ nl);
     gmtm \<leftarrow> sys K (Info (Gmtime time_sec));
     if ret gmtm = 0
     then usage K (''Failed to convert '' @ dec time_sec @ '' sec using gmtime()'' @ nl)
     else do {
     printf K (''Broken down by gmtime():'' @ nl);
     printf K (tm_text gmtm);
     localtm \<leftarrow> sys K (Info (Localtime time_sec));
     if ret localtm = 0
     then usage K (''Failed to convert '' @ dec time_sec @ '' sec using localtime()'' @ nl)
     else do {
     printf K (''Broken down by localtime():'' @ nl);
     printf K (tm_text localtm @ nl);
     a \<leftarrow> sys K (Info (Asctime (rnums gmtm)));
     printf K (''asctime() formats the gmtime() value as: '' @ (if ret a = 0 then ''(null)'' else rdata a));
     c \<leftarrow> ctime_text K time_sec;
     printf K (''ctime() formats the time() value as: '' @ c);
     bind_res (print_mktime K ''gmtime()'' gmtm) (\<lambda>_.
     bind_res (print_mktime K ''localtime()'' localtm) (\<lambda>_. halt (Exit 0))) }}}}"

definition show_time_BUFFER_SIZE :: nat where "show_time_BUFFER_SIZE = 256"

definition show_time_main :: "'k os \<Rightarrow> string list \<Rightarrow> ('k, unit) cmd" where
  "show_time_main K argv = do {
     time_sec \<leftarrow> call K (Proc Time);
     timeStr \<leftarrow> sys K (Proc (Ctime time_sec));
     if ret timeStr = 0
     then die K (\<lambda>err. ''Failed to get ctime() - '' @ err @ nl)
     else do {
     printf K (''ctime() of time() value is: '' @ rdata timeStr);
     tm_local \<leftarrow> sys K (Info (Localtime time_sec));
     if ret tm_local = 0
     then die K (\<lambda>err. ''Failed to get localtime() from time() - '' @ err @ nl)
     else do {
     timeStr \<leftarrow> sys K (Info (Asctime (rnums tm_local)));
     if ret timeStr = 0
     then die K (\<lambda>err. ''Failed to get asctime() of local time - '' @ err @ nl)
     else do {
     printf K (''asctime() of local time is: '' @ rdata timeStr);
     b \<leftarrow> sys K (Info (Strftime show_time_BUFFER_SIZE ''%A, %d %B %Y, %H:%M:%S %Z'' (rnums tm_local)));
     if ret b = 0
     then die K (\<lambda>err. ''Failed to get strftime() of local time - '' @ err @ nl)
     else do {
     printf K (''strftime() of localtime is '' @ rdata b @ nl);
     halt (Exit 0) }}}}}"

section \<open>time/src/process\_time.c\<close>

text \<open>
  The quotient of two integers in \<open>double\<close> arithmetic, printed by \<open>%0.2lf\<close>. A positive number is a fraction;
  \<open>round_double\<close> rounds it to 53 significant bits, ties to even (the exponents that occur here are far from
  the limits of the type), and the decimal conversion rounds the exact value of the result, ties to even.
\<close>

definition round_even :: "nat \<Rightarrow> nat \<Rightarrow> nat" where
  "round_even n d = (let q = n div d; r = n mod d in
     if 2 * r < d then q else if d < 2 * r then q + 1 else if even q then q else q + 1)"

fun bits :: "nat \<Rightarrow> nat" where
  "bits n = (if n = 0 then 0 else Suc (bits (n div 2)))"

declare bits.simps [simp del]

text \<open>The fraction \<open>n / d\<close> is scaled by a power of two so that its integer part has 53 bits.\<close>

definition round_double :: "nat \<times> nat \<Rightarrow> nat \<times> nat" where
  "round_double x = (case x of (n, d) \<Rightarrow>
     if n = 0 then (0, 1)
     else let k = bits (n * 2 ^ 64 div d) in
       if k \<le> 117 then (round_even (n * 2 ^ (117 - k)) d, 2 ^ (117 - k))
       else (round_even n (d * 2 ^ (k - 117)) * 2 ^ (k - 117), 1))"

definition two_decimals :: "nat \<times> nat \<Rightarrow> string" where
  "two_decimals x = (case x of (n, d) \<Rightarrow> let h = round_even (100 * n) d in
     dec (int (h div 100)) @ ''.'' @ pad_left 2 (CHR ''0'') (dec (int (h mod 100))))"

definition quotient_text :: "int \<Rightarrow> int \<Rightarrow> string" where
  "quotient_text a b =
     (if b = 0 then (if a = 0 then ''-nan'' else if a < 0 then ''-inf'' else ''inf'')
      else let (n, m) = round_double (nat \<bar>a\<bar>, 1); (d, e) = round_double (nat \<bar>b\<bar>, 1) in
        (if (a < 0) \<noteq> (b < 0) then ''-'' else '''') @ two_decimals (round_double (n * e, m * d)))"

definition CLOCKS_PER_SEC :: int where "CLOCKS_PER_SEC = 1000000"

definition displayProcessTimes :: "'k os \<Rightarrow> string \<Rightarrow> ('k, unit) cmd" where
  "displayProcessTimes K msg = do {
     processTime_tick \<leftarrow> call K (Info Clock);
     if processTime_tick = -1
     then die K (\<lambda>err. ''Failed to get clock() - '' @ err @ nl)
     else do {
     t \<leftarrow> sys K (Info Times);
     if ret t = -1
     then die K (\<lambda>err. ''Failed to get times() - '' @ err @ nl)
     else do {
     ticksPerSec \<leftarrow> call K (Info (Sysconf 2));
     if ticksPerSec = -1
     then usage K ''Failed to get sysconf(_SC_CLK_TCK)''
     else do {
     printf K (msg @ nl);
     printf K (tab @ ''clock() returns: '' @ dec processTime_tick @ '' clocks-per-sec ('' @
       quotient_text processTime_tick CLOCKS_PER_SEC @ '' secs)'' @ nl);
     printf K (tab @ ''times() yields: user CPU='' @ quotient_text (rnum 0 t) ticksPerSec @
       ''; system CPU: '' @ quotient_text (rnum 1 t) ticksPerSec @ nl);
     ok () }}}}"

text \<open>The bound of the loop is converted again in every iteration.\<close>

primrec getppid_loop :: "nat \<Rightarrow> 'k os \<Rightarrow> string list \<Rightarrow> int \<Rightarrow> ('k, unit) cmd" where
  "getppid_loop 0 K argv i = halt Hang"
| "getppid_loop (Suc fuel) K argv i =
     bind_res (if 1 < length argv then process_time_getUnsignedLong K (arg argv 1) else ok 10000000) (\<lambda>n.
       if i < n
       then do { sys K (Info Getppid); getppid_loop fuel K argv (c_ulong (i + 1)) }
       else ok ())"

definition process_time_main :: "nat \<Rightarrow> 'k os \<Rightarrow> string list \<Rightarrow> ('k, unit) cmd" where
  "process_time_main fuel K argv = do {
     ticksPerSec \<leftarrow> call K (Info (Sysconf 2));
     if ticksPerSec = -1
     then usage K ''Failed to get sysconf(_SC_CLK_TCK)''
     else do {
     printf K (''CLOCKS_PER_SEC='' @ dec CLOCKS_PER_SEC @ ''  sysconf(_SC_CLK_TCK)='' @ dec ticksPerSec @ nl);
     bind_res (displayProcessTimes K ''At program start:'') (\<lambda>_.
     bind_res (getppid_loop fuel K argv 0) (\<lambda>_.
     bind_res (displayProcessTimes K ''After getppid() loop:'') (\<lambda>_. halt (Exit 0)))) }}"

section \<open>Properties\<close>

abbreviation tells :: "string \<Rightarrow> 'k world \<Rightarrow> 'k world \<Rightarrow> bool" where
  "tells s w w' \<equiv> \<exists>d. trace w' = trace w @ d \<and> printed 1 d = s"

lemma wp_lookups:
  assumes "\<And>i w. wp (lookup i) (\<lambda>r w'. r \<noteq> Exit 0 \<and> tells [] w w') w"
  shows "wp (lookups lookup ids) (\<lambda>r w'. r \<noteq> Exit 0 \<and> tells [] w w') w"
  unfolding lookups_def
  by (rule wp_fold_each [where I = "\<lambda>done nm w'. tells [] w w'"])
     (auto intro!: wp_mono [OF assms] simp: and_then_def split: res.splits)

lemma wp_names:
  "wp (getUsernameFromUID K i) (\<lambda>r w'. r \<noteq> Exit 0 \<and> tells [] w w') w"
  "wp (getGroupnameFromGID K i) (\<lambda>r w'. r \<noteq> Exit 0 \<and> tells [] w w') w"
  unfolding getUsernameFromUID_def getGroupnameFromGID_def by (auto intro!: wp_sys_any wp_tr(5))

lemma wp_group_lines:
  "wp (for_each is (\<lambda>i. group_line K (f i)))
     (\<lambda>r w'. r \<noteq> Exit 0 \<and> (\<exists>s. tells s w w')) w"
  by (rule wp_for_each [where I = "\<lambda>done w'. \<exists>s. tells s w w'"])
     (auto intro!: wp_mono [OF wp_names(2)] wp_tr(4) simp: and_then_def group_line_def split: res.splits)

lemma wp_idshow_groups: "wp (idshow_groups K) (\<lambda>r w'. \<exists>s. tells s w w') w"
  unfolding idshow_groups_def
  by (auto intro!: wp_sys_any wp_tr(4,5) wp_mono [OF wp_group_lines] simp: and_then_def split: res.splits)

definition one_name_each :: "string \<Rightarrow> bool" where
  "one_name_each s \<longleftrightarrow> (\<exists>nm gm r1 e1 s1 f1 r2 e2 s2 f2 rest.
     s = ids_line ''UID'' nm r1 e1 s1 f1 @ ids_line ''GID'' gm r2 e2 s2 f2 @ rest)"

lemma one_name_eachI [simp]: "one_name_each (ids_line ''UID'' nm r1 e1 s1 f1 @ ids_line ''GID'' gm r2 e2 s2 f2)"
  unfolding one_name_each_def by (metis append_Nil2)

lemma one_name_each_append: "one_name_each s \<Longrightarrow> one_name_each (s @ t)"
  unfolding one_name_each_def by (metis append_assoc)

text \<open>
  \<open>idshow\<close> shows one user name for all its user ids and one group name for all its group ids, whatever the
  ids are and in whatever order the arguments of \<open>printf\<close> are evaluated: the four names are pointers into
  the same static area.
\<close>

theorem idshow_shows_one_name:
  "wp (idshow_main order K argv) (\<lambda>r w'. r = Exit 0 \<longrightarrow> (\<exists>d. trace w' = trace w @ d \<and> one_name_each (printed 1 d))) w"
    (is "wp _ ?Q w")
proof -
  have fin: "wp (idshow_groups K) ?Q w1"
    if "\<exists>d. trace w1 = trace w @ d \<and> one_name_each (printed 1 d)" for w1
    by (rule wp_mono [OF wp_idshow_groups]) (use that in \<open>auto intro: one_name_each_append\<close>)
  show ?thesis
    unfolding idshow_main_def
    by (auto intro!: wp_sys_any wp_call_any wp_tr(4,5) wp_mono [OF wp_lookups [OF wp_names(1)]] wp_mono [OF wp_lookups [OF wp_names(2)]] fin
        simp: and_then_def split: res.splits)
qed

end
