(* ===== verification/Users_Memory.thy ===== *)
theory Users_Memory
  imports Num_Args
begin

text \<open>
  \<open>users_groups/src/check_passwd.c\<close>, which authenticates a user, and \<open>memalloc/src/free_and_sbrk.c\<close>, which
  allocates blocks and frees a range of them. The password that \<open>getpass\<close> returns lies at the address of
  its answer; overwriting it is a sequence of \<open>Store\<close> calls. \<open>getpwnam\<close> answers with the password field and
  the user id, \<open>getspnam\<close> with the password field, \<open>crypt\<close> with the encrypted password.
\<close>

section \<open>users\_groups/src/check\_passwd.c\<close>

text \<open>A line read by \<open>fgets\<close>, with its newline removed; \<open>None\<close> when the line starts with a NUL, and the program
  accesses \<open>username[-1]\<close>.\<close>

definition chop_newline :: "string \<Rightarrow> string option" where
  "chop_newline line = (let s = cstr line in
     if s = [] then None else Some (if last s = CHR 0x0A then butlast s else s))"

definition login_name_max :: "'k os \<Rightarrow> ('k world, int) state" where
  "login_name_max K = do {
     a \<leftarrow> call K (Info (Sysconf 71));
     if 0 \<le> a then call K (Info (Sysconf 71)) else State_Monad.return 256 }"

text \<open>\<open>for (char *c = password; *c != 0; ++c) *c = 0\<close>: the characters from position \<open>i\<close> on.\<close>

primrec erase :: "'k os \<Rightarrow> int \<Rightarrow> nat \<Rightarrow> string \<Rightarrow> ('k world, unit) state" where
  "erase K addr i [] = State_Monad.return ()"
| "erase K addr i (c # cs) = do {
     sys K (File (Store addr i [NUL]));
     erase K addr (i + 1) cs }"

text \<open>The password check, given the password field and the user id of the user.\<close>

definition check_validate :: "'k os \<Rightarrow> int \<Rightarrow> string \<Rightarrow> int \<Rightarrow> ('k, unit) cmd" where
  "check_validate K username encryptedPasswordEntry pw_uid = do {
     p \<leftarrow> sys K (Info (Getpass ''Password: ''));
     if ret p = 0
     then die K (\<lambda>err. ''Failed to get passwd - '' @ err @ nl)
     else do {
     encryptedPassword \<leftarrow> sys K (Sig (Crypt (rdata p) encryptedPasswordEntry));
     erase K (ret p) 0 (rdata p);
     if ret encryptedPassword = 0
     then die K (\<lambda>err. ''Failed to encrypt passwd - '' @ err @ nl)
     else if rdata encryptedPassword \<noteq> encryptedPasswordEntry
     then do { printf K (''Incorrect passwd'' @ nl); halt (Exit EXIT_FAILURE) }
     else do {
     printf K (''Successfully authenticated: UID='' @ dec pw_uid @ nl);
     sys K (Proc (Free username));
     halt (Exit 0) }}}"

definition check_lookup :: "'k os \<Rightarrow> int \<Rightarrow> string \<Rightarrow> ('k, unit) cmd" where
  "check_lookup K addr username = do {
     set_errno 0;
     passwdEntry \<leftarrow> sys K (Info (Getpwnam username));
     errno \<leftarrow> get_errno;
     if ret passwdEntry = 0 then
       (if errno = 0 then usage K (''Username '' @ username @ '' not found'' @ nl)
        else die K (\<lambda>err. ''Failed to get passwd entry for '' @ username @ '' - '' @ err @ nl))
     else do {
     set_errno 0;
     shadowEntry \<leftarrow> sys K (Info (Getspnam username));
     errno \<leftarrow> get_errno;
     if ret shadowEntry = 0 \<and> errno = EACCES
     then die K (\<lambda>err. ''No permissions to read shadow file - '' @ err @ nl)
     else check_validate K addr (if ret shadowEntry \<noteq> 0 then rdata shadowEntry else rdata passwdEntry) (rnum 0 passwdEntry) }}"

definition check_passwd_main :: "'k os \<Rightarrow> string list \<Rightarrow> ('k, unit) cmd" where
  "check_passwd_main K argv = do {
     printf K ''Username: '';
     sys K (Stdio (Fflush 1));
     maxUsernameLength \<leftarrow> login_name_max K;
     username \<leftarrow> call K (Proc (Malloc maxUsernameLength));
     if username = 0
     then die K (\<lambda>err. ''Failed to allocate '' @ dec maxUsernameLength @ '' bytes for username - '' @ err @ nl)
     else do {
     line \<leftarrow> sys K (Stdio (Fgets (nat maxUsernameLength)));
     if ret line = 0
     then usage K (''Failed to get username'' @ nl)
     else (case chop_newline (rdata line) of
       None \<Rightarrow> halt Undef
     | Some name \<Rightarrow> check_lookup K username name) }}"

section \<open>memalloc/src/free\_and\_sbrk.c\<close>

definition MAX_ALLOCS :: int where "MAX_ALLOCS = 1000000"

text \<open>The conversion \<open>%p\<close>.\<close>

definition pointer_text :: "int \<Rightarrow> string" where
  "pointer_text p = (if p = 0 then ''(nil)'' else ''0x'' @ hex (c_ulong p))"

text \<open>The array \<open>memBlocks\<close> has \<open>MAX_ALLOCS\<close> elements. The list holds those that have been assigned, the
  element \<open>i\<close> being the next one; assigning an element outside the array is undefined, whatever
  \<open>malloc\<close> returned.\<close>

definition alloc_block :: "'k os \<Rightarrow> int \<Rightarrow> nat \<Rightarrow> int option list \<Rightarrow> ('k, int option list) cmd" where
  "alloc_block K blockSize i memBlocks = do {
     p \<leftarrow> call K (Proc (Malloc blockSize));
     if MAX_ALLOCS \<le> int i then halt Undef
     else if p = 0
     then die K (\<lambda>err. ''Failed to allocate '' @ dec blockSize @ '' bytes - '' @ err @ nl)
     else ok (memBlocks @ [Some p]) }"

text \<open>The loop that frees: \<open>memBlocks\<close> holds the blocks that are still allocated. An index without a block
  (never assigned, or freed before) makes the call of \<open>free\<close> undefined. The index is an \<open>unsigned long\<close>.\<close>

function free_loop :: "'k os \<Rightarrow> int option list \<Rightarrow> int \<Rightarrow> int \<Rightarrow> int \<Rightarrow> ('k, unit) cmd" where
  "free_loop K memBlocks i freeMax freeStep =
     (if i < freeMax then
        (if 0 \<le> i \<and> nat i < length memBlocks then
           (case memBlocks ! nat i of
              None \<Rightarrow> halt Undef
            | Some p \<Rightarrow> do {
                sys K (Proc (Free p));
                free_loop K (memBlocks[nat i := None]) (c_ulong (i + freeStep)) freeMax freeStep })
         else halt Undef)
      else ok ())"
  by pat_completeness auto
termination
proof (relation "measure (\<lambda>(K, bs, i, m, s). length (filter (\<lambda>b. b \<noteq> None) bs))", simp, clarsimp)
  fix bs :: "int option list" and n :: nat and p
  assume "n < length bs" "bs ! n = Some p"
  then obtain xs ys where "bs = xs @ Some p # ys" "n = length xs"
    using id_take_nth_drop [of n bs] by (metis length_take min.absorb4)
  then show "length (filter (\<lambda>b. \<exists>y. b = Some y) (bs[n := None])) < length (filter (\<lambda>b. \<exists>y. b = Some y) bs)"
    by simp
qed

declare free_loop.simps [simp del]

definition free_and_sbrk_run :: "'k os \<Rightarrow> int \<Rightarrow> int \<Rightarrow> int \<Rightarrow> int \<Rightarrow> int \<Rightarrow> ('k, unit) cmd" where
  "free_and_sbrk_run K numAllocs blockSize freeStep freeMin freeMax = do {
     b \<leftarrow> call K (Sig (Sbrk 0));
     printf K (''Initial program break: '' @ pointer_text b @ nl @ nl);
     printf K (''Allocating '' @ dec numAllocs @ '' * '' @ dec blockSize @ '' bytes'' @ nl);
     bind_res (fold_each [0..<nat numAllocs] (alloc_block K blockSize) []) (\<lambda>memBlocks. do {
     b \<leftarrow> call K (Sig (Sbrk 0));
     printf K (''Program break is now: '' @ pointer_text b @ nl @ nl);
     printf K (''Freeing blocks from '' @ dec freeMin @ '' to '' @ dec freeMax @ '' in steps of '' @ dec freeStep @ nl);
     bind_res (free_loop K memBlocks (c_ulong (freeMin - 1)) freeMax freeStep) (\<lambda>_. do {
     b \<leftarrow> call K (Sig (Sbrk 0));
     printf K (''Program break is now: '' @ pointer_text b @ nl @ nl);
     halt (Exit 0) }) }) }"

definition free_and_sbrk_main :: "'k os \<Rightarrow> string list \<Rightarrow> ('k, unit) cmd" where
  "free_and_sbrk_main K argv =
     (if length argv < 3 \<or> arg argv 1 = ''-h''
      then usage K (''Usage: '' @ arg argv 0 @ '' <num-allocs> <block-size> [<step> [<min> [<max>]]]'' @ nl)
      else bind_res (free_and_sbrk_getUnsignedLong K (arg argv 1)) (\<lambda>numAllocs.
        if MAX_ALLOCS < numAllocs
        then usage K (''ERROR: Num allocs > MAX_ALLOCS ('' @ dec MAX_ALLOCS @ '')'' @ nl)
        else bind_res (free_and_sbrk_getUnsignedLong K (arg argv 2)) (\<lambda>blockSize.
        bind_res (if 3 < length argv then free_and_sbrk_getUnsignedLong K (arg argv 3) else ok 1) (\<lambda>freeStep.
        bind_res (if 4 < length argv then free_and_sbrk_getUnsignedLong K (arg argv 4) else ok 1) (\<lambda>freeMin.
        bind_res (if 5 < length argv then free_and_sbrk_getUnsignedLong K (arg argv 5) else ok numAllocs) (\<lambda>freeMax.
        if numAllocs < freeMax
        then usage K (''ERROR: freeMax ('' @ dec freeMax @ '') > numAllocs ('' @ dec numAllocs @ '')'' @ nl)
        else free_and_sbrk_run K numAllocs blockSize freeStep freeMin freeMax))))))"

section \<open>Properties\<close>

text \<open>The characters of a password that have been overwritten, for the buffer at an address.\<close>

fun erased_at :: "int \<Rightarrow> event \<Rightarrow> nat list" where
  "erased_at a (File (Store b i bs), r) = (if a = b \<and> bs = [NUL] then [i] else [])"
| "erased_at a _ = []"

definition erased :: "int \<Rightarrow> event list \<Rightarrow> nat list" where
  "erased a tr = concat (map (erased_at a) tr)"

lemma erased_simps [simp]: "erased a [] = []" "erased a (e # tr) = erased_at a e @ erased a tr" "erased a (tr @ tr') = erased a tr @ erased a tr'"
  by (simp_all add: erased_def)

lemma wp_erase:
  "wp (erase K a i cs) (\<lambda>_ w'. \<exists>d. trace w' = trace w @ d \<and> erased a d = [i..<i + length cs] \<and> printed 1 d = []) w"
proof (induction cs arbitrary: i w)
  case (Cons c cs)
  have "[i..<i + length (c # cs)] = i # [i + 1..<i + 1 + length cs]"
    by (simp add: upt_conv_Cons del: upt_Suc)
  then show ?case
    unfolding erase.simps wp_bind
    by (intro wp_sys_any) (auto intro!: wp_mono [OF Cons.IH] simp del: upt_Suc)
qed simp

text \<open>What happened when the program got so far as to ask for the password: a password \<open>p\<close> is overwritten
  completely, and success is only reported when encrypting \<open>p\<close> gave the password field \<open>entry\<close>.\<close>

definition validated :: "string \<Rightarrow> int \<Rightarrow> unit res \<Rightarrow> event list \<Rightarrow> bool" where
  "validated entry uid res d = (case d of
     (Info (Getpass prompt), p) # d1 \<Rightarrow>
       if ret p = 0 then res = Exit 1
       else (case d1 of
         (Sig (Crypt key salt), c) # d2 \<Rightarrow>
           key = rdata p \<and> salt = entry \<and> erased (ret p) d2 = [0..<length (rdata p)] \<and>
           (if ret c \<noteq> 0 \<and> rdata c = entry
            then res = Exit 0 \<and> printed 1 d2 = ''Successfully authenticated: UID='' @ dec uid @ nl
            else res = Exit 1)
       | _ \<Rightarrow> False)
   | _ \<Rightarrow> False)"

lemma wp_check_validate:
  "wp (check_validate K a entry uid) (\<lambda>r w'. \<exists>d. trace w' = trace w @ d \<and> validated entry uid r d) w"
  unfolding check_validate_def
  by (auto intro!: wp_sys_any wp_tr(4,5) wp_mono [OF wp_erase] simp: validated_def)

text \<open>The same with the lookups before it: the entry is that of the shadow file where there is one.\<close>

definition looked_up :: "string \<Rightarrow> unit res \<Rightarrow> event list \<Rightarrow> bool" where
  "looked_up user res d = (case d of
     (Info (Getpwnam n), p) # d1 \<Rightarrow> n = user \<and>
       (if ret p = 0 then res = Exit 1
        else (case d1 of
          (Info (Getspnam m), s) # d2 \<Rightarrow> m = user \<and>
            (if ret s = 0 \<and> err s = EACCES then res = Exit 1
             else validated (if ret s \<noteq> 0 then rdata s else rdata p) (rnum 0 p) res d2)
        | _ \<Rightarrow> False))
   | _ \<Rightarrow> False)"

lemma wp_check_lookup:
  "wp (check_lookup K a user) (\<lambda>r w'. \<exists>d. trace w' = trace w @ d \<and> looked_up user r d) w"
  unfolding check_lookup_def
  by (auto intro!: wp_sys_any wp_tr(5,6) wp_mono [OF wp_check_validate] simp: looked_up_def EACCES_def split: if_splits)

lemma looked_up_starts: "looked_up user r e \<Longrightarrow> \<exists>p e'. e = (Info (Getpwnam user), p) # e'"
proof -
  assume e: "looked_up user r e"
  then obtain x e' where "e = x # e'" by (cases e) (auto simp: looked_up_def)
  moreover from this e obtain n where "fst x = Info (Getpwnam n)"
    by (cases x; cases "fst x") (auto simp: looked_up_def split: info_call.splits)
  ultimately show ?thesis using e by (cases x) (auto simp: looked_up_def)
qed

text \<open>The whole run: it reads no password before the user is looked up, which is the one whose name was
  read last; if no user is looked up the program fails.\<close>

definition is_getpass :: "event \<Rightarrow> bool" where
  "is_getpass e = (case fst e of Info (Getpass p) \<Rightarrow> True | _ \<Rightarrow> False)"

definition is_lookup :: "event \<Rightarrow> bool" where
  "is_lookup e = (case fst e of Info (Getpwnam p) \<Rightarrow> True | _ \<Rightarrow> False)"

definition password_checked :: "unit res \<Rightarrow> event list \<Rightarrow> bool" where
  "password_checked r d = (let pre = takeWhile (\<lambda>e. \<not> is_lookup e) d; post = dropWhile (\<lambda>e. \<not> is_lookup e) d in
     list_all (\<lambda>e. \<not> is_getpass e) pre \<and>
     (if post = [] then r = Exit 1 \<or> r = Undef
      else (case last pre of
        (Stdio (Fgets n), line) \<Rightarrow> (case chop_newline (rdata line) of Some user \<Rightarrow> looked_up user r post | None \<Rightarrow> False)
      | _ \<Rightarrow> False)))"

lemma password_checked_early:
  "list_all (\<lambda>e. \<not> is_lookup e \<and> \<not> is_getpass e) d \<Longrightarrow> r = Exit 1 \<or> r = Undef \<Longrightarrow> password_checked r d"
proof -
  assume d: "list_all (\<lambda>e. \<not> is_lookup e \<and> \<not> is_getpass e) d" "r = Exit 1 \<or> r = Undef"
  then have tw: "takeWhile (\<lambda>e. \<not> is_lookup e) d = d" "dropWhile (\<lambda>e. \<not> is_lookup e) d = []"
    by (auto simp: list_all_iff)
  show ?thesis unfolding password_checked_def Let_def tw using d by (auto simp: list_all_iff)
qed

definition read_name :: "string \<Rightarrow> event list \<Rightarrow> bool" where
  "read_name user d \<longleftrightarrow> list_all (\<lambda>e. \<not> is_lookup e \<and> \<not> is_getpass e) d \<and> d \<noteq> [] \<and>
     (case last d of (Stdio (Fgets n), line) \<Rightarrow> chop_newline (rdata line) = Some user | _ \<Rightarrow> False)"

lemma password_checked_late:
  assumes "read_name user d" "looked_up user r e"
  shows "password_checked r (d @ e)"
proof -
  obtain p e' where "e = (Info (Getpwnam user), p) # e'" using looked_up_starts [OF assms(2)] by auto
  then have tw: "takeWhile (\<lambda>e. \<not> is_lookup e) (d @ e) = d" "dropWhile (\<lambda>e. \<not> is_lookup e) (d @ e) = e" "e \<noteq> []"
    using assms(1) by (auto simp: read_name_def list_all_iff is_lookup_def takeWhile_append dropWhile_append)
  have "(case last d of (Stdio (Fgets n), line) \<Rightarrow> (case chop_newline (rdata line) of Some user \<Rightarrow> looked_up user r e | None \<Rightarrow> False)
      | _ \<Rightarrow> False)"
    using assms unfolding read_name_def by (cases "last d"; cases "fst (last d)") (auto split: stdio_call.splits)
  with assms tw(3) show ?thesis
    unfolding password_checked_def Let_def tw by (simp add: read_name_def list_all_iff)
qed

text \<open>
  C18. \<open>check_passwd\<close> authenticates correctly and leaves no password behind: once a user is looked up, whose name
  is the line that was read, the program ends with status 0 exactly when encrypting the password that was typed
  gives the password field of that user (from the shadow file if it has an entry), and it then reports the id of
  that user; a password that was typed has been overwritten character by character however the program
  ends. If no user is looked up, no password is read and the program does not succeed.
\<close>

theorem check_passwd_authenticates:
  "wp (check_passwd_main K argv) (\<lambda>r w'. \<exists>d. trace w' = trace w @ d \<and> password_checked r d) w"
proof -
  have late: "wp (check_lookup K a user) (\<lambda>r w'. \<exists>d. trace w' = trace w @ d \<and> password_checked r d) w1"
    if "\<exists>d. trace w1 = trace w @ d \<and> read_name user d" for a user and w1 :: "'a world"
    by (rule wp_mono [OF wp_check_lookup]) (use that in \<open>auto intro: password_checked_late\<close>)
  show ?thesis
    unfolding check_passwd_main_def login_name_max_def
    by (auto intro!: wp_sys_any wp_call_any wp_tr(4,5,6) late password_checked_early
        simp: read_name_def is_lookup_def is_getpass_def split: option.splits)
qed

section \<open>Allocation and freeing\<close>

text \<open>The addresses that \<open>malloc\<close> returned and those that were freed.\<close>

fun malloc_result :: "event \<Rightarrow> int list" where
  "malloc_result (Proc (Malloc n), r) = [ret r]"
| "malloc_result _ = []"

fun freed_block :: "event \<Rightarrow> int list" where
  "freed_block (Proc (Free p), r) = [p]"
| "freed_block _ = []"

definition mallocs :: "event list \<Rightarrow> int list" where "mallocs tr = concat (map malloc_result tr)"
definition frees :: "event list \<Rightarrow> int list" where "frees tr = concat (map freed_block tr)"

lemma mallocs_simps [simp]: "mallocs [] = []" "mallocs (e # tr) = malloc_result e @ mallocs tr" "mallocs (tr @ tr') = mallocs tr @ mallocs tr'"
  by (simp_all add: mallocs_def)

lemma frees_simps [simp]: "frees [] = []" "frees (e # tr) = freed_block e @ frees tr" "frees (tr @ tr') = frees tr @ frees tr'"
  by (simp_all add: frees_def)

text \<open>How many indices \<open>i\<close>, \<open>i + s\<close>, ... are below \<open>m\<close>.\<close>

definition steps :: "int \<Rightarrow> int \<Rightarrow> int \<Rightarrow> nat" where
  "steps i m s = nat ((m - i + s - 1) div s)"

lemma steps_end: "0 < s \<Longrightarrow> m \<le> i \<Longrightarrow> steps i m s = 0"
  unfolding steps_def by (simp add: div_nonpos_pos_le0 zdiv_mono1 [of "m - i + s - 1" "s - 1" s, simplified])

lemma steps_next:
  assumes "0 < s" "i < m"
  shows "steps i m s = Suc (steps (i + s) m s)"
proof -
  have "(m - i + s - 1) div s = (m - i - 1) div s + 1" using assms by (simp add: diff_add_eq flip: div_add_self2)
  moreover have "0 \<le> (m - i - 1) div s" using assms by (simp add: pos_imp_zdiv_nonneg_iff)
  ultimately show ?thesis by (simp add: steps_def algebra_simps nat_add_distrib)
qed

lemma wp_free_loop:
  assumes "0 < s" "m + s \<le> 2 ^ 64" "m \<le> int (length bs)"
    and "0 \<le> i" "\<And>j. i \<le> j \<Longrightarrow> j < m \<Longrightarrow> bs ! nat j \<noteq> None"
  shows "wp (free_loop K bs i m s) (\<lambda>r w'. r = Ok () \<and> (\<exists>d. trace w' = trace w @ d \<and> mallocs d = [] \<and>
     frees d = map (\<lambda>k. the (bs ! nat (i + int k * s))) [0..<steps i m s])) w"
  using assms
proof (induction "steps i m s" arbitrary: i bs w)
  case 0
  have "\<not> i < m" using "0.hyps" steps_next [OF assms(1), of i m] by fastforce
  with "0.prems" show ?case by (subst free_loop.simps) (simp add: steps_end)
next
  case (Suc n)
  have lt: "i < m" using Suc.hyps(2) steps_end [OF assms(1), of m i] by fastforce
  obtain p where p: "bs ! nat i = Some p" using Suc.prems(5) [of i] lt by auto
  have next_i: "c_ulong (i + s) = i + s" by (rule c_ulong_id) (use Suc.prems lt in \<open>auto simp: ULONG_MAX_def\<close>)
  have n: "n = steps (i + s) m s" using Suc.hyps(2) steps_next [OF assms(1) lt] by simp
  have upt: "[0..<steps i m s] = 0 # map Suc [0..<n]" using Suc.hyps(2) by (metis map_Suc_upt upt_conv_Cons zero_less_Suc)
  have "wp (free_loop K (bs[nat i := None]) (i + s) m s) (\<lambda>r w'. r = Ok () \<and> (\<exists>d. trace w' = trace w @ d \<and> mallocs d = [] \<and>
      frees d = map (\<lambda>k. the (bs ! nat (i + int k * s))) [0..<steps i m s])) w1"
    if "trace w1 = trace w @ [(Proc (Free p), r)]" for w1 r
  proof (rule wp_mono [OF Suc.hyps(1) [OF n, of "bs[nat i := None]"]])
    fix x :: "unit res" and w2 :: "'a world"
    assume "x = Ok () \<and> (\<exists>d. trace w2 = trace w1 @ d \<and> mallocs d = [] \<and>
        frees d = map (\<lambda>k. the (bs[nat i := None] ! nat (i + s + int k * s))) [0..<steps (i + s) m s])"
    moreover have "bs[nat i := None] ! nat (i + s + int k * s) = bs ! nat (i + int (Suc k) * s)" for k
    proof -
      have "0 < s + int k * s" using Suc.prems(1) by (simp add: add_pos_nonneg)
      then have "nat i \<noteq> nat (i + s + int k * s)" using Suc.prems(4) by linarith
      then show ?thesis by (simp add: algebra_simps)
    qed
    ultimately show "x = Ok () \<and> (\<exists>d. trace w2 = trace w @ d \<and> mallocs d = [] \<and>
        frees d = map (\<lambda>k. the (bs ! nat (i + int k * s))) [0..<steps i m s])"
      using that p by (auto simp: upt n comp_def)
  qed (use Suc.prems in \<open>auto simp: nth_list_update\<close>)
  with p lt next_i Suc.prems show ?case
    by (subst free_loop.simps) (auto intro!: wp_sys_any)
qed

lemma wp_alloc_blocks:
  assumes "\<forall>i \<in> set is. int i < MAX_ALLOCS"
  shows "wp (fold_each is (alloc_block K size_b) []) (\<lambda>r w'. r = Exit 1 \<and> (\<exists>d. trace w' = trace w @ d) \<or> (\<exists>d. trace w' = trace w @ d \<and> frees d = [] \<and>
     length (mallocs d) = length is \<and> r = Ok (map Some (mallocs d)))) w"
  by (rule wp_fold_each [where I = "\<lambda>done bs w'. \<exists>d. trace w' = trace w @ d \<and> frees d = [] \<and>
        length (mallocs d) = length done \<and> bs = map Some (mallocs d)"])
     (use assms in \<open>auto intro!: wp_call_any wp_tr(5) simp: alloc_block_def\<close>)

text \<open>The \<open>Free\<close> calls that are meant: the blocks numbered \<open>freeMin\<close>, \<open>freeMin + freeStep\<close>, ... up to
  \<open>freeMax\<close>, counted from 1.\<close>

definition freed_as_asked :: "int \<Rightarrow> int \<Rightarrow> int \<Rightarrow> int \<Rightarrow> event list \<Rightarrow> bool" where
  "freed_as_asked n s lo hi d \<longleftrightarrow> length (mallocs d) = nat n \<and>
     frees d = map (\<lambda>k. mallocs d ! nat (lo - 1 + int k * s)) [0..<nat ((hi - lo + s) div s)]"

lemma wp_free_and_sbrk_run:
  assumes "0 < freeStep" "1 \<le> freeMin" "freeMin < 2 ^ 64" "0 \<le> numAllocs" "freeMax \<le> numAllocs" "freeMax + freeStep \<le> 2 ^ 64"
    and bound: "numAllocs \<le> MAX_ALLOCS"
  shows "wp (free_and_sbrk_run K numAllocs blockSize freeStep freeMin freeMax) (\<lambda>r w'. (r = Exit 0 \<or> r = Exit 1) \<and>
     (\<exists>d. trace w' = trace w @ d \<and> (r = Exit 0 \<longrightarrow> freed_as_asked numAllocs freeStep freeMin freeMax d))) w"
proof -
  have start_i: "c_ulong (freeMin - 1) = freeMin - 1" by (rule c_ulong_id) (use assms in \<open>auto simp: ULONG_MAX_def\<close>)
  have st: "steps (freeMin - 1) freeMax freeStep = nat ((freeMax - freeMin + freeStep) div freeStep)"
    by (simp add: steps_def algebra_simps)
  have free: "wp (free_loop K (map Some ps) (freeMin - 1) freeMax freeStep) (\<lambda>r w'. r = Ok () \<and> (\<exists>d. trace w' = trace w1 @ d \<and>
      mallocs d = [] \<and> frees d = map (\<lambda>k. ps ! nat (freeMin - 1 + int k * freeStep)) [0..<steps (freeMin - 1) freeMax freeStep])) w1"
    if "length ps = nat numAllocs" for ps w1
  proof -
    have idx: "nat (freeMin - 1 + int k * freeStep) < length ps" if "k < steps (freeMin - 1) freeMax freeStep" for k
    proof -
      have "int k < (freeMax - freeMin + freeStep) div freeStep" using that unfolding st by linarith
      then have "(int k + 1) * freeStep \<le> (freeMax - freeMin + freeStep) div freeStep * freeStep"
        using assms(1) by (intro mult_right_mono) auto
      also have "\<dots> \<le> freeMax - freeMin + freeStep"
        using div_mult_mod_eq [of "freeMax - freeMin + freeStep" freeStep] pos_mod_sign [OF assms(1), of "freeMax - freeMin + freeStep"]
        by linarith
      finally have "(int k + 1) * freeStep \<le> freeMax - freeMin + freeStep" .
      then have "freeMin - 1 + int k * freeStep < freeMax" by (simp add: algebra_simps)
      moreover have "0 \<le> freeMin - 1 + int k * freeStep" using assms(1,2) by simp
      ultimately show ?thesis using assms(4,5) \<open>length ps = nat numAllocs\<close> by linarith
    qed
    show ?thesis
      by (rule wp_mono [OF wp_free_loop [OF assms(1) assms(6)]])
         (use that assms idx in \<open>auto intro!: map_cong [OF refl]\<close>)
  qed
  have "\<forall>i \<in> set [0..<nat numAllocs]. int i < MAX_ALLOCS" using bound by auto
  then show ?thesis
    unfolding free_and_sbrk_run_def start_i
    by (auto intro!: wp_call_any wp_tr(4) wp_mono [OF wp_alloc_blocks] wp_mono [OF free]
        simp: and_then_def freed_as_asked_def st split: res.splits)
qed

text \<open>
  C30. \<open>free_and_sbrk\<close> frees the blocks it is asked to free and stays inside its array. The arguments are the number
  and the size of the blocks and up to three more (the step, the first and the last block, by default 1, 1 and
  the number of blocks), written in decimal. A number of blocks above \<open>MAX_ALLOCS\<close>, or a last block
  above the number of blocks, makes the program end with status 1 before anything is allocated or freed. Otherwise,
  when the step is positive, the first block is at least 1 and the index does not wrap around, the program
  ends with status 1 (an allocation failed) or 0 and never with undefined behaviour: no element outside
  the array is assigned or read, and no block is freed twice. With status 0 it has allocated all blocks and freed
  exactly the blocks from the first to the last in steps.
\<close>

theorem free_and_sbrk_frees_range:
  assumes "list_all (\<lambda>n. 0 \<le> n \<and> n \<le> ULONG_MAX) (numAllocs # blockSize # opts)" "length opts \<le> 3"
    and "freeStep = (if 0 < length opts then opts ! 0 else 1)"
    and "freeMin = (if 1 < length opts then opts ! 1 else 1)"
    and "freeMax = (if 2 < length opts then opts ! 2 else numAllocs)"
    and "0 < freeStep" "1 \<le> freeMin" "freeMax + freeStep \<le> 2 ^ 64"
  shows "wp (free_and_sbrk_main K (prog # map dec (numAllocs # blockSize # opts))) (\<lambda>r w'. (r = Exit 0 \<or> r = Exit 1) \<and>
     (\<exists>d. trace w' = trace w @ d \<and>
        (MAX_ALLOCS < numAllocs \<or> numAllocs < freeMax \<longrightarrow> r = Exit 1 \<and> mallocs d = [] \<and> frees d = []) \<and>
        (r = Exit 0 \<longrightarrow> freed_as_asked numAllocs freeStep freeMin freeMax d))) w"
proof -
  have parse: "wp (free_and_sbrk_getUnsignedLong K (dec n)) P w1"
    if "0 \<le> n" "n \<le> ULONG_MAX" "\<And>w'. trace w' = trace w1 \<Longrightarrow> P (Ok n) w'" for n P and w1 :: "'a world"
    by (rule wp_mono [OF free_and_sbrk_getUnsignedLong.accepts]) (use that in auto)
  have range: "0 \<le> numAllocs" "numAllocs \<le> ULONG_MAX" "0 \<le> blockSize" "blockSize \<le> ULONG_MAX"
      "\<And>i. i < length opts \<Longrightarrow> 0 \<le> opts ! i \<and> opts ! i \<le> ULONG_MAX"
    using assms(1) by (auto simp: list_all_iff)
  have not_h: "dec numAllocs \<noteq> ''-h''" using dec_operand [OF range(1)] by auto
  have min: "freeMin < 2 ^ 64" using range(5) [of 1] assms(4) by (auto simp: ULONG_MAX_def)
  have run: "wp (free_and_sbrk_run K numAllocs blockSize freeStep freeMin freeMax) (\<lambda>r w'. (r = Exit 0 \<or> r = Exit 1) \<and>
     (\<exists>d. trace w' = trace w @ d \<and> (r = Exit 0 \<longrightarrow> freed_as_asked numAllocs freeStep freeMin freeMax d))) w1"
    if "trace w1 = trace w" "freeMax \<le> numAllocs" "numAllocs \<le> MAX_ALLOCS" for w1
    by (rule wp_mono [OF wp_free_and_sbrk_run]) (use assms(6-8) range(1) min that in auto)
  consider (none) "opts = []" | (one) a where "opts = [a]" | (two) a b where "opts = [a, b]" | (three) a b c where "opts = [a, b, c]"
    using assms(2) by (auto simp: le_Suc_eq numeral_3_eq_3 length_Suc_conv)
  then show ?thesis
    by cases (use assms(3-5) range(1-4) range(5) [of 0] range(5) [of 1] range(5) [of 2] not_h run in
      \<open>auto simp: free_and_sbrk_main_def arg_def intro!: parse wp_tr(6) elim!: wp_mono\<close>)
qed

definition sbrk_script :: "sysret list" where
  "sbrk_script = [returns 9, returns 100, returns 200, returns 300, returns 9, returns 0, returns 0, returns 9]"

theorem free_and_sbrk_frees_range_witness:
  "fst (run_state (free_and_sbrk_main script_os [''sbrk'', dec 3, dec 10, dec 2]) (start sbrk_script)) = Exit 0 \<and>
   freed_as_asked 3 2 1 3 (trace (snd (run_state (free_and_sbrk_main script_os [''sbrk'', dec 3, dec 10, dec 2]) (start sbrk_script))))"
proof -
  have "fst (run_state (free_and_sbrk_main script_os [''sbrk'', dec 3, dec 10, dec 2]) (start sbrk_script)) = Exit 0"
    by code_simp
  then show ?thesis
    using free_and_sbrk_frees_range [of 3 10 "[2]" 2 1 3 script_os "''sbrk''" "start sbrk_script", THEN wp_run]
    by (simp add: start_def ULONG_MAX_def MAX_ALLOCS_def)
qed

end
