(* ===== verification/Perm_Tests.thy ===== *)
theory Perm_Tests
  imports Lpi_Library
begin

text \<open>
  The unit tests of \<open>tests/test_FilePerms.c\<close>: each test function is the list of the pairs of strings that it hands to
  \<open>assert_string_equal\<close> of the test framework, in order.
\<close>

definition testFilePermsNone :: "(string \<times> string) list" where
  "testFilePermsNone = [
     (filePermStr (0), ''---------''),
     (filePermStr (S_ISUID), ''--S------''),
     (filePermStr (S_ISGID), ''-----S---''),
     (filePermStr (S_ISVTX), ''--------T'')]"

definition testFilePermsR :: "(string \<times> string) list" where
  "testFilePermsR = [
     (filePermStr (S_IRUSR), ''r--------''),
     (filePermStr (S_IRGRP), ''---r-----''),
     (filePermStr (S_IROTH), ''------r--''),
     (filePermStr (S_IRUSR OR S_IRGRP), ''r--r-----''),
     (filePermStr (S_IRUSR OR S_IROTH), ''r-----r--''),
     (filePermStr (S_IRGRP OR S_IROTH), ''---r--r--''),
     (filePermStr (S_IRUSR OR S_IRGRP OR S_IROTH), ''r--r--r--'')]"

definition testFilePermsW :: "(string \<times> string) list" where
  "testFilePermsW = [
     (filePermStr (S_IWUSR), ''-w-------''),
     (filePermStr (S_IWGRP), ''----w----''),
     (filePermStr (S_IWOTH), ''-------w-''),
     (filePermStr (S_IWUSR OR S_IWGRP), ''-w--w----''),
     (filePermStr (S_IWUSR OR S_IWOTH), ''-w-----w-''),
     (filePermStr (S_IWGRP OR S_IWOTH), ''----w--w-''),
     (filePermStr (S_IWUSR OR S_IWGRP OR S_IWOTH), ''-w--w--w-'')]"

definition testFilePermsX :: "(string \<times> string) list" where
  "testFilePermsX = [
     (filePermStr (S_IXUSR), ''--x------''),
     (filePermStr (S_IXGRP), ''-----x---''),
     (filePermStr (S_IXOTH), ''--------x''),
     (filePermStr (S_IXUSR OR S_IXGRP), ''--x--x---''),
     (filePermStr (S_IXUSR OR S_IXOTH), ''--x-----x''),
     (filePermStr (S_IXGRP OR S_IXOTH), ''-----x--x''),
     (filePermStr (S_IXUSR OR S_IXGRP OR S_IXOTH), ''--x--x--x''),
     (filePermStr (S_ISUID OR S_IXUSR), ''--s------''),
     (filePermStr (S_ISUID OR S_IXGRP), ''--S--x---''),
     (filePermStr (S_ISUID OR S_IXOTH), ''--S-----x''),
     (filePermStr (S_ISUID OR S_IXUSR OR S_IXGRP), ''--s--x---''),
     (filePermStr (S_ISUID OR S_IXUSR OR S_IXOTH), ''--s-----x''),
     (filePermStr (S_ISUID OR S_IXGRP OR S_IXOTH), ''--S--x--x''),
     (filePermStr (S_ISUID OR S_IXUSR OR S_IXGRP OR S_IXOTH), ''--s--x--x''),
     (filePermStr (S_ISGID OR S_IXUSR), ''--x--S---''),
     (filePermStr (S_ISGID OR S_IXGRP), ''-----s---''),
     (filePermStr (S_ISGID OR S_IXOTH), ''-----S--x''),
     (filePermStr (S_ISGID OR S_IXUSR OR S_IXGRP), ''--x--s---''),
     (filePermStr (S_ISGID OR S_IXUSR OR S_IXOTH), ''--x--S--x''),
     (filePermStr (S_ISGID OR S_IXGRP OR S_IXOTH), ''-----s--x''),
     (filePermStr (S_ISGID OR S_IXUSR OR S_IXGRP OR S_IXOTH), ''--x--s--x''),
     (filePermStr (S_ISVTX OR S_IXUSR), ''--x-----T''),
     (filePermStr (S_ISVTX OR S_IXGRP), ''-----x--T''),
     (filePermStr (S_ISVTX OR S_IXOTH), ''--------t''),
     (filePermStr (S_ISVTX OR S_IXUSR OR S_IXGRP), ''--x--x--T''),
     (filePermStr (S_ISVTX OR S_IXUSR OR S_IXOTH), ''--x-----t''),
     (filePermStr (S_ISVTX OR S_IXGRP OR S_IXOTH), ''-----x--t''),
     (filePermStr (S_ISVTX OR S_IXUSR OR S_IXGRP OR S_IXOTH), ''--x--x--t'')]"

definition testFilePermsRWX :: "(string \<times> string) list" where
  "testFilePermsRWX = [
     (filePermStr (S_IRUSR OR S_IWUSR OR S_IXUSR), ''rwx------''),
     (filePermStr (S_IRGRP OR S_IWGRP OR S_IXGRP), ''---rwx---''),
     (filePermStr (S_IROTH OR S_IWOTH OR S_IXOTH), ''------rwx''),
     (filePermStr (S_IRUSR OR S_IWUSR OR S_IXUSR OR S_IRGRP OR S_IWGRP OR S_IXGRP), ''rwxrwx---''),
     (filePermStr (S_IRUSR OR S_IWUSR OR S_IXUSR OR S_IROTH OR S_IWOTH OR S_IXOTH), ''rwx---rwx''),
     (filePermStr (S_IRGRP OR S_IWGRP OR S_IXGRP OR S_IROTH OR S_IWOTH OR S_IXOTH), ''---rwxrwx''),
     (filePermStr (S_IRUSR OR S_IWUSR OR S_IXUSR OR S_IRGRP OR S_IWGRP OR S_IXGRP OR S_IROTH OR S_IWOTH OR S_IXOTH), ''rwxrwxrwx''),
     (filePermStr (S_ISUID OR S_ISGID OR S_ISVTX OR S_IRUSR OR S_IWUSR OR S_IXUSR), ''rws--S--T''),
     (filePermStr (S_ISUID OR S_ISGID OR S_ISVTX OR S_IRGRP OR S_IWGRP OR S_IXGRP), ''--Srws--T''),
     (filePermStr (S_ISUID OR S_ISGID OR S_ISVTX OR S_IROTH OR S_IWOTH OR S_IXOTH), ''--S--Srwt''),
     (filePermStr (S_ISUID OR S_ISGID OR S_ISVTX OR S_IRUSR OR S_IWUSR OR S_IXUSR OR S_IRGRP OR S_IWGRP OR S_IXGRP), ''rwsrws--T''),
     (filePermStr (S_ISUID OR S_ISGID OR S_ISVTX OR S_IRUSR OR S_IWUSR OR S_IXUSR OR S_IROTH OR S_IWOTH OR S_IXOTH), ''rws--Srwt''),
     (filePermStr (S_ISUID OR S_ISGID OR S_ISVTX OR S_IRGRP OR S_IWGRP OR S_IXGRP OR S_IROTH OR S_IWOTH OR S_IXOTH), ''--Srwsrwt''),
     (filePermStr (S_ISUID OR S_ISGID OR S_ISVTX OR S_IRUSR OR S_IWUSR OR S_IXUSR OR S_IRGRP OR S_IWGRP OR S_IXGRP OR S_IROTH OR S_IWOTH OR S_IXOTH), ''rwsrwsrwt'')]"

text \<open>The group of tests that \<open>main\<close> runs; it succeeds when the strings of every pair are equal.\<close>

definition perm_tests :: "(string \<times> string) list list" where
  "perm_tests = [testFilePermsNone, testFilePermsR, testFilePermsW, testFilePermsX, testFilePermsRWX]"

lemmas perm_bit_values = S_IRUSR_def S_IWUSR_def S_IXUSR_def S_IRGRP_def S_IWGRP_def S_IXGRP_def S_IROTH_def S_IWOTH_def S_IXOTH_def
  S_ISUID_def S_ISGID_def S_ISVTX_def

text \<open>Every assertion of the test suite holds of the model of \<open>filePermStr\<close>.\<close>

theorem perm_tests_pass: "list_all (list_all (\<lambda>(actual, expected). actual = expected)) perm_tests"
  by (simp add: perm_tests_def testFilePermsNone_def testFilePermsR_def testFilePermsW_def testFilePermsX_def testFilePermsRWX_def
      filePermStr_def snprintf_def FILE_PERM_STR_SIZE_def perm_bit_values)

end
