(* ===== verification/Error_Paths.thy ===== *)
theory Error_Paths
  imports Datagram Stream_Sock Pipes Sv_Msg File_IO Lpi_Library Seqnum Sv_Sem Sv_Shm Threads Posix_Mq
    Mapped_Memory Posix_Sem File_Locks Signals Proc_Exec Proc_Env Directories Xattr_Inotify File_Attrs Sys_Info
    Users_Memory
begin

text \<open>
  How the programs end. \<open>reports said m\<close>: whatever the system answers, \<open>m\<close> leaves the program, if
  it does, with status 0 or 1, and with status 1 only if something has been written to standard error,
  before \<open>m\<close> (\<open>said\<close>) or by it. The rules for \<open>reports\<close> follow the constructs of the programs, one
  rule for each, so that checking a program is applying them.
\<close>

section \<open>The rules\<close>

definition status_ok :: "bool \<Rightarrow> 'a res \<Rightarrow> bool" where
  "status_ok said r = (case r of
     Exit n \<Rightarrow> n = 0 \<or> n = 1 \<and> said | ExitNow n \<Rightarrow> n = 0 \<or> n = 1 \<and> said | _ \<Rightarrow> True)"

lemma status_ok_simps [simp]:
  "status_ok said (Ok v)" "status_ok said (Exit n) \<longleftrightarrow> n = 0 \<or> n = 1 \<and> said"
  "status_ok said (ExitNow n) \<longleftrightarrow> n = 0 \<or> n = 1 \<and> said" "status_ok said Abort" "status_ok said Execed"
  "status_ok said Undef" "status_ok said Hang"
  by (simp_all add: status_ok_def)

definition reports :: "bool \<Rightarrow> ('k, 'a) cmd \<Rightarrow> bool" where
  "reports said m \<longleftrightarrow> (\<forall>w. wp m (\<lambda>r w'. \<exists>d. trace w' = trace w @ d \<and> status_ok (said \<or> printed 2 d \<noteq> []) r) w)"

text \<open>Code that returns whatever happens: it may write to standard error.\<close>

definition grows :: "('k world, 'a) state \<Rightarrow> bool" where
  "grows m \<longleftrightarrow> (\<forall>w. wp m (\<lambda>_ w'. \<exists>d. trace w' = trace w @ d) w)"

named_theorems report_rules \<open>rules for the construct at the head of a program\<close>

lemma reports_after:
  assumes "reports said' m" "trace w1 = trace w @ d" "said' \<Longrightarrow> said \<or> printed 2 d \<noteq> []"
  shows "wp m (\<lambda>r w'. \<exists>e. trace w' = trace w @ e \<and> status_ok (said \<or> printed 2 e \<noteq> []) r) w1"
proof -
  have "wp m (\<lambda>r w'. \<exists>e. trace w' = trace w1 @ e \<and> status_ok (said' \<or> printed 2 e \<noteq> []) r) w1"
    using assms(1) by (simp add: reports_def)
  then show ?thesis
  proof (rule wp_mono)
    fix r and w' :: "'a world"
    assume "\<exists>e. trace w' = trace w1 @ e \<and> status_ok (said' \<or> printed 2 e \<noteq> []) r"
    then obtain e where "trace w' = trace w @ d @ e" "status_ok (said' \<or> printed 2 e \<noteq> []) r"
      using assms(2) by auto
    moreover from this(2) have "status_ok (said \<or> printed 2 (d @ e) \<noteq> []) r"
      using assms(3) by (auto simp: status_ok_def split: res.splits)
    ultimately show "\<exists>e. trace w' = trace w @ e \<and> status_ok (said \<or> printed 2 e \<noteq> []) r" by blast
  qed
qed

lemma reports_mono: "reports said m \<Longrightarrow> (said \<Longrightarrow> said') \<Longrightarrow> reports said' m"
  unfolding reports_def [of said'] by (auto intro: reports_after [where d = "[]"])

lemma reports_bind:
  assumes "grows m" "\<And>x. reports said (f x)"
  shows "reports said (m \<bind> f)"
  unfolding reports_def wp_bind
proof
  fix w
  have "wp m (\<lambda>_ w'. \<exists>d. trace w' = trace w @ d) w" using assms(1) by (simp add: grows_def)
  then show "wp m (\<lambda>x. wp (f x) (\<lambda>r w'. \<exists>d. trace w' = trace w @ d \<and> status_ok (said \<or> printed 2 d \<noteq> []) r)) w"
    by (rule wp_mono) (auto intro: reports_after [OF assms(2)])
qed

lemma reports_bind_res [report_rules]:
  assumes "reports said m" "\<And>x. reports said (f x)"
  shows "reports said (bind_res m f)"
  unfolding reports_def wp_bind_res
proof
  fix w
  have "wp m (\<lambda>r w'. \<exists>d. trace w' = trace w @ d \<and> status_ok (said \<or> printed 2 d \<noteq> []) r) w"
    using assms(1) by (simp add: reports_def)
  then show "wp m (and_then (\<lambda>x. wp (f x) (\<lambda>r w'. \<exists>d. trace w' = trace w @ d \<and> status_ok (said \<or> printed 2 d \<noteq> []) r))
      (\<lambda>r w'. \<exists>d. trace w' = trace w @ d \<and> status_ok (said \<or> printed 2 d \<noteq> []) r)) w"
    by (rule wp_mono) (auto simp: and_then_def split: res.splits intro: reports_after [OF assms(2)])
qed

named_theorems grows_rules \<open>code that only extends the trace\<close>

lemma grows_bind [grows_rules]:
  assumes "grows m" "\<And>x. grows (f x)"
  shows "grows (m \<bind> f)"
  unfolding grows_def wp_bind
proof
  fix w
  have "wp m (\<lambda>_ w'. \<exists>d. trace w' = trace w @ d) w" using assms(1) by (simp add: grows_def)
  then show "wp m (\<lambda>x. wp (f x) (\<lambda>_ w'. \<exists>d. trace w' = trace w @ d)) w"
  proof (rule wp_mono)
    fix x and w1 :: "'a world"
    assume "\<exists>d. trace w1 = trace w @ d"
    moreover have "wp (f x) (\<lambda>_ w'. \<exists>d. trace w' = trace w1 @ d) w1" using assms(2) by (simp add: grows_def)
    ultimately show "wp (f x) (\<lambda>_ w'. \<exists>d. trace w' = trace w @ d) w1" by (auto elim: wp_mono)
  qed
qed

lemma grows_flow [grows_rules]:
  "grows (State_Monad.return x)" "(b \<Longrightarrow> grows m) \<Longrightarrow> (\<not> b \<Longrightarrow> grows n) \<Longrightarrow> grows (if b then m else n)"
  "grows (f y) \<Longrightarrow> grows (Let y f)"
  "(z = None \<Longrightarrow> grows m) \<Longrightarrow> (\<And>y. z = Some y \<Longrightarrow> grows (g y)) \<Longrightarrow> grows (case z of None \<Rightarrow> m | Some y \<Rightarrow> g y)"
  by (simp_all add: grows_def split: option.split)

text \<open>The calls.\<close>

lemma grows_calls [grows_rules]:
  "grows (sys K c)" "grows (call K c)" "grows (printf K s)" "grows (eprintf K s)" "grows get_errno" "grows (set_errno e)"
  "grows (load_bytes K a i n)" "grows (load_int K a i)" "grows (ctime_text K t)"
  by (auto simp: grows_def intro!: wp_sys_any wp_call_any wp_tr(3,4) wp_load_bytes wp_load_int wp_ctime_text)

lemmas reports_bind_calls [report_rules] =
  reports_bind [OF grows_calls(1)] reports_bind [OF grows_calls(2)] reports_bind [OF grows_calls(3)]
  reports_bind [OF grows_calls(5)] reports_bind [OF grows_calls(6)] reports_bind [OF grows_calls(7)]
  reports_bind [OF grows_calls(8)] reports_bind [OF grows_calls(9)]

lemma reports_bind_eprintf [report_rules]:
  assumes "\<And>x. reports (said \<or> s \<noteq> []) (f x)"
  shows "reports said (eprintf K s \<bind> f)"
  unfolding reports_def wp_bind by (auto intro!: wp_tr(3) reports_after [OF assms])

lemma reports_die [report_rules]: "(\<And>e. msg e \<noteq> []) \<Longrightarrow> reports said (die K msg)"
  unfolding die_def by (intro report_rules) (simp add: reports_def)

lemma reports_usage [report_rules]: "msg \<noteq> [] \<Longrightarrow> reports said (usage K msg)"
  unfolding usage_def by (intro report_rules) (simp add: reports_def)

text \<open>Control flow, also in front of other code.\<close>

lemma reports_return [report_rules]: "status_ok said r \<Longrightarrow> reports said (halt r)"
  by (simp add: reports_def)

lemma reports_if [report_rules]:
  "(b \<Longrightarrow> reports said m) \<Longrightarrow> (\<not> b \<Longrightarrow> reports said n) \<Longrightarrow> reports said (if b then m else n)"
  "(b \<Longrightarrow> reports said (m' \<bind> f)) \<Longrightarrow> (\<not> b \<Longrightarrow> reports said (n' \<bind> f)) \<Longrightarrow> reports said ((if b then m' else n') \<bind> f)"
  by simp_all

lemma reports_case [report_rules]:
  "(x = None \<Longrightarrow> reports said m) \<Longrightarrow> (\<And>y. x = Some y \<Longrightarrow> reports said (g y)) \<Longrightarrow>
   reports said (case x of None \<Rightarrow> m | Some y \<Rightarrow> g y)"
  "(x = None \<Longrightarrow> reports said (m' \<bind> f)) \<Longrightarrow> (\<And>y. x = Some y \<Longrightarrow> reports said (g' y \<bind> f)) \<Longrightarrow>
   reports said ((case x of None \<Rightarrow> m' | Some y \<Rightarrow> g' y) \<bind> f)"
  "(\<And>a b. p = (a, b) \<Longrightarrow> reports said (h a b)) \<Longrightarrow> reports said (case p of (a, b) \<Rightarrow> h a b)"
  "(\<And>c a. ev = Opt c a \<Longrightarrow> reports said (opt c a)) \<Longrightarrow> (\<And>c. ev = BadOpt c \<Longrightarrow> reports said (bad c)) \<Longrightarrow>
   (\<And>c. ev = MissingArg c \<Longrightarrow> reports said (missing c)) \<Longrightarrow>
   reports said (case ev of Opt c a \<Rightarrow> opt c a | BadOpt c \<Rightarrow> bad c | MissingArg c \<Rightarrow> missing c)"
  "(addr = NoAddr \<Longrightarrow> reports said n) \<Longrightarrow> (\<And>u. addr = AddrUn u \<Longrightarrow> reports said (un u)) \<Longrightarrow>
   (\<And>h p. addr = AddrIn6 h p \<Longrightarrow> reports said (in6 h p)) \<Longrightarrow> (\<And>u. addr = AddrRaw u \<Longrightarrow> reports said (raw u)) \<Longrightarrow>
   reports said (case addr of NoAddr \<Rightarrow> n | AddrUn u \<Rightarrow> un u | AddrIn6 h p \<Rightarrow> in6 h p | AddrRaw u \<Rightarrow> raw u)"
  "(\<And>l. z = Inl l \<Longrightarrow> reports said (left l)) \<Longrightarrow> (\<And>r. z = Inr r \<Longrightarrow> reports said (right r)) \<Longrightarrow>
   reports said (case z of Inl l \<Rightarrow> left l | Inr r \<Rightarrow> right r)"
  by (simp_all split: option.split prod.split getopt_ev.split sockaddr.split sum.split)

lemma reports_let [report_rules]: "reports said (f x) \<Longrightarrow> reports said (Let x f)"
  by (simp add: Let_def)

lemma reports_nested [report_rules]:
  "reports said (m \<bind> (\<lambda>x. g x \<bind> f)) \<Longrightarrow> reports said ((m \<bind> g) \<bind> f)"
  "reports said (f' x) \<Longrightarrow> reports said (State_Monad.return x \<bind> f')"
  by simp_all

text \<open>Loops.\<close>

lemma reports_for_each [report_rules]: "(\<And>x. x \<in> set xs \<Longrightarrow> reports said (body x)) \<Longrightarrow> reports said (for_each xs body)"
  by (induction xs) (auto intro!: report_rules)

lemma reports_fold_each [report_rules]: "(\<And>x a. x \<in> set xs \<Longrightarrow> reports said (body x a)) \<Longrightarrow> reports said (fold_each xs body a)"
  by (induction xs arbitrary: a) (auto intro!: report_rules)

lemma reports_forever [report_rules]: "(\<And>a. reports said (body a)) \<Longrightarrow> reports said (forever fuel body a)"
  by (induction fuel arbitrary: a) (auto intro!: report_rules)

lemma reports_read_loop [report_rules]: "(\<And>bs. reports said (body bs)) \<Longrightarrow> reports said (read_loop fuel K fd n body)"
  by (induction fuel) (auto intro!: report_rules)

lemma reports_deliver [report_rules]: "(\<And>r st. reports said (handler r st)) \<Longrightarrow> reports said (deliver fuel K handler st)"
  by (induction fuel arbitrary: st) (auto intro!: report_rules)

lemma reports_at_exit [report_rules]:
  fixes m :: "('k, 'a) cmd"
  assumes "grows h" "reports said m"
  shows "reports said (at_exit b h m)"
proof -
  have "wp m (\<lambda>r w'. \<exists>d. trace w' = trace w @ d \<and> status_ok (said \<or> printed 2 d \<noteq> []) r) w" for w
    using assms(2) by (simp add: reports_def)
  then show ?thesis
    unfolding reports_def wp_at_exit
  proof (intro allI, rule wp_mono)
    fix w w1 :: "'k world" and r :: "'a res"
    assume "\<exists>d. trace w1 = trace w @ d \<and> status_ok (said \<or> printed 2 d \<noteq> []) r"
    then obtain d where d: "trace w1 = trace w @ d" "status_ok (said \<or> printed 2 d \<noteq> []) r" by blast
    have "wp h (\<lambda>_ w'. \<exists>e. trace w' = trace w1 @ e) w1" using assms(1) by (simp add: grows_def)
    then have "wp h (\<lambda>_ w'. \<exists>e. trace w' = trace w @ e \<and> status_ok (said \<or> printed 2 e \<noteq> []) r) w1"
    proof (rule wp_mono)
      fix w' :: "'k world"
      assume "\<exists>e. trace w' = trace w1 @ e"
      then obtain e where "trace w' = trace w @ d @ e" using d(1) by auto
      moreover have "status_ok (said \<or> printed 2 (d @ e) \<noteq> []) r"
        using d(2) by (auto simp: status_ok_def split: res.splits)
      ultimately show "\<exists>e. trace w' = trace w @ e \<and> status_ok (said \<or> printed 2 e \<noteq> []) r" by blast
    qed
    with d show "case r of Exit n \<Rightarrow> if b then wp h (\<lambda>_ w'. \<exists>d. trace w' = trace w @ d \<and> status_ok (said \<or> printed 2 d \<noteq> []) (Exit n)) w1
          else \<exists>d. trace w1 = trace w @ d \<and> status_ok (said \<or> printed 2 d \<noteq> []) (Exit n)
      | _ \<Rightarrow> \<exists>d. trace w1 = trace w @ d \<and> status_ok (said \<or> printed 2 d \<noteq> []) r"
      by (auto split: res.split)
  qed
qed

text \<open>\<open>getopt\<close> returns only the options of its option string, and says why it returns \<open>?\<close>.\<close>

lemma getopt_cluster_known: "Opt c a \<in> set (fst (getopt_cluster opts cs args)) \<Longrightarrow> opt_kind opts c \<noteq> None"
  by (induction opts cs args rule: getopt_cluster.induct)
     (auto split: option.splits bool.splits list.splits prod.splits if_splits)

lemma getopt_known: "getopt opts args = (evs, operands) \<Longrightarrow> Opt c a \<in> set evs \<Longrightarrow> opt_kind opts c \<noteq> None"
proof (induction opts args arbitrary: evs operands rule: getopt.induct)
  case (2 opts a args)
  then show ?case
    using getopt_cluster_known [of c _ opts "tl a" args]
    by (fastforce simp: Let_def split: if_splits prod.splits)
qed simp

lemma getopt_message_nonempty [simp]: "getopt_message program (BadOpt c) \<noteq> []" "getopt_message program (MissingArg c) \<noteq> []"
  by (simp_all add: getopt_message_def)

section \<open>The programs\<close>

text \<open>Recursive functions by induction; the others are unfolded where they are called.\<close>

lemma reports_Num_Args [report_rules]:
  "reports said (t_unlink_getUnsignedLong K s)"
  "reports said (seek_io_getUnsignedLong K s)"
  "reports said (seek_io_getLong K s)"
  "reports said (t_flock_getLong K s)"
  "reports said (free_and_sbrk_getUnsignedLong K s)"
  "reports said (fifo_client_getInt K s)"
  "reports said (pipe_sync_getUint K s)"
  "reports said (pmsg_send_getUnsignedLong K s)"
  "reports said (multi_wait_getUint K s)"
  "reports said (catch_rtsigs_getUnsignedLong K s)"
  "reports said (sig_receiver_getUnsignedInt K s)"
  "reports said (sig_sender_getLong K s)"
  "reports said (t_kill_getInt K s)"
  "reports said (t_sigqueue_getLong K s)"
  "reports said (is_client_getLong K s)"
  "reports said (is_server_getLong K s)"
  "reports said (svmsg_create_getInt K s)"
  "reports said (svmsg_receive_getLong K s)"
  "reports said (svmsg_send_getLong K s)"
  "reports said (svsem_demo_getInt K s)"
  "reports said (svsem_mon_getInt K s)"
  "reports said (svsem_setall_getLong K s)"
  "reports said (thread_incr_getUnsignedLong K s)"
  "reports said (thread_incr_mutex_getUnsignedLong K s)"
  "reports said (multijoin_getInt K s)"
  "reports said (process_time_getUnsignedLong K s)"
  "reports said (pmsg_create_getLong K s fuel)"
  "reports said (psem_create_getLong K s fuel)"
  "reports said (pshm_create_getUnsignedLong K s fuel)"
  unfolding get_number_def t_unlink_getUnsignedLong_def seek_io_getUnsignedLong_def seek_io_getLong_def
    t_flock_getLong_def free_and_sbrk_getUnsignedLong_def fifo_client_getInt_def pipe_sync_getUint_def
    pmsg_send_getUnsignedLong_def multi_wait_getUint_def catch_rtsigs_getUnsignedLong_def
    sig_receiver_getUnsignedInt_def sig_sender_getLong_def t_kill_getInt_def t_sigqueue_getLong_def
    is_client_getLong_def is_server_getLong_def svmsg_create_getInt_def svmsg_receive_getLong_def
    svmsg_send_getLong_def svsem_demo_getInt_def svsem_mon_getInt_def svsem_setall_getLong_def
    thread_incr_getUnsignedLong_def thread_incr_mutex_getUnsignedLong_def multijoin_getInt_def
    process_time_getUnsignedLong_def pmsg_create_getLong_def psem_create_getLong_def pshm_create_getUnsignedLong_def
  by (intro report_rules grows_rules; simp)+

lemma reports_is_bind [report_rules]:
  "reports said (is_bind K ais)"
  by (induction ais arbitrary: said) (auto intro!: report_rules)

lemma reports_is_connect [report_rules]:
  "reports said (is_connect K ais)"
  by (induction ais arbitrary: said) (auto intro!: report_rules)

lemma reports_Seqnum [report_rules]:
  "reports said (fifo_server_main fuel K argv)"
  "reports said (fifo_client_main K argv)"
  "reports said (is_server_main fuel K argv)"
  "reports said (is_client_main K argv)"
  unfolding fifo_serve_def fifo_server_main_def removeClientFifo_def fifo_client_request_def fifo_client_main_def
    is_serve_def is_server_main_def is_client_main_def
  by (intro report_rules grows_rules; simp)+

lemma reports_cleanup_wait [report_rules]:
  "reports said (cleanup_wait fuel K)"
  by (induction fuel arbitrary: said) (auto intro!: report_rules simp: die_num_def)

lemma reports_multijoin_wait [report_rules]:
  "reports said (multijoin_wait fuel K)"
  by (induction fuel arbitrary: said) (auto intro!: report_rules simp: pthread_def die_num_def)

lemma reports_multijoin_loop [report_rules]:
  "reports said (multijoin_loop fuel K ts i)"
  by (induction fuel arbitrary: ts i said) (auto intro!: report_rules simp: pthread_def die_num_def multijoin_reap_def)

lemma reports_Threads [report_rules]:
  "reports said (simple_thread_main K argv)"
  "reports said (thread_incr_main K argv)"
  "reports said (thread_incr_mutex_main K argv)"
  "reports said (thread_cleanup_main K argv)"
  "reports said (thread_multijoin_main fuel K argv)"
  unfolding die_num_def pthread_def simple_thread_f_def simple_thread_main_def incr_glob_def thread_incr_f_def
    create_threads_def join_threads_def thread_incr_main_def thread_incr_mutex_f_def thread_incr_mutex_main_def
    memoryCleanupHandler_def mutexCleanupHandler_def cleanup_threadFunc_def thread_cleanup_main_def multijoin_func_def
    multijoin_create_def multijoin_reap_def thread_multijoin_main_def
  by (intro report_rules grows_rules; simp)+

lemma reports_File_IO [report_rules]:
  "reports said (copy_main fuel K argv)"
  "reports said (seek_io_main K argv)"
  "reports said (t_readv_main K argv)"
  unfolding copy_chunk_def copy_main_def readDisplayBytes_def seek_io_usage_def seek_io_command_def seek_io_main_def
    t_readv_main_def
  by (intro report_rules grows_rules; simp)+

lemma reports_Datagram [report_rules]:
  "reports said (ud_server_main fuel K i argv)"
  "reports said (ud_client_main K argv)"
  "reports said (i6d_server_main fuel K argv)"
  "reports said (i6d_client_main K argv)"
  unfolding ud_serve_def ud_server_main_def ud_client_msg_def ud_client_main_def i6d_serve_def i6d_server_main_def
    i6d_client_msg_def i6d_client_main_def
  by (intro report_rules grows_rules; simp)+

lemma reports_us_client_loop [report_rules]:
  "reports said (us_client_loop fuel K i s)"
  by (induction fuel arbitrary: i s said) (auto intro!: report_rules)

lemma reports_Stream_Sock [report_rules]:
  "reports said (us_server_main fuel K argv)"
  "reports said (us_client_main fuel K s argv)"
  unfolding us_chunk_def us_serve_def us_server_main_def us_client_main_def
  by (intro report_rules grows_rules; simp)+

lemma reports_Pipes [report_rules]:
  "reports said (simple_pipe_main fuel K argv)"
  "reports said (pipe_ls_wc_main K argv)"
  "reports said (pipe_sync_main K argv)"
  unfolding simple_pipe_chunk_def simple_pipe_child_def simple_pipe_parent_def simple_pipe_main_def ls_child_def
    wc_child_def pipe_ls_wc_main_def pipe_sync_child_def pipe_sync_fork_def pipe_sync_wait_def pipe_sync_main_def
  by (intro report_rules grows_rules; simp)+

lemma reports_Lpi_Library [report_rules]:
  "reports said (printSigSet K i s S)"
  "reports said (printSigMask K i msg)"
  "reports said (printPendingSigs K i msg)"
  unfolding printSigSet_def printSigMask_def printPendingSigs_def
  by (intro report_rules grows_rules; simp)+

lemma reports_demo_create [report_rules]:
  "reports said (demo_create fuel K i)"
  by (induction fuel arbitrary: i said) (auto intro!: report_rules)

lemma reports_reap_children [report_rules]:
  "reports said (reap_children fuel K)"
  by (induction fuel arbitrary: said) (auto intro!: report_rules)

lemma reports_serve_data [report_rules]:
  "reports said (serve_data fuel K i j)"
  by (induction fuel arbitrary: i j said) (auto intro!: report_rules)

lemma reports_Sv_Msg [report_rules]:
  "reports said (svmsg_create_main K argv)"
  "reports said (svmsg_send_main K argv)"
  "reports said (svmsg_receive_main K argv)"
  "reports said (svmsg_rm_main K argv)"
  "reports said (svmsg_demo_server_main fuel K argv)"
  unfolding svmsg_create_printUsage_def svmsg_create_opt_def svmsg_create_main_def svmsg_send_usage_def
    svmsg_send_opt_def svmsg_send_main_def svmsg_receive_printUsage_def svmsg_receive_opt_def svmsg_receive_main_def
    svmsg_rm_one_def svmsg_rm_main_def svmsg_demo_server_main_def
  by (intro report_rules grows_rules; simp)+

lemma reports_Sv_Sem [report_rules]:
  "reports said (svsem_demo_main K argv)"
  "reports said (svsem_mon_main K argv)"
  "reports said (svsem_setall_main K argv)"
  unfolding svsem_demo_main_def svsem_mon_row_def svsem_mon_main_def svsem_setall_values_def svsem_setall_main_def
  by (intro report_rules grows_rules; simp)+

lemma reports_reserveSem [report_rules]:
  "reports said (reserveSem fuel bsf K i j)"
  by (induction fuel arbitrary: bsf i j said) (auto intro!: report_rules)

lemma reports_shm_write_loop [report_rules]:
  "reports said (shm_write_loop fuel K i j k l)"
  by (induction fuel arbitrary: i j k l said) (auto intro!: report_rules simp: releaseSem_def)

lemma reports_shm_read_loop [report_rules]:
  "reports said (shm_read_loop fuel K i j k l)"
  by (induction fuel arbitrary: i j k l said) (auto intro!: report_rules simp: releaseSem_def)

lemma reports_Sv_Shm [report_rules]:
  "reports said (svshm_xfr_writer_main fuel K argv)"
  "reports said (svshm_xfr_reader_main fuel K argv)"
  unfolding initSemAvailable_def initSemInUse_def releaseSem_def svshm_xfr_writer_main_def svshm_xfr_reader_main_def
  by (intro report_rules grows_rules; simp)+

lemma reports_mq_drain [report_rules]:
  "reports said (mq_drain fuel s K i j)"
  by (induction fuel arbitrary: s i j said) (auto intro!: report_rules)

lemma reports_Posix_Mq [report_rules]:
  "reports said (pmsg_create_main K argv)"
  "reports said (pmsg_getattr_main K argv)"
  "reports said (pmsg_receive_main K argv)"
  "reports said (pmsg_send_main K argv)"
  "reports said (pmsg_unlink_main K argv)"
  "reports said (mq_notify_sig_main fuel K argv)"
  "reports said (mq_notify_thread_main K argv)"
  unfolding pmsg_create_printUsage_def pmsg_create_opt_def pmsg_create_main_def pmsg_getattr_main_def
    pmsg_receive_printUsage_def pmsg_receive_main_def pmsg_send_printUsage_def pmsg_send_opt_def pmsg_send_main_def
    pmsg_unlink_main_def notify_sig_serve_def mq_notify_sig_main_def notifySetup_def notify_threadFunc_def
    mq_notify_thread_main_def
  by (intro report_rules grows_rules; simp)+

lemma reports_Mapped_Memory [report_rules]:
  "reports said (mmcat_main K argv)"
  "reports said (t_mmap_main K argv)"
  "reports said (anon_mmap_main K argv)"
  "reports said (pshm_create_main K argv)"
  "reports said (pshm_write_main K argv)"
  "reports said (pshm_read_main K argv)"
  "reports said (pshm_unlink_main K argv)"
  unfolding map_whole_def mmcat_main_def print_mapped_def t_mmap_replace_def t_mmap_main_def load_char_def
    store_char_def anon_mmap_child_def anon_mmap_parent_def anon_mmap_main_def pshm_create_printUsage_def
    pshm_create_opt_def pshm_create_main_def pshm_write_main_def pshm_read_main_def pshm_unlink_main_def
  by (intro report_rules grows_rules; simp)+

lemma reports_Posix_Sem [report_rules]:
  "reports said (psem_create_main K argv)"
  "reports said (psem_getvalue_main K argv)"
  "reports said (psem_post_main K argv)"
  "reports said (psem_unlink_main K argv)"
  "reports said (psem_wait_main i K argv)"
  unfolding psem_create_printUsage_def psem_create_opt_def psem_create_main_def psem_getvalue_main_def
    psem_post_main_def psem_unlink_main_def psem_wait_main_def
  by (intro report_rules grows_rules; simp)+

lemma reports_lock_loop [report_rules]:
  "reports said (lock_loop fuel K i)"
  by (induction fuel arbitrary: i said) (auto intro!: report_rules simp: lock_line_def lock_request_def printCmdFormat_def)

lemma reports_File_Locks [report_rules]:
  "reports said (t_flock_main K argv)"
  "reports said (i_fcntl_locking_main fuel K argv)"
  unfolding t_flock_printUsage_def t_flock_main_def printCmdFormat_def lock_request_def lock_line_def
    i_fcntl_locking_main_def
  by (intro report_rules grows_rules; simp)+

lemma reports_sig_receiver_spin [report_rules]:
  "reports said (sig_receiver_spin n fuel K st)"
  by (induction n arbitrary: fuel st said) (auto intro!: report_rules simp: sig_receiver_sigHandler_def)

lemma reports_catch_rtsigs_loop [report_rules]:
  "reports said (catch_rtsigs_loop n fuel K st)"
  by (induction n arbitrary: fuel st said) (auto intro!: report_rules simp: catch_rtsigs_sigHandler_def)

lemma reports_sigmask_loop [report_rules]:
  "reports said (sigmask_loop fuel K)"
  by (induction fuel arbitrary: said) (auto intro!: report_rules simp: sigmask_handler_def)

lemma reports_Signals [report_rules]:
  "reports said (ouch_main fuel K argv)"
  "reports said (intquit_main fuel K argv)"
  "reports said (nonreentrant_main fuel K argv)"
  "reports said (sig_receiver_main pf fuel K argv)"
  "reports said (sig_sender_main K argv)"
  "reports said (t_kill_main K argv)"
  "reports said (t_sigqueue_main K argv)"
  "reports said (catch_rtsigs_main fuel K argv)"
  "reports said (sigmask_longjmp_main fuel K argv)"
  unfolding ouch_sigHandler_def ouch_main_def intquit_sigHandler_def intquit_main_def nonreentrant_sigHandler_def
    nonreentrant_round_def nonreentrant_main_def sig_receiver_sigHandler_def sig_receiver_report_def
    sig_receiver_wait_def sig_receiver_main_def sig_sender_kill_def sig_sender_main_def t_kill_main_def
    t_sigqueue_send_def t_sigqueue_main_def catch_rtsigs_sigHandler_def catch_rtsigs_block_def catch_rtsigs_main_def
    sigmask_handler_def sigmask_longjmp_main_def
  by (intro report_rules grows_rules; simp)+

lemma reports_multi_wait_loop [report_rules]:
  "reports said (multi_wait_loop fuel K i)"
  by (induction fuel arbitrary: i said) (auto intro!: report_rules simp: getCurrTimeStr_def time_failed_def)

lemma reports_Proc_Exec [report_rules]:
  "reports said (fork_file_sharing_main K argv)"
  "reports said (multi_wait_main fuel K argv)"
  "reports said (t_acct_on_main K argv)"
  "reports said (t_fork_main K argv)"
  "reports said (longjmp_main K argv)"
  unfolding sharing_child_def sharing_parent_def fork_file_sharing_main_def getCurrTimeStr_def time_failed_def
    multi_wait_child_def multi_wait_fork_def multi_wait_main_def t_acct_on_main_def t_fork_main_def longjmp_main_def
  by (intro report_rules grows_rules; simp)+

lemma reports_puts_environ [report_rules]:
  "reports said (puts_environ fuel K i)"
  by (induction fuel arbitrary: i said) (auto intro!: report_rules)

lemma reports_Proc_Env [report_rules]:
  "reports said (display_env_main fuel K argv)"
  "reports said (modify_env_main fuel K argv)"
  unfolding display_env_main_def modify_env_put_def modify_env_main_def
  by (intro report_rules grows_rules; simp)+

lemma reports_list_entries [report_rules]:
  "reports said (list_entries fuel K s i)"
  by (induction fuel arbitrary: s i said) (auto intro!: report_rules simp: list_entry_def)

lemma reports_nftw_dirTree [report_rules]:
  "reports said (nftw_dirTree fuel K s i)"
  by (induction fuel arbitrary: s i said) (auto intro!: report_rules simp: dirTree_def)

lemma reports_Directories [report_rules]:
  "reports said (list_files_main fuel K argv)"
  "reports said (nftw_dir_tree_main fuel K argv)"
  "reports said (t_dirbasename_main K argv)"
  "reports said (t_unlink_main s K argv)"
  "reports said (view_symlink_main K argv)"
  unfolding list_entry_def listFiles_def list_files_main_def printUsageError_def dirTree_def nftw_opt_def
    nftw_dir_tree_main_def strdup2_def split_path_def t_dirbasename_main_def t_unlink_block_def t_unlink_main_def
    view_symlink_main_def
  by (intro report_rules grows_rules; simp)+

lemma grows_print_hex_bytes [grows_rules]:
  "grows (print_hex_bytes K s)"
  by (induction s) (auto intro!: grows_rules)

lemma grows_print_masks [grows_rules]:
  "grows (print_masks K m ms)"
  by (induction ms arbitrary: m) (auto intro!: grows_rules simp: print_if_def)

lemma grows_xattr_inotify [grows_rules]: "grows (xattr_one K x s t)" "grows (printInotifyEvent K ev)"
  unfolding xattr_one_def printValueStr_def printValueHex_def printInotifyEvent_def print_if_def
  by (intro grows_rules)+

lemma reports_xattr_names [report_rules]: "reports said (xattr_names K x s bs)"
  by (induction K x s bs rule: xattr_names.induct) (auto intro!: report_rules reports_bind grows_rules)

lemma reports_inotify_events [report_rules]: "reports said (inotify_events K bs)"
  by (induction K bs rule: inotify_events.induct) (auto intro!: report_rules reports_bind grows_rules simp: Let_def)

lemma reports_Xattr_Inotify [report_rules]:
  "reports said (xattr_view_main K argv)"
  "reports said (demo_inotify_main fuel K argv)"
  unfolding printUsageMsg_def xattr_file_def xattr_opt_def xattr_view_main_def add_watch_def inotify_read_def
    demo_inotify_main_def
  by (intro report_rules grows_rules; simp)+

lemma reports_File_Attrs [report_rules]:
  "reports said (t_chown_main K argv)"
  "reports said (t_stat_main K argv)"
  "reports said (t_umask_main K argv)"
  unfolding owner_id_def group_id_def chown_one_def t_chown_main_def t_stat_printUsageMsg_def printStat_def
    t_stat_main_def
    umask_report_def umask_cleanup_def t_umask_main_def
  by (intro report_rules; simp)+

lemma reports_t_mount [report_rules]: "reports said (t_mount_main K argv)"
  unfolding mount_flag_def t_mount_opt_def t_mount_main_def
  by (intro report_rules; auto dest!: getopt_known split: if_splits)

lemma reports_t_getopt [report_rules]: "reports said (t_getopt_main K argv)"
  unfolding t_getopt_opt_def t_getopt_main_def
  by (intro report_rules; auto dest!: getopt_known split: if_splits)

lemma reports_getppid_loop [report_rules]:
  "reports said (getppid_loop fuel K argv i)"
  by (induction fuel arbitrary: i said) (auto intro!: report_rules)

lemma reports_Sys_Info [report_rules]:
  "reports said (idshow_main order K argv)"
  "reports said (procfs_pidmax_main K argv)"
  "reports said (t_uname_main K argv)"
  "reports said (t_fpathconf_main K argv)"
  "reports said (t_sysconf_main K argv)"
  "reports said (calendar_time_main K argv)"
  "reports said (show_time_main K argv)"
  "reports said (process_time_main fuel K argv)"
  unfolding getUsernameFromUID_def getGroupnameFromGID_def lookups_def group_line_def idshow_groups_def
    idshow_main_def procfs_pidmax_main_def t_uname_main_def printFpathconf_def t_fpathconf_main_def printSysconf_def
    t_sysconf_main_def print_mktime_def calendar_time_main_def show_time_main_def displayProcessTimes_def
    process_time_main_def
  by (intro report_rules grows_rules; simp)+

lemma reports_free_loop [report_rules]: "reports said (free_loop K bs i j k)"
proof (induction K bs i j k rule: free_loop.induct)
  case (1 K bs i j k)
  then show ?case by (subst free_loop.simps) (intro report_rules; simp)
qed

lemma reports_Users_Memory [report_rules]:
  "reports said (free_and_sbrk_main K argv)"
  unfolding alloc_block_def free_and_sbrk_run_def free_and_sbrk_main_def
  by (intro report_rules; simp)

end
