(* ===== verification/Services.thy ===== *)
theory Services
  imports Seqnum Datagram
begin

text \<open>
  Clients and servers together. The two sides run in systems of their own; what connects them is
  the channel, which enters as a hypothesis on the two traces: what the one side received is what
  the other side sent. The sequence number services and the upper-case services exist twice each, so
  what a client promises is an interface (\<open>seq_client\<close>, \<open>ucase_client\<close>) with two instances.
\<close>

section \<open>Requests and responses\<close>

text \<open>The transactions of a server: the bytes of a request it read whole and of the response it then
  wrote whole.\<close>

fun note_transaction :: "event \<Rightarrow> string option \<times> (string \<times> string) list \<Rightarrow> string option \<times> (string \<times> string) list" where
  "note_transaction (File (Read fd n), r) (q, ts) = (if ret r = int n then Some (rdata r) else None, ts)"
| "note_transaction (File (Write fd bs), r) (q, ts) =
     (case q of Some req \<Rightarrow> (None, if ret r = 4 then ts @ [(req, bs)] else ts) | None \<Rightarrow> (None, ts))"
| "note_transaction e st = st"

definition transactions :: "event list \<Rightarrow> (string \<times> string) list" where
  "transactions d = snd (fold note_transaction d (None, []))"

text \<open>They carry the intervals that the server granted.\<close>

definition granted :: "(string \<Rightarrow> int) \<Rightarrow> string \<times> string \<Rightarrow> int \<times> int" where
  "granted req t = (int_at 0 (snd t), req (fst t))"

lemma note_transaction_grants:
  "note_event req e (map_option req q, map (granted req) ts, qs) =
     (case note_transaction e (q, ts) of (q', ts') \<Rightarrow>
        (map_option req q', map (granted req) ts', snd (snd (note_event req e (map_option req q, map (granted req) ts, qs)))))"
  by (cases "(e, (q, ts))" rule: note_transaction.cases) (auto simp: granted_def split: option.splits)

lemma fold_transactions:
  "\<exists>qs'. fold (note_event req) d (map_option req q, map (granted req) ts, qs) =
     (case fold note_transaction d (q, ts) of (q', ts') \<Rightarrow> (map_option req q', map (granted req) ts', qs'))"
proof (induction d arbitrary: q ts qs)
  case (Cons e d)
  obtain q' ts' where st: "note_transaction e (q, ts) = (q', ts')" by fastforce
  then show ?case
    using note_transaction_grants [of req e q ts qs] Cons.IH [of q' ts'] by simp metis
qed simp

lemma grants_transactions: "grants req d = map (granted req) (transactions d)"
  using fold_transactions [of req d None "[]" "[]"]
  by (cases "fold note_transaction d (None, [])") (auto simp: grants_def transactions_def)

text \<open>The exchanges of a client: the bytes it wrote whole and those it read whole after that.\<close>

fun note_exchange :: "event \<Rightarrow> string option \<times> (string \<times> string) list \<Rightarrow> string option \<times> (string \<times> string) list" where
  "note_exchange (File (Write fd bs), r) (q, ts) = (if ret r = int (length bs) then Some bs else None, ts)"
| "note_exchange (File (Read fd n), r) (q, ts) =
     (case q of Some req \<Rightarrow> (None, if ret r = int n then ts @ [(req, rdata r)] else ts) | None \<Rightarrow> (None, ts))"
| "note_exchange e st = st"

definition exchanges :: "event list \<Rightarrow> (string \<times> string) list" where
  "exchanges d = snd (fold note_exchange d (None, []))"

lemma note_exchange_other: "no_transfer e \<Longrightarrow> note_exchange e st = st"
  by (cases "(e, st)" rule: note_exchange.cases) auto

lemma fold_note_exchange_other [simp]: "list_all no_transfer d \<Longrightarrow> fold note_exchange d st = st"
  by (induction d) (simp_all add: note_exchange_other)

section \<open>Sequence numbers\<close>

text \<open>What a client promises that asks for \<open>n\<close> numbers: if it succeeds it has sent one request of which the
  server reads the length \<open>n\<close>, and has printed the number of the response.\<close>

locale seq_client =
  fixes client :: "'k os \<Rightarrow> int \<Rightarrow> ('k, unit) cmd" and req :: "string \<Rightarrow> int" and line :: "int \<Rightarrow> string"
  assumes client_asks: "posix K \<Longrightarrow> INT_MIN \<le> n \<Longrightarrow> n \<le> INT_MAX \<Longrightarrow>
     wp (client K n) (\<lambda>r w'. r = Exit 0 \<longrightarrow> (\<exists>d t. trace w' = trace w @ d \<and> exchanges d = [t] \<and>
        req (fst t) = n \<and> printed 1 d = line (int_at 0 (snd t)))) w"
begin

text \<open>Clients that were served in different transactions of a server whose grants do not overlap.\<close>

lemma served_apart:
  assumes "apart (grants req d)" "inj_on j {..<m}"
    and clients: "\<And>i. i < m \<Longrightarrow> posix (K i) \<and> INT_MIN \<le> n i \<and> n i \<le> INT_MAX \<and>
       run_state (client (K i) (n i)) (v i) = (Exit 0, v' i) \<and> trace (v' i) = trace (v i) @ dc i"
    and channel: "\<And>i. i < m \<Longrightarrow> j i < length (transactions d) \<and> exchanges (dc i) = [transactions d ! j i]"
  shows "\<exists>first. \<forall>i<m. printed 1 (dc i) = line (first i) \<and>
     (\<forall>k<m. k \<noteq> i \<longrightarrow> {first i..<first i + n i} \<inter> {first k..<first k + n k} = {})"
proof -
  define first where "first i = fst (grants req d ! j i)" for i
  have served: "grants req d ! j i = (first i, n i) \<and> printed 1 (dc i) = line (first i)" if i: "i < m" for i
  proof -
    obtain t where t: "exchanges (dc i) = [t]" "req (fst t) = n i" "printed 1 (dc i) = line (int_at 0 (snd t))"
      using wpD [OF client_asks, of "K i" "n i" "v i" "Exit 0" "v' i"] clients [OF i] by auto
    with channel [OF i] have "t = transactions d ! j i" "j i < length (transactions d)" by auto
    with t show ?thesis by (simp add: first_def grants_transactions granted_def)
  qed
  have before: "first i + n i \<le> first k" if "i < m" "k < m" "j i < j k" for i k
  proof -
    have "j k < length (grants req d)" using channel [OF that(2)] by (simp add: grants_transactions)
    with assms(1) that(3) have "fst (grants req d ! j i) + snd (grants req d ! j i) \<le> fst (grants req d ! j k)"
      unfolding apart_def by (rule sorted_wrt_nth_less)
    with served that show ?thesis by simp
  qed
  have "{first i..<first i + n i} \<inter> {first k..<first k + n k} = {}" if "i < m" "k < m" "k \<noteq> i" for i k
  proof -
    have "j i \<noteq> j k" using inj_onD [OF assms(2), of i k] that by auto
    then have "j i < j k \<or> j k < j i" by auto
    with before that show ?thesis by fastforce
  qed
  with served show ?thesis by blast
qed

end

interpretation fifo_client: seq_client "\<lambda>K n. fifo_client_main K [prog, dec n]" fifo_req "\<lambda>s. dec s @ nl" for prog
proof
  fix K :: "'a os" and n w
  assume K: "posix K" and n: "INT_MIN \<le> n" "n \<le> INT_MAX"
  have not_h: "dec n \<noteq> ''-h''"
    using n by (intro dec_not_option) (auto simp: INT_MIN_def INT_MAX_def LONG_MIN_def LONG_MAX_def)
  have len: "length (request_bytes \<lparr>pid = p, seqLen = n\<rparr>) = 8" for p
    by (simp add: request_bytes_def)
  show "wp (fifo_client_main K [prog, dec n]) (\<lambda>r w'. r = Exit 0 \<longrightarrow> (\<exists>d t. trace w' = trace w @ d \<and> exchanges d = [t] \<and>
      fifo_req (fst t) = n \<and> printed 1 d = dec (int_at 0 (snd t)) @ nl)) w"
    unfolding fifo_client_main_def fifo_client_request_def wp_at_exit Let_def removeClientFifo_def
    using K n not_h
    by (auto simp: arg_def wp_at_exit len fifo_req_request exchanges_def
        intro!: wp_tr wp_mono [OF fifo_client_getInt.accepts] split: res.splits)
qed

interpretation is_client: seq_client "\<lambda>K n. is_client_main K [prog, host, dec n]" is_req
    "\<lambda>s. ''Sequence number: '' @ dec s @ nl" for prog host
proof
  fix K :: "'a os" and n w
  assume K: "posix K" and n: "INT_MIN \<le> n" "n \<le> INT_MAX"
  have long: "LONG_MIN \<le> n" "n \<le> LONG_MAX" using n by (auto simp: INT_MIN_def INT_MAX_def LONG_MIN_def LONG_MAX_def)
  have req: "is_req (int_bytes n) = n" using n int_at_append [of "[]" n "[]"] by (simp add: is_req_def)
  have connect: "wp (is_connect K ais) (and_then P Q) w1"
    if "\<And>fd d w'. trace w' = trace w1 @ d \<Longrightarrow> list_all no_transfer d \<Longrightarrow> printed 1 d = [] \<Longrightarrow> P fd w'"
      and "\<And>w'. Q (Exit 1) w'" for ais P Q w1
    by (rule wp_mono [OF wp_is_connect [OF K]]) (auto simp: and_then_def split: res.splits intro: that)
  show "wp (is_client_main K [prog, host, dec n]) (\<lambda>r w'. r = Exit 0 \<longrightarrow> (\<exists>d t. trace w' = trace w @ d \<and> exchanges d = [t] \<and>
      is_req (fst t) = n \<and> printed 1 d = ''Sequence number: '' @ dec (int_at 0 (snd t)) @ nl)) w"
    unfolding is_client_main_def Let_def using K n long
    by (auto simp: arg_def req exchanges_def intro!: wp_tr connect wp_mono [OF is_client_getLong.accepts] split: option.splits)
qed

text \<open>
  C10. The FIFO service end to end: any number of clients that exit successfully, each served in a
  transaction of its own of one server (the bytes that the client wrote and read are those the server read
  and wrote), have printed the first numbers of intervals that do not overlap and have the lengths the
  clients asked for, provided that the server granted no negative length.
\<close>

theorem fifo_service_apart:
  assumes server: "posix K" "run_state (fifo_server_main fuel K argv) w = (r, w')" "r \<noteq> Undef" "trace w' = trace w @ d"
    and "list_all (\<lambda>g. 0 \<le> snd g) (grants fifo_req d)" and "inj_on j {..<m}"
    and clients: "\<And>i. i < m \<Longrightarrow> posix (Kc i) \<and> INT_MIN \<le> n i \<and> n i \<le> INT_MAX \<and>
       run_state (fifo_client_main (Kc i) [prog, dec (n i)]) (v i) = (Exit 0, v' i) \<and> trace (v' i) = trace (v i) @ dc i"
    and channel: "\<And>i. i < m \<Longrightarrow> j i < length (transactions d) \<and> exchanges (dc i) = [transactions d ! j i]"
  shows "\<exists>first. \<forall>i<m. printed 1 (dc i) = dec (first i) @ nl \<and>
     (\<forall>k<m. k \<noteq> i \<longrightarrow> {first i..<first i + n i} \<inter> {first k..<first k + n k} = {})"
proof -
  have "gapless 0 (grants fifo_req d)"
    using wpD [OF wp_fifo_server [OF server(1)] server(2)] server(3,4) by auto
  then have "apart (grants fifo_req d)" using assms(5) by (rule gapless_apart)
  then show ?thesis using assms(6) clients channel by (rule fifo_client.served_apart)
qed

text \<open>The two clients of \<open>fifo_script\<close>.\<close>

definition fifo_cl_script :: "nat \<Rightarrow> sysret list" where
  "fifo_cl_script i = (let p = [100, 200] ! i in [returns 0, returns p, returns 0, returns 0, returns p, returns 3, returns 8, returns 0,
     returns 4, gives (int_bytes ([0, 5] ! i)), returns 0, returns 0])"

definition fifo_cl_run :: "nat \<Rightarrow> unit res \<times> sysret list world" where
  "fifo_cl_run i = run_state (fifo_client_main script_os [''client'', dec ([5, 3] ! i)]) (start (fifo_cl_script i))"

definition fifo_sv_run :: "unit res \<times> sysret list world" where
  "fifo_sv_run = run_state (fifo_server_main 9 script_os [''server'']) (start fifo_script)"

theorem fifo_service_apart_witness:
  "\<exists>first. \<forall>i<2. printed 1 (trace (snd (fifo_cl_run i))) = dec (first i) @ nl \<and>
     (\<forall>k<2. k \<noteq> i \<longrightarrow> {first i..<first i + [5, 3] ! i} \<inter> {first k..<first k + [5, 3] ! k} = {})"
proof (rule fifo_service_apart [where d = "trace (snd fifo_sv_run)" and j = "\<lambda>i. i"])
  show "run_state (fifo_server_main 9 script_os [''server'']) (start fifo_script) = (fst fifo_sv_run, snd fifo_sv_run)"
    by (simp add: fifo_sv_run_def)
  show "fst fifo_sv_run \<noteq> Undef" by code_simp
  show "list_all (\<lambda>g. 0 \<le> snd g) (grants fifo_req (trace (snd fifo_sv_run)))" by code_simp
  show "posix script_os \<and> INT_MIN \<le> [5, 3] ! i \<and> [5, 3] ! i \<le> INT_MAX \<and>
      run_state (fifo_client_main script_os [''client'', dec ([5, 3] ! i)]) (start (fifo_cl_script i)) = (Exit 0, snd (fifo_cl_run i)) \<and>
      trace (snd (fifo_cl_run i)) = trace (start (fifo_cl_script i)) @ trace (snd (fifo_cl_run i))" if "i < 2" for i
  proof -
    have "fst (fifo_cl_run i) = Exit 0" using less_2_cases [OF that] by (elim disjE) (simp, code_simp)+
    then have "run_state (fifo_client_main script_os [''client'', dec ([5, 3] ! i)]) (start (fifo_cl_script i)) = (Exit 0, snd (fifo_cl_run i))"
      by (simp add: fifo_cl_run_def prod_eq_iff)
    then show ?thesis using less_2_cases [OF that] by (auto simp: start_def INT_MIN_def INT_MAX_def)
  qed
  show "i < length (transactions (trace (snd fifo_sv_run))) \<and>
      exchanges (trace (snd (fifo_cl_run i))) = [transactions (trace (snd fifo_sv_run)) ! i]" if "i < 2" for i
    using less_2_cases [OF that] by (elim disjE) (simp, code_simp)+
qed (auto simp: start_def)

text \<open>
  C11. The TCP service end to end: the same for the clients and the server over sockets, provided that no
  client asked for a negative length. The server may start at any number, and a connection that broke off
  before its response was written does not make intervals overlap.
\<close>

theorem is_service_apart:
  assumes server: "posix K" "run_state (is_server_main fuel K argv) w = (r, w')" "r \<noteq> Undef" "trace w' = trace w @ d"
    and "list_all (\<lambda>len. 0 \<le> len) (requests is_req d)" and "inj_on j {..<m}"
    and clients: "\<And>i. i < m \<Longrightarrow> posix (Kc i) \<and> INT_MIN \<le> n i \<and> n i \<le> INT_MAX \<and>
       run_state (is_client_main (Kc i) [prog, host, dec (n i)]) (v i) = (Exit 0, v' i) \<and> trace (v' i) = trace (v i) @ dc i"
    and channel: "\<And>i. i < m \<Longrightarrow> j i < length (transactions d) \<and> exchanges (dc i) = [transactions d ! j i]"
  shows "\<exists>first. \<forall>i<m. printed 1 (dc i) = ''Sequence number: '' @ dec (first i) @ nl \<and>
     (\<forall>k<m. k \<noteq> i \<longrightarrow> {first i..<first i + n i} \<inter> {first k..<first k + n k} = {})"
proof -
  have "apart (grants is_req d)"
    using wpD [OF is_server_apart [OF server(1)] server(2)] server(3,4) assms(5) by auto
  then show ?thesis using assms(6) clients channel by (rule is_client.served_apart)
qed

text \<open>The two clients of \<open>is_script\<close>.\<close>

definition is_cl_script :: "nat \<Rightarrow> sysret list" where
  "is_cl_script i = [reply0\<lparr>raddrs := [(2, 1, AddrRaw ''host'')]\<rparr>, returns 3, returns 0, returns 0, returns 4,
     gives (int_bytes ([7, 11] ! i)), returns 0]"

definition is_cl_run :: "nat \<Rightarrow> unit res \<times> sysret list world" where
  "is_cl_run i = run_state (is_client_main script_os [''client'', ''host'', dec ([4, 2] ! i)]) (start (is_cl_script i))"

definition is_sv_run :: "unit res \<times> sysret list world" where
  "is_sv_run = run_state (is_server_main 9 script_os [''server'', ''7'']) (start is_script)"

theorem is_service_apart_witness:
  "\<exists>first. \<forall>i<2. printed 1 (trace (snd (is_cl_run i))) = ''Sequence number: '' @ dec (first i) @ nl \<and>
     (\<forall>k<2. k \<noteq> i \<longrightarrow> {first i..<first i + [4, 2] ! i} \<inter> {first k..<first k + [4, 2] ! k} = {})"
proof (rule is_service_apart [where d = "trace (snd is_sv_run)" and j = "\<lambda>i. i"])
  show "run_state (is_server_main 9 script_os [''server'', ''7'']) (start is_script) = (fst is_sv_run, snd is_sv_run)"
    by (simp add: is_sv_run_def)
  show "fst is_sv_run \<noteq> Undef" by code_simp
  show "list_all (\<lambda>len. 0 \<le> len) (requests is_req (trace (snd is_sv_run)))" by code_simp
  show "posix script_os \<and> INT_MIN \<le> [4, 2] ! i \<and> [4, 2] ! i \<le> INT_MAX \<and>
      run_state (is_client_main script_os [''client'', ''host'', dec ([4, 2] ! i)]) (start (is_cl_script i)) = (Exit 0, snd (is_cl_run i)) \<and>
      trace (snd (is_cl_run i)) = trace (start (is_cl_script i)) @ trace (snd (is_cl_run i))" if "i < 2" for i
  proof -
    have "fst (is_cl_run i) = Exit 0" using less_2_cases [OF that] by (elim disjE) (simp, code_simp)+
    then have "run_state (is_client_main script_os [''client'', ''host'', dec ([4, 2] ! i)]) (start (is_cl_script i)) = (Exit 0, snd (is_cl_run i))"
      by (simp add: is_cl_run_def prod_eq_iff)
    then show ?thesis using less_2_cases [OF that] by (auto simp: start_def INT_MIN_def INT_MAX_def)
  qed
  show "i < length (transactions (trace (snd is_sv_run))) \<and>
      exchanges (trace (snd (is_cl_run i))) = [transactions (trace (snd is_sv_run)) ! i]" if "i < 2" for i
    using less_2_cases [OF that] by (elim disjE) (simp, code_simp)+
qed (auto simp: start_def)

section \<open>Upper case\<close>

text \<open>The texts that a client sent.\<close>

fun ev_posted :: "event \<Rightarrow> string list" where
  "ev_posted (Sock (Sendto fd bs a), r) = (if ret r = -1 then [] else [bs])"
| "ev_posted e = []"

definition posted :: "event list \<Rightarrow> string list" where
  "posted d = concat (map ev_posted d)"

lemma posted_simps [simp]:
  "posted [] = []" "posted (e # d) = ev_posted e @ posted d" "posted (d @ d') = posted d @ posted d'"
  by (simp_all add: posted_def)

text \<open>What a network between a server and a client with address \<open>a\<close> does: the server receives the datagrams of the
  client in order, cut to the size of its buffer, and the client those that the server sends to it.\<close>

definition network :: "nat \<Rightarrow> sockaddr \<Rightarrow> event list \<Rightarrow> event list \<Rightarrow> bool" where
  "network n a ds dc \<longleftrightarrow> filter (\<lambda>m. fst m = a) (received ds) = map (\<lambda>m. (a, take n m)) (posted dc) \<and>
     map snd (received dc) = map snd (filter (\<lambda>m. fst m = a) (sent ds))"

lemma network_upper:
  assumes "answering n ds" "network n a ds dc" "length (received dc) = length (posted dc)"
  shows "map snd (received dc) = map (\<lambda>m. map toupper (take n m)) (posted dc)"
proof -
  obtain rest where "map upper (received ds) = sent ds @ rest" using assms(1) by (auto simp: answering_def)
  then have "filter (\<lambda>m. fst m = a) (map upper (received ds)) = filter (\<lambda>m. fst m = a) (sent ds) @ filter (\<lambda>m. fst m = a) rest"
    by simp
  moreover have "filter (\<lambda>m. fst m = a) (map upper (received ds)) = map upper (filter (\<lambda>m. fst m = a) (received ds))"
    by (induction "received ds" arbitrary: ds) (simp_all add: filter_map comp_def upper_def)
  ultimately have up: "map (\<lambda>m. (a, map toupper (take n m))) (posted dc) =
      filter (\<lambda>m. fst m = a) (sent ds) @ filter (\<lambda>m. fst m = a) rest"
    using assms(2) by (simp add: network_def upper_def comp_def)
  have "map snd (received dc) = map snd (filter (\<lambda>m. fst m = a) (sent ds))" using assms(2) by (simp add: network_def)
  then have "length (posted dc) = length (filter (\<lambda>m. fst m = a) (sent ds))" using assms(3) by (metis length_map)
  moreover have "length (posted dc) = length (filter (\<lambda>m. fst m = a) (sent ds)) + length (filter (\<lambda>m. fst m = a) rest)"
    using arg_cong [OF up, of length] by simp
  ultimately have "filter (\<lambda>m. fst m = a) rest = []" by simp
  with up have "filter (\<lambda>m. fst m = a) (sent ds) = map (\<lambda>m. (a, map toupper (take n m))) (posted dc)" by simp
  then have "map snd (filter (\<lambda>m. fst m = a) (sent ds)) = map (\<lambda>m. map toupper (take n m)) (posted dc)"
    by (simp add: comp_def)
  with assms(2) show ?thesis by (simp add: network_def)
qed

text \<open>What a client does for each of its messages: send it, receive an answer, print it.\<close>

locale ucase_client =
  fixes client_msg :: "'k os \<Rightarrow> int \<Rightarrow> nat \<times> string \<Rightarrow> ('k, unit) cmd" and line :: "nat \<times> string \<Rightarrow> string"
  assumes asks_one: "posix K \<Longrightarrow> wp (client_msg K fd (i, m)) (\<lambda>r w'. (is_ok r \<or> r = Exit 1) \<and>
     (r = Ok () \<longrightarrow> (\<exists>d q. trace w' = trace w @ d \<and> posted d = [m] \<and> received d = [q] \<and> printed 1 d = line (i, snd q)))) w"
begin

lemma asks_all:
  assumes "posix K"
  shows "wp (for_each (enumerate n ms) (client_msg K fd)) (\<lambda>r w'. (is_ok r \<or> r = Exit 1) \<and>
     (r = Ok () \<longrightarrow> (\<exists>d. trace w' = trace w @ d \<and> posted d = ms \<and> length (received d) = length ms \<and>
        printed 1 d = concat (map line (enumerate n (map snd (received d))))))) w"
proof (induction ms arbitrary: n w)
  case (Cons m ms)
  show ?case
    by (auto intro!: wp_mono [OF asks_one [OF assms]] wp_mono [OF Cons.IH] simp: and_then_def split: res.splits)
qed simp

end

definition ud_line :: "nat \<times> string \<Rightarrow> string" where
  "ud_line m = ''Response: '' @ dec (int (fst m)) @ '': '' @ cstr (snd m) @ nl"

definition i6d_line :: "nat \<times> string \<Rightarrow> string" where
  "i6d_line m = ''Response '' @ dec (int (fst m) - 1) @ '': '' @ cstr (snd m) @ nl"

interpretation ud_client: ucase_client ud_client_msg ud_line
proof
  show "wp (ud_client_msg K fd (i, m)) (\<lambda>r w'. (is_ok r \<or> r = Exit 1) \<and>
      (r = Ok () \<longrightarrow> (\<exists>d q. trace w' = trace w @ d \<and> posted d = [m] \<and> received d = [q] \<and> printed 1 d = ud_line (i, snd q)))) w"
    if "posix K" for K :: "'a os" and fd i m w
    using that unfolding ud_client_msg_def by (auto intro!: wp_tr simp: transfer_ok_def ud_line_def)
qed

interpretation i6d_client: ucase_client "\<lambda>K fd. i6d_client_msg K fd addrStr addr" i6d_line for addrStr addr
proof
  show "wp (i6d_client_msg K fd addrStr addr (i, m)) (\<lambda>r w'. (is_ok r \<or> r = Exit 1) \<and>
      (r = Ok () \<longrightarrow> (\<exists>d q. trace w' = trace w @ d \<and> posted d = [m] \<and> received d = [q] \<and> printed 1 d = i6d_line (i, snd q)))) w"
    if "posix K" for K :: "'a os" and fd i m w
    using that unfolding i6d_client_msg_def by (auto intro!: wp_tr simp: transfer_ok_def i6d_line_def)
qed

lemma wp_ud_client:
  assumes "posix K"
  shows "wp (ud_client_main K argv) (\<lambda>r w'. r = Exit 0 \<longrightarrow> (\<exists>d. trace w' = trace w @ d \<and> posted d = drop 1 argv \<and>
     length (received d) = length (posted d) \<and> printed 1 d = concat (map ud_line (enumerate 1 (map snd (received d)))))) w"
  unfolding ud_client_main_def using assms
  by (auto intro!: wp_tr wp_mono [OF ud_client.asks_all [OF assms]] simp: Let_def and_then_def split: res.splits)

lemma wp_i6d_client:
  assumes "posix K"
  shows "wp (i6d_client_main K argv) (\<lambda>r w'. r = Exit 0 \<longrightarrow> (\<exists>d. trace w' = trace w @ d \<and> posted d = drop 2 argv \<and>
     length (received d) = length (posted d) \<and> printed 1 d = concat (map i6d_line (enumerate 2 (map snd (received d)))))) w"
  unfolding i6d_client_main_def using assms
  by (auto intro!: wp_tr wp_mono [OF i6d_client.asks_all [OF assms]] simp: Let_def and_then_def split: res.splits)

text \<open>What the client of a service prints in the end: the answers to its messages \<open>ms\<close>, which are numbered from \<open>k\<close>.\<close>

definition upper_lines :: "(nat \<times> string \<Rightarrow> string) \<Rightarrow> nat \<Rightarrow> string list \<Rightarrow> string" where
  "upper_lines line k ms = concat (map line (enumerate k (map (\<lambda>m. map toupper (take 10 m)) ms)))"


definition ud_cl_script :: "sysret list" where
  "ud_cl_script = [returns 3, returns 42, returns 0, returns 5, gives ''HELLO'', returns 0, returns 0]"


end
