(* ===== verification/Spec2Isabelle.thy ===== *)
theory Spec2Isabelle
  imports Datagram Stream_Sock Pipes Sv_Msg File_IO Lpi_Library Seqnum Sv_Sem Sv_Shm Thread_Join Posix_Mq
    Mapped_Memory Posix_Sem File_Locks Signals Proc_Exec Proc_Env Directories Xattr_Inotify File_Attrs Sys_Info
    Users_Memory Perm_Tests Error_Paths Services
begin

text \<open>
  A verification of the programs of \<open>linux_programming_interface\<close>.

  \<^bold>\<open>The program.\<close> The repository is a collection of C programs that exercise the Linux system call interface,
  one directory per topic, and a small library they share (\<open>src/Error.c\<close>, \<open>src/FilePerms.c\<close>,
  \<open>src/SignalFunctions.c\<close> and the headers of \<open>include/lpi/\<close>). Most programs parse their command line, make a
  sequence of system calls, check every result and report errors on standard error with exit status 1. The
  programs that interact are clients and servers (FIFOs, sockets, message queues), a writer and a reader over
  shared memory and semaphores, processes connected by pipes, signal handlers with the code they interrupt,
  and threads that share variables.

  \<^bold>\<open>How a program is modelled.\<close> A C function is a term of the state monad of the library over a \<open>world\<close>: the state
  of the operating system, \<open>errno\<close>, and the trace of all calls made so far with their answers. The result
  \<open>'a res\<close> says how the function ended: \<open>Ok\<close> (it returned), \<open>Exit\<close>, \<open>ExitNow\<close> (\<open>_exit\<close>), \<open>Abort\<close>, \<open>Execed\<close>,
  \<open>Undef\<close> (undefined behaviour: signed overflow, an indeterminate value, an access outside an array) or \<open>Hang\<close>. The
  operating system and the C library functions that enter it are not part of the repository: they are the
  parameter \<open>K :: 'k os\<close> of every definition, a record whose field \<open>step\<close> answers a \<open>syscall\<close>; \<open>strtol\<close>,
  \<open>strtoul\<close>, \<open>snprintf\<close>, \<open>strncpy\<close> and \<open>getopt\<close>, which compute, are defined. The local variables of a function are
  the variables of its term, its guards and early returns are those of the code, and the texts it prints are the
  texts of the source. Integers keep their C width through \<open>c_int\<close>, \<open>c_uint\<close>, \<open>c_long\<close> and \<open>c_ulong\<close> or as words.

  What a theorem assumes of the system is a named hypothesis stating documented behaviour: \<open>posix\<close> (the range of
  return values), \<open>serves\<close> and \<open>takes_all\<close> (a descriptor that yields given bytes; one that accepts all bytes),
  \<open>acts_as_file\<close> (an open file with contents and offset), \<open>pipe_ok\<close>, \<open>semaphore\<close>, \<open>one_object\<close> (a shared memory object),
  \<open>environment\<close>, \<open>directory_stream\<close>, \<open>umask_files\<close>. Each is met by a concrete system in the witness of the theorem.
  Where no hypothesis is named the theorem holds for every system, whatever it answers.

  \<^bold>\<open>Theories.\<close>
  \<^item> \<open>Lpi_Prelude\<close>: outcomes, the weakest-precondition calculus (\<open>wp\<close>, with rules for sequences and loops), and
    facts on machine integers. \<open>C_Strings\<close>: the C library on strings and numbers. \<open>Unix_Calls\<close>: the calls, the trace,
    \<open>posix\<close>, error reporting (\<open>die\<close>, \<open>usage\<close>) and the read loop.
  \<^item> \<open>Lpi_Library\<close>: \<open>src/\<close> and \<open>include/lpi/\<close>. \<open>filePermStr\<close> can be read back; the error functions end as they say;
    the signal set printers print what a reference definition says.
  \<^item> \<open>Num_Args\<close>: the number parsers of all programs, one definition per source file. Their contracts are the
    locales \<open>num_arg\<close>, \<open>whole_arg\<close>, \<open>prefix_arg\<close> and \<open>unchecked_arg\<close>, interpreted on every parser; a theorem says of every
    parser exactly which strings it accepts and with which value.
  \<^item> \<open>Transfers\<close>: the copying loop, with the locale \<open>chunk_writer\<close>, interpreted in \<open>File_IO\<close>, \<open>Pipes\<close> and \<open>Stream_Sock\<close>.
    \<open>Servers\<close>: the rule for server loops and the locale \<open>wire_format\<close>, interpreted on the request formats of the
    FIFO service and of the file service.
  \<^item> \<open>File_IO\<close> (\<open>fileio/\<close>): \<open>copy\<close> copies everything; \<open>seek_io\<close> refines an interpreter on an abstract file.
  \<^item> \<open>Seqnum\<close> (\<open>pipes/fifo_seqnum_*\<close>, \<open>sockets/is_seqnum_*\<close>): without negative requests no two clients share a number; locales
    \<open>seq_server\<close> and \<open>gapless_server\<close>, the second a sublocale of the first, interpreted on the two servers.
    \<open>Datagram\<close> (\<open>sockets/*case*\<close>): locale \<open>ucase_server\<close>, interpreted on both servers. \<open>Stream_Sock\<close> (\<open>sockets/us_xfr_*\<close>).
  \<^item> \<open>Pipes\<close> (\<open>pipes/\<close>): the plumbing of \<open>ls | wc\<close>, synchronisation by a pipe, and a message through a pipe from the parent to
    the child, two runs of the same program connected by a hypothesis on the pipe.
  \<^item> \<open>Sv_Msg\<close> (\<open>svipc/\<close>): the file service, from the request of the client to the last message of the server.
    \<open>Sv_Sem\<close> (\<open>svsem/\<close>). \<open>Sv_Shm\<close> (\<open>svshm/\<close>): the transfer protocol as a step relation, with its invariant and termination,
    counters that overflow, and the retries of the binary semaphores.
  \<^item> \<open>Threads\<close>, \<open>Thread_Incr\<close>, \<open>Thread_Join\<close> (\<open>threads/\<close>): every function as a sequential program, and the
    interleavings of \<open>thread_incr\<close>, \<open>thread_incr_mutex\<close> and \<open>thread_multijoin\<close> as step functions of numbered threads,
    instances of the locales \<open>thread_program\<close> and \<open>ending_program\<close>.
  \<^item> \<open>Posix_Mq\<close> (\<open>pmsg/\<close>), \<open>Posix_Sem\<close> (\<open>psem/\<close>, a refinement of an abstract semaphore), \<open>Mapped_Memory\<close> (\<open>mmap/\<close> and
    \<open>pshm/\<close>), \<open>File_Locks\<close> (\<open>filelock/\<close>).
  \<^item> \<open>Signals\<close> (\<open>signals/\<close>): handlers run at the points where the programs wait; the receiver counts every signal
    delivered to it. \<open>Proc_Exec\<close> (\<open>procexec/\<close>, \<open>proc/src/longjmp.c\<close>), \<open>Proc_Env\<close> (the rest of \<open>proc/\<close>).
  \<^item> \<open>Directories\<close> (\<open>dirs_links/\<close>), \<open>File_Attrs\<close> (\<open>files/\<close>, \<open>filesys/\<close>, \<open>getopt/\<close>), \<open>Xattr_Inotify\<close> (\<open>xattr/\<close>, \<open>inotify/\<close>),
    \<open>Sys_Info\<close> (\<open>proccred/\<close>, \<open>sysinfo/\<close>, \<open>syslim/\<close>, \<open>time/\<close>), \<open>Users_Memory\<close> (\<open>users_groups/\<close>, \<open>memalloc/\<close>),
    \<open>Perm_Tests\<close> (the assertions of \<open>tests/test_FilePerms.c\<close>, which all hold).
  \<^item> \<open>Services\<close>: clients and servers together. The two sides have traces of their own, and the channel between them is a
    hypothesis on the two traces. Any number of clients of a sequence number service get disjoint intervals (locale
    \<open>seq_client\<close>, interpreted on the FIFO client and the TCP client); a client of an upper-case service prints its
    messages in upper case (locale \<open>ucase_client\<close>, interpreted on both datagram clients).
  \<^item> \<open>Error_Paths\<close>: rules for \<open>reports\<close>, one for each construct of the programs, and their application to all programs.
    The theorem at the end of this theory collects the result: no program but four exits with status 1 without a
    message on standard error, and none with another status than 0 or 1.

  \<^bold>\<open>Loops and fuel.\<close> A loop over a known range is structural recursion or has a termination proof. A loop whose end
  depends on the system takes \<open>fuel\<close>, a bound on its iterations; a run that reaches the bound ends with \<open>Hang\<close>. For a
  server, which has no end, \<open>fuel\<close> is the number of rounds looked at, and the theorems hold for every value. Where a
  program is to deliver a result, the theorem says that it does for every fuel above a bound that depends on its
  input (the length of the file for \<open>copy\<close> and \<open>serveRequest\<close>, the number of entries for \<open>list_files\<close>).

  \<^bold>\<open>Not modelled.\<close> \<open>extern/cmocka/\<close> is a vendored test framework; \<open>Perm_Tests\<close> has the assertions that the tests hand
  to it. The scheduler, real time and the buffering of standard output are not modelled: a run of a program that
  forks is the run of the process whose answer from \<open>fork\<close> it gets. Signals interrupt a program only where it waits or
  looks at the variables it shares with a handler. A thread is cancelled only where the program can cancel it (see
  \<open>Threads\<close>). Choices that C leaves to the compiler (the order of evaluation of arguments) and values that a program reads without
  having assigned them are parameters. Header files that only declare have no definitions.
\<close>

text \<open>
  C13. No program fails silently: whatever the system answers, each of the programs below that leaves by \<open>exit\<close>,
  by \<open>_exit\<close> or by returning from \<open>main\<close> does so with status 0 or 1, and with status 1 only after it has written
  something to standard error. (The programs that are missing have a failure that they report elsewhere:
  \<open>check_passwd\<close> and \<open>svmsg_file_client\<close> on standard output, \<open>svmsg_file_server\<close> in a message to its client,
  \<open>t_sigaltstack\<close> on standard output from its signal handler.)
\<close>

theorem programs_report_failures:
  "list_all (\<lambda>main. \<forall>K argv. reports False (main K argv)) [
      fifo_server_main fuel, fifo_client_main, is_server_main fuel, is_client_main, simple_thread_main,
      thread_incr_main, thread_incr_mutex_main, thread_cleanup_main, thread_multijoin_main fuel, copy_main fuel,
      seek_io_main, t_readv_main, \<lambda>K. ud_server_main fuel K i, ud_client_main, i6d_server_main fuel,
      i6d_client_main, us_server_main fuel, \<lambda>K. us_client_main fuel K s, simple_pipe_main fuel,
      pipe_ls_wc_main, pipe_sync_main, svmsg_create_main, svmsg_send_main, svmsg_receive_main, svmsg_rm_main,
      svmsg_demo_server_main fuel, svsem_demo_main, svsem_mon_main, svsem_setall_main,
      svshm_xfr_writer_main fuel, svshm_xfr_reader_main fuel, pmsg_create_main, pmsg_getattr_main,
      pmsg_receive_main, pmsg_send_main, pmsg_unlink_main, mq_notify_sig_main fuel, mq_notify_thread_main,
      mmcat_main, t_mmap_main, anon_mmap_main, pshm_create_main, pshm_write_main, pshm_read_main,
      pshm_unlink_main, psem_create_main, psem_getvalue_main, psem_post_main, psem_unlink_main,
      psem_wait_main i, t_flock_main, i_fcntl_locking_main fuel, ouch_main fuel, intquit_main fuel,
      nonreentrant_main fuel, sig_receiver_main pf fuel, sig_sender_main, t_kill_main, t_sigqueue_main,
      catch_rtsigs_main fuel, sigmask_longjmp_main fuel, fork_file_sharing_main, multi_wait_main fuel,
      t_acct_on_main, t_fork_main, longjmp_main, display_env_main fuel, modify_env_main fuel,
      list_files_main fuel, nftw_dir_tree_main fuel, t_dirbasename_main, t_unlink_main s, view_symlink_main,
      xattr_view_main, demo_inotify_main fuel, t_chown_main, t_stat_main, t_umask_main, t_mount_main,
      t_getopt_main, idshow_main order, procfs_pidmax_main, t_uname_main, t_fpathconf_main, t_sysconf_main,
      calendar_time_main, show_time_main, process_time_main fuel, free_and_sbrk_main]"
  by (simp only: list.pred_inject) (intro conjI allI TrueI report_rules)

end
